(* ===== verification/Prelude.thy ===== *)
theory Prelude
  imports Main "HOL-Library.List_Lexorder" "HOL-Library.Product_Lexorder" "HOL-Library.Char_ord"
begin

section \<open>Shared vocabulary: results, timestamps, keyed rows\<close>

text \<open>
  The prelude holds what every component of the development uses: the result type of the SQL
  functions and its sequencing operator, PostgreSQL timestamps with their two infinities, the four
  statements on a table of rows (lookup, update, delete and insert by primary key), and the lemma
  collections the component proofs draw on.
\<close>

named_theorems res_simps "equations that take a successful result apart"
named_theorems row_simps "lookup laws of keyed tables"

subsection \<open>Results\<close>

text \<open>
  A PostgreSQL function either raises an exception, which carries an SQLSTATE code and a message,
  or returns. \<open>Inl\<close> is the exception.
\<close>

datatype pg_error = PgError (pg_code: string) (pg_message: string)

type_synonym 'a res = "pg_error + 'a"

definition raise :: "string \<Rightarrow> 'a res" where
  "raise msg = Inl (PgError ''P0001'' msg)"

definition raise_code :: "string \<Rightarrow> string \<Rightarrow> 'a res" where
  "raise_code code msg = Inl (PgError code msg)"

definition bind_res :: "'e + 'a \<Rightarrow> ('a \<Rightarrow> 'e + 'b) \<Rightarrow> 'e + 'b" where
  "bind_res m k = (case m of Inl e \<Rightarrow> Inl e | Inr x \<Rightarrow> k x)"

lemma bind_res_simps [simp]:
  "bind_res (Inl e) k = Inl e"
  "bind_res (Inr x) k = k x"
  by (simp_all add: bind_res_def)

lemma bind_res_Inr [res_simps]:
  "bind_res m k = Inr y \<longleftrightarrow> (\<exists>x. m = Inr x \<and> k x = Inr y)"
  by (cases m) auto

lemma bind_res_Inl:
  "bind_res m k = Inl e \<longleftrightarrow> m = Inl e \<or> (\<exists>x. m = Inr x \<and> k x = Inl e)"
  by (cases m) auto

lemma bind_res_id: "bind_res (bind_res m (\<lambda>(a, b). Inr (f a b))) (\<lambda>r. Inr (g r)) = bind_res m (\<lambda>(a, b). Inr (g (f a b)))"
  by (cases m) auto

lemma bind_res_return [simp]: "bind_res m Inr = m"
  by (cases m) auto

lemma raise_neq_Inr [simp]:
  "raise msg \<noteq> Inr x" "Inr x \<noteq> raise msg"
  "raise_code c msg \<noteq> Inr x" "Inr x \<noteq> raise_code c msg"
  by (simp_all add: raise_def raise_code_def)

text \<open>A guard: the exception \<open>e\<close> when the condition holds, else the rest of the body.\<close>

lemma if_raise_Inr [res_simps]:
  "(if c then Inl e else m) = Inr y \<longleftrightarrow> \<not> c \<and> m = Inr y"
  "(if c then raise msg else m) = Inr y \<longleftrightarrow> \<not> c \<and> m = Inr y"
  "(if c then raise_code code msg else m) = Inr y \<longleftrightarrow> \<not> c \<and> m = Inr y"
  "(if c then m else raise msg) = Inr y \<longleftrightarrow> c \<and> m = Inr y"
  by auto

text \<open>A loop whose body may raise; the exception leaves the loop.\<close>

fun fold_res :: "('a \<Rightarrow> 's \<Rightarrow> 'e + 's) \<Rightarrow> 'a list \<Rightarrow> 's \<Rightarrow> 'e + 's" where
  "fold_res f [] s = Inr s"
| "fold_res f (x # xs) s = bind_res (f x s) (fold_res f xs)"

lemma fold_res_inv:
  assumes "fold_res f xs s = Inr s'" and "P s"
    and "\<And>x s s'. x \<in> set xs \<Longrightarrow> P s \<Longrightarrow> f x s = Inr s' \<Longrightarrow> P s'"
  shows "P s'"
  using assms
proof (induction xs arbitrary: s)
  case Nil
  then show ?case by simp
next
  case (Cons x xs)
  from Cons.prems(1) obtain s1 where s1: "f x s = Inr s1" "fold_res f xs s1 = Inr s'"
    by (auto simp: res_simps)
  have "P s1" using Cons.prems(3) [OF _ Cons.prems(2) s1(1)] by simp
  then show ?case using Cons.IH [OF s1(2)] Cons.prems(3) by auto
qed

lemma fold_res_frame:
  assumes "fold_res f xs s = Inr s'"
    and "\<And>x s s'. x \<in> set xs \<Longrightarrow> f x s = Inr s' \<Longrightarrow> g s' = g s"
  shows "g s' = g s"
  by (rule fold_res_inv [where P = "\<lambda>t. g t = g s", OF assms(1)]) (auto dest: assms(2))

text \<open>A condition on a row that may be missing.\<close>

definition some_such :: "'a option \<Rightarrow> ('a \<Rightarrow> bool) \<Rightarrow> bool" where
  "some_such v P = (case v of None \<Rightarrow> False | Some x \<Rightarrow> P x)"

lemma some_such_iff [simp]: "some_such v P \<longleftrightarrow> (\<exists>x. v = Some x \<and> P x)"
  by (simp add: some_such_def split: option.split)

subsection \<open>Timestamps\<close>

text \<open>
  A \<^verbatim>\<open>TIMESTAMPTZ\<close> is a number of microseconds or one of the two infinities the schema uses as
  defaults: \<^verbatim>\<open>-infinity\<close> for a lease that is not held, \<^verbatim>\<open>infinity\<close> for a job that never expires.
\<close>

datatype tstz = MinusInfinity | Finite int | Infinity

instantiation tstz :: linorder
begin

fun less_eq_tstz :: "tstz \<Rightarrow> tstz \<Rightarrow> bool" where
  "less_eq_tstz MinusInfinity y = True"
| "less_eq_tstz (Finite a) (Finite b) = (a \<le> b)"
| "less_eq_tstz (Finite a) Infinity = True"
| "less_eq_tstz (Finite a) MinusInfinity = False"
| "less_eq_tstz Infinity y = (y = Infinity)"

definition less_tstz :: "tstz \<Rightarrow> tstz \<Rightarrow> bool" where
  "less_tstz x y \<longleftrightarrow> x \<le> y \<and> \<not> y \<le> x"

instance
proof
  fix x y z :: tstz
  show "x < y \<longleftrightarrow> x \<le> y \<and> \<not> y \<le> x" by (rule less_tstz_def)
  show "x \<le> x" by (cases x) auto
  show "x \<le> y \<Longrightarrow> y \<le> z \<Longrightarrow> x \<le> z" by (cases x; cases y; cases z) auto
  show "x \<le> y \<Longrightarrow> y \<le> x \<Longrightarrow> x = y" by (cases x; cases y) auto
  show "x \<le> y \<or> y \<le> x" by (cases x; cases y) auto
qed

end

lemma tstz_less_simps [simp]:
  "Finite a < Finite b \<longleftrightarrow> a < b"
  "Finite a < Infinity" "\<not> Finite a < MinusInfinity"
  "MinusInfinity < Finite a" "\<not> Infinity < y"
  "MinusInfinity < Infinity" "\<not> y < MinusInfinity"
  by (cases y; auto simp: less_tstz_def)+

lemma tstz_less_irrefl_le [simp]:
  "y \<le> Infinity" "Infinity \<le> Finite a \<longleftrightarrow> False" "Finite a \<le> MinusInfinity \<longleftrightarrow> False"
  by (cases y; auto)+

subsection \<open>Rows with a primary key\<close>

text \<open>
  A table is the list of its rows. The four statements the SQL uses are: \<open>SELECT \<dots> WHERE key = k\<close>,
  \<open>UPDATE \<dots> WHERE key = k\<close>, \<open>DELETE \<dots> WHERE key = k\<close> and \<open>INSERT\<close>. A primary key is the
  invariant \<open>distinct (map key rows)\<close>, which the components keep.
\<close>

definition row_at :: "('r \<Rightarrow> 'k) \<Rightarrow> 'k \<Rightarrow> 'r list \<Rightarrow> 'r option" where
  "row_at key k rows = find (\<lambda>r. key r = k) rows"

definition upd_at :: "('r \<Rightarrow> 'k) \<Rightarrow> 'k \<Rightarrow> ('r \<Rightarrow> 'r) \<Rightarrow> 'r list \<Rightarrow> 'r list" where
  "upd_at key k f rows = map (\<lambda>r. if key r = k then f r else r) rows"

definition del_at :: "('r \<Rightarrow> 'k) \<Rightarrow> 'k \<Rightarrow> 'r list \<Rightarrow> 'r list" where
  "del_at key k rows = filter (\<lambda>r. key r \<noteq> k) rows"

definition has_key :: "('r \<Rightarrow> 'k) \<Rightarrow> 'k \<Rightarrow> 'r list \<Rightarrow> bool" where
  "has_key key k rows \<longleftrightarrow> row_at key k rows \<noteq> None"

lemma row_at_Nil [simp]: "row_at key k [] = None"
  by (simp add: row_at_def)

lemma row_at_Cons [simp]:
  "row_at key k (r # rows) = (if key r = k then Some r else row_at key k rows)"
  by (simp add: row_at_def)

lemma row_at_append [row_simps]:
  "row_at key k (xs @ ys) = (case row_at key k xs of None \<Rightarrow> row_at key k ys | Some r \<Rightarrow> Some r)"
  by (induction xs) auto

lemma row_at_SomeD: "row_at key k rows = Some r \<Longrightarrow> r \<in> set rows \<and> key r = k"
  by (induction rows) (auto split: if_splits)

lemma row_at_None [row_simps]: "row_at key k rows = None \<longleftrightarrow> k \<notin> key ` set rows"
  by (induction rows) auto

lemma has_key_iff [row_simps]: "has_key key k rows \<longleftrightarrow> k \<in> key ` set rows"
  by (simp add: has_key_def row_at_None)

lemma row_at_map_key:
  assumes "\<And>r. r \<in> set rows \<Longrightarrow> key (f r) = key r"
  shows "row_at key k (map f rows) = map_option f (row_at key k rows)"
  using assms by (induction rows) auto

lemma row_at_upd_at [row_simps]:
  assumes "\<And>r. key (f r) = key r"
  shows "row_at key k (upd_at key k' f rows) =
    (if k = k' then map_option f (row_at key k rows) else row_at key k rows)"
  using assms by (induction rows) (auto simp: upd_at_def)

lemma row_at_del_at [row_simps]:
  "row_at key k (del_at key k' rows) = (if k = k' then None else row_at key k rows)"
  by (induction rows) (auto simp: del_at_def)

lemma map_key_upd_at [row_simps]:
  assumes "\<And>r. key (f r) = key r"
  shows "map key (upd_at key k f rows) = map key rows"
  using assms by (simp add: upd_at_def)

lemma key_image_upd_at [row_simps]:
  assumes "\<And>r. key (f r) = key r"
  shows "key ` set (upd_at key k f rows) = key ` set rows"
proof -
  have "map key (upd_at key k f rows) = map key rows"
    by (rule map_key_upd_at) (rule assms)
  then show ?thesis by (metis image_set)
qed

lemma key_image_del_at [row_simps]:
  "key ` set (del_at key k rows) = key ` set rows - {k}"
  by (auto simp: del_at_def)

lemma distinct_del_at [intro]:
  "distinct (map key rows) \<Longrightarrow> distinct (map key (del_at key k rows))"
  by (induction rows) (auto simp: del_at_def)

lemma set_upd_atD:
  "r \<in> set (upd_at key k f rows) \<Longrightarrow> \<exists>r0 \<in> set rows. r = (if key r0 = k then f r0 else r0)"
  by (auto simp: upd_at_def)

lemma set_upd_at_cases:
  assumes "r \<in> set (upd_at key k f rows)"
  obtains "r \<in> set rows" "key r \<noteq> k" | r0 where "r0 \<in> set rows" "key r0 = k" "r = f r0"
  using assms by (auto simp: upd_at_def split: if_splits)

lemma set_del_at [simp]: "set (del_at key k rows) = {r \<in> set rows. key r \<noteq> k}"
  by (auto simp: del_at_def)

lemma row_at_unique:
  assumes "distinct (map key rows)" "r \<in> set rows"
  shows "row_at key (key r) rows = Some r"
  using assms by (induction rows) (auto simp: image_iff)

lemma row_at_iff:
  assumes "distinct (map key rows)"
  shows "row_at key k rows = Some r \<longleftrightarrow> r \<in> set rows \<and> key r = k"
  using assms by (auto dest: row_at_SomeD row_at_unique)

lemma filter_del_at [row_simps]:
  "filter (\<lambda>r. key r = k) (del_at key k' rows) = (if k = k' then [] else filter (\<lambda>r. key r = k) rows)"
  by (induction rows) (auto simp: del_at_def)

lemma find_SomeD: "find P xs = Some x \<Longrightarrow> x \<in> set xs \<and> P x"
  by (induction xs) (auto split: if_splits)

end
