(* ===== verification/Json.thy ===== *)
theory Json
  imports Prelude Complex_Main
begin

section \<open>JSON documents and the metadata filters\<close>

text \<open>
  \<^verbatim>\<open>JSONB\<close> values as PostgreSQL stores them: object members are sorted by name with no duplicates,
  so equality of values is equality of terms, and numbers are exact. The two operators the SQL uses
  on job metadata are containment (\<^verbatim>\<open>@>\<close>) and path extraction (\<^verbatim>\<open>#>\<close>); a metadata predicate of the
  Go API asks that the value at a path equals one of a list of values.
\<close>

datatype json =
    JNull
  | JBool bool
  | JNumber rat
  | JString string
  | JArray "json list"
  | JObject "(string \<times> json) list"

fun is_object :: "json \<Rightarrow> bool" where
  "is_object (JObject ms) = True"
| "is_object _ = False"

text \<open>
  A \<^verbatim>\<open>json.RawMessage\<close> of a Go request, by what \<^verbatim>\<open>encoding/json\<close> reads from its bytes: no bytes at
  all, bytes that are not JSON, or a document.
\<close>

datatype raw_json = RawEmpty | RawInvalid | RawJson json

fun isJSONObject :: "raw_json \<Rightarrow> bool" where
  "isJSONObject (RawJson v) = is_object v"
| "isJSONObject _ = False"

fun raw_valid :: "raw_json \<Rightarrow> bool" where
  "raw_valid (RawJson v) = True"
| "raw_valid _ = False"

subsection \<open>Containment\<close>

fun jsonb_contains :: "json \<Rightarrow> json \<Rightarrow> bool" where
  "jsonb_contains (JObject xs) (JObject ys) =
     (\<forall>y \<in> set ys. \<exists>x \<in> set xs. fst x = fst y \<and> jsonb_contains (snd x) (snd y))"
| "jsonb_contains (JArray xs) (JArray ys) =
     (\<forall>y \<in> set ys. \<exists>x \<in> set xs. jsonb_contains x y)"
| "jsonb_contains a b = (a = b)"

lemma jsonb_contains_empty_object [simp]: "jsonb_contains (JObject xs) (JObject [])"
  by simp

lemma jsonb_contains_refl: "jsonb_contains v v"
proof (induction v)
  case (JObject ms)
  then show ?case by (fastforce simp: snds.simps)
qed auto

subsection \<open>Path extraction\<close>

definition digit_val :: "char \<Rightarrow> nat option" where
  "digit_val c = (let n = of_char c :: nat in if 48 \<le> n \<and> n \<le> 57 then Some (n - 48) else None)"

fun parse_digits :: "nat \<Rightarrow> string \<Rightarrow> nat option" where
  "parse_digits acc [] = Some acc"
| "parse_digits acc (c # cs) =
     (case digit_val c of None \<Rightarrow> None | Some d \<Rightarrow> parse_digits (10 * acc + d) cs)"

text \<open>An array step of a path is an integer; a negative one counts from the end.\<close>

definition parse_index :: "string \<Rightarrow> int option" where
  "parse_index s = (case s of [] \<Rightarrow> None
     | c # cs \<Rightarrow>
         if c = CHR ''-'' then (if cs = [] then None else map_option (\<lambda>n. - int n) (parse_digits 0 cs))
         else if c = CHR ''+'' then (if cs = [] then None else map_option int (parse_digits 0 cs))
         else map_option int (parse_digits 0 s))"

fun json_step :: "json \<Rightarrow> string \<Rightarrow> json option" where
  "json_step (JObject ms) name = map_of ms name"
| "json_step (JArray xs) name =
     (case parse_index name of None \<Rightarrow> None
      | Some i \<Rightarrow> (let n = int (length xs); k = (if i < 0 then n + i else i)
          in if 0 \<le> k \<and> k < n then Some (xs ! nat k) else None))"
| "json_step _ name = None"

fun jsonb_path :: "json \<Rightarrow> string list \<Rightarrow> json option" where
  "jsonb_path v [] = Some v"
| "jsonb_path v (p # ps) = (case json_step v p of None \<Rightarrow> None | Some u \<Rightarrow> jsonb_path u ps)"

subsection \<open>Metadata predicates\<close>

record MetadataPredicate =
  mp_Path :: "string list"
  mp_Values :: "raw_json list"

text \<open>The first problem the Go validation reports, if any.\<close>

fun validateMetadataPredicate :: "MetadataPredicate \<Rightarrow> string option" where
  "validateMetadataPredicate p =
     (if mp_Path p = [] \<or> mp_Values p = [] then
        Some ''pgjobdb: metadata predicate requires path and values''
      else if [] \<in> set (mp_Path p) then
        Some ''pgjobdb: metadata path element cannot be empty''
      else if \<exists>v \<in> set (mp_Values p). \<not> raw_valid v then
        Some ''pgjobdb: metadata predicate value is invalid JSON''
      else None)"

fun validateMetadataPredicates :: "MetadataPredicate list \<Rightarrow> string option" where
  "validateMetadataPredicates [] = None"
| "validateMetadataPredicates (p # ps) =
     (case validateMetadataPredicate p of Some e \<Rightarrow> Some e | None \<Rightarrow> validateMetadataPredicates ps)"

text \<open>
  The \<^verbatim>\<open>NOT EXISTS (\<dots> WHERE NOT EXISTS \<dots>)\<close> test of the listing, acquisition and deletion queries:
  every predicate has a value that the document holds at the predicate's path.
\<close>

definition metadata_matches :: "json \<Rightarrow> MetadataPredicate list \<Rightarrow> bool" where
  "metadata_matches doc ps \<longleftrightarrow>
     (\<forall>p \<in> set ps. \<exists>v \<in> set (mp_Values p).
        (case v of RawJson u \<Rightarrow> jsonb_path doc (mp_Path p) = Some u | _ \<Rightarrow> False))"

lemma metadata_matches_Nil [simp]: "metadata_matches doc []"
  by (simp add: metadata_matches_def)

lemma metadata_matches_append:
  "metadata_matches doc (ps @ qs) \<longleftrightarrow> metadata_matches doc ps \<and> metadata_matches doc qs"
  by (auto simp: metadata_matches_def)

end
