(* ===== verification/Schema.thy ===== *)
theory Schema
  imports Json
begin

section \<open>The database: rows, tables, installation-wide switches\<close>

text \<open>
  The tables of \<^verbatim>\<open>pkg/pgjobdb/pgjobdb.sql\<close>, one record per row type with one field per column, and
  the record \<open>db\<close> of all of them. Columns with a \<^verbatim>\<open>CHECK (\<dots> IN \<dots>)\<close> are enumerations; a nullable
  column is an \<open>option\<close>. The columns \<^verbatim>\<open>payload\<close> and \<^verbatim>\<open>metadata\<close> of \<^verbatim>\<open>jobs\<close> and \<^verbatim>\<open>jobs_archive\<close> are
  left out: no native operation writes them, so they always hold their default \<^verbatim>\<open>{}\<close>.
  \<^verbatim>\<open>alternate_after_seconds\<close> is kept as an exact number of nanoseconds.
\<close>

subsection \<open>Policies, dependencies and failures\<close>

record RetryPolicy =
  rp_InitialIntervalMillis :: int
  rp_BackoffCoefficient :: rat
  rp_MaximumIntervalMillis :: int
  rp_MaximumAttempts :: int
  rp_NonRetryableErrorTypes :: "string list"

record RunPolicy =
  pol_Retry :: RetryPolicy
  pol_InvocationTimeoutMillis :: "int option"
  pol_TotalTimeoutMillis :: "int option"

text \<open>
  A dependency as it travels in JSON: a target that names a job or a goal, and a condition. Both
  names of a target are optional on the wire; the SQL validation asks for exactly one.
\<close>

record dep_target =
  dt_jobId :: "string option"
  dt_goalId :: "string option"

record dependency =
  dep_target :: dep_target
  dep_condition :: "string option"

datatype failure =
    GoalFailed string string "string list" "string list" int
      \<comment> \<open>goal id, message, terminal and nonterminal members, time\<close>
  | JobDependencyFailed string string
      \<comment> \<open>job id, message\<close>

datatype goal_state = GoalOpen | GoalSucceeded | GoalFailedState

datatype wait_state = WaitPending | WaitSatisfied | WaitFailed | WaitTimedOut | WaitCancelled

record dep_outcome =
  do_dep :: dependency
  do_state :: wait_state
  do_blockedReason :: "string option"
  do_satisfiedByJobId :: "string option"
  do_failure :: "failure option"

record wait_outcome =
  wo_tenantId :: string
  wo_jobId :: string
  wo_waitId :: string
  wo_deadline :: "int option"
  wo_state :: wait_state
  wo_dependencies :: "dep_outcome list"
  wo_failedDependencyIndex :: "nat option"
  wo_failure :: "failure option"

subsection \<open>Rows\<close>

record goal_row =
  g_tenant_id :: string
  g_goal_id :: string
  g_state :: goal_state
  g_revision :: int
  g_successful_job_id :: "string option"
  g_failure :: "failure option"
  g_created_at :: int
  g_updated_at :: int
  g_closed_at :: "int option"

record preparation_row =
  p_tenant_id :: string
  p_job_id :: string
  p_goal_id :: string
  p_request_id :: "string option"
  p_prior_job_id :: "string option"
  p_share_goal :: bool
  p_descriptor :: string
  p_dependencies :: "dependency list"
  p_published :: bool

record candidate_row =
  gc_tenant_id :: string
  gc_goal_id :: string
  gc_job_id :: string
  gc_added_at :: int

record wait_row =
  w_tenant_id :: string
  w_job_id :: string
  w_wait_id :: string
  w_descriptor :: "dependency list"
  w_deadline :: "int option"
  w_state :: wait_state
  w_outcome :: wait_outcome

datatype target_kind = KJob | KGoal

record target_row =
  t_tenant_id :: string
  t_job_id :: string
  t_wait_id :: string
  t_target_kind :: target_kind
  t_target_id :: string

record job_row =
  j_goal_id :: string
  j_dependency_wait_id :: "string option"
  j_tenant_id :: string
  j_job_id :: string
  j_alternate_after :: "int option"
  j_alternate_at :: "int option"
  j_wait_for :: "string list"
  j_available_at :: int
  j_expires_at :: tstz
  j_lease_id :: "string option"
  j_lease_expires_at :: tstz
  j_lease_expiration_count :: int
  j_consecutive_expirations :: int
  j_created_at :: int
  j_cancel_requested :: bool
  j_cancel_requested_by :: "string option"
  j_cancel_requested_at :: "int option"
  j_route_job_type :: "string option"
  j_work_kind :: "string option"
  j_task_type :: "string option"
  j_resume_job_type :: "string option"
  j_task_input_ordinal :: "int option"
  j_task_output_ordinal :: "int option"
  j_task_input_hash :: "string option"
  j_alternate_job_type :: "string option"
  j_alternate_task_type :: "string option"
  j_lease_worker_id :: "string option"
  j_lease_route_job_type :: "string option"
  j_lease_work_kind :: "string option"
  j_lease_task_type :: "string option"
  j_wait_until_is_deadline :: bool

record archive_row =
  a_goal_id :: string
  a_archived_at :: int
  a_tenant_id :: string
  a_job_id :: string
  a_alternate_after :: "int option"
  a_alternate_at :: "int option"
  a_wait_for :: "string list"
  a_created_at :: int
  a_expires_at :: tstz
  a_lease_id :: "string option"
  a_lease_expiration_count :: int
  a_consecutive_expirations :: int
  a_cancel_requested :: bool
  a_cancel_requested_by :: "string option"
  a_cancel_requested_at :: "int option"
  a_completion_status :: string
  a_completion_detail :: "string option"
  a_completion_error_kind :: "string option"
  a_completion_retryable :: "bool option"
  a_final_route_job_type :: "string option"
  a_final_work_kind :: "string option"
  a_final_task_type :: "string option"
  a_final_resume_job_type :: "string option"
  a_final_task_input_ordinal :: "int option"
  a_final_task_output_ordinal :: "int option"
  a_final_task_input_hash :: "string option"
  a_final_alternate_job_type :: "string option"
  a_final_alternate_task_type :: "string option"
  a_final_alternate_after :: "int option"
  a_final_alternate_at :: "int option"
  a_final_wait_for :: "string list option"
  a_final_available_at :: "int option"
  a_final_lease_expires_at :: "tstz option"
  a_final_lease_worker_id :: "string option"
  a_final_cancel_requested :: "bool option"

record fact_row =
  f_goal_id :: string
  f_initial_dependencies :: "dependency list"
  f_tenant_id :: string
  f_job_id :: string
  f_job_type :: string
  f_run_policy :: RunPolicy
  f_app_metadata :: json
  f_schema_hash :: "string option"
  f_parent_job_id :: "string option"
  f_schedule_id :: "string option"
  f_schedule_generation :: "int option"
  f_schedule_spec_hash :: "string option"
  f_scheduled_at :: "int option"
  f_schedule_run_id :: "string option"
  f_schedule_reason :: "string option"
  f_schedule_manual :: bool
  f_schedule_backfill_id :: "string option"
  f_schedule_previous_job_id :: "string option"
  f_schedule_failure_history :: "json option"
  f_created_by_worker_id :: "string option"
  f_created_at :: int
  f_expires_at :: tstz
  f_hidden_at :: "int option"

datatype schedule_state = ScheduleActive | SchedulePaused | ScheduleArchived

record schedule_row =
  s_tenant_id :: string
  s_schedule_id :: string
  s_state :: schedule_state
  s_generation :: int
  s_spec_hash :: string
  s_trigger :: json
  s_target_job_type :: string
  s_target_snapshot :: json
  s_overlap_policy :: string
  s_failure_policy :: json
  s_next_fire_at :: "int option"
  s_next_job_id :: "string option"
  s_created_at :: int
  s_updated_at :: int

text \<open>
  A client payload is a column of type \<^verbatim>\<open>JSON\<close>, which keeps the document's text: numbers keep their
  spelling and objects their member order and duplicates. Strings, arrays and objects carry the
  size of their own text; \<open>cj_octets\<close> is the size of the whole column, outer white space included.
\<close>

datatype cjson =
    CNull
  | CBool bool
  | CNum string
  | CStr nat string
  | CArr nat "cjson list"
  | CObj nat "(string \<times> cjson) list"

fun octets :: "cjson \<Rightarrow> nat" where
  "octets CNull = 4"
| "octets (CBool b) = (if b then 4 else 5)"
| "octets (CNum s) = length s"
| "octets (CStr n s) = n"
| "octets (CArr n xs) = n"
| "octets (CObj n ms) = n"

record client_json =
  cj_octets :: nat
  cj_tree :: cjson

record client_state_row =
  c_tenant_id :: string
  c_job_id :: string
  c_client_payload :: "client_json option"
  c_revision :: int
  c_initial_payload_digest :: string

record trace_row =
  tr_tenant_id :: string
  tr_job_id :: string
  tr_event_type :: string
  tr_worker_id :: string
  tr_event_at :: int

text \<open>What \<^verbatim>\<open>pg_notify\<close> sends: on \<^verbatim>\<open>pgjobdb.work\<close> a job and its route, on \<^verbatim>\<open>pgjobdb_work\<close> a tenant.\<close>

datatype notification =
    WorkNotice string string "string option" "string option"
  | WaitNotice string

subsection \<open>The database\<close>

record db =
  goals :: "goal_row list"
  job_preparations :: "preparation_row list"
  goal_candidates :: "candidate_row list"
  dependency_waits :: "wait_row list"
  dependency_targets :: "target_row list"
  jobs :: "job_row list"
  jobs_archive :: "archive_row list"
  jobs_trace :: "trace_row list"
  schedules :: "schedule_row list"
  job_facts :: "fact_row list"
  job_client_state :: "client_state_row list"
  crash_concern_threshold :: int
  trace_enabled :: bool
  notify_enabled :: bool
  notifications :: "notification list"

text \<open>A fresh installation: empty tables, threshold five, tracing on, notification off.\<close>

definition installed_db :: db where
  "installed_db = \<lparr> goals = [], job_preparations = [], goal_candidates = [], dependency_waits = [],
     dependency_targets = [], jobs = [], jobs_archive = [], jobs_trace = [], schedules = [],
     job_facts = [], job_client_state = [], crash_concern_threshold = 5, trace_enabled = True,
     notify_enabled = False, notifications = [] \<rparr>"

subsection \<open>Primary keys and lookups\<close>

type_synonym job_key = "string \<times> string"

definition goal_key :: "goal_row \<Rightarrow> string \<times> string" where
  "goal_key g = (g_tenant_id g, g_goal_id g)"

definition prep_key :: "preparation_row \<Rightarrow> job_key" where
  "prep_key p = (p_tenant_id p, p_job_id p)"

definition wait_key :: "wait_row \<Rightarrow> string \<times> string \<times> string" where
  "wait_key w = (w_tenant_id w, w_job_id w, w_wait_id w)"

definition target_wait_key :: "target_row \<Rightarrow> string \<times> string \<times> string" where
  "target_wait_key t = (t_tenant_id t, t_job_id t, t_wait_id t)"

definition job_key :: "job_row \<Rightarrow> job_key" where
  "job_key j = (j_tenant_id j, j_job_id j)"

definition archive_key :: "archive_row \<Rightarrow> job_key" where
  "archive_key a = (a_tenant_id a, a_job_id a)"

definition fact_key :: "fact_row \<Rightarrow> job_key" where
  "fact_key f = (f_tenant_id f, f_job_id f)"

definition client_key :: "client_state_row \<Rightarrow> job_key" where
  "client_key c = (c_tenant_id c, c_job_id c)"

definition schedule_key :: "schedule_row \<Rightarrow> string \<times> string" where
  "schedule_key s = (s_tenant_id s, s_schedule_id s)"

lemmas key_defs = goal_key_def prep_key_def wait_key_def target_wait_key_def job_key_def
  archive_key_def fact_key_def client_key_def schedule_key_def

definition find_goal :: "db \<Rightarrow> string \<Rightarrow> string \<Rightarrow> goal_row option" where
  "find_goal d t g = row_at goal_key (t, g) (goals d)"

definition find_job :: "db \<Rightarrow> string \<Rightarrow> string \<Rightarrow> job_row option" where
  "find_job d t j = row_at job_key (t, j) (jobs d)"

definition find_archive :: "db \<Rightarrow> string \<Rightarrow> string \<Rightarrow> archive_row option" where
  "find_archive d t j = row_at archive_key (t, j) (jobs_archive d)"

definition find_fact :: "db \<Rightarrow> string \<Rightarrow> string \<Rightarrow> fact_row option" where
  "find_fact d t j = row_at fact_key (t, j) (job_facts d)"

definition find_client :: "db \<Rightarrow> string \<Rightarrow> string \<Rightarrow> client_state_row option" where
  "find_client d t j = row_at client_key (t, j) (job_client_state d)"

definition find_wait :: "db \<Rightarrow> string \<Rightarrow> string \<Rightarrow> string \<Rightarrow> wait_row option" where
  "find_wait d t j w = row_at wait_key (t, j, w) (dependency_waits d)"

definition find_prep :: "db \<Rightarrow> string \<Rightarrow> string \<Rightarrow> preparation_row option" where
  "find_prep d t j = row_at prep_key (t, j) (job_preparations d)"

definition find_schedule :: "db \<Rightarrow> string \<Rightarrow> string \<Rightarrow> schedule_row option" where
  "find_schedule d t s = row_at schedule_key (t, s) (schedules d)"

lemmas find_defs = find_goal_def find_job_def find_archive_def find_fact_def find_client_def
  find_wait_def find_prep_def find_schedule_def

definition archived :: "db \<Rightarrow> string \<Rightarrow> string \<Rightarrow> bool" where
  "archived d t j \<longleftrightarrow> has_key archive_key (t, j) (jobs_archive d)"

lemma archived_iff: "archived d t j \<longleftrightarrow> find_archive d t j \<noteq> None"
  by (simp add: archived_def has_key_def find_archive_def)

subsection \<open>Row updates\<close>

definition update_job :: "string \<Rightarrow> string \<Rightarrow> (job_row \<Rightarrow> job_row) \<Rightarrow> db \<Rightarrow> db" where
  "update_job t j f d = d\<lparr>jobs := upd_at job_key (t, j) f (jobs d)\<rparr>"

definition update_archive :: "string \<Rightarrow> string \<Rightarrow> (archive_row \<Rightarrow> archive_row) \<Rightarrow> db \<Rightarrow> db" where
  "update_archive t j f d = d\<lparr>jobs_archive := upd_at archive_key (t, j) f (jobs_archive d)\<rparr>"

definition update_goal :: "string \<Rightarrow> string \<Rightarrow> (goal_row \<Rightarrow> goal_row) \<Rightarrow> db \<Rightarrow> db" where
  "update_goal t g f d = d\<lparr>goals := upd_at goal_key (t, g) f (goals d)\<rparr>"

definition update_wait :: "string \<Rightarrow> string \<Rightarrow> string \<Rightarrow> (wait_row \<Rightarrow> wait_row) \<Rightarrow> db \<Rightarrow> db" where
  "update_wait t j w f d = d\<lparr>dependency_waits := upd_at wait_key (t, j, w) f (dependency_waits d)\<rparr>"

definition delete_job :: "string \<Rightarrow> string \<Rightarrow> db \<Rightarrow> db" where
  "delete_job t j d = d\<lparr>jobs := del_at job_key (t, j) (jobs d)\<rparr>"

lemmas update_defs = update_job_def update_archive_def update_goal_def update_wait_def
  delete_job_def

subsection \<open>Trace events and notifications\<close>

text \<open>
  \<^verbatim>\<open>_emit_trace_event\<close> and \<^verbatim>\<open>_notify_work\<close>, each behind its installation-wide switch. The JSON
  documents a trace event carries are not modelled.
\<close>

definition emit_trace_event :: "string \<Rightarrow> string \<Rightarrow> string \<Rightarrow> string \<Rightarrow> int \<Rightarrow> db \<Rightarrow> db" where
  "emit_trace_event t j event worker now d =
     (if \<not> trace_enabled d then d
      else d\<lparr>jobs_trace := jobs_trace d @
        [\<lparr>tr_tenant_id = t, tr_job_id = j, tr_event_type = event, tr_worker_id = worker,
          tr_event_at = now\<rparr>]\<rparr>)"

definition notify_work :: "string \<Rightarrow> string \<Rightarrow> string option \<Rightarrow> string option \<Rightarrow> db \<Rightarrow> db" where
  "notify_work t j job_type task_type d =
     (if notify_enabled d
      then d\<lparr>notifications := notifications d @ [WorkNotice t j job_type task_type]\<rparr> else d)"

text \<open>Neither touches the tables of the scheduler.\<close>

lemma emit_trace_event_frame [simp]:
  "goals (emit_trace_event t j e w now d) = goals d"
  "job_preparations (emit_trace_event t j e w now d) = job_preparations d"
  "goal_candidates (emit_trace_event t j e w now d) = goal_candidates d"
  "dependency_waits (emit_trace_event t j e w now d) = dependency_waits d"
  "dependency_targets (emit_trace_event t j e w now d) = dependency_targets d"
  "jobs (emit_trace_event t j e w now d) = jobs d"
  "jobs_archive (emit_trace_event t j e w now d) = jobs_archive d"
  "schedules (emit_trace_event t j e w now d) = schedules d"
  "job_facts (emit_trace_event t j e w now d) = job_facts d"
  "job_client_state (emit_trace_event t j e w now d) = job_client_state d"
  "crash_concern_threshold (emit_trace_event t j e w now d) = crash_concern_threshold d"
  by (simp_all add: emit_trace_event_def)

lemma notify_work_frame [simp]:
  "goals (notify_work t j a b d) = goals d"
  "job_preparations (notify_work t j a b d) = job_preparations d"
  "goal_candidates (notify_work t j a b d) = goal_candidates d"
  "dependency_waits (notify_work t j a b d) = dependency_waits d"
  "dependency_targets (notify_work t j a b d) = dependency_targets d"
  "jobs (notify_work t j a b d) = jobs d"
  "jobs_archive (notify_work t j a b d) = jobs_archive d"
  "schedules (notify_work t j a b d) = schedules d"
  "job_facts (notify_work t j a b d) = job_facts d"
  "job_client_state (notify_work t j a b d) = job_client_state d"
  "crash_concern_threshold (notify_work t j a b d) = crash_concern_threshold d"
  by (simp_all add: notify_work_def)

end
