(* ===== verification/Job_Status.thy ===== *)
theory Job_Status
  imports Schema
begin

section \<open>Job status, effective routes and row validity\<close>

text \<open>
  The status of an active job is not stored: \<^verbatim>\<open>pgjobdb.job_status_at\<close> computes it from the row, the
  dependency waits, the archive and a time. \<^verbatim>\<open>pgjobdb.effective_native_route\<close> computes the route work
  is offered on, which is the alternate route once its time has come. Acquisition, task claims,
  completion, rescheduling and listing all decide by these two functions.
\<close>

datatype JobStatus =
    READY | EXPIRED | PENDING_JOBS | AWAITING_FUTURE | ACTIVE | CRASH_CONCERN | CANCELLED | COMPLETED

subsection \<open>Status\<close>

text \<open>The wait the row points at is still pending and its deadline has not passed.\<close>

definition blocked_on_wait :: "db \<Rightarrow> job_row \<Rightarrow> int \<Rightarrow> bool" where
  "blocked_on_wait d j now \<longleftrightarrow>
     (\<exists>w \<in> set (dependency_waits d). w_tenant_id w = j_tenant_id j \<and> w_job_id w = j_job_id j \<and>
        Some (w_wait_id w) = j_dependency_wait_id j \<and> w_state w = WaitPending \<and>
        (case w_deadline w of None \<Rightarrow> True | Some dl \<Rightarrow> dl > now))"

text \<open>Some job of the legacy wait list has not been archived.\<close>

definition waits_for_jobs :: "db \<Rightarrow> job_row \<Rightarrow> bool" where
  "waits_for_jobs d j \<longleftrightarrow> (\<exists>dep \<in> set (j_wait_for j). \<not> archived d (j_tenant_id j) dep)"

definition job_status_at :: "db \<Rightarrow> job_row \<Rightarrow> int \<Rightarrow> JobStatus" where
  "job_status_at d j now =
     (if j_lease_expires_at j > Finite now then ACTIVE
      else if j_cancel_requested j then CANCELLED
      else if blocked_on_wait d j now then PENDING_JOBS
      else if \<not> j_wait_until_is_deadline j \<and> j_available_at j > now then AWAITING_FUTURE
      else if waits_for_jobs d j \<and> \<not> (j_wait_until_is_deadline j \<and> j_available_at j \<le> now)
        then PENDING_JOBS
      else if j_consecutive_expirations j \<ge> crash_concern_threshold d then CRASH_CONCERN
      else if j_expires_at j \<le> Finite now then EXPIRED
      else READY)"

text \<open>What being ready means, with nothing left implicit in the order of the cases.\<close>

lemma job_status_READY:
  "job_status_at d j now = READY \<longleftrightarrow>
     j_lease_expires_at j \<le> Finite now \<and> \<not> j_cancel_requested j \<and> \<not> blocked_on_wait d j now \<and>
     (if j_wait_until_is_deadline j then waits_for_jobs d j \<longrightarrow> j_available_at j \<le> now
      else j_available_at j \<le> now \<and> \<not> waits_for_jobs d j) \<and>
     j_consecutive_expirations j < crash_concern_threshold d \<and> Finite now < j_expires_at j"
  by (auto simp: job_status_at_def not_less not_le)

lemma job_status_ACTIVE: "job_status_at d j now = ACTIVE \<longleftrightarrow> Finite now < j_lease_expires_at j"
  by (simp add: job_status_at_def)

lemma job_status_not_COMPLETED: "job_status_at d j now \<noteq> COMPLETED"
  by (simp add: job_status_at_def)

text \<open>The status reads only the row, the waits, the archive keys and the threshold.\<close>

lemma job_status_at_cong:
  assumes "dependency_waits d' = dependency_waits d" "jobs_archive d' = jobs_archive d"
    "crash_concern_threshold d' = crash_concern_threshold d"
  shows "job_status_at d' j now = job_status_at d j now"
proof -
  have "blocked_on_wait d' j now = blocked_on_wait d j now"
    by (simp only: blocked_on_wait_def assms(1))
  moreover have "waits_for_jobs d' j = waits_for_jobs d j"
    by (simp only: waits_for_jobs_def archived_def assms(2))
  ultimately show ?thesis
    by (simp only: job_status_at_def assms(3))
qed

subsection \<open>Effective route\<close>

record effective_route =
  er_job_type :: "string option"
  er_work_kind :: "string option"
  er_task_type :: "string option"
  er_alternate_due :: bool

definition alternate_due :: "job_row \<Rightarrow> int \<Rightarrow> bool" where
  "alternate_due j now \<longleftrightarrow> j_alternate_job_type j \<noteq> None \<and>
     (case j_alternate_at j of None \<Rightarrow> False | Some since \<Rightarrow> now \<ge> since)"

definition effective_native_route :: "job_row \<Rightarrow> int \<Rightarrow> effective_route" where
  "effective_native_route j now =
     (let due = alternate_due j now in
      \<lparr> er_job_type = (if due then j_alternate_job_type j else j_route_job_type j),
        er_work_kind = (if due then (if j_alternate_task_type j = None then Some ''JOB'' else Some ''TASK'')
                        else j_work_kind j),
        er_task_type = (if due then j_alternate_task_type j else j_task_type j),
        er_alternate_due = due \<rparr>)"

lemma effective_native_route_sel [simp]:
  "er_job_type (effective_native_route j now) =
     (if alternate_due j now then j_alternate_job_type j else j_route_job_type j)"
  "er_work_kind (effective_native_route j now) =
     (if alternate_due j now then (if j_alternate_task_type j = None then Some ''JOB'' else Some ''TASK'')
      else j_work_kind j)"
  "er_task_type (effective_native_route j now) =
     (if alternate_due j now then j_alternate_task_type j else j_task_type j)"
  "er_alternate_due (effective_native_route j now) = alternate_due j now"
  by (simp_all add: effective_native_route_def Let_def)

subsection \<open>Locking a row in a given status\<close>

text \<open>
  \<^verbatim>\<open>_lock_job_for_status\<close>: the row, when its status is the requested one (\<^verbatim>\<open>READY\<close> also admits
  \<^verbatim>\<open>CRASH_CONCERN\<close> and \<^verbatim>\<open>EXPIRED\<close>) and it holds the expected lease, if one is given.
\<close>

definition status_admits :: "JobStatus \<Rightarrow> JobStatus \<Rightarrow> bool" where
  "status_admits wanted actual \<longleftrightarrow>
     actual = wanted \<or> (wanted = READY \<and> (actual = CRASH_CONCERN \<or> actual = EXPIRED))"

definition lock_job_for_status ::
  "db \<Rightarrow> string \<Rightarrow> string \<Rightarrow> JobStatus \<Rightarrow> string option \<Rightarrow> string \<Rightarrow> int \<Rightarrow> job_row res" where
  "lock_job_for_status d t j status expected missing now =
     (case find_job d t j of
        None \<Rightarrow> raise missing
      | Some r \<Rightarrow>
          if status_admits status (job_status_at d r now) \<and>
             (expected = None \<or> j_lease_id r = expected)
          then Inr r else raise missing)"

lemma lock_job_for_status_Inr [res_simps]:
  "lock_job_for_status d t j status expected missing now = Inr r \<longleftrightarrow>
     find_job d t j = Some r \<and> status_admits status (job_status_at d r now) \<and>
     (expected = None \<or> j_lease_id r = expected)"
  by (auto simp: lock_job_for_status_def split: option.splits)

subsection \<open>The table constraints on routes and leases\<close>

text \<open>
  The named \<^verbatim>\<open>CHECK\<close> constraints of \<^verbatim>\<open>jobs\<close>. The model writes rows without evaluating them; that
  every operation keeps them is proved, so PostgreSQL never raises \<^verbatim>\<open>check_violation\<close> for them.
\<close>

definition jobs_native_route_valid :: "job_row \<Rightarrow> bool" where
  "jobs_native_route_valid j \<longleftrightarrow>
     (j_route_job_type j = None \<and> j_work_kind j = None \<and> j_task_type j = None \<and>
      j_resume_job_type j = None \<and> j_task_input_ordinal j = None \<and> j_task_output_ordinal j = None \<and>
      j_task_input_hash j = None)
   \<or> (j_route_job_type j \<noteq> None \<and> j_route_job_type j \<noteq> Some '''' \<and>
      ((j_work_kind j = Some ''JOB'' \<and> j_task_type j = None \<and> j_resume_job_type j = None \<and>
        j_task_input_ordinal j = None \<and> j_task_output_ordinal j = None \<and> j_task_input_hash j = None)
      \<or> (j_work_kind j = Some ''TASK'' \<and> j_task_type j \<noteq> None \<and> j_task_type j \<noteq> Some '''' \<and>
        j_resume_job_type j \<noteq> None \<and> j_resume_job_type j \<noteq> Some '''' \<and>
        some_such (j_task_input_ordinal j) (\<lambda>n. n \<ge> 0) \<and>
        some_such (j_task_output_ordinal j) (\<lambda>n. n \<ge> 0) \<and>
        j_task_input_hash j \<noteq> None \<and> j_task_input_hash j \<noteq> Some '''')))"

definition jobs_lease_route_valid :: "job_row \<Rightarrow> bool" where
  "jobs_lease_route_valid j \<longleftrightarrow>
     (j_lease_route_job_type j = None \<and> j_lease_work_kind j = None \<and> j_lease_task_type j = None)
   \<or> (j_lease_id j \<noteq> None \<and> j_lease_route_job_type j \<noteq> None \<and> j_lease_route_job_type j \<noteq> Some '''' \<and>
      (j_lease_work_kind j = Some ''JOB'' \<or>
       (j_lease_work_kind j = Some ''TASK'' \<and> j_lease_task_type j \<noteq> None \<and>
        j_lease_task_type j \<noteq> Some '''')))"

text \<open>
  What the native operations keep of a row beyond the constraints: the route is present; a held
  lease carries its owner and the route it was granted on, and an unheld row carries none of them;
  an alternate route is complete, and a task alternate sits on a task route, whose coordinates it
  shares. Counters never go negative.
\<close>

definition lease_fields_ok :: "job_row \<Rightarrow> bool" where
  "lease_fields_ok j \<longleftrightarrow>
     (if j_lease_id j = None
      then j_lease_worker_id j = None \<and> j_lease_route_job_type j = None \<and>
        j_lease_work_kind j = None \<and> j_lease_task_type j = None \<and> j_lease_expires_at j = MinusInfinity
      else j_lease_worker_id j \<noteq> None \<and> j_lease_route_job_type j = j_route_job_type j \<and>
        j_lease_work_kind j = j_work_kind j \<and> j_lease_task_type j = j_task_type j)"

definition alternate_ok :: "job_row \<Rightarrow> bool" where
  "alternate_ok j \<longleftrightarrow>
     (if j_alternate_job_type j = None
      then j_alternate_task_type j = None \<and> j_alternate_after j = None \<and> j_alternate_at j = None
      else j_alternate_job_type j \<noteq> Some '''' \<and> some_such (j_alternate_after j) (\<lambda>s. s \<ge> 0) \<and>
        j_alternate_at j \<noteq> None \<and>
        (j_alternate_task_type j \<noteq> None \<longrightarrow>
           j_alternate_task_type j \<noteq> Some '''' \<and> j_work_kind j = Some ''TASK''))"

definition native_job_ok :: "job_row \<Rightarrow> bool" where
  "native_job_ok j \<longleftrightarrow> j_route_job_type j \<noteq> None \<and> jobs_native_route_valid j \<and> lease_fields_ok j \<and>
     alternate_ok j \<and> 0 \<le> j_consecutive_expirations j \<and> 0 \<le> j_lease_expiration_count j"

lemma native_job_ok_route_valid: "native_job_ok j \<Longrightarrow> jobs_native_route_valid j"
  by (simp add: native_job_ok_def)

lemma native_job_ok_lease_valid: "native_job_ok j \<Longrightarrow> jobs_lease_route_valid j"
  unfolding native_job_ok_def jobs_lease_route_valid_def lease_fields_ok_def jobs_native_route_valid_def
  by (cases "j_lease_id j = None") auto

end
