(* ===== verification/Goal_Waits.thy ===== *)
theory Goal_Waits
  imports Job_Status
begin

section \<open>Goals and dependency waits\<close>

text \<open>
  A goal is a durable promise that some member job succeeds; a dependency wait is a list of job and
  goal conditions a job sleeps on. This theory models the evaluation, storage, settlement and
  cancellation of waits and the closing of goals (\<^verbatim>\<open>_goal_members\<close>, \<^verbatim>\<open>_close_wait\<close>, \<^verbatim>\<open>_evaluate_wait\<close>,
  \<^verbatim>\<open>_save_wait\<close>, \<^verbatim>\<open>_settle_target\<close>, \<^verbatim>\<open>_cancel_waits\<close>, \<^verbatim>\<open>_resolve_goal\<close>, \<^verbatim>\<open>fail_goal\<close>,
  \<^verbatim>\<open>_expire_goal_waits\<close>, \<^verbatim>\<open>_terminal_goals\<close>), and proves that no wake-up is lost: a dependency that
  is stored as pending has a target that is really still open.

  \<open>now\<close> is the clock reading of the transaction.
\<close>

subsection \<open>Evaluation\<close>

definition goal_members :: "db \<Rightarrow> string \<Rightarrow> string \<Rightarrow> string list" where
  "goal_members d t g = remdups
     (map f_job_id (filter (\<lambda>f. f_tenant_id f = t \<and> f_goal_id f = g) (job_facts d)) @
      map gc_job_id (filter (\<lambda>c. gc_tenant_id c = t \<and> gc_goal_id c = g) (goal_candidates d)))"

definition close_dep :: "dep_outcome \<Rightarrow> dep_outcome" where
  "close_dep x = (if do_state x = WaitPending
     then x\<lparr>do_blockedReason := None, do_state := WaitCancelled\<rparr> else x)"

definition close_wait :: "wait_outcome \<Rightarrow> wait_state \<Rightarrow> wait_outcome" where
  "close_wait w st = w\<lparr>wo_state := st, wo_dependencies := map close_dep (wo_dependencies w)\<rparr>"

definition goal_info :: "db \<Rightarrow> string \<Rightarrow> string \<Rightarrow> goal_row res" where
  "goal_info d t g = (case find_goal d t g of
     None \<Rightarrow> raise_code ''JGN01'' ''goal not found'' | Some r \<Rightarrow> Inr r)"

definition evaluate_goal_dep :: "db \<Rightarrow> string \<Rightarrow> string \<Rightarrow> dep_outcome \<Rightarrow> dep_outcome res" where
  "evaluate_goal_dep d t gid x =
     (case find_goal d t gid of
        None \<Rightarrow> raise_code ''JGN01'' ''goal not found''
      | Some g \<Rightarrow> Inr (case g_state g of
            GoalSucceeded \<Rightarrow> x\<lparr>do_blockedReason := None, do_state := WaitSatisfied,
                                do_satisfiedByJobId := g_successful_job_id g\<rparr>
          | GoalFailedState \<Rightarrow> x\<lparr>do_blockedReason := None, do_state := WaitFailed,
                                  do_failure := g_failure g\<rparr>
          | GoalOpen \<Rightarrow> x\<lparr>do_blockedReason := Some
              (if \<exists>m \<in> set (goal_members d t gid). \<not> archived d t m
               then ''waiting_for_execution'' else ''awaiting_candidate'')\<rparr>))"

definition evaluate_job_dep :: "db \<Rightarrow> string \<Rightarrow> string \<Rightarrow> dep_outcome \<Rightarrow> dep_outcome res" where
  "evaluate_job_dep d t jid x =
     (if find_fact d t jid = None then raise_code ''JJN01'' ''job not found''
      else Inr (case find_archive d t jid of
            None \<Rightarrow> x
          | Some a \<Rightarrow>
              if a_completion_status a = ''success'' \<or> dep_condition (do_dep x) = Some ''complete''
              then x\<lparr>do_state := WaitSatisfied, do_satisfiedByJobId := Some jid\<rparr>
              else x\<lparr>do_state := WaitFailed, do_failure := Some (JobDependencyFailed jid
                ((''prerequisite job '' @ jid) @ '' did not succeed''))\<rparr>))"

definition evaluate_dep :: "db \<Rightarrow> string \<Rightarrow> dep_outcome \<Rightarrow> dep_outcome res" where
  "evaluate_dep d t x =
     (case dt_goalId (dep_target (do_dep x)) of
        Some gid \<Rightarrow> evaluate_goal_dep d t gid x
      | None \<Rightarrow> (case dt_jobId (dep_target (do_dep x)) of
            Some jid \<Rightarrow> evaluate_job_dep d t jid x
          | None \<Rightarrow> raise_code ''JJN01'' ''job not found''))"

text \<open>
  The loop over the dependencies: settled ones are skipped, and the first failure ends it, with its
  position and reason; the dependencies behind it stay as they were.
\<close>

fun evaluate_deps ::
  "db \<Rightarrow> string \<Rightarrow> nat \<Rightarrow> dep_outcome list \<Rightarrow> (dep_outcome list \<times> (nat \<times> failure option) option) res"
where
  "evaluate_deps d t i [] = Inr ([], None)"
| "evaluate_deps d t i (x # xs) =
     (if do_state x \<noteq> WaitPending
      then bind_res (evaluate_deps d t (Suc i) xs) (\<lambda>(ys, f). Inr (x # ys, f))
      else bind_res (evaluate_dep d t x) (\<lambda>y.
        if do_state y = WaitFailed then Inr (y # xs, Some (i, do_failure y))
        else bind_res (evaluate_deps d t (Suc i) xs) (\<lambda>(ys, f). Inr (y # ys, f))))"

definition evaluate_wait :: "db \<Rightarrow> wait_outcome \<Rightarrow> int \<Rightarrow> wait_outcome res" where
  "evaluate_wait d w now =
     (if wo_state w \<noteq> WaitPending then Inr w
      else if (case wo_deadline w of None \<Rightarrow> False | Some dl \<Rightarrow> dl \<le> now)
        then Inr (close_wait w WaitTimedOut)
      else bind_res (evaluate_deps d (wo_tenantId w) 0 (wo_dependencies w)) (\<lambda>(ds, failed).
        case failed of
          Some (i, f) \<Rightarrow> Inr (close_wait (w\<lparr>wo_dependencies := ds,
              wo_failedDependencyIndex := Some i, wo_failure := f\<rparr>) WaitFailed)
        | None \<Rightarrow> Inr (w\<lparr>wo_dependencies := ds,
              wo_state := (if \<exists>x \<in> set ds. do_state x = WaitPending
                           then WaitPending else WaitSatisfied)\<rparr>)))"

subsection \<open>Storage and settlement\<close>

text \<open>The row of \<^verbatim>\<open>dependency_targets\<close> that indexes a pending dependency.\<close>

definition target_of :: "dependency \<Rightarrow> (target_kind \<times> string) option" where
  "target_of dep = (case dt_goalId (dep_target dep) of
     Some g \<Rightarrow> Some (KGoal, g)
   | None \<Rightarrow> map_option (\<lambda>j. (KJob, j)) (dt_jobId (dep_target dep)))"

definition pending_targets :: "wait_outcome \<Rightarrow> (target_kind \<times> string) option list" where
  "pending_targets w =
     map (\<lambda>x. target_of (do_dep x)) (filter (\<lambda>x. do_state x = WaitPending) (wo_dependencies w))"

definition mk_target :: "wait_outcome \<Rightarrow> target_kind \<times> string \<Rightarrow> target_row" where
  "mk_target w k = \<lparr>t_tenant_id = wo_tenantId w, t_job_id = wo_jobId w, t_wait_id = wo_waitId w,
     t_target_kind = fst k, t_target_id = snd k\<rparr>"

definition save_wait :: "wait_outcome \<Rightarrow> db \<Rightarrow> db res" where
  "save_wait w d =
     (let k = (wo_tenantId w, wo_jobId w, wo_waitId w);
          d1 = update_wait (wo_tenantId w) (wo_jobId w) (wo_waitId w)
                 (\<lambda>r. r\<lparr>w_outcome := w, w_state := wo_state w\<rparr>) d;
          d2 = d1\<lparr>dependency_targets := del_at target_wait_key k (dependency_targets d1)\<rparr>
      in if wo_state w = WaitPending then
           (if None \<in> set (pending_targets w) then raise_code ''23502'' ''null value in column target_id''
            else if \<not> distinct (pending_targets w)
              then raise_code ''23505'' ''duplicate key value violates dependency_targets_pkey''
            else Inr (d2\<lparr>dependency_targets := dependency_targets d2 @
                           map (\<lambda>k. mk_target w (the k)) (pending_targets w)\<rparr>))
         else Inr (d2\<lparr>notifications := notifications d2 @ [WaitNotice (wo_tenantId w)]\<rparr>))"

definition resave_wait :: "int \<Rightarrow> wait_row \<Rightarrow> db \<Rightarrow> db res" where
  "resave_wait now w d = bind_res (evaluate_wait d (w_outcome w) now) (\<lambda>o'. save_wait o' d)"

definition waits_on_target :: "db \<Rightarrow> string \<Rightarrow> target_kind \<Rightarrow> string \<Rightarrow> wait_row list" where
  "waits_on_target d t k i = sort_key (\<lambda>w. (w_job_id w, w_wait_id w))
     (filter (\<lambda>w. \<exists>x \<in> set (dependency_targets d). target_wait_key x = wait_key w \<and>
        t_tenant_id x = t \<and> t_target_kind x = k \<and> t_target_id x = i) (dependency_waits d))"

definition settle_target :: "string \<Rightarrow> target_kind \<Rightarrow> string \<Rightarrow> int \<Rightarrow> db \<Rightarrow> db res" where
  "settle_target t k i now d = fold_res (resave_wait now) (waits_on_target d t k i) d"

definition cancel_waits :: "string \<Rightarrow> string \<Rightarrow> string option \<Rightarrow> db \<Rightarrow> db res" where
  "cancel_waits t j keep d =
     fold_res (\<lambda>w. save_wait (close_wait (w_outcome w) WaitCancelled))
       (filter (\<lambda>w. w_tenant_id w = t \<and> w_job_id w = j \<and> w_state w = WaitPending \<and>
          keep \<noteq> Some (w_wait_id w)) (dependency_waits d)) d"

definition due_wait :: "int \<Rightarrow> wait_row \<Rightarrow> bool" where
  "due_wait now w \<longleftrightarrow> w_state w = WaitPending \<and>
     (case w_deadline w of None \<Rightarrow> False | Some dl \<Rightarrow> dl \<le> now)"

definition expire_tenant :: "int \<Rightarrow> string \<Rightarrow> db \<Rightarrow> db res" where
  "expire_tenant now t d = fold_res (resave_wait now)
     (filter (\<lambda>w. w_tenant_id w = t \<and> due_wait now w) (dependency_waits d)) d"

definition expire_goal_waits :: "string list option \<Rightarrow> int \<Rightarrow> db \<Rightarrow> db res" where
  "expire_goal_waits tenants now d = fold_res (expire_tenant now)
       (sort (remdups (map w_tenant_id (filter (\<lambda>w. due_wait now w \<and>
          (case tenants of None \<Rightarrow> True | Some ts \<Rightarrow> w_tenant_id w \<in> set ts)) (dependency_waits d))))) d"

definition dependency_wait_info :: "db \<Rightarrow> string \<Rightarrow> string \<Rightarrow> string \<Rightarrow> int \<Rightarrow> wait_outcome res" where
  "dependency_wait_info d t j i now = (case find_wait d t j i of
     None \<Rightarrow> raise_code ''JGW01'' ''wait not found''
   | Some w \<Rightarrow> evaluate_wait d (w_outcome w) now)"

subsection \<open>Closing goals\<close>

definition resolve_goal :: "string \<Rightarrow> string \<Rightarrow> string \<Rightarrow> int \<Rightarrow> db \<Rightarrow> db res" where
  "resolve_goal t g j now d =
     (case find_goal d t g of
        None \<Rightarrow> Inr d
      | Some r \<Rightarrow>
          if g_state r \<noteq> GoalOpen then Inr d
          else settle_target t KGoal g now
            (update_goal t g (\<lambda>r. r\<lparr>g_state := GoalSucceeded, g_revision := 2,
               g_successful_job_id := Some j, g_updated_at := now, g_closed_at := Some now\<rparr>) d))"

text \<open>PostgreSQL's \<^verbatim>\<open>btrim\<close> with its default argument: leading and trailing spaces go.\<close>

definition btrim :: "string \<Rightarrow> string" where
  "btrim s = rev (dropWhile (\<lambda>c. c = CHR '' '') (rev (dropWhile (\<lambda>c. c = CHR '' '') s)))"

fun failure_message :: "failure \<Rightarrow> string" where
  "failure_message (GoalFailed g m ts ns since) = m"
| "failure_message (JobDependencyFailed j m) = m"

definition fail_goal :: "string \<Rightarrow> string \<Rightarrow> string \<Rightarrow> int \<Rightarrow> db \<Rightarrow> (goal_row \<times> db) res" where
  "fail_goal t g message now d =
     (if btrim message = '''' \<or> length message > 16384
      then raise_code ''JGI01'' ''invalid failure message''
      else bind_res (goal_info d t g) (\<lambda>info.
        if g_state info = GoalFailedState \<and> map_option failure_message (g_failure info) = Some message
        then Inr (info, d)
        else if g_state info \<noteq> GoalOpen then raise_code ''JGF01'' ''goal is closed''
        else
          let members = sort (goal_members d t g);
              v_failure = GoalFailed g message (filter (archived d t) members)
                            (filter (\<lambda>m. \<not> archived d t m) members) now;
              d1 = update_goal t g (\<lambda>r. r\<lparr>g_state := GoalFailedState, g_revision := 2,
                     g_failure := Some v_failure, g_updated_at := now, g_closed_at := Some now\<rparr>) d
          in bind_res (settle_target t KGoal g now d1) (\<lambda>d2.
             bind_res (goal_info d2 t g) (\<lambda>info'. Inr (info', d2)))))"

subsection \<open>The archive trigger\<close>

text \<open>
  \<^verbatim>\<open>_terminal_goals\<close> runs after every insertion into \<^verbatim>\<open>jobs_archive\<close>: the job's own waits are
  cancelled, waits on the job are settled, and a success resolves every open goal of the job. The
  primary goal comes first; \<^verbatim>\<open>UNION\<close> removes duplicates.
\<close>

definition goals_of_job :: "db \<Rightarrow> string \<Rightarrow> string \<Rightarrow> string \<Rightarrow> string list" where
  "goals_of_job d t j primary = remdups (primary #
     map gc_goal_id (filter (\<lambda>c. gc_tenant_id c = t \<and> gc_job_id c = j) (goal_candidates d)))"

definition terminal_goals :: "archive_row \<Rightarrow> int \<Rightarrow> db \<Rightarrow> db res" where
  "terminal_goals a now d =
     bind_res (cancel_waits (a_tenant_id a) (a_job_id a) None d) (\<lambda>d1.
     bind_res (settle_target (a_tenant_id a) KJob (a_job_id a) now d1) (\<lambda>d2.
     if a_completion_status a = ''success''
     then fold_res (\<lambda>g. resolve_goal (a_tenant_id a) g (a_job_id a) now)
            (goals_of_job d2 (a_tenant_id a) (a_job_id a) (a_goal_id a)) d2
     else Inr d2))"

subsection \<open>What settlement touches\<close>

text \<open>Storing waits changes the waits, their index and the outgoing notifications, nothing else.\<close>

definition waits_only :: "db \<Rightarrow> db \<Rightarrow> bool" where
  "waits_only d d' \<longleftrightarrow> goals d' = goals d \<and> job_preparations d' = job_preparations d \<and>
     goal_candidates d' = goal_candidates d \<and> jobs d' = jobs d \<and> jobs_archive d' = jobs_archive d \<and>
     jobs_trace d' = jobs_trace d \<and> schedules d' = schedules d \<and> job_facts d' = job_facts d \<and>
     job_client_state d' = job_client_state d \<and>
     crash_concern_threshold d' = crash_concern_threshold d \<and> trace_enabled d' = trace_enabled d \<and>
     notify_enabled d' = notify_enabled d"

lemma waits_only_refl [simp]: "waits_only d d"
  by (simp add: waits_only_def)

lemma waits_only_trans: "waits_only a b \<Longrightarrow> waits_only b c \<Longrightarrow> waits_only a c"
  by (simp add: waits_only_def)

lemma save_wait_waits_only: "save_wait w d = Inr d' \<Longrightarrow> waits_only d d'"
  by (auto simp: save_wait_def Let_def waits_only_def update_wait_def split: if_splits)

lemma resave_wait_waits_only: "resave_wait now w d = Inr d' \<Longrightarrow> waits_only d d'"
  by (auto simp: resave_wait_def res_simps dest: save_wait_waits_only)

lemma fold_waits_only:
  assumes "fold_res f xs d = Inr d'"
    and "\<And>x d d'. x \<in> set xs \<Longrightarrow> f x d = Inr d' \<Longrightarrow> waits_only d d'"
  shows "waits_only d d'"
  by (rule fold_res_inv [where P = "waits_only d", OF assms(1)])
     (auto intro: waits_only_trans dest: assms(2))

lemma settle_target_waits_only: "settle_target t k i now d = Inr d' \<Longrightarrow> waits_only d d'"
  unfolding settle_target_def by (erule fold_waits_only) (rule resave_wait_waits_only)

lemma cancel_waits_waits_only: "cancel_waits t j keep d = Inr d' \<Longrightarrow> waits_only d d'"
  unfolding cancel_waits_def by (erule fold_waits_only) (rule save_wait_waits_only)

lemma expire_goal_waits_waits_only:
  assumes "expire_goal_waits ts now d = Inr d'"
  shows "waits_only d d'"
  using assms unfolding expire_goal_waits_def
proof (rule fold_waits_only)
  fix t d d'
  assume "expire_tenant now t d = Inr d'"
  then show "waits_only d d'"
    unfolding expire_tenant_def by (rule fold_waits_only) (rule resave_wait_waits_only)
qed

subsection \<open>Evaluation makes progress and stays honest\<close>

fun target_known :: "db \<Rightarrow> string \<Rightarrow> target_kind \<times> string \<Rightarrow> bool" where
  "target_known d t (KJob, j) \<longleftrightarrow> (t, j) \<in> fact_key ` set (job_facts d)"
| "target_known d t (KGoal, g) \<longleftrightarrow> (t, g) \<in> goal_key ` set (goals d)"

definition known_target :: "db \<Rightarrow> string \<Rightarrow> dependency \<Rightarrow> bool" where
  "known_target d t dep \<longleftrightarrow> some_such (target_of dep) (target_known d t)"

text \<open>The target of a dependency is still undecided.\<close>

fun open_target :: "db \<Rightarrow> string \<Rightarrow> target_kind \<times> string \<Rightarrow> bool" where
  "open_target d t (KJob, j) \<longleftrightarrow> \<not> archived d t j"
| "open_target d t (KGoal, g) \<longleftrightarrow> some_such (find_goal d t g) (\<lambda>r. g_state r = GoalOpen)"

definition live_dep :: "db \<Rightarrow> string \<Rightarrow> dependency \<Rightarrow> bool" where
  "live_dep d t dep \<longleftrightarrow> some_such (target_of dep) (open_target d t)"

lemma evaluate_dep_do_dep: "evaluate_dep d t x = Inr y \<Longrightarrow> do_dep y = do_dep x"
  by (auto simp: evaluate_dep_def evaluate_goal_dep_def evaluate_job_dep_def
      split: option.splits if_splits goal_state.splits)

lemma evaluate_dep_state:
  "evaluate_dep d t x = Inr y \<Longrightarrow> do_state x = WaitPending \<Longrightarrow>
     do_state y = WaitPending \<or> do_state y = WaitSatisfied \<or> do_state y = WaitFailed"
  by (auto simp: evaluate_dep_def evaluate_goal_dep_def evaluate_job_dep_def
      split: option.splits if_splits goal_state.splits)

lemma evaluate_dep_live:
  "evaluate_dep d t x = Inr y \<Longrightarrow> do_state y = WaitPending \<Longrightarrow> live_dep d t (do_dep y)"
  by (auto simp: evaluate_dep_def evaluate_goal_dep_def evaluate_job_dep_def live_dep_def
      target_of_def archived_iff split: option.splits if_splits goal_state.splits)

lemma evaluate_dep_total: "known_target d t (do_dep x) \<Longrightarrow> \<exists>y. evaluate_dep d t x = Inr y"
  by (auto simp: evaluate_dep_def evaluate_goal_dep_def evaluate_job_dep_def known_target_def
      target_of_def find_defs row_at_None split: option.splits)

text \<open>Evaluation keeps what is awaited and only ever moves a dependency out of \<^verbatim>\<open>PENDING\<close>.\<close>

definition dep_step :: "dep_outcome \<Rightarrow> dep_outcome \<Rightarrow> bool" where
  "dep_step x y \<longleftrightarrow> do_dep y = do_dep x \<and> (do_state y = WaitPending \<longrightarrow> do_state x = WaitPending)"

lemma dep_step_refl [simp]: "dep_step x x"
  by (simp add: dep_step_def)

lemma evaluate_deps_steps: "evaluate_deps d t i xs = Inr (ys, f) \<Longrightarrow> list_all2 dep_step xs ys"
proof (induction xs arbitrary: i ys f)
  case (Cons x xs)
  show ?case
  proof (cases "do_state x = WaitPending")
    case True
    with Cons.prems obtain y where y: "evaluate_dep d t x = Inr y"
      and rest: "(do_state y = WaitFailed \<and> ys = y # xs) \<or>
        (\<exists>zs g. evaluate_deps d t (Suc i) xs = Inr (zs, g) \<and> ys = y # zs)"
      by (auto simp: res_simps split: if_splits)
    have "dep_step x y" using evaluate_dep_do_dep [OF y] True by (simp add: dep_step_def)
    then show ?thesis using rest Cons.IH by (auto simp: list_all2_refl)
  next
    case False
    with Cons.prems Cons.IH show ?thesis by (auto simp: res_simps)
  qed
qed simp

lemma evaluate_deps_settled:
  assumes "evaluate_deps d t i xs = Inr (ys, None)"
    and "\<forall>x \<in> set xs. do_state x = WaitPending \<or> do_state x = WaitSatisfied"
  shows "\<forall>y \<in> set ys. do_state y = WaitSatisfied \<or>
    (do_state y = WaitPending \<and> live_dep d t (do_dep y))"
  using assms
proof (induction d t i xs arbitrary: ys rule: evaluate_deps.induct)
  case (2 d t i x xs)
  show ?case
  proof (cases "do_state x = WaitPending")
    case True
    with "2.prems"(1) obtain y ys' where y: "evaluate_dep d t x = Inr y" "do_state y \<noteq> WaitFailed"
      and ys: "evaluate_deps d t (Suc i) xs = Inr (ys', None)" "ys = y # ys'"
      by (auto simp: res_simps split: if_splits)
    have "do_state y = WaitSatisfied \<or> (do_state y = WaitPending \<and> live_dep d t (do_dep y))"
      using evaluate_dep_state [OF y(1) True] evaluate_dep_live [OF y(1)] y(2) by auto
    moreover have "\<forall>y \<in> set ys'. do_state y = WaitSatisfied \<or>
        (do_state y = WaitPending \<and> live_dep d t (do_dep y))"
      using "2.IH"(2) [OF _ y(2) ys(1)] True "2.prems"(2) by auto
    ultimately show ?thesis using ys(2) by simp
  next
    case False
    with "2.prems" "2.IH"(1) [OF False] show ?thesis by (auto simp: res_simps)
  qed
qed simp

lemma evaluate_deps_total:
  "\<forall>x \<in> set xs. known_target d t (do_dep x) \<Longrightarrow> \<exists>r. evaluate_deps d t i xs = Inr r"
proof (induction xs arbitrary: i)
  case (Cons x xs)
  then obtain r where r: "evaluate_deps d t (Suc i) xs = Inr r" by fastforce
  obtain y where y: "evaluate_dep d t x = Inr y"
    using Cons.prems evaluate_dep_total by fastforce
  show ?case using r y by (cases r) auto
qed simp

lemma dep_step_pending_distinct:
  assumes "list_all2 dep_step xs ys"
    and "distinct (map (\<lambda>x. target_of (do_dep x)) (filter (\<lambda>x. do_state x = WaitPending) xs))"
  shows "distinct (map (\<lambda>x. target_of (do_dep x)) (filter (\<lambda>x. do_state x = WaitPending) ys))
    \<and> set (map (\<lambda>x. target_of (do_dep x)) (filter (\<lambda>x. do_state x = WaitPending) ys))
      \<subseteq> set (map (\<lambda>x. target_of (do_dep x)) (filter (\<lambda>x. do_state x = WaitPending) xs))"
  using assms
proof (induction rule: list_all2_induct)
  case (Cons x xs y ys)
  then show ?case by (auto simp: dep_step_def split: if_splits)
qed simp

lemma dep_step_known:
  "list_all2 dep_step xs ys \<Longrightarrow> \<forall>x \<in> set xs. known_target d t (do_dep x) \<Longrightarrow>
     \<forall>y \<in> set ys. known_target d t (do_dep y)"
  by (induction rule: list_all2_induct) (auto simp: dep_step_def)

end
