(* ===== verification/Wait_Safety.thy ===== *)
theory Wait_Safety
  imports Goal_Waits
begin

section \<open>No lost wake-up\<close>

text \<open>
  The invariant of the wait tables and its preservation by storage and settlement. \<open>waits_wf\<close> says
  that every stored outcome is well formed and that \<^verbatim>\<open>dependency_targets\<close> is exactly the index of
  the pending dependencies; \<open>waits_fresh\<close> says that a dependency stored as pending has a target that
  is still undecided. Closing a job or a goal breaks the second for the waits on it; settling that
  target restores it, and never raises.
\<close>

subsection \<open>The invariant\<close>

definition outcome_ok :: "db \<Rightarrow> wait_outcome \<Rightarrow> bool" where
  "outcome_ok d w \<longleftrightarrow>
     (wo_state w = WaitPending \<longrightarrow> pending_targets w \<noteq> [] \<and> distinct (pending_targets w) \<and>
        (\<forall>x \<in> set (wo_dependencies w). known_target d (wo_tenantId w) (do_dep x) \<and>
           (do_state x = WaitPending \<or> do_state x = WaitSatisfied)))"

definition outcome_key :: "wait_outcome \<Rightarrow> string \<times> string \<times> string" where
  "outcome_key w = (wo_tenantId w, wo_jobId w, wo_waitId w)"

definition row_ok :: "db \<Rightarrow> wait_row \<Rightarrow> bool" where
  "row_ok d w \<longleftrightarrow> outcome_key (w_outcome w) = wait_key w \<and> wo_state (w_outcome w) = w_state w \<and>
     wo_deadline (w_outcome w) = w_deadline w \<and> outcome_ok d (w_outcome w)"

definition targets_of :: "db \<Rightarrow> string \<times> string \<times> string \<Rightarrow> (target_kind \<times> string) list" where
  "targets_of d k = map (\<lambda>x. (t_target_kind x, t_target_id x))
     (filter (\<lambda>x. target_wait_key x = k) (dependency_targets d))"

definition index_ok :: "db \<Rightarrow> wait_row \<Rightarrow> bool" where
  "index_ok d w \<longleftrightarrow> map Some (targets_of d (wait_key w)) =
     (if w_state w = WaitPending then pending_targets (w_outcome w) else [])"

definition waits_wf :: "db \<Rightarrow> bool" where
  "waits_wf d \<longleftrightarrow> distinct (map wait_key (dependency_waits d)) \<and>
     (\<forall>w \<in> set (dependency_waits d). row_ok d w \<and> index_ok d w) \<and>
     target_wait_key ` set (dependency_targets d) \<subseteq> wait_key ` set (dependency_waits d)"

definition fresh_wait :: "db \<Rightarrow> wait_row \<Rightarrow> bool" where
  "fresh_wait d w \<longleftrightarrow> (w_state w = WaitPending \<longrightarrow>
     (\<forall>x \<in> set (wo_dependencies (w_outcome w)). do_state x = WaitPending \<longrightarrow>
        live_dep d (w_tenant_id w) (do_dep x)))"

definition waits_fresh :: "db \<Rightarrow> bool" where
  "waits_fresh d \<longleftrightarrow> (\<forall>w \<in> set (dependency_waits d). fresh_wait d w)"

definition pending_keys :: "db \<Rightarrow> (string \<times> string \<times> string) set" where
  "pending_keys d = wait_key ` {w \<in> set (dependency_waits d). w_state w = WaitPending}"

text \<open>Nothing is awaited afterwards that the same wait did not already await.\<close>

definition wait_le :: "wait_row \<Rightarrow> wait_row \<Rightarrow> bool" where
  "wait_le w' w \<longleftrightarrow> wait_key w' = wait_key w \<and> w_deadline w' = w_deadline w \<and> w_state w = WaitPending \<and>
     set (pending_targets (w_outcome w')) \<subseteq> set (pending_targets (w_outcome w))"

definition waits_shrink :: "db \<Rightarrow> db \<Rightarrow> bool" where
  "waits_shrink d d' \<longleftrightarrow> (\<forall>w' \<in> set (dependency_waits d'). w_state w' = WaitPending \<longrightarrow>
     (\<exists>w \<in> set (dependency_waits d). wait_le w' w))"

lemma waits_shrink_refl: "dependency_waits d' = dependency_waits d \<Longrightarrow> waits_shrink d d'"
  by (auto simp: waits_shrink_def wait_le_def)

lemma waits_shrink_trans:
  assumes "waits_shrink a b" "waits_shrink b c"
  shows "waits_shrink a c"
  unfolding waits_shrink_def
proof (intro ballI impI)
  fix w assume "w \<in> set (dependency_waits c)" "w_state w = WaitPending"
  then obtain v where v: "v \<in> set (dependency_waits b)" "wait_le w v"
    using assms(2) by (auto simp: waits_shrink_def)
  then obtain u where u: "u \<in> set (dependency_waits a)" "wait_le v u"
    using assms(1) by (auto simp: waits_shrink_def wait_le_def)
  show "\<exists>u \<in> set (dependency_waits a). wait_le w u"
    using v u by (intro bexI [of _ u]) (auto simp: wait_le_def)
qed

lemma waits_shrink_pending: "waits_shrink d d' \<Longrightarrow> pending_keys d' \<subseteq> pending_keys d"
  unfolding pending_keys_def waits_shrink_def wait_le_def by fastforce

subsection \<open>What the invariant reads\<close>

lemma target_known_mono:
  assumes "target_known d t k"
    and "fact_key ` set (job_facts d) \<subseteq> fact_key ` set (job_facts d')"
    and "goal_key ` set (goals d) \<subseteq> goal_key ` set (goals d')"
  shows "target_known d' t k"
  using assms by (cases "(d, t, k)" rule: target_known.cases) auto

lemma known_target_mono:
  assumes "known_target d t dep"
    and "fact_key ` set (job_facts d) \<subseteq> fact_key ` set (job_facts d')"
    and "goal_key ` set (goals d) \<subseteq> goal_key ` set (goals d')"
  shows "known_target d' t dep"
proof -
  from assms(1) obtain k where "target_of dep = Some k" "target_known d t k"
    by (auto simp: known_target_def)
  with target_known_mono [OF _ assms(2,3)] show ?thesis by (auto simp: known_target_def)
qed

lemma known_target_cong:
  assumes "goals d' = goals d" "job_facts d' = job_facts d"
  shows "known_target d' = known_target d"
  by (intro ext iffI; erule known_target_mono) (simp_all add: assms)

lemma outcome_ok_mono:
  assumes "outcome_ok d w"
    and "fact_key ` set (job_facts d) \<subseteq> fact_key ` set (job_facts d')"
    and "goal_key ` set (goals d) \<subseteq> goal_key ` set (goals d')"
  shows "outcome_ok d' w"
  using assms(1) known_target_mono [OF _ assms(2,3)] by (simp add: outcome_ok_def)

lemma waits_wf_mono:
  assumes "waits_wf d" and waits: "dependency_waits d' = dependency_waits d"
    and targets: "dependency_targets d' = dependency_targets d"
    and facts: "fact_key ` set (job_facts d) \<subseteq> fact_key ` set (job_facts d')"
    and goals: "goal_key ` set (goals d) \<subseteq> goal_key ` set (goals d')"
  shows "waits_wf d'"
proof -
  have "row_ok d' w" if "row_ok d w" for w
    using that outcome_ok_mono [OF _ facts goals] by (simp add: row_ok_def)
  moreover have "index_ok d' w = index_ok d w" for w
    by (simp add: index_ok_def targets_of_def targets)
  ultimately show ?thesis using assms(1) by (simp add: waits_wf_def waits targets)
qed

lemma open_target_cong:
  assumes "goals d' = goals d" "jobs_archive d' = jobs_archive d"
  shows "open_target d' t k = open_target d t k"
  by (cases "(d, t, k)" rule: open_target.cases) (simp_all add: archived_def find_goal_def assms)

lemma live_dep_cong:
  assumes "goals d' = goals d" "jobs_archive d' = jobs_archive d"
  shows "live_dep d' = live_dep d"
  by (intro ext) (simp add: live_dep_def open_target_cong [OF assms])

lemma fresh_wait_cong:
  assumes "goals d' = goals d" "jobs_archive d' = jobs_archive d"
  shows "fresh_wait d' = fresh_wait d"
  by (intro ext) (simp add: fresh_wait_def live_dep_cong [OF assms])

lemma waits_onlyD:
  assumes "waits_only d d'"
  shows "known_target d' = known_target d" "live_dep d' = live_dep d" "fresh_wait d' = fresh_wait d"
    "outcome_ok d' = outcome_ok d" "row_ok d' = row_ok d"
proof -
  have g: "goals d' = goals d" "job_facts d' = job_facts d" "jobs_archive d' = jobs_archive d"
    using assms by (simp_all add: waits_only_def)
  show k: "known_target d' = known_target d" by (rule known_target_cong) (simp_all add: g)
  show "live_dep d' = live_dep d" by (rule live_dep_cong) (simp_all add: g)
  show "fresh_wait d' = fresh_wait d" by (rule fresh_wait_cong) (simp_all add: g)
  show o: "outcome_ok d' = outcome_ok d" by (intro ext) (simp add: outcome_ok_def k)
  show "row_ok d' = row_ok d" by (intro ext) (simp add: row_ok_def o)
qed

subsection \<open>Evaluation\<close>

lemma known_target_of: "known_target d t dep \<Longrightarrow> target_of dep \<noteq> None"
  by (auto simp: known_target_def)

lemma close_dep_do_dep [simp]: "do_dep (close_dep x) = do_dep x"
  by (simp add: close_dep_def)

lemma close_wait_sel [simp]:
  "wo_tenantId (close_wait w st) = wo_tenantId w" "wo_jobId (close_wait w st) = wo_jobId w"
  "wo_waitId (close_wait w st) = wo_waitId w" "wo_deadline (close_wait w st) = wo_deadline w"
  "wo_state (close_wait w st) = st"
  "wo_dependencies (close_wait w st) = map close_dep (wo_dependencies w)"
  by (simp_all add: close_wait_def)

lemma close_wait_ok:
  "st \<noteq> WaitPending \<Longrightarrow> outcome_ok d (close_wait w st)"
  by (simp add: outcome_ok_def)

lemma pending_targets_state [simp]: "pending_targets (w\<lparr>wo_state := st\<rparr>) = pending_targets w"
  by (simp add: pending_targets_def)

lemma dep_step_pending_subset:
  assumes "list_all2 dep_step (wo_dependencies w) ys"
  shows "set (pending_targets (w\<lparr>wo_dependencies := ys\<rparr>)) \<subseteq> set (pending_targets w)"
proof -
  have "set (map (\<lambda>x. target_of (do_dep x)) (filter (\<lambda>x. do_state x = WaitPending) ys))
      \<subseteq> set (map (\<lambda>x. target_of (do_dep x)) (filter (\<lambda>x. do_state x = WaitPending) xs))"
    if "list_all2 dep_step xs ys" for xs ys
    using that by (induction rule: list_all2_induct) (auto simp: dep_step_def split: if_splits)
  then show ?thesis using assms by (simp add: pending_targets_def)
qed

text \<open>
  Evaluating a well-formed outcome never raises; the result is well formed, is about the same wait,
  and what it leaves pending is still undecided.
\<close>

definition evaluated :: "db \<Rightarrow> wait_outcome \<Rightarrow> wait_outcome \<Rightarrow> bool" where
  "evaluated d w v \<longleftrightarrow> outcome_ok d v \<and> outcome_key v = outcome_key w \<and>
     wo_deadline v = wo_deadline w \<and> (wo_state w \<noteq> WaitPending \<longrightarrow> v = w) \<and>
     (wo_state v = WaitPending \<longrightarrow> set (pending_targets v) \<subseteq> set (pending_targets w)) \<and>
     (wo_state v = WaitPending \<longrightarrow> (\<forall>x \<in> set (wo_dependencies v). do_state x = WaitPending \<longrightarrow>
        live_dep d (wo_tenantId v) (do_dep x)))"

lemma pending_targets_nonempty:
  "pending_targets w \<noteq> [] \<longleftrightarrow> (\<exists>x \<in> set (wo_dependencies w). do_state x = WaitPending)"
  by (auto simp: pending_targets_def filter_empty_conv)

lemma evaluate_wait_evaluated:
  assumes ok: "outcome_ok d w"
  shows "\<exists>v. evaluate_wait d w now = Inr v \<and> evaluated d w v"
proof (cases "wo_state w = WaitPending")
  case False
  then show ?thesis using ok by (simp add: evaluate_wait_def evaluated_def)
next
  case pending: True
  show ?thesis
  proof (cases "case wo_deadline w of None \<Rightarrow> False | Some dl \<Rightarrow> dl \<le> now")
    case True
    then show ?thesis using pending close_wait_ok [of WaitTimedOut d w]
      by (simp add: evaluate_wait_def evaluated_def outcome_key_def)
  next
    case False
    have known: "\<forall>x \<in> set (wo_dependencies w). known_target d (wo_tenantId w) (do_dep x)"
      using ok pending by (simp add: outcome_ok_def)
    obtain ys f where ys: "evaluate_deps d (wo_tenantId w) 0 (wo_dependencies w) = Inr (ys, f)"
      using evaluate_deps_total [OF known] by (metis surj_pair)
    note steps = evaluate_deps_steps [OF ys]
    have known': "\<forall>y \<in> set ys. known_target d (wo_tenantId w) (do_dep y)"
      by (rule dep_step_known [OF steps known])
    show ?thesis
    proof (cases f)
      case (Some p)
      then show ?thesis using pending False ys known'
        by (cases p) (simp add: evaluate_wait_def evaluated_def outcome_key_def outcome_ok_def)
    next
      case None
      let ?v = "w\<lparr>wo_dependencies := ys,
        wo_state := (if \<exists>x \<in> set ys. do_state x = WaitPending then WaitPending else WaitSatisfied)\<rparr>"
      have settled: "\<forall>y \<in> set ys. do_state y = WaitSatisfied \<or>
          (do_state y = WaitPending \<and> live_dep d (wo_tenantId w) (do_dep y))"
        using evaluate_deps_settled [of d "wo_tenantId w" 0] ys None ok pending
        by (simp add: outcome_ok_def)
      have "pending_targets ?v = pending_targets (w\<lparr>wo_dependencies := ys\<rparr>)"
        by (simp add: pending_targets_def)
      moreover have "distinct (pending_targets (w\<lparr>wo_dependencies := ys\<rparr>)) \<and>
          set (pending_targets (w\<lparr>wo_dependencies := ys\<rparr>)) \<subseteq> set (pending_targets w)"
        using dep_step_pending_distinct [OF steps] ok pending
        by (simp add: outcome_ok_def pending_targets_def)
      moreover have "\<forall>y \<in> set (wo_dependencies ?v). do_state y = WaitPending \<or> do_state y = WaitSatisfied"
        using settled by auto
      ultimately have "outcome_ok d ?v" and sub: "set (pending_targets ?v) \<subseteq> set (pending_targets w)"
        using known' by (simp_all only: outcome_ok_def pending_targets_nonempty) simp
      then have "evaluated d w ?v"
        using settled pending by (auto simp: evaluated_def outcome_key_def)
      then show ?thesis using pending False ys None by (simp add: evaluate_wait_def)
    qed
  qed
qed

subsection \<open>Storage\<close>

text \<open>The rows after storing an outcome, and the index of a wait after it.\<close>

lemma save_wait_rows:
  assumes "save_wait v d = Inr d'"
  shows "dependency_waits d' = upd_at wait_key (outcome_key v)
    (\<lambda>r. r\<lparr>w_outcome := v, w_state := wo_state v\<rparr>) (dependency_waits d)"
  using assms by (auto simp: save_wait_def Let_def update_wait_def outcome_key_def split: if_splits)

lemma targets_of_mk_target:
  "map Some (map (\<lambda>x. (t_target_kind x, t_target_id x)) (filter (\<lambda>x. target_wait_key x = k)
     (map (\<lambda>k. mk_target v (the k)) ts))) =
   (if k = outcome_key v then map (\<lambda>x. Some (the x)) ts else [])"
  by (induction ts) (auto simp: mk_target_def target_wait_key_def outcome_key_def)

lemma save_wait_index:
  assumes "save_wait v d = Inr d'"
  shows "map Some (targets_of d' k) =
    (if k = outcome_key v then (if wo_state v = WaitPending then pending_targets v else [])
     else map Some (targets_of d k))"
proof -
  have idem: "map (\<lambda>x. Some (the x)) (pending_targets v) = pending_targets v"
    if "None \<notin> set (pending_targets v)"
    using that by (intro map_idI) (metis option.collapse)
  show ?thesis
    using assms idem targets_of_mk_target [of k v "pending_targets v"]
    by (auto simp: save_wait_def Let_def targets_of_def filter_del_at update_wait_def outcome_key_def
        split: if_splits)
qed

lemma save_wait_total: "outcome_ok d v \<Longrightarrow> \<exists>d'. save_wait v d = Inr d'"
  by (auto simp: save_wait_def Let_def outcome_ok_def pending_targets_def known_target_def)

lemma save_wait_targets_subset:
  assumes "save_wait v d = Inr d'"
  shows "target_wait_key ` set (dependency_targets d') \<subseteq>
    target_wait_key ` set (dependency_targets d) \<union> {outcome_key v}"
  using assms
  by (auto simp: save_wait_def Let_def update_wait_def outcome_key_def target_wait_key_def mk_target_def
      split: if_splits)

text \<open>Storing needs the invariant only of the other waits.\<close>

definition waits_wf_but :: "string \<times> string \<times> string \<Rightarrow> db \<Rightarrow> bool" where
  "waits_wf_but k d \<longleftrightarrow> distinct (map wait_key (dependency_waits d)) \<and>
     (\<forall>w \<in> set (dependency_waits d). wait_key w \<noteq> k \<longrightarrow> row_ok d w \<and> index_ok d w) \<and>
     target_wait_key ` set (dependency_targets d) \<subseteq> wait_key ` set (dependency_waits d)"

lemma waits_wf_imp_but: "waits_wf d \<Longrightarrow> waits_wf_but k d"
  by (simp add: waits_wf_def waits_wf_but_def)

lemma save_wait_wf:
  assumes wf: "waits_wf_but (outcome_key v) d" and save: "save_wait v d = Inr d'" and ok: "outcome_ok d v"
    and r: "r \<in> set (dependency_waits d)" "wait_key r = outcome_key v" "wo_deadline v = w_deadline r"
  shows "waits_wf d'"
proof -
  let ?f = "\<lambda>r. r\<lparr>w_outcome := v, w_state := wo_state v\<rparr>"
  note rows = save_wait_rows [OF save]
  note ctx = waits_onlyD [OF save_wait_waits_only [OF save]]
  have keys: "map wait_key (dependency_waits d') = map wait_key (dependency_waits d)"
    unfolding rows by (rule map_key_upd_at) (simp add: wait_key_def)
  have only: "r0 = r" if "r0 \<in> set (dependency_waits d)" "wait_key r0 = outcome_key v" for r0
    using wf r that row_at_iff [of wait_key "dependency_waits d"] unfolding waits_wf_but_def
    by (metis option.inject)
  have "row_ok d' w \<and> index_ok d' w" if "w \<in> set (dependency_waits d')" for w
    using that unfolding rows
  proof (cases rule: set_upd_at_cases)
    case 1
    then show ?thesis using wf save_wait_index [OF save]
      by (simp add: waits_wf_but_def index_ok_def ctx)
  next
    case (2 r0)
    then have "w = ?f r" using only by simp
    then show ?thesis using r ok save_wait_index [OF save, of "outcome_key v"]
      by (simp add: row_ok_def index_ok_def ctx wait_key_def outcome_key_def)
  qed
  moreover have "target_wait_key ` set (dependency_targets d') \<subseteq> wait_key ` set (dependency_waits d')"
  proof -
    have "set (map wait_key (dependency_waits d')) = set (map wait_key (dependency_waits d))"
      by (simp only: keys)
    then have "wait_key ` set (dependency_waits d') = wait_key ` set (dependency_waits d)" by simp
    moreover have "outcome_key v \<in> wait_key ` set (dependency_waits d)"
      using r(1,2) by (intro image_eqI [of _ _ r]) simp_all
    moreover have "target_wait_key ` set (dependency_targets d) \<subseteq> wait_key ` set (dependency_waits d)"
      using wf by (simp add: waits_wf_but_def)
    ultimately show ?thesis
      by (intro subset_trans [OF save_wait_targets_subset [OF save]]) (simp add: Un_least)
  qed
  ultimately show ?thesis using wf keys by (simp add: waits_wf_def waits_wf_but_def)
qed

subsection \<open>Loops that store outcomes\<close>

text \<open>
  Both loops over waits (re-evaluation and cancellation) store one outcome per row. \<open>stores Q\<close> is
  their contract on a row, and \<open>save_fold\<close> what a whole loop does under it.
\<close>

definition stores :: "(wait_row \<Rightarrow> wait_outcome \<Rightarrow> bool) \<Rightarrow> (wait_row \<Rightarrow> db \<Rightarrow> db res) \<Rightarrow> db \<Rightarrow> wait_row \<Rightarrow> bool"
  where
  "stores Q f d w \<longleftrightarrow> (\<forall>e. waits_only d e \<longrightarrow> (\<exists>v. f w e = save_wait v e \<and> outcome_ok d v \<and>
     outcome_key v = wait_key w \<and> wo_deadline v = w_deadline w \<and> Q w v))"

definition stored_rows ::
  "(wait_row \<Rightarrow> wait_outcome \<Rightarrow> bool) \<Rightarrow> wait_row list \<Rightarrow> db \<Rightarrow> db \<Rightarrow> bool" where
  "stored_rows Q xs d d' \<longleftrightarrow> waits_wf d' \<and> waits_only d d' \<and>
     map wait_key (dependency_waits d') = map wait_key (dependency_waits d) \<and>
     (\<forall>w \<in> set (dependency_waits d').
        (wait_key w \<notin> wait_key ` set xs \<and> w \<in> set (dependency_waits d)) \<or>
        (\<exists>x \<in> set xs. wait_key x = wait_key w \<and> Q x (w_outcome w)))"

lemma stores_waits_only: "stores Q f d w \<Longrightarrow> waits_only d e \<Longrightarrow> stores Q f e w"
  unfolding stores_def by (metis waits_onlyD(4) waits_only_trans)

lemma store_one:
  assumes wf: "waits_wf d" and st: "stores Q f d w"
    and r: "r \<in> set (dependency_waits d)" "wait_key r = wait_key w" "w_deadline r = w_deadline w"
  shows "\<exists>d'. f w d = Inr d' \<and> stored_rows Q [w] d d' \<and>
    (\<forall>r \<in> set (dependency_waits d). \<exists>r' \<in> set (dependency_waits d').
       wait_key r' = wait_key r \<and> w_deadline r' = w_deadline r)"
proof -
  obtain v where v: "f w d = save_wait v d" "outcome_ok d v" "outcome_key v = wait_key w"
      "wo_deadline v = w_deadline w" "Q w v"
    using st unfolding stores_def by (meson waits_only_refl)
  obtain d' where save: "save_wait v d = Inr d'" using save_wait_total [OF v(2)] by blast
  have rows: "dependency_waits d' = upd_at wait_key (wait_key w)
      (\<lambda>r. r\<lparr>w_outcome := v, w_state := wo_state v\<rparr>) (dependency_waits d)"
    using save_wait_rows [OF save] v(3) by simp
  have "waits_wf d'"
    by (rule save_wait_wf [OF waits_wf_imp_but [OF wf] save v(2) r(1)]) (simp_all add: v r)
  moreover have "map wait_key (dependency_waits d') = map wait_key (dependency_waits d)"
    unfolding rows by (rule map_key_upd_at) (simp add: wait_key_def)
  moreover have "(wait_key u \<notin> wait_key ` set [w] \<and> u \<in> set (dependency_waits d)) \<or>
      (\<exists>x \<in> set [w]. wait_key x = wait_key u \<and> Q x (w_outcome u))"
    if "u \<in> set (dependency_waits d')" for u
    using that unfolding rows by (cases rule: set_upd_at_cases) (auto simp: v wait_key_def)
  moreover have "\<exists>r' \<in> set (dependency_waits d'). wait_key r' = wait_key r \<and> w_deadline r' = w_deadline r"
    if "r \<in> set (dependency_waits d)" for r
    by (rule bexI [of _ "if wait_key r = wait_key w then r\<lparr>w_outcome := v, w_state := wo_state v\<rparr> else r"])
       (use that in \<open>auto simp: rows upd_at_def wait_key_def\<close>)
  ultimately show ?thesis
    using save v(1) save_wait_waits_only [OF save] by (auto simp: stored_rows_def)
qed

lemma save_fold:
  assumes "waits_wf d" and "\<forall>w \<in> set xs. stores Q f d w"
    and "\<forall>w \<in> set xs. \<exists>r \<in> set (dependency_waits d). wait_key r = wait_key w \<and> w_deadline r = w_deadline w"
  shows "\<exists>d'. fold_res f xs d = Inr d' \<and> stored_rows Q xs d d'"
  using assms
proof (induction xs arbitrary: d)
  case Nil
  then show ?case by (simp add: stored_rows_def)
next
  case (Cons w xs)
  from Cons.prems obtain r where r: "r \<in> set (dependency_waits d)" "wait_key r = wait_key w"
      "w_deadline r = w_deadline w" by auto
  obtain d1 where d1: "f w d = Inr d1" "stored_rows Q [w] d d1"
    and kept: "\<forall>r \<in> set (dependency_waits d). \<exists>r' \<in> set (dependency_waits d1).
       wait_key r' = wait_key r \<and> w_deadline r' = w_deadline r"
    using store_one [OF Cons.prems(1) _ r, of Q f] Cons.prems(2) by auto
  have "\<forall>w \<in> set xs. stores Q f d1 w"
    using Cons.prems(2) d1(2) stores_waits_only by (auto simp: stored_rows_def)
  moreover have "\<forall>w \<in> set xs. \<exists>r \<in> set (dependency_waits d1). wait_key r = wait_key w \<and> w_deadline r = w_deadline w"
    using Cons.prems(3) kept by (metis list.set_intros(2))
  ultimately obtain d2 where d2: "fold_res f xs d1 = Inr d2" "stored_rows Q xs d1 d2"
    using Cons.IH [of d1] d1(2) by (auto simp: stored_rows_def)
  have "stored_rows Q (w # xs) d d2"
    using d1(2) d2(2) waits_only_trans unfolding stored_rows_def
    by (simp add: image_iff) (metis (lifting))
  then show ?case using d1(1) d2(1) by simp
qed

lemma evaluated_waits_only: "waits_only d e \<Longrightarrow> evaluated e = evaluated d"
  by (intro ext) (simp add: evaluated_def waits_onlyD)

lemma resave_stores:
  assumes "row_ok d w"
  shows "stores (\<lambda>w. evaluated d (w_outcome w)) (resave_wait now) d w"
  unfolding stores_def
proof (intro allI impI)
  fix e assume e: "waits_only d e"
  then have "outcome_ok e (w_outcome w)" using assms by (simp add: row_ok_def waits_onlyD)
  from evaluate_wait_evaluated [OF this]
  obtain v where v: "evaluate_wait e (w_outcome w) now = Inr v" "evaluated e (w_outcome w) v" by blast
  have "evaluated d (w_outcome w) v" using v(2) evaluated_waits_only [OF e] by simp
  with v(1) assms show "\<exists>v. resave_wait now w e = save_wait v e \<and> outcome_ok d v \<and>
      outcome_key v = wait_key w \<and> wo_deadline v = w_deadline w \<and> evaluated d (w_outcome w) v"
    by (intro exI [of _ v]) (simp add: resave_wait_def evaluated_def row_ok_def)
qed

lemma cancel_stores:
  assumes "row_ok d w"
  shows "stores (\<lambda>w v. v = close_wait (w_outcome w) WaitCancelled)
    (\<lambda>w. save_wait (close_wait (w_outcome w) WaitCancelled)) d w"
  using assms close_wait_ok [of WaitCancelled d "w_outcome w"]
  by (auto simp: stores_def row_ok_def outcome_key_def)

subsection \<open>Settlement\<close>

text \<open>Every pending dependency is undecided, except those on one target of one tenant.\<close>

definition fresh_except :: "db \<Rightarrow> string \<Rightarrow> target_kind \<times> string \<Rightarrow> bool" where
  "fresh_except d t k \<longleftrightarrow> (\<forall>w \<in> set (dependency_waits d). w_state w = WaitPending \<longrightarrow>
     (\<forall>x \<in> set (wo_dependencies (w_outcome w)). do_state x = WaitPending \<longrightarrow>
        live_dep d (w_tenant_id w) (do_dep x) \<or>
        (w_tenant_id w = t \<and> target_of (do_dep x) = Some k)))"

lemma fresh_is_fresh_except: "waits_fresh d \<Longrightarrow> fresh_except d t k"
  by (simp add: waits_fresh_def fresh_wait_def fresh_except_def)

text \<open>What a loop over waits leaves: the same waits, none newly pending.\<close>

definition waits_settle :: "db \<Rightarrow> db \<Rightarrow> bool" where
  "waits_settle d d' \<longleftrightarrow> waits_wf d' \<and> waits_only d d' \<and> waits_shrink d d' \<and>
     map wait_key (dependency_waits d') = map wait_key (dependency_waits d)"

lemma waits_settle_trans: "waits_settle a b \<Longrightarrow> waits_settle b c \<Longrightarrow> waits_settle a c"
  by (auto simp: waits_settle_def intro: waits_only_trans waits_shrink_trans)

lemma waits_settle_refl: "waits_wf d \<Longrightarrow> waits_settle d d"
  by (simp add: waits_settle_def waits_shrink_refl)

lemma stored_rows_settle:
  assumes st: "stored_rows Q xs d d'" and xs: "set xs \<subseteq> set (dependency_waits d)"
    and q: "\<And>x v. x \<in> set xs \<Longrightarrow> Q x v \<Longrightarrow> wo_state v = WaitPending \<Longrightarrow> w_state x = WaitPending \<and>
      wo_deadline v = w_deadline x \<and> set (pending_targets v) \<subseteq> set (pending_targets (w_outcome x))"
  shows "waits_settle d d'"
proof -
  have "\<exists>u \<in> set (dependency_waits d). wait_le w u"
    if w: "w \<in> set (dependency_waits d')" "w_state w = WaitPending" for w
  proof (cases "wait_key w \<notin> wait_key ` set xs \<and> w \<in> set (dependency_waits d)")
    case True
    then show ?thesis using w by (auto simp: wait_le_def)
  next
    case False
    then obtain x where x: "x \<in> set xs" "wait_key x = wait_key w" "Q x (w_outcome w)"
      using st w unfolding stored_rows_def by meson
    have "wo_state (w_outcome w) = WaitPending" "wo_deadline (w_outcome w) = w_deadline w"
      using st w by (simp_all add: stored_rows_def waits_wf_def row_ok_def)
    then have "wait_le w x" using q [OF x(1,3)] x(2) by (simp add: wait_le_def)
    then show ?thesis using x(1) xs by blast
  qed
  then show ?thesis using st by (simp add: waits_settle_def stored_rows_def waits_shrink_def)
qed

lemma resave_fold:
  assumes wf: "waits_wf d" and xs: "set xs \<subseteq> set (dependency_waits d)"
  shows "\<exists>d'. fold_res (resave_wait now) xs d = Inr d' \<and> waits_settle d d' \<and>
    (\<forall>w \<in> set (dependency_waits d').
       if wait_key w \<in> wait_key ` set xs then fresh_wait d' w else w \<in> set (dependency_waits d))"
proof -
  have ok: "\<forall>w \<in> set xs. row_ok d w" using wf xs by (auto simp: waits_wf_def)
  then obtain d' where d': "fold_res (resave_wait now) xs d = Inr d'"
      "stored_rows (\<lambda>w. evaluated d (w_outcome w)) xs d d'"
    using save_fold [OF wf, of xs] resave_stores xs by blast
  have "waits_settle d d'"
    by (rule stored_rows_settle [OF d'(2) xs]) (use ok in \<open>auto simp: evaluated_def row_ok_def\<close>)
  moreover have "fresh_wait d' w" if "w \<in> set (dependency_waits d')" "x \<in> set xs"
      "evaluated d (w_outcome x) (w_outcome w)" for w x
  proof -
    have row: "row_ok d' w" using d'(2) that by (simp add: stored_rows_def waits_wf_def)
    have "live_dep d' = live_dep d" using d'(2) waits_onlyD(2) by (simp add: stored_rows_def)
    then show ?thesis using row that
      by (auto simp: fresh_wait_def evaluated_def row_ok_def outcome_key_def wait_key_def)
  qed
  ultimately have "if wait_key w \<in> wait_key ` set xs then fresh_wait d' w else w \<in> set (dependency_waits d)"
    if "w \<in> set (dependency_waits d')" for w
    using d'(2) that unfolding stored_rows_def by (metis image_eqI)
  then show ?thesis using d'(1) \<open>waits_settle d d'\<close> by blast
qed

lemma pending_target_indexed:
  assumes "waits_wf d" "w \<in> set (dependency_waits d)" "w_state w = WaitPending"
    and "x \<in> set (wo_dependencies (w_outcome w))" "do_state x = WaitPending"
    and "target_of (do_dep x) = Some (k, i)"
  shows "\<exists>r \<in> set (dependency_targets d). target_wait_key r = wait_key w \<and>
    t_tenant_id r = w_tenant_id w \<and> t_target_kind r = k \<and> t_target_id r = i"
proof -
  have "Some (k, i) \<in> set (pending_targets (w_outcome w))"
    using assms(4-6) unfolding pending_targets_def set_map by (intro image_eqI [of _ _ x]) simp_all
  moreover have "pending_targets (w_outcome w) = map Some (targets_of d (wait_key w))"
    using assms(1-3) by (simp add: waits_wf_def index_ok_def)
  ultimately have "(k, i) \<in> set (targets_of d (wait_key w))" by auto
  then show ?thesis by (auto simp: targets_of_def target_wait_key_def wait_key_def)
qed

lemma settle_target_ok:
  assumes wf: "waits_wf d" and fresh: "fresh_except d t (k, i)"
  shows "\<exists>d'. settle_target t k i now d = Inr d' \<and> waits_settle d d' \<and> waits_fresh d'"
proof -
  let ?xs = "waits_on_target d t k i"
  have xs: "set ?xs \<subseteq> set (dependency_waits d)" by (auto simp: waits_on_target_def)
  obtain d' where d': "fold_res (resave_wait now) ?xs d = Inr d'" "waits_settle d d'"
    and rows: "\<forall>w \<in> set (dependency_waits d').
       if wait_key w \<in> wait_key ` set ?xs then fresh_wait d' w else w \<in> set (dependency_waits d)"
    using resave_fold [OF wf xs] by blast
  have "live_dep d (w_tenant_id w) (do_dep x)"
    if w: "w \<in> set (dependency_waits d)" "wait_key w \<notin> wait_key ` set ?xs"
      "w_state w = WaitPending" "x \<in> set (wo_dependencies (w_outcome w))" "do_state x = WaitPending" for w x
  proof (rule ccontr)
    assume "\<not> ?thesis"
    then have "w_tenant_id w = t" "target_of (do_dep x) = Some (k, i)"
      using fresh w by (auto simp: fresh_except_def)
    then have "w \<in> set ?xs"
      using pending_target_indexed [OF wf w(1,3-5)] w(1) by (auto simp: waits_on_target_def)
    then show False using w(2) by blast
  qed
  then have old: "fresh_wait d w" if "w \<in> set (dependency_waits d)" "wait_key w \<notin> wait_key ` set ?xs" for w
    using that by (simp add: fresh_wait_def)
  have "fresh_wait d' w" if "w \<in> set (dependency_waits d')" for w
    using rows that old waits_onlyD(3) [of d d'] d'(2) by (auto simp: waits_settle_def split: if_splits)
  then show ?thesis using d' by (auto simp: settle_target_def waits_fresh_def)
qed

lemma waits_settle_fresh_except:
  assumes "stored_rows Q xs d d'" "fresh_except d t k"
    and "\<And>x v. x \<in> set xs \<Longrightarrow> Q x v \<Longrightarrow> wo_state v \<noteq> WaitPending"
  shows "fresh_except d' t k"
proof -
  have live: "live_dep d' = live_dep d" using assms(1) waits_onlyD(2) by (simp add: stored_rows_def)
  have "w \<in> set (dependency_waits d)"
    if w: "w \<in> set (dependency_waits d')" "w_state w = WaitPending" for w
  proof -
    have "wo_state (w_outcome w) = WaitPending"
      using assms(1) w by (simp add: stored_rows_def waits_wf_def row_ok_def)
    then show ?thesis using assms(1,3) w unfolding stored_rows_def by metis
  qed
  then show ?thesis using assms(2) by (auto simp: fresh_except_def live)
qed

text \<open>Cancelling the waits of a job leaves none of them pending, except the one kept.\<close>

lemma cancel_waits_ok:
  assumes wf: "waits_wf d"
  shows "\<exists>d'. cancel_waits t j keep d = Inr d' \<and> waits_settle d d' \<and>
    (\<forall>i. (t, j, i) \<in> pending_keys d' \<longrightarrow> keep = Some i) \<and>
    (\<forall>t' k. fresh_except d t' k \<longrightarrow> fresh_except d' t' k) \<and> (waits_fresh d \<longrightarrow> waits_fresh d')"
proof -
  let ?xs = "filter (\<lambda>w. w_tenant_id w = t \<and> w_job_id w = j \<and> w_state w = WaitPending \<and>
    keep \<noteq> Some (w_wait_id w)) (dependency_waits d)"
  let ?Q = "\<lambda>w v. v = close_wait (w_outcome w) WaitCancelled"
  have xs: "set ?xs \<subseteq> set (dependency_waits d)" by auto
  have "\<forall>w \<in> set ?xs. stores ?Q (\<lambda>w. save_wait (close_wait (w_outcome w) WaitCancelled)) d w"
    using wf by (intro ballI cancel_stores) (auto simp: waits_wf_def)
  from save_fold [OF wf this] obtain d' where
    d': "cancel_waits t j keep d = Inr d'" "stored_rows ?Q ?xs d d'"
    unfolding cancel_waits_def by auto
  have settle: "waits_settle d d'" by (rule stored_rows_settle [OF d'(2) xs]) auto
  have pend: "w \<in> set (dependency_waits d) \<and> wait_key w \<notin> wait_key ` set ?xs"
    if w: "w \<in> set (dependency_waits d')" "w_state w = WaitPending" for w
  proof -
    have "wo_state (w_outcome w) = WaitPending"
      using d'(2) w by (simp add: stored_rows_def waits_wf_def row_ok_def)
    then have "\<not> ?Q x (w_outcome w)" for x by auto
    then show ?thesis using d'(2) w unfolding stored_rows_def by blast
  qed
  have "keep = Some i" if pk: "(t, j, i) \<in> pending_keys d'" for i
  proof (rule ccontr)
    assume keep: "keep \<noteq> Some i"
    from pk obtain w where w: "w \<in> set (dependency_waits d')" "w_state w = WaitPending"
        "wait_key w = (t, j, i)" by (auto simp: pending_keys_def)
    then have "w \<in> set ?xs" using pend [OF w(1,2)] keep by (simp add: wait_key_def)
    then show False using pend [OF w(1,2)] by blast
  qed
  moreover have "fresh_except d' t' k" if "fresh_except d t' k" for t' k
    by (rule waits_settle_fresh_except [OF d'(2) that]) simp
  moreover have "waits_fresh d'" if "waits_fresh d"
  proof -
    have "live_dep d' = live_dep d" using d'(2) waits_onlyD(2) by (simp add: stored_rows_def)
    then show ?thesis using that pend by (auto simp: waits_fresh_def fresh_wait_def)
  qed
  ultimately show ?thesis using d'(1) settle by blast
qed

lemma expire_tenant_ok:
  assumes wf: "waits_wf d" and fresh: "waits_fresh d"
  shows "\<exists>d'. expire_tenant now t d = Inr d' \<and> waits_settle d d' \<and> waits_fresh d'"
proof -
  let ?xs = "filter (\<lambda>w. w_tenant_id w = t \<and> due_wait now w) (dependency_waits d)"
  have xs: "set ?xs \<subseteq> set (dependency_waits d)" by auto
  from resave_fold [OF wf xs, of now] obtain d' where
    d': "fold_res (resave_wait now) ?xs d = Inr d'" "waits_settle d d'"
    and rows: "\<forall>w \<in> set (dependency_waits d').
      if wait_key w \<in> wait_key ` set ?xs then fresh_wait d' w else w \<in> set (dependency_waits d)" by blast
  have "fresh_wait d' = fresh_wait d" using d'(2) waits_onlyD(3) by (simp add: waits_settle_def)
  then have "waits_fresh d'" using rows fresh by (auto simp: waits_fresh_def split: if_splits)
  then show ?thesis using d' by (auto simp: expire_tenant_def)
qed

lemma expire_goal_waits_ok:
  assumes "waits_wf d" "waits_fresh d"
  shows "\<exists>d'. expire_goal_waits ts now d = Inr d' \<and> waits_settle d d' \<and> waits_fresh d'"
proof -
  have "\<exists>d'. fold_res (expire_tenant now) us d = Inr d' \<and> waits_settle d d' \<and> waits_fresh d'" for us
    using assms
  proof (induction us arbitrary: d)
    case Nil
    then show ?case by (simp add: waits_settle_refl)
  next
    case (Cons u us)
    from expire_tenant_ok [OF Cons.prems, of now u] obtain d1 where
      d1: "expire_tenant now u d = Inr d1" "waits_settle d d1" "waits_fresh d1" by blast
    then obtain d2 where "fold_res (expire_tenant now) us d1 = Inr d2"
        "waits_settle d1 d2" "waits_fresh d2"
      using Cons.IH [of d1] by (auto simp: waits_settle_def)
    then show ?case using d1 waits_settle_trans by auto
  qed
  then show ?thesis unfolding expire_goal_waits_def by blast
qed

subsection \<open>Closing goals and jobs\<close>

text \<open>
  The row constraint of \<^verbatim>\<open>goals\<close>, which every transition keeps: an open goal has revision one and no
  outcome; a closed one has revision two and exactly one kind of outcome.
\<close>

definition goal_row_ok :: "goal_row \<Rightarrow> bool" where
  "goal_row_ok g \<longleftrightarrow> (case g_state g of
     GoalOpen \<Rightarrow> g_revision g = 1 \<and> g_closed_at g = None \<and> g_successful_job_id g = None \<and> g_failure g = None
   | GoalSucceeded \<Rightarrow> g_revision g = 2 \<and> g_closed_at g \<noteq> None \<and> g_successful_job_id g \<noteq> None \<and>
       g_failure g = None
   | GoalFailedState \<Rightarrow> g_revision g = 2 \<and> g_closed_at g \<noteq> None \<and> g_successful_job_id g = None \<and>
       g_failure g \<noteq> None)"

definition goals_ok :: "db \<Rightarrow> bool" where
  "goals_ok d \<longleftrightarrow> distinct (map goal_key (goals d)) \<and> (\<forall>g \<in> set (goals d). goal_row_ok g)"

text \<open>Everything but the goals, the waits, their index and the notifications is as it was.\<close>

definition goals_waits_only :: "db \<Rightarrow> db \<Rightarrow> bool" where
  "goals_waits_only d d' \<longleftrightarrow> waits_only (d\<lparr>goals := goals d'\<rparr>) d' \<and>
     map goal_key (goals d') = map goal_key (goals d)"

lemma goals_waits_only_sel:
  assumes "goals_waits_only d d'"
  shows "job_preparations d' = job_preparations d" "goal_candidates d' = goal_candidates d"
    "jobs d' = jobs d" "jobs_archive d' = jobs_archive d" "jobs_trace d' = jobs_trace d"
    "schedules d' = schedules d" "job_facts d' = job_facts d"
    "job_client_state d' = job_client_state d"
    "crash_concern_threshold d' = crash_concern_threshold d"
    "trace_enabled d' = trace_enabled d" "notify_enabled d' = notify_enabled d"
    "map goal_key (goals d') = map goal_key (goals d)"
  using assms by (simp_all add: goals_waits_only_def waits_only_def)

lemma goals_waits_only_refl [simp]: "goals_waits_only d d"
  by (simp add: goals_waits_only_def)

lemma goals_waits_only_trans:
  "goals_waits_only a b \<Longrightarrow> goals_waits_only b c \<Longrightarrow> goals_waits_only a c"
  by (simp add: goals_waits_only_def waits_only_def)

lemma waits_only_goals_waits_only: "waits_only d d' \<Longrightarrow> goals_waits_only d d'"
  by (simp add: goals_waits_only_def waits_only_def)

text \<open>A closed goal never changes again, and its outcome is final.\<close>

definition closed_goals_kept :: "db \<Rightarrow> db \<Rightarrow> bool" where
  "closed_goals_kept d d' \<longleftrightarrow> (\<forall>t g r. find_goal d t g = Some r \<longrightarrow> g_state r \<noteq> GoalOpen \<longrightarrow>
     find_goal d' t g = Some r)"

lemma closed_goals_kept_refl [simp]: "closed_goals_kept d d"
  by (simp add: closed_goals_kept_def)

lemma closed_goals_kept_trans:
  "closed_goals_kept a b \<Longrightarrow> closed_goals_kept b c \<Longrightarrow> closed_goals_kept a c"
  by (simp add: closed_goals_kept_def)

lemma closed_goals_kept_eq: "goals d' = goals d \<Longrightarrow> closed_goals_kept d d'"
  by (simp add: closed_goals_kept_def find_goal_def)

text \<open>The contract of every operation that closes goals.\<close>

definition closes_goals :: "db \<Rightarrow> db \<Rightarrow> bool" where
  "closes_goals d d' \<longleftrightarrow> goals_waits_only d d' \<and> waits_wf d' \<and> waits_fresh d' \<and>
     waits_shrink d d' \<and>
     map wait_key (dependency_waits d') = map wait_key (dependency_waits d) \<and>
     closed_goals_kept d d' \<and> (goals_ok d \<longrightarrow> goals_ok d')"

lemma closes_goals_trans: "closes_goals a b \<Longrightarrow> closes_goals b c \<Longrightarrow> closes_goals a c"
  unfolding closes_goals_def using goals_waits_only_trans closed_goals_kept_trans waits_shrink_trans
  by metis

lemma closes_goals_refl: "waits_wf d \<Longrightarrow> waits_fresh d \<Longrightarrow> closes_goals d d"
  by (simp add: closes_goals_def waits_shrink_refl)

lemma update_goal_close:
  assumes wf: "waits_wf d" and fresh: "waits_fresh d"
    and r: "find_goal d t g = Some r" "g_state r = GoalOpen"
    and f: "\<And>x. goal_key (f x) = goal_key x" "goal_row_ok r \<Longrightarrow> goal_row_ok (f r)"
  shows "\<exists>d'. settle_target t KGoal g now (update_goal t g f d) = Inr d' \<and> closes_goals d d' \<and>
    find_goal d' t g = Some (f r)"
proof -
  let ?d = "update_goal t g f d"
  have find: "find_goal ?d t' g' = (if (t', g') = (t, g) then Some (f r) else find_goal d t' g')" for t' g'
    using r f(1) by (simp add: find_goal_def update_goal_def row_at_upd_at)
  have arch: "archived ?d = archived d" by (intro ext) (simp add: archived_def update_goal_def)
  have keys: "map goal_key (goals ?d) = map goal_key (goals d)"
    by (simp add: update_goal_def map_key_upd_at f(1))
  have wf': "waits_wf ?d"
    by (rule waits_wf_mono [OF wf]) (simp_all add: update_goal_def key_image_upd_at f(1))
  have "open_target ?d t' k" if "open_target d t' k" "\<not> (t' = t \<and> k = (KGoal, g))" for t' k
    using that by (cases "(d, t', k)" rule: open_target.cases) (auto simp: find arch)
  then have "fresh_except ?d t (KGoal, g)"
    using fresh unfolding fresh_except_def waits_fresh_def fresh_wait_def live_dep_def
    by (simp add: update_goal_def) blast
  from settle_target_ok [OF wf' this, of now] obtain d' where
    d': "settle_target t KGoal g now ?d = Inr d'" "waits_settle ?d d'" "waits_fresh d'" by blast
  have goals: "goals d' = goals ?d" using d'(2) by (simp add: waits_settle_def waits_only_def)
  have "closed_goals_kept d d'"
    using r by (auto simp: closed_goals_kept_def find_goal_def goals)
      (auto simp flip: find_goal_def simp: find)
  moreover have "goals_ok d'" if ok: "goals_ok d"
  proof -
    have "goal_row_ok x" if "x \<in> set (upd_at goal_key (t, g) f (goals d))" for x
      using that
    proof (cases rule: set_upd_at_cases)
      case (2 r0)
      then have "r0 = r"
        using ok r row_at_unique [of goal_key "goals d" r0] by (simp add: goals_ok_def find_goal_def)
      then show ?thesis using 2 f(2) ok by (simp add: goals_ok_def)
    qed (use ok in \<open>auto simp: goals_ok_def\<close>)
    then show ?thesis using ok keys by (simp add: goals_ok_def goals update_goal_def)
  qed
  moreover have "goals_waits_only d d'"
    using d'(2) keys by (simp add: goals_waits_only_def waits_settle_def waits_only_def update_goal_def)
  moreover have "waits_shrink ?d d' \<Longrightarrow> waits_shrink d d'"
    by (simp add: waits_shrink_def update_goal_def)
  ultimately have "closes_goals d d'"
    using d'(2,3) by (simp add: closes_goals_def waits_settle_def update_goal_def)
  moreover have "find_goal d' t g = Some (f r)" using find [of t g] by (simp add: find_goal_def goals)
  ultimately show ?thesis using d'(1) by blast
qed

lemma resolve_goal_ok:
  assumes "waits_wf d" "waits_fresh d"
  shows "\<exists>d'. resolve_goal t g j now d = Inr d' \<and> closes_goals d d' \<and>
    (\<forall>r. find_goal d t g = Some r \<longrightarrow> g_state r = GoalOpen \<longrightarrow>
       (\<exists>r'. find_goal d' t g = Some r' \<and> g_state r' = GoalSucceeded \<and> g_successful_job_id r' = Some j))"
proof (cases "\<exists>r. find_goal d t g = Some r \<and> g_state r = GoalOpen")
  case True
  then obtain r where r: "find_goal d t g = Some r" "g_state r = GoalOpen" by blast
  let ?f = "\<lambda>r. r\<lparr>g_state := GoalSucceeded, g_revision := 2,
    g_successful_job_id := Some j, g_updated_at := now, g_closed_at := Some now\<rparr>"
  have "\<exists>d'. settle_target t KGoal g now (update_goal t g ?f d) = Inr d' \<and> closes_goals d d' \<and>
      find_goal d' t g = Some (?f r)"
    by (rule update_goal_close [OF assms r]) (use r(2) in \<open>simp_all add: goal_key_def goal_row_ok_def\<close>)
  then show ?thesis using r by (auto simp: resolve_goal_def)
qed (use assms closes_goals_refl in \<open>auto simp: resolve_goal_def split: option.splits\<close>)

lemma fail_goal_ok:
  assumes "waits_wf d" "waits_fresh d" and run: "fail_goal t g m now d = Inr (info, d')"
  shows "closes_goals d d' \<and> find_goal d' t g = Some info \<and> g_state info = GoalFailedState \<and>
    (goals_ok d \<longrightarrow> map_option failure_message (g_failure info) = Some m)"
proof -
  from run obtain r where r: "find_goal d t g = Some r"
    by (auto simp: fail_goal_def goal_info_def res_simps split: option.splits if_splits)
  show ?thesis
  proof (cases "g_state r = GoalOpen")
    case False
    with run r show ?thesis using assms closes_goals_refl
      by (auto simp: fail_goal_def goal_info_def res_simps split: if_splits)
  next
    case True
    let ?members = "sort (goal_members d t g)"
    let ?f = "\<lambda>r. r\<lparr>g_state := GoalFailedState, g_revision := 2, g_failure := Some (GoalFailed g m
      (filter (archived d t) ?members) (filter (\<lambda>m. \<not> archived d t m) ?members) now),
      g_updated_at := now, g_closed_at := Some now\<rparr>"
    have "\<exists>d'. settle_target t KGoal g now (update_goal t g ?f d) = Inr d' \<and> closes_goals d d' \<and>
        find_goal d' t g = Some (?f r)"
      by (rule update_goal_close [OF assms(1,2) r True])
         (use True in \<open>simp_all add: goal_key_def goal_row_ok_def\<close>)
    then obtain d2 where d2: "settle_target t KGoal g now (update_goal t g ?f d) = Inr d2"
        "closes_goals d d2" "find_goal d2 t g = Some (?f r)" by blast
    have "d' = d2 \<and> info = ?f r"
      using run r True d2 by (auto simp: fail_goal_def goal_info_def res_simps Let_def split: if_splits)
    then show ?thesis using d2 by simp
  qed
qed

lemma resolve_goal_other:
  assumes "resolve_goal t g j now d = Inr d'" "h \<noteq> g"
  shows "find_goal d' t h = find_goal d t h"
proof (cases "\<exists>r. find_goal d t g = Some r \<and> g_state r = GoalOpen")
  case True
  let ?d = "update_goal t g (\<lambda>r. r\<lparr>g_state := GoalSucceeded, g_revision := 2,
    g_successful_job_id := Some j, g_updated_at := now, g_closed_at := Some now\<rparr>) d"
  have "settle_target t KGoal g now ?d = Inr d'" using assms(1) True by (auto simp: resolve_goal_def)
  from settle_target_waits_only [OF this] have "goals d' = goals ?d" by (simp add: waits_only_def)
  then show ?thesis using assms(2)
    by (simp add: find_goal_def update_goal_def row_at_upd_at goal_key_def)
next
  case False
  then show ?thesis using assms(1) by (auto simp: resolve_goal_def split: option.splits)
qed

lemma resolve_goals_ok:
  assumes "waits_wf d" "waits_fresh d"
  shows "\<exists>d'. fold_res (\<lambda>g. resolve_goal t g j now) gs d = Inr d' \<and> closes_goals d d' \<and>
    (\<forall>g \<in> set gs. \<forall>r. find_goal d t g = Some r \<longrightarrow> (\<exists>r'. find_goal d' t g = Some r' \<and>
       g_state r' \<noteq> GoalOpen \<and>
       (g_state r = GoalOpen \<longrightarrow> g_state r' = GoalSucceeded \<and> g_successful_job_id r' = Some j)))"
  using assms
proof (induction gs arbitrary: d)
  case Nil
  then show ?case using closes_goals_refl by simp
next
  case (Cons g gs)
  from resolve_goal_ok [OF Cons.prems, of t g j now] obtain d1 where
    d1: "resolve_goal t g j now d = Inr d1" "closes_goals d d1"
    and res: "\<And>r. find_goal d t g = Some r \<Longrightarrow> g_state r = GoalOpen \<Longrightarrow>
       \<exists>r'. find_goal d1 t g = Some r' \<and> g_state r' = GoalSucceeded \<and> g_successful_job_id r' = Some j"
    by blast
  have "waits_wf d1" "waits_fresh d1" using d1(2) by (auto simp: closes_goals_def)
  from Cons.IH [OF this] obtain d2 where
    d2: "fold_res (\<lambda>g. resolve_goal t g j now) gs d1 = Inr d2" "closes_goals d1 d2"
    and rest: "\<forall>g \<in> set gs. \<forall>r. find_goal d1 t g = Some r \<longrightarrow> (\<exists>r'. find_goal d2 t g = Some r' \<and>
       g_state r' \<noteq> GoalOpen \<and>
       (g_state r = GoalOpen \<longrightarrow> g_state r' = GoalSucceeded \<and> g_successful_job_id r' = Some j))"
    by blast
  have kept: "closed_goals_kept d d1" "closed_goals_kept d1 d2"
    using d1(2) d2(2) by (auto simp: closes_goals_def)
  have head: "\<exists>r'. find_goal d2 t g = Some r' \<and> g_state r' \<noteq> GoalOpen \<and>
      (g_state r = GoalOpen \<longrightarrow> g_state r' = GoalSucceeded \<and> g_successful_job_id r' = Some j)"
    if fg: "find_goal d t g = Some r" for r
  proof (cases "g_state r = GoalOpen")
    case True
    then obtain r' where r': "find_goal d1 t g = Some r'" "g_state r' = GoalSucceeded"
        "g_successful_job_id r' = Some j" using res fg by blast
    then have "find_goal d2 t g = Some r'" using kept(2) by (simp add: closed_goals_kept_def)
    then show ?thesis using r' by simp
  next
    case False
    then have "find_goal d2 t g = Some r" using kept fg by (simp add: closed_goals_kept_def)
    then show ?thesis using False by simp
  qed
  have tail: "\<exists>r'. find_goal d2 t h = Some r' \<and> g_state r' \<noteq> GoalOpen \<and>
      (g_state r = GoalOpen \<longrightarrow> g_state r' = GoalSucceeded \<and> g_successful_job_id r' = Some j)"
    if h: "h \<in> set gs" "find_goal d t h = Some r" for h r
    using head [of r] rest h resolve_goal_other [OF d1(1), of h] by (cases "h = g") auto
  show ?case using d1(1) d2(1) closes_goals_trans [OF d1(2) d2(2)] head tail by auto
qed

text \<open>
  The archive trigger on a database in which only the waits on the archived job are stale: it never
  raises, leaves no wait of that job pending, wakes everything that waited on the job or on a goal
  it decided, and a success leaves none of the job's goals open.
\<close>

lemma terminal_goals_ok:
  assumes wf: "waits_wf d" and fresh: "fresh_except d (a_tenant_id a) (KJob, a_job_id a)"
  shows "\<exists>d'. terminal_goals a now d = Inr d' \<and> closes_goals d d' \<and>
    (\<forall>i. (a_tenant_id a, a_job_id a, i) \<notin> pending_keys d') \<and>
    (a_completion_status a = ''success'' \<longrightarrow>
      (\<forall>g \<in> set (goals_of_job d (a_tenant_id a) (a_job_id a) (a_goal_id a)). \<forall>r.
         find_goal d (a_tenant_id a) g = Some r \<longrightarrow> (\<exists>r'. find_goal d' (a_tenant_id a) g = Some r' \<and>
           g_state r' \<noteq> GoalOpen \<and> (g_state r = GoalOpen \<longrightarrow>
             g_state r' = GoalSucceeded \<and> g_successful_job_id r' = Some (a_job_id a)))))"
proof -
  let ?t = "a_tenant_id a" and ?j = "a_job_id a"
  from cancel_waits_ok [OF wf, of ?t ?j None] obtain d1 where
    d1: "cancel_waits ?t ?j None d = Inr d1" "waits_settle d d1" "fresh_except d1 ?t (KJob, ?j)"
    and none: "\<forall>i. (?t, ?j, i) \<notin> pending_keys d1" using fresh by auto
  have "waits_wf d1" using d1(2) by (simp add: waits_settle_def)
  from settle_target_ok [OF this d1(3), of now] obtain d2 where
    d2: "settle_target ?t KJob ?j now d1 = Inr d2" "waits_settle d1 d2" "waits_fresh d2" by blast
  have settle: "waits_settle d d2" by (rule waits_settle_trans [OF d1(2) d2(2)])
  have goals: "goals d2 = goals d" "goal_candidates d2 = goal_candidates d"
    using settle by (simp_all add: waits_settle_def waits_only_def)
  have closes: "closes_goals d d2"
    using settle d2(3) goals waits_only_goals_waits_only closed_goals_kept_eq
    by (auto simp: closes_goals_def waits_settle_def goals_ok_def)
  have "waits_wf d2" using d2(2) by (simp add: waits_settle_def)
  from resolve_goals_ok [OF this d2(3)] obtain d3 where
    d3: "fold_res (\<lambda>g. resolve_goal ?t g ?j now) (goals_of_job d2 ?t ?j (a_goal_id a)) d2 = Inr d3"
      "closes_goals d2 d3"
    and res: "\<forall>g \<in> set (goals_of_job d2 ?t ?j (a_goal_id a)). \<forall>r. find_goal d2 ?t g = Some r \<longrightarrow>
      (\<exists>r'. find_goal d3 ?t g = Some r' \<and> g_state r' \<noteq> GoalOpen \<and>
       (g_state r = GoalOpen \<longrightarrow> g_state r' = GoalSucceeded \<and> g_successful_job_id r' = Some ?j))"
    by blast
  have same: "goals_of_job d2 = goals_of_job d" "find_goal d2 = find_goal d"
    by (intro ext; simp add: goals_of_job_def find_goal_def goals)+
  have none2: "\<forall>i. (?t, ?j, i) \<notin> pending_keys d2" using none d2(2) waits_shrink_pending by (fastforce simp: waits_settle_def)
  show ?thesis
  proof (cases "a_completion_status a = ''success''")
    case True
    have "\<forall>i. (?t, ?j, i) \<notin> pending_keys d3" using none2 d3(2) waits_shrink_pending by (fastforce simp: closes_goals_def)
    then show ?thesis using True d1(1) d2(1) d3 closes_goals_trans [OF closes d3(2)] res
      by (simp add: terminal_goals_def same)
  next
    case False
    then show ?thesis using d1(1) d2(1) closes none2 by (simp add: terminal_goals_def)
  qed
qed

end
