(* ===== verification/Goal_Cycles.thy ===== *)
theory Goal_Cycles
  imports Wait_Safety
begin

section \<open>The dependency-cycle check\<close>

text \<open>
  \<^verbatim>\<open>_check_goal_cycle\<close> walks the graph of open obligations from one node with a recursive query: a row
  carries its node, the path that led to it and whether the node was already on that path; rows that
  closed a cycle are not extended. The walk is modelled level by level, the way \<^verbatim>\<open>WITH RECURSIVE\<close>
  evaluates it, with fuel; the fuel the check passes is proved to be enough, and the check is proved
  to find a cycle exactly when one is reachable.
\<close>

subsection \<open>The walk over an arbitrary successor function\<close>

type_synonym 'n walk_row = "'n \<times> 'n list \<times> bool"

definition walk_step :: "('n \<Rightarrow> 'n list) \<Rightarrow> 'n walk_row list \<Rightarrow> 'n walk_row list" where
  "walk_step succs rows = concat (map (\<lambda>(n, path, cyc).
     if cyc then [] else map (\<lambda>m. (m, path @ [m], m \<in> set path)) (succs n)) rows)"

fun walk :: "('n \<Rightarrow> 'n list) \<Rightarrow> nat \<Rightarrow> 'n walk_row list \<Rightarrow> 'n walk_row list option" where
  "walk succs fuel [] = Some []"
| "walk succs 0 (r # rows) = None"
| "walk succs (Suc fuel) (r # rows) =
     map_option (\<lambda>rest. (r # rows) @ rest) (walk succs fuel (walk_step succs (r # rows)))"

definition edges :: "('n \<Rightarrow> 'n list) \<Rightarrow> ('n \<times> 'n) set" where
  "edges succs = {(n, m). m \<in> set (succs n)}"

text \<open>A path of the graph: its consecutive nodes are edges.\<close>

abbreviation graph_path :: "('n \<Rightarrow> 'n list) \<Rightarrow> 'n list \<Rightarrow> bool" where
  "graph_path succs \<equiv> successively (\<lambda>n m. m \<in> set (succs n))"

lemma graph_path_rtrancl: "graph_path succs (n # ns) \<Longrightarrow> (n, last (n # ns)) \<in> (edges succs)\<^sup>*"
proof (induction ns arbitrary: n)
  case (Cons m ns)
  then have "(n, m) \<in> edges succs" "(m, last (m # ns)) \<in> (edges succs)\<^sup>*" by (auto simp: edges_def)
  then show ?case by (simp add: converse_rtrancl_into_rtrancl)
qed simp

lemma graph_path_trancl:
  assumes "graph_path succs (n # ns @ [m])"
  shows "(n, m) \<in> (edges succs)\<^sup>+"
proof -
  have "graph_path succs ((n # ns) @ [m])" using assms by simp
  then have "graph_path succs (n # ns)" "(last (n # ns), m) \<in> edges succs"
    unfolding successively_append_iff by (simp_all add: edges_def)
  then show ?thesis by (rule rtrancl_into_trancl1 [OF graph_path_rtrancl])
qed

text \<open>Level \<open>k\<close> of the walk and what its rows are.\<close>

definition level :: "('n \<Rightarrow> 'n list) \<Rightarrow> 'n \<Rightarrow> nat \<Rightarrow> 'n walk_row list" where
  "level succs n k = (walk_step succs ^^ k) [(n, [n], False)]"

lemma level_0 [simp]: "level succs n 0 = [(n, [n], False)]"
  by (simp add: level_def)

lemma level_Suc: "level succs n (Suc k) = walk_step succs (level succs n k)"
  by (simp add: level_def)

text \<open>
  A row of level \<open>k\<close>: its path starts at the start node, follows edges, visits \<open>k\<close> distinct nodes
  before its own, and is marked exactly when its node is among them.
\<close>

definition row_of :: "('n \<Rightarrow> 'n list) \<Rightarrow> 'n \<Rightarrow> nat \<Rightarrow> 'n walk_row \<Rightarrow> bool" where
  "row_of succs n k r \<longleftrightarrow> (\<exists>q m. r = (m, q @ [m], m \<in> set q) \<and> length q = k \<and> distinct q \<and>
     hd (q @ [m]) = n \<and> graph_path succs (q @ [m]) \<and> set (tl (q @ [m])) \<subseteq> snd ` edges succs)"

lemma row_of_step:
  assumes "row_of succs n k r" "r' \<in> set (walk_step succs [r])"
  shows "row_of succs n (Suc k) r'"
proof -
  from assms obtain q m m' where r: "r = (m, q @ [m], False)" "m \<notin> set q" "length q = k" "distinct q"
      "hd (q @ [m]) = n" "graph_path succs (q @ [m])" "set (tl (q @ [m])) \<subseteq> snd ` edges succs"
    and m': "m' \<in> set (succs m)" "r' = (m', (q @ [m]) @ [m'], m' \<in> set (q @ [m]))"
    by (auto simp: row_of_def walk_step_def split: if_splits)
  have "graph_path succs ((q @ [m]) @ [m'])"
    using r(6) m'(1) by (simp only: successively_append_iff) simp
  moreover have "m' \<in> snd ` edges succs"
    using m'(1) by (auto simp: edges_def intro!: image_eqI [of _ _ "(m, m')"])
  ultimately show ?thesis
    unfolding row_of_def using r m'(2)
    by (intro exI [of _ "q @ [m]"] exI [of _ m']) (cases q; auto)
qed

lemma level_row: "r \<in> set (level succs n k) \<Longrightarrow> row_of succs n k r"
proof (induction k arbitrary: r)
  case 0
  then show ?case by (simp add: row_of_def)
next
  case (Suc k)
  then obtain r0 where "r0 \<in> set (level succs n k)" "r \<in> set (walk_step succs [r0])"
    by (auto simp: level_Suc walk_step_def)
  then show ?case using Suc.IH row_of_step by fast
qed

text \<open>A marked row witnesses a cycle that is reachable from the start.\<close>

lemma marked_row_cycle:
  assumes "row_of succs n k (m, p, True)"
  shows "(n, m) \<in> (edges succs)\<^sup>* \<and> (m, m) \<in> (edges succs)\<^sup>+"
proof -
  from assms obtain q where q: "p = q @ [m]" "m \<in> set q" "hd p = n" "graph_path succs p"
    by (auto simp: row_of_def)
  from q(2) obtain xs ys where xs: "q = xs @ m # ys" by (meson split_list)
  have "graph_path succs (m # ys @ [m])" using q xs by (simp add: successively_append_iff)
  moreover have "graph_path succs (xs @ [m])" using q xs by (auto simp: successively_append_iff)
  then have "(n, m) \<in> (edges succs)\<^sup>*"
    using graph_path_rtrancl [of succs n "tl (xs @ [m])"] q xs by (cases xs) auto
  ultimately show ?thesis by (simp add: graph_path_trancl)
qed

text \<open>As long as nothing is marked, a level holds every path of its length.\<close>

lemma level_complete:
  assumes "\<And>i m p. i < k \<Longrightarrow> (m, p, True) \<notin> set (level succs n i)"
    and "graph_path succs p" "length p = Suc k" "hd p = n"
  shows "\<exists>c. (last p, p, c) \<in> set (level succs n k)"
  using assms
proof (induction k arbitrary: p)
  case 0
  then have "p = [n]" by (cases p) auto
  then show ?case by (intro exI [of _ False]) simp
next
  case (Suc k)
  obtain q m where p: "p = q @ [m]" "length q = Suc k"
    using Suc.prems(3) by (metis length_Suc_conv_rev)
  then have q: "graph_path succs q" "hd q = n" "m \<in> set (succs (last q))"
    using Suc.prems(2,4) by (auto simp: successively_append_iff hd_append split: if_splits)
  then obtain c where c: "(last q, q, c) \<in> set (level succs n k)"
    using Suc.IH [of q] Suc.prems(1) p(2) by auto
  moreover have "\<not> c" using c Suc.prems(1) [of k "last q" q] by auto
  ultimately show ?case using p q(3)
    by (auto simp: level_Suc walk_step_def intro!: bexI [of _ "(last q, q, False)"])
qed

text \<open>Fuel: with finitely many nodes the walk returns, and returns all levels.\<close>

lemma level_empty:
  assumes "finite V" "snd ` edges succs \<subseteq> V" "k > card V + 1"
  shows "level succs n k = []"
proof (rule ccontr)
  assume "level succs n k \<noteq> []"
  then obtain r where "r \<in> set (level succs n k)" by (meson hd_in_set)
  from level_row [OF this] obtain q m where q: "length q = k" "distinct q"
      "set (tl (q @ [m])) \<subseteq> V" using assms(2) unfolding row_of_def by blast
  have "set (tl q) \<subseteq> V" using q(3) by (cases q) auto
  then have "card (set (tl q)) \<le> card V" using assms(1) by (rule card_mono [rotated])
  moreover have "card (set (tl q)) = k - 1" using q(1,2) by (simp add: distinct_card distinct_tl)
  ultimately show False using assms(3) by simp
qed

lemma walk_levels:
  assumes "level succs n (k + fuel) = []"
  shows "\<exists>rows. walk succs fuel (level succs n k) = Some rows \<and>
    set rows = (\<Union>i \<in> {k..k + fuel}. set (level succs n i))"
  using assms
proof (induction fuel arbitrary: k)
  case 0
  then show ?case by simp
next
  case (Suc fuel)
  show ?case
  proof (cases "level succs n k")
    case Nil
    then have "level succs n (k + i) = []" for i
      by (induction i) (simp_all add: level_Suc walk_step_def)
    then have "level succs n i = []" if "i \<ge> k" for i using that by (metis le_Suc_ex)
    then show ?thesis using Nil by simp
  next
    case (Cons r rows)
    from Suc.IH [of "Suc k"] Suc.prems obtain rest where
      rest: "walk succs fuel (level succs n (Suc k)) = Some rest"
        "set rest = (\<Union>i \<in> {Suc k..Suc k + fuel}. set (level succs n i))" by auto
    have "{k..k + Suc fuel} = insert k {Suc k..Suc k + fuel}" by auto
    then show ?thesis using rest Cons by (simp add: level_Suc)
  qed
qed

lemma path_extend:
  assumes "(m, m') \<in> edges succs" "graph_path succs p" "last p = m" "p \<noteq> []"
  shows "graph_path succs (p @ [m'])"
  using assms by (simp add: successively_append_iff edges_def)

text \<open>From a reachable cycle there are paths of every length.\<close>

lemma long_path:
  assumes "(n, m) \<in> (edges succs)\<^sup>*" "(m, m) \<in> (edges succs)\<^sup>+"
  shows "\<exists>p. graph_path succs p \<and> length p = Suc k \<and> hd p = n"
proof -
  have "\<exists>p x. graph_path succs p \<and> length p = Suc k \<and> hd p = n \<and> last p = x \<and> (x, m) \<in> (edges succs)\<^sup>*"
  proof (induction k)
    case 0
    show ?case using assms(1) by (intro exI [of _ "[n]"] exI [of _ n]) simp
  next
    case (Suc k)
    then obtain p x where p: "graph_path succs p" "length p = Suc k" "hd p = n" "last p = x"
        "(x, m) \<in> (edges succs)\<^sup>*" by blast
    have "(x, m) \<in> (edges succs)\<^sup>+" using p(5) assms(2) by (metis rtranclD trancl_trans)
    then obtain y where y: "(x, y) \<in> edges succs" "(y, m) \<in> (edges succs)\<^sup>*"
      by (metis tranclD)
    have ne: "p \<noteq> []" using p(2) by auto
    show ?case using path_extend [OF y(1) p(1,4) ne] p y ne
      by (intro exI [of _ "p @ [y]"] exI [of _ y]) simp
  qed
  then show ?thesis by blast
qed

theorem walk_finds_cycles:
  assumes "finite V" "snd ` edges succs \<subseteq> V" "fuel > card V + 1"
  shows "\<exists>rows. walk succs fuel [(n, [n], False)] = Some rows \<and>
    ((\<exists>m p. (m, p, True) \<in> set rows) \<longleftrightarrow> (\<exists>m. (n, m) \<in> (edges succs)\<^sup>* \<and> (m, m) \<in> (edges succs)\<^sup>+))"
proof -
  have empty: "level succs n fuel = []" by (rule level_empty [OF assms])
  from walk_levels [of succs n 0 fuel] empty obtain rows where
    rows: "walk succs fuel [(n, [n], False)] = Some rows" "set rows = (\<Union>i \<in> {0..fuel}. set (level succs n i))"
    by auto
  have "\<exists>m. (n, m) \<in> (edges succs)\<^sup>* \<and> (m, m) \<in> (edges succs)\<^sup>+" if "(m, p, True) \<in> set rows" for m p
    using that rows(2) level_row marked_row_cycle by (metis (no_types, lifting) UN_iff)
  moreover have "\<exists>m p. (m, p, True) \<in> set rows"
    if m: "(n, m) \<in> (edges succs)\<^sup>*" "(m, m) \<in> (edges succs)\<^sup>+" for m
  proof (rule ccontr)
    assume none: "\<nexists>m p. (m, p, True) \<in> set rows"
    obtain p where p: "graph_path succs p" "length p = Suc fuel" "hd p = n"
      using long_path [OF m] by blast
    have "(m, p, True) \<notin> set (level succs n i)" if "i < fuel" for i m p
      using none rows(2) that by auto
    from level_complete [OF this p] show False using empty by simp
  qed
  ultimately show ?thesis using rows(1) by blast
qed

subsection \<open>The graph of open obligations\<close>

text \<open>
  A job points at the targets of its waits that are not past their deadline, unless it is archived;
  an open goal points at its members that are not archived.
\<close>

type_synonym node = "target_kind \<times> string"

fun node_succs :: "db \<Rightarrow> string \<Rightarrow> int \<Rightarrow> node \<Rightarrow> node list" where
  "node_succs d t now (KJob, j) = (if archived d t j then [] else
     map (\<lambda>x. (t_target_kind x, t_target_id x)) (filter (\<lambda>x. t_tenant_id x = t \<and> t_job_id x = j \<and>
       (\<exists>w \<in> set (dependency_waits d). wait_key w = target_wait_key x \<and>
          (case w_deadline w of None \<Rightarrow> True | Some dl \<Rightarrow> dl > now))) (dependency_targets d)))"
| "node_succs d t now (KGoal, g) = (case find_goal d t g of None \<Rightarrow> []
     | Some r \<Rightarrow> if g_state r \<noteq> GoalOpen then []
         else map (\<lambda>m. (KJob, m)) (filter (\<lambda>m. \<not> archived d t m) (goal_members d t g)))"

definition graph_nodes :: "db \<Rightarrow> node list" where
  "graph_nodes d = map (\<lambda>x. (t_target_kind x, t_target_id x)) (dependency_targets d) @
     map (\<lambda>f. (KJob, f_job_id f)) (job_facts d) @ map (\<lambda>c. (KJob, gc_job_id c)) (goal_candidates d)"

definition check_goal_cycle :: "db \<Rightarrow> string \<Rightarrow> node \<Rightarrow> int \<Rightarrow> unit res" where
  "check_goal_cycle d t n now =
     (case walk (node_succs d t now) (length (graph_nodes d) + 2) [(n, [n], False)] of
        None \<Rightarrow> raise ''recursion limit''
      | Some rows \<Rightarrow> if \<exists>r \<in> set rows. snd (snd r) then raise_code ''JGC01'' ''dependency cycle''
          else Inr ())"

abbreviation obligations :: "db \<Rightarrow> string \<Rightarrow> int \<Rightarrow> (node \<times> node) set" where
  "obligations d t now \<equiv> edges (node_succs d t now)"

lemma obligations_nodes: "snd ` obligations d t now \<subseteq> set (graph_nodes d)"
proof -
  have "m \<in> set (graph_nodes d)" if "m \<in> set (node_succs d t now n)" for n m
    using that by (cases "(d, t, now, n)" rule: node_succs.cases)
      (auto simp: graph_nodes_def goal_members_def split: if_splits option.splits)
  then show ?thesis by (auto simp: edges_def)
qed

lemma obligation_walk:
  "\<exists>rows. walk (node_succs d t now) (length (graph_nodes d) + 2) [(n, [n], False)] = Some rows \<and>
    ((\<exists>m p. (m, p, True) \<in> set rows) \<longleftrightarrow>
      (\<exists>m. (n, m) \<in> (obligations d t now)\<^sup>* \<and> (m, m) \<in> (obligations d t now)\<^sup>+))"
proof -
  have "card (set (graph_nodes d)) + 1 < length (graph_nodes d) + 2"
    using card_length [of "graph_nodes d"] by simp
  from walk_finds_cycles [OF finite_set obligations_nodes this] show ?thesis .
qed

text \<open>The check returns exactly when no cycle is reachable, and never for want of fuel.\<close>

lemma check_goal_cycle_Inr:
  "check_goal_cycle d t n now = Inr () \<longleftrightarrow>
     (\<nexists>m. (n, m) \<in> (obligations d t now)\<^sup>* \<and> (m, m) \<in> (obligations d t now)\<^sup>+)"
proof -
  from obligation_walk [of d t now n] obtain rows where rows:
    "walk (node_succs d t now) (length (graph_nodes d) + 2) [(n, [n], False)] = Some rows"
    "(\<exists>m p. (m, p, True) \<in> set rows) \<longleftrightarrow>
       (\<exists>m. (n, m) \<in> (obligations d t now)\<^sup>* \<and> (m, m) \<in> (obligations d t now)\<^sup>+)" by blast
  have "(\<exists>r \<in> set rows. snd (snd r)) \<longleftrightarrow> (\<exists>m p. (m, p, True) \<in> set rows)" by force
  then show ?thesis unfolding check_goal_cycle_def rows(1) using rows(2) by simp
qed

lemma check_goal_cycle_cases:
  "check_goal_cycle d t n now = Inr () \<or>
   check_goal_cycle d t n now = raise_code ''JGC01'' ''dependency cycle''"
proof -
  from obligation_walk [of d t now n] obtain rows where
    rows: "walk (node_succs d t now) (length (graph_nodes d) + 2) [(n, [n], False)] = Some rows" by blast
  show ?thesis unfolding check_goal_cycle_def rows by simp
qed

text \<open>
  Checking one node is enough when every edge that is new starts at it: a new cycle has to run
  through a new edge.
\<close>

lemma acyclic_new_edges:
  assumes old: "acyclic R" and new: "\<And>a b. (a, b) \<in> S \<Longrightarrow> (a, b) \<in> R \<or> (n, a) \<in> S\<^sup>*"
    and check: "\<nexists>m. (n, m) \<in> S\<^sup>* \<and> (m, m) \<in> S\<^sup>+"
  shows "acyclic S"
proof (rule acyclicI, intro allI notI)
  fix x assume x: "(x, x) \<in> S\<^sup>+"
  then have nx: "(n, x) \<notin> S\<^sup>*" using check by blast
  have "(x, y) \<in> R\<^sup>+" if "(x, y) \<in> S\<^sup>+" "(y, x) \<in> S\<^sup>*" for y
    using that
  proof (induction rule: trancl_induct)
    case (base y)
    then show ?case using new nx x by (meson r_into_trancl)
  next
    case (step y z)
    have "(y, x) \<in> S\<^sup>*" using step by (meson converse_rtrancl_into_rtrancl)
    moreover from this have "(n, y) \<notin> S\<^sup>*" using nx by (meson rtrancl_trans)
    ultimately show ?case using step new by (meson trancl_into_trancl)
  qed
  then have "(x, x) \<in> R\<^sup>+" using x by blast
  then show False using old by (simp add: acyclic_def)
qed

subsection \<open>Registering a wait\<close>

text \<open>A dependency-wait request, as \<^verbatim>\<open>_register_wait\<close> receives it.\<close>

record wait_request =
  wr_waitId :: string
  wr_deadline :: "int option"
  wr_dependencies :: "dependency list"

definition blank :: "string option \<Rightarrow> bool" where
  "blank x \<longleftrightarrow> (case x of None \<Rightarrow> True | Some s \<Rightarrow> btrim s = '''')"

text \<open>
  \<^verbatim>\<open>seen @> [target]\<close>: some earlier target has every member of this one. The JSON operator compares
  members, so a target with fewer members than an earlier one counts as a repetition.
\<close>

definition target_seen :: "dep_target list \<Rightarrow> dep_target \<Rightarrow> bool" where
  "target_seen seen tg \<longleftrightarrow> (\<exists>s \<in> set seen.
     (dt_jobId tg \<noteq> None \<longrightarrow> dt_jobId s = dt_jobId tg) \<and> (dt_goalId tg \<noteq> None \<longrightarrow> dt_goalId s = dt_goalId tg))"

fun valid_dependencies :: "dep_target list \<Rightarrow> dependency list \<Rightarrow> bool" where
  "valid_dependencies seen [] = True"
| "valid_dependencies seen (x # xs) =
     (if blank (dt_jobId (dep_target x)) = blank (dt_goalId (dep_target x))
         \<or> (dep_condition x \<noteq> Some ''success'' \<and> dep_condition x \<noteq> Some ''complete'')
         \<or> (dt_goalId (dep_target x) \<noteq> None \<and> dep_condition x \<noteq> Some ''success'')
         \<or> target_seen seen (dep_target x)
      then False else valid_dependencies (seen @ [dep_target x]) xs)"

definition validate_dependencies :: "dependency list \<Rightarrow> unit res" where
  "validate_dependencies deps = (if valid_dependencies [] deps then Inr ()
     else raise_code ''JGI01'' ''invalid or duplicate dependency'')"

text \<open>The check of one dependency of a new wait.\<close>

definition check_dep :: "db \<Rightarrow> string \<Rightarrow> string \<Rightarrow> dependency \<Rightarrow> unit res" where
  "check_dep d t j dep =
     (if dt_jobId (dep_target dep) = Some j then raise_code ''JGC01'' ''self dependency''
      else case dt_jobId (dep_target dep) of
        Some jid \<Rightarrow> if find_fact d t jid = None then raise_code ''JJN01'' ''job not found'' else Inr ()
      | None \<Rightarrow> (case dt_goalId (dep_target dep) of
            None \<Rightarrow> raise_code ''JGN01'' ''goal not found''
          | Some g \<Rightarrow> bind_res (goal_info d t g) (\<lambda>_. Inr ())))"

definition pending_dep :: "dependency \<Rightarrow> dep_outcome" where
  "pending_dep dep = \<lparr>do_dep = dep, do_state = WaitPending, do_blockedReason = None,
     do_satisfiedByJobId = None, do_failure = None\<rparr>"

definition new_outcome :: "string \<Rightarrow> string \<Rightarrow> wait_request \<Rightarrow> wait_outcome" where
  "new_outcome t j req = \<lparr>wo_tenantId = t, wo_jobId = j, wo_waitId = wr_waitId req,
     wo_deadline = wr_deadline req, wo_state = WaitPending,
     wo_dependencies = map pending_dep (wr_dependencies req),
     wo_failedDependencyIndex = None, wo_failure = None\<rparr>"

definition new_wait_row :: "string \<Rightarrow> string \<Rightarrow> wait_request \<Rightarrow> wait_row" where
  "new_wait_row t j req = \<lparr>w_tenant_id = t, w_job_id = j, w_wait_id = wr_waitId req,
     w_descriptor = wr_dependencies req, w_deadline = wr_deadline req,
     w_state = WaitPending, w_outcome = new_outcome t j req\<rparr>"

text \<open>The regular expression of the wait-id check: slash, backslash, question mark, hash, percent, space.\<close>

definition bad_wait_id :: "string \<Rightarrow> bool \<Rightarrow> bool" where
  "bad_wait_id i submission \<longleftrightarrow> i = '''' \<or>
     (\<exists>c \<in> set i. c \<in> {CHR ''/'', CHR 0x5C, CHR ''?'', CHR ''#'', CHR ''%'', CHR '' ''}) \<or>
     (i = ''submission'' \<and> \<not> submission)"

definition register_wait :: "string \<Rightarrow> string \<Rightarrow> wait_request \<Rightarrow> bool \<Rightarrow> int \<Rightarrow> db \<Rightarrow> db res" where
  "register_wait t j req submission now d =
     (if bad_wait_id (wr_waitId req) submission then raise_code ''JGI01'' ''invalid wait id''
      else bind_res (validate_dependencies (wr_dependencies req)) (\<lambda>_.
      if wr_dependencies req = [] then raise_code ''JGI01'' ''empty dependency wait''
      else case find_wait d t j (wr_waitId req) of
        Some old \<Rightarrow>
          if w_descriptor old \<noteq> wr_dependencies req \<or> w_deadline old \<noteq> wr_deadline req
          then raise_code ''JGW02'' ''wait descriptor changed''
          else resave_wait now old d
      | None \<Rightarrow>
          bind_res (fold_res (\<lambda>dep _. check_dep d t j dep) (wr_dependencies req) ()) (\<lambda>_.
          let d1 = d\<lparr>dependency_waits := dependency_waits d @ [new_wait_row t j req]\<rparr>
          in bind_res (resave_wait now (new_wait_row t j req) d1) (\<lambda>d2.
             bind_res (check_goal_cycle d2 t (KJob, j) now) (\<lambda>_. Inr d2)))))"

subsection \<open>Registration keeps the wait invariant\<close>

lemma evaluate_dep_known: "evaluate_dep d t x = Inr y \<Longrightarrow> known_target d t (do_dep x)"
  by (auto simp: evaluate_dep_def evaluate_goal_dep_def evaluate_job_dep_def known_target_def
      target_of_def find_defs row_at_None split: option.splits if_splits)
    (auto dest!: row_at_SomeD intro: rev_image_eqI)

lemma evaluate_deps_known:
  assumes "evaluate_deps d t i xs = Inr (ys, None)" "\<forall>x \<in> set xs. do_state x = WaitPending"
  shows "\<forall>x \<in> set xs. known_target d t (do_dep x)"
  using assms
proof (induction xs arbitrary: i ys)
  case (Cons x xs)
  then obtain y zs where y: "evaluate_dep d t x = Inr y" "evaluate_deps d t (Suc i) xs = Inr (zs, None)"
    by (auto simp: res_simps split: if_splits)
  then show ?case using evaluate_dep_known [OF y(1)] Cons.IH [OF y(2)] Cons.prems(2) by simp
qed simp

lemma evaluate_wait_key:
  assumes "evaluate_wait d w now = Inr v"
  shows "outcome_key v = outcome_key w \<and> wo_deadline v = wo_deadline w"
proof (cases "wo_state w \<noteq> WaitPending \<or> (case wo_deadline w of None \<Rightarrow> False | Some dl \<Rightarrow> dl \<le> now)")
  case True
  then show ?thesis using assms by (auto simp: evaluate_wait_def outcome_key_def split: if_splits)
next
  case False
  then obtain ds f where "evaluate_deps d (wo_tenantId w) 0 (wo_dependencies w) = Inr (ds, f)"
    using assms by (auto simp: evaluate_wait_def res_simps)
  then show ?thesis using assms False
    by (cases f) (auto simp: evaluate_wait_def outcome_key_def split: prod.splits)
qed

text \<open>The first evaluation of a wait checks what later ones rely on.\<close>

lemma evaluate_new:
  assumes run: "evaluate_wait d w now = Inr v" and pending: "wo_state w = WaitPending"
    "\<forall>x \<in> set (wo_dependencies w). do_state x = WaitPending"
    and dist: "wo_state v = WaitPending \<longrightarrow> distinct (pending_targets v)"
  shows "evaluated d w v"
proof (cases "wo_state v = WaitPending")
  case False
  then show ?thesis using evaluate_wait_key [OF run] pending(1) by (simp add: evaluated_def outcome_ok_def)
next
  case True
  have due: "\<not> (case wo_deadline w of None \<Rightarrow> False | Some dl \<Rightarrow> dl \<le> now)"
    using run True pending(1) by (auto simp: evaluate_wait_def)
  then obtain ys f where ys: "evaluate_deps d (wo_tenantId w) 0 (wo_dependencies w) = Inr (ys, f)"
    using run pending(1) by (auto simp: evaluate_wait_def res_simps)
  have f: "f = None" using run True pending(1) due ys
    by (cases f) (auto simp: evaluate_wait_def split: prod.splits)
  have v: "v = w\<lparr>wo_dependencies := ys, wo_state := WaitPending\<rparr>"
    using run True pending(1) due ys f by (auto simp: evaluate_wait_def split: if_splits)
  have some: "\<exists>x \<in> set ys. do_state x = WaitPending"
    using run True pending(1) due ys f by (auto simp: evaluate_wait_def split: if_splits)
  note ys = ys [unfolded f] v
  have "\<forall>y \<in> set ys. known_target d (wo_tenantId w) (do_dep y)"
    by (rule dep_step_known [OF evaluate_deps_steps [OF ys(1)] evaluate_deps_known [OF ys(1) pending(2)]])
  moreover have "\<forall>y \<in> set ys. do_state y = WaitSatisfied \<or>
      (do_state y = WaitPending \<and> live_dep d (wo_tenantId w) (do_dep y))"
    by (rule evaluate_deps_settled [OF ys(1)]) (use pending in auto)
  ultimately show ?thesis
    using dist True pending ys(2) some dep_step_pending_subset [OF evaluate_deps_steps [OF ys(1)]]
    by (auto simp: evaluated_def outcome_ok_def outcome_key_def pending_targets_nonempty)
qed

lemma save_wait_distinct:
  "save_wait v d = Inr d' \<Longrightarrow> wo_state v = WaitPending \<Longrightarrow> distinct (pending_targets v)"
  by (auto simp: save_wait_def Let_def split: if_splits)

text \<open>The contract of registration: the waits of other keys are as they were.\<close>

definition registers :: "string \<times> string \<times> string \<Rightarrow> db \<Rightarrow> db \<Rightarrow> bool" where
  "registers k d d' \<longleftrightarrow> waits_wf d' \<and> waits_fresh d' \<and> waits_only d d' \<and>
     pending_keys d' \<subseteq> insert k (pending_keys d) \<and>
     wait_key ` set (dependency_waits d') = insert k (wait_key ` set (dependency_waits d)) \<and>
     (\<forall>w \<in> set (dependency_waits d'). wait_key w \<noteq> k \<longrightarrow> w \<in> set (dependency_waits d))"

lemma register_new_ok:
  assumes wf: "waits_wf d" and fresh: "waits_fresh d"
    and none: "(t, j, wr_waitId req) \<notin> wait_key ` set (dependency_waits d)"
    and d1: "d1 = d\<lparr>dependency_waits := dependency_waits d @ [new_wait_row t j req]\<rparr>"
    and run: "resave_wait now (new_wait_row t j req) d1 = Inr d2"
  shows "registers (t, j, wr_waitId req) d d2"
proof -
  let ?k = "(t, j, wr_waitId req)" and ?r = "new_wait_row t j req"
  from run obtain v where v: "evaluate_wait d1 (new_outcome t j req) now = Inr v" "save_wait v d1 = Inr d2"
    by (auto simp: resave_wait_def res_simps new_wait_row_def)
  have ev: "evaluated d1 (new_outcome t j req) v"
    by (rule evaluate_new [OF v(1)]) (auto simp: new_outcome_def pending_dep_def save_wait_distinct [OF v(2)])
  then have key: "outcome_key v = ?k" "wo_deadline v = w_deadline ?r" "outcome_ok d1 v"
    by (auto simp: evaluated_def new_outcome_def outcome_key_def new_wait_row_def)
  have rk: "wait_key ?r = ?k" by (simp add: wait_key_def new_wait_row_def)
  have "waits_only d d1" by (simp add: d1 waits_only_def)
  note ctx = waits_onlyD(5) [OF this]
  have idx: "index_ok d1 = index_ok d" by (intro ext) (simp add: index_ok_def targets_of_def d1)
  have "waits_wf_but ?k d1"
    using wf none rk unfolding waits_wf_but_def waits_wf_def ctx idx by (auto simp: d1)
  then have wf2: "waits_wf d2"
    by (intro save_wait_wf [OF _ v(2) key(3), of ?r]) (simp_all add: key rk d1)
  have rows: "dependency_waits d2 = upd_at wait_key ?k
      (\<lambda>r. r\<lparr>w_outcome := v, w_state := wo_state v\<rparr>) (dependency_waits d1)"
    using save_wait_rows [OF v(2)] key(1) by simp
  have only: "waits_only d d2" using save_wait_waits_only [OF v(2)] by (simp add: d1 waits_only_def)
  have other: "w \<in> set (dependency_waits d)"
    if "w \<in> set (dependency_waits d2)" "wait_key w \<noteq> ?k" for w
    using that none rk unfolding rows d1 by (auto simp: upd_at_def wait_key_def split: if_splits)
  have "fresh_wait d2 w" if w: "w \<in> set (dependency_waits d2)" for w
  proof (cases "wait_key w = ?k")
    case True
    have "w_outcome w = v"
      using w True unfolding rows by (cases rule: set_upd_at_cases) auto
    moreover have "live_dep d2 = live_dep d1"
      using waits_onlyD(2) [OF save_wait_waits_only [OF v(2)]] .
    moreover have "row_ok d2 w" using wf2 w by (simp add: waits_wf_def)
    ultimately show ?thesis using ev True
      by (auto simp: fresh_wait_def evaluated_def row_ok_def outcome_key_def wait_key_def)
  next
    case False
    then show ?thesis using other [OF w] fresh waits_onlyD(3) [OF only] by (simp add: waits_fresh_def)
  qed
  moreover have "wait_key ` set (dependency_waits d2) = insert ?k (wait_key ` set (dependency_waits d))"
    unfolding rows by (subst key_image_upd_at) (auto simp: wait_key_def d1 new_wait_row_def)
  moreover have "pending_keys d2 \<subseteq> insert ?k (pending_keys d)"
    using other unfolding pending_keys_def by blast
  ultimately show ?thesis using wf2 only other by (simp add: registers_def waits_fresh_def)
qed

lemma register_wait_ok:
  assumes wf: "waits_wf d" and fresh: "waits_fresh d"
    and run: "register_wait t j req sub now d = Inr d'"
  shows "registers (t, j, wr_waitId req) d d' \<and>
    (waits_shrink d d' \<or> check_goal_cycle d' t (KJob, j) now = Inr ())"
proof (cases "find_wait d t j (wr_waitId req)")
  case None
  then have "(t, j, wr_waitId req) \<notin> wait_key ` set (dependency_waits d)"
    by (simp add: find_wait_def row_at_None)
  then show ?thesis using run None register_new_ok [OF wf fresh]
    by (auto simp: register_wait_def res_simps Let_def)
next
  case (Some old)
  then have old: "old \<in> set (dependency_waits d)" "wait_key old = (t, j, wr_waitId req)"
    by (auto simp: find_wait_def dest: row_at_SomeD)
  have "resave_wait now old d = Inr d'"
    using run Some by (auto simp: register_wait_def res_simps split: if_splits)
  with resave_fold [OF wf, of "[old]" now] old(1) have d': "waits_settle d d'"
    "\<forall>w \<in> set (dependency_waits d'). if wait_key w \<in> wait_key ` set [old] then fresh_wait d' w
       else w \<in> set (dependency_waits d)" by (simp_all add: bind_res_def split: sum.splits)
  have "set (map wait_key (dependency_waits d')) = set (map wait_key (dependency_waits d))"
    using d'(1) by (simp only: waits_settle_def)
  then have keys: "wait_key ` set (dependency_waits d') = wait_key ` set (dependency_waits d)" by simp
  have "waits_fresh d'"
    using d' fresh waits_onlyD(3) [of d d'] by (auto simp: waits_fresh_def waits_settle_def split: if_splits)
  moreover have "insert (t, j, wr_waitId req) (wait_key ` set (dependency_waits d)) =
      wait_key ` set (dependency_waits d)"
    using old by (intro insert_absorb image_eqI [of _ _ old]) simp_all
  ultimately show ?thesis using d' keys old(2) waits_shrink_pending [of d d']
    by (auto simp: registers_def waits_settle_def split: if_splits)
qed

subsection \<open>The obligation graph stays acyclic\<close>

definition before_deadline :: "wait_row \<Rightarrow> int \<Rightarrow> bool" where
  "before_deadline w now \<longleftrightarrow> (case w_deadline w of None \<Rightarrow> True | Some dl \<Rightarrow> dl > now)"

text \<open>The edges in terms of the stored outcomes instead of their index.\<close>

lemma index_mem:
  assumes "waits_wf d" "w \<in> set (dependency_waits d)"
  shows "k \<in> set (targets_of d (wait_key w)) \<longleftrightarrow>
    w_state w = WaitPending \<and> Some k \<in> set (pending_targets (w_outcome w))"
proof -
  have "map Some (targets_of d (wait_key w)) =
      (if w_state w = WaitPending then pending_targets (w_outcome w) else [])"
    using assms by (simp add: waits_wf_def index_ok_def)
  then have "set (map Some (targets_of d (wait_key w))) =
      (if w_state w = WaitPending then set (pending_targets (w_outcome w)) else {})" by simp
  then show ?thesis by (auto split: if_splits)
qed

lemma job_edge_iff:
  assumes "waits_wf d"
  shows "((KJob, j), k) \<in> obligations d t now \<longleftrightarrow> \<not> archived d t j \<and>
    (\<exists>w \<in> set (dependency_waits d). w_tenant_id w = t \<and> w_job_id w = j \<and> before_deadline w now \<and>
       w_state w = WaitPending \<and> Some k \<in> set (pending_targets (w_outcome w)))"
proof -
  have edge: "((KJob, j), k) \<in> obligations d t now \<longleftrightarrow> \<not> archived d t j \<and>
      (\<exists>x \<in> set (dependency_targets d). \<exists>w \<in> set (dependency_waits d). t_tenant_id x = t \<and>
         t_job_id x = j \<and> wait_key w = target_wait_key x \<and> before_deadline w now \<and>
         k = (t_target_kind x, t_target_id x))"
    by (auto simp: edges_def before_deadline_def)
  have "k \<in> set (targets_of d (wait_key w)) \<longleftrightarrow> (\<exists>x \<in> set (dependency_targets d).
      target_wait_key x = wait_key w \<and> k = (t_target_kind x, t_target_id x))" for w
    by (auto simp: targets_of_def)
  then have pend: "w_state w = WaitPending \<and> Some k \<in> set (pending_targets (w_outcome w)) \<longleftrightarrow>
      (\<exists>x \<in> set (dependency_targets d). target_wait_key x = wait_key w \<and>
         k = (t_target_kind x, t_target_id x))" if "w \<in> set (dependency_waits d)" for w
    using index_mem [OF assms that, of k, symmetric] by (simp only:)
  have key: "wait_key w = target_wait_key x \<Longrightarrow>
      w_tenant_id w = t_tenant_id x \<and> w_job_id w = t_job_id x" for w x
    by (simp add: wait_key_def target_wait_key_def)
  show ?thesis
  proof
    assume "((KJob, j), k) \<in> obligations d t now"
    then obtain x w where x: "x \<in> set (dependency_targets d)" "w \<in> set (dependency_waits d)"
      "t_tenant_id x = t" "t_job_id x = j" "wait_key w = target_wait_key x" "before_deadline w now"
      "k = (t_target_kind x, t_target_id x)" "\<not> archived d t j" unfolding edge by blast
    then show "\<not> archived d t j \<and> (\<exists>w \<in> set (dependency_waits d). w_tenant_id w = t \<and>
        w_job_id w = j \<and> before_deadline w now \<and> w_state w = WaitPending \<and>
        Some k \<in> set (pending_targets (w_outcome w)))"
      using key [OF x(5)] pend [OF x(2)] by metis
  next
    assume "\<not> archived d t j \<and> (\<exists>w \<in> set (dependency_waits d). w_tenant_id w = t \<and>
        w_job_id w = j \<and> before_deadline w now \<and> w_state w = WaitPending \<and>
        Some k \<in> set (pending_targets (w_outcome w)))"
    then show "((KJob, j), k) \<in> obligations d t now" unfolding edge using pend key by metis
  qed
qed

definition goal_open :: "db \<Rightarrow> string \<Rightarrow> string \<Rightarrow> bool" where
  "goal_open d t g \<longleftrightarrow> (\<exists>r. find_goal d t g = Some r \<and> g_state r = GoalOpen)"

lemma goal_edge_iff:
  "((KGoal, g), k) \<in> obligations d t now \<longleftrightarrow> goal_open d t g \<and>
     (\<exists>m \<in> set (goal_members d t g). \<not> archived d t m \<and> k = (KJob, m))"
  by (cases "find_goal d t g") (auto simp: edges_def goal_open_def)

text \<open>What may change without adding an edge for a tenant: everything that only retires work.\<close>

definition retires :: "string \<Rightarrow> db \<Rightarrow> db \<Rightarrow> bool" where
  "retires t d d' \<longleftrightarrow> (\<forall>j. archived d t j \<longrightarrow> archived d' t j) \<and>
     (\<forall>g. goal_open d' t g \<longrightarrow> goal_open d t g) \<and>
     (\<forall>g. set (goal_members d' t g) \<subseteq> set (goal_members d t g))"

definition awaits_less :: "string \<Rightarrow> string set \<Rightarrow> db \<Rightarrow> db \<Rightarrow> bool" where
  "awaits_less t except d d' \<longleftrightarrow> (\<forall>w' \<in> set (dependency_waits d'). w_state w' = WaitPending \<longrightarrow>
     w_tenant_id w' = t \<longrightarrow> w_job_id w' \<notin> except \<longrightarrow> (\<exists>w \<in> set (dependency_waits d). wait_le w' w))"

lemma obligations_mono:
  assumes wf: "waits_wf d" "waits_wf d'" and r: "retires t d d'" "awaits_less t E d d'"
    and now: "now \<le> now'" and e: "(a, b) \<in> obligations d' t now'" "\<forall>j \<in> E. a \<noteq> (KJob, j)"
  shows "(a, b) \<in> obligations d t now"
proof -
  obtain k i where a: "a = (k, i)" by (cases a)
  show ?thesis
  proof (cases k)
    case KGoal
    then show ?thesis using e r(1) by (fastforce simp: a goal_edge_iff retires_def)
  next
    case KJob
    with e a obtain w' where w': "w' \<in> set (dependency_waits d')" "w_tenant_id w' = t" "w_job_id w' = i"
        "before_deadline w' now'" "w_state w' = WaitPending" "Some b \<in> set (pending_targets (w_outcome w'))"
      and arch: "\<not> archived d' t i" "i \<notin> E" by (auto simp: job_edge_iff [OF wf(2)])
    then obtain w where w: "w \<in> set (dependency_waits d)" "wait_le w' w"
      using r(2) unfolding awaits_less_def by metis
    moreover have "before_deadline w now"
      using w' w now by (auto simp: before_deadline_def wait_le_def split: option.splits)
    ultimately show ?thesis using w' arch r(1) KJob a
      by (auto simp: job_edge_iff [OF wf(1)] retires_def wait_le_def wait_key_def)
  qed
qed

definition obligations_acyclic :: "db \<Rightarrow> int \<Rightarrow> bool" where
  "obligations_acyclic d now \<longleftrightarrow> (\<forall>t. acyclic (obligations d t now))"

lemma retires_acyclic:
  assumes "waits_wf d" "waits_wf d'" "\<And>t. retires t d d'" "waits_shrink d d'" "now \<le> now'"
    and "obligations_acyclic d now"
  shows "obligations_acyclic d' now'"
proof -
  have "awaits_less t {} d d'" for t using assms(4) by (simp add: awaits_less_def waits_shrink_def)
  then have "(a, b) \<in> obligations d t now" if "(a, b) \<in> obligations d' t now'" for t a b
    using obligations_mono [OF assms(1,2) assms(3) _ assms(5) that, of "{}"] by simp
  then have "obligations d' t now' \<subseteq> obligations d t now" for t by (intro subrelI)
  then show ?thesis using assms(6) acyclic_subset by (metis obligations_acyclic_def)
qed

text \<open>
  An operation that adds obligations only below one node, and then checks that node, keeps the
  graph acyclic.
\<close>

lemma checked_acyclic:
  assumes old: "obligations_acyclic d now"
    and new: "\<And>t' a b. (a, b) \<in> obligations d' t' now \<Longrightarrow>
      (a, b) \<in> obligations d t' now \<or> (t' = t \<and> (n, a) \<in> (obligations d' t now)\<^sup>*)"
    and check: "check_goal_cycle d' t n now = Inr ()"
  shows "obligations_acyclic d' now"
  unfolding obligations_acyclic_def
proof
  fix t'
  show "acyclic (obligations d' t' now)"
  proof (cases "t' = t")
    case True
    show ?thesis unfolding True
    proof (rule acyclic_new_edges)
      show "acyclic (obligations d t now)" using old by (simp add: obligations_acyclic_def)
      show "(a, b) \<in> obligations d t now \<or> (n, a) \<in> (obligations d' t now)\<^sup>*"
        if "(a, b) \<in> obligations d' t now" for a b using new [OF that] by simp
      show "\<nexists>m. (n, m) \<in> (obligations d' t now)\<^sup>* \<and> (m, m) \<in> (obligations d' t now)\<^sup>+"
        using check unfolding check_goal_cycle_Inr .
    qed
  next
    case False
    have "obligations d' t' now \<subseteq> obligations d t' now"
      by (intro subrelI) (use new False in blast)
    then show ?thesis using old acyclic_subset by (metis obligations_acyclic_def)
  qed
qed

lemma waits_only_retires: "waits_only d d' \<Longrightarrow> retires t d d'"
  by (simp add: retires_def waits_only_def archived_def goal_open_def find_goal_def goal_members_def)

lemma register_wait_acyclic:
  assumes wf: "waits_wf d" and fresh: "waits_fresh d"
    and run: "register_wait t j req sub now d = Inr d'" and old: "obligations_acyclic d now"
  shows "obligations_acyclic d' now"
proof -
  note reg = register_wait_ok [OF wf fresh run]
  then have wf': "waits_wf d'" and ret: "retires t' d d'" for t'
    by (auto simp: registers_def waits_only_retires)
  show ?thesis
  proof (cases "waits_shrink d d'")
    case True
    show ?thesis by (rule retires_acyclic [OF wf wf' ret True order_refl old])
  next
    case False
    then have check: "check_goal_cycle d' t (KJob, j) now = Inr ()" using reg by simp
    have less: "awaits_less t' (if t' = t then {j} else {}) d d'" for t'
      using reg unfolding awaits_less_def registers_def
      by (auto simp: wait_le_def wait_key_def split: if_splits)
    show ?thesis
    proof (rule checked_acyclic [OF old _ check])
      fix t' a b assume e: "(a, b) \<in> obligations d' t' now"
      show "(a, b) \<in> obligations d t' now \<or> (t' = t \<and> ((KJob, j), a) \<in> (obligations d' t now)\<^sup>*)"
        using obligations_mono [OF wf wf' ret less order_refl e] by (cases "t' = t") auto
    qed
  qed
qed

end
