(* ===== verification/Versioned.thy ===== *)
theory Versioned
  imports Prelude
begin

section \<open>Versioned rows\<close>

text \<open>
  The contract of optimistic concurrency control that schedules (by generation) and client payloads
  (by revision) share: an accepted write names one key, raises its version by one, touches no other
  key, and, when the caller named a version, happens only over that version. What a client of the
  contract relies on is proved here once.
\<close>

locale versioned_rows =
  fixes row :: "'d \<Rightarrow> 'k \<Rightarrow> 'v option"
    and version :: "'v \<Rightarrow> int"
    and final :: "'v \<Rightarrow> bool"
    and writes :: "'k \<Rightarrow> int option \<Rightarrow> 'd \<Rightarrow> 'd \<Rightarrow> bool"
  assumes advance: "writes k expected d d' \<Longrightarrow> row d k = Some v \<Longrightarrow>
      \<exists>v'. row d' k = Some v' \<and> version v' = version v + 1 \<and> (final v \<longrightarrow> final v')"
    and guarded: "writes k (Some g) d d' \<Longrightarrow> \<exists>v. row d k = Some v \<and> version v = g"
    and frame: "writes k expected d d' \<Longrightarrow> k' \<noteq> k \<Longrightarrow> row d' k' = row d k'"
begin

inductive history :: "'d \<Rightarrow> 'd \<Rightarrow> bool" where
  refl: "history d d"
| step: "history d d' \<Longrightarrow> writes k expected d' d'' \<Longrightarrow> history d d''"

lemma history_row:
  assumes "history d d'" "row d k = Some v"
  shows "\<exists>v'. row d' k = Some v' \<and> version v \<le> version v' \<and> (final v \<longrightarrow> final v')"
  using assms
proof (induction rule: history.induct)
  case (refl d)
  then show ?case by simp
next
  case (step d d' k' expected d'')
  from step.IH [OF step.prems] obtain v' where v': "row d' k = Some v'" "version v \<le> version v'"
    "final v \<longrightarrow> final v'" by blast
  show ?case
  proof (cases "k = k'")
    case True
    then show ?thesis using advance [OF step.hyps(2)] v' by fastforce
  next
    case False
    then show ?thesis using frame [OF step.hyps(2)] v' by simp
  qed
qed

text \<open>Of two writers that read the same version, at most one succeeds.\<close>

lemma stale_write_refused:
  assumes "writes k (Some g) d d1" "history d1 d2"
  shows "\<not> writes k (Some g) d2 d3"
proof
  assume late: "writes k (Some g) d2 d3"
  obtain v where v: "row d k = Some v" "version v = g" using guarded [OF assms(1)] by blast
  then obtain v1 where v1: "row d1 k = Some v1" "version v1 = g + 1"
    using advance [OF assms(1)] by force
  obtain v2 where "row d2 k = Some v2" "g + 1 \<le> version v2"
    using history_row [OF assms(2) v1(1)] v1(2) by auto
  with guarded [OF late] show False by auto
qed

end

end
