(* ===== verification/Client_Payload.thy ===== *)
theory Client_Payload
  imports Schema Versioned
begin

section \<open>Client payloads\<close>

text \<open>
  A job carries a client payload: a JSON document that its owner replaces or patches under an
  expected revision. This theory models the canonical text that identifies a value
  (\<^verbatim>\<open>_canonical_client_json\<close>), the merge patch (\<^verbatim>\<open>_merge_client_json\<close>) and the guarded update
  (\<^verbatim>\<open>_client_update_value\<close>, \<^verbatim>\<open>_update_client_payload\<close>), and proves the merge-patch laws and that an
  update either changes exactly one revision or raises.
\<close>

subsection \<open>String and number text\<close>

definition hex_digit :: "nat \<Rightarrow> char" where
  "hex_digit n = ''0123456789abcdef'' ! n"

text \<open>PostgreSQL's \<^verbatim>\<open>to_json\<close> of a text, byte by byte.\<close>

definition escape_char :: "char \<Rightarrow> string" where
  "escape_char c = (let n = of_char c :: nat in
     if n = 8 then [CHR 0x5C, CHR ''b''] else if n = 12 then [CHR 0x5C, CHR ''f'']
     else if n = 10 then [CHR 0x5C, CHR ''n''] else if n = 13 then [CHR 0x5C, CHR ''r'']
     else if n = 9 then [CHR 0x5C, CHR ''t''] else if n = 34 then [CHR 0x5C, CHR 0x22]
     else if n = 92 then [CHR 0x5C, CHR 0x5C]
     else if n < 32 then [CHR 0x5C] @ ''u00'' @ [hex_digit (n div 16), hex_digit (n mod 16)]
     else [c])"

definition to_json_text :: "string \<Rightarrow> string" where
  "to_json_text s = [CHR 0x22] @ concat (map escape_char s) @ [CHR 0x22]"

text \<open>The replacements of \<^verbatim>\<open>_client_json_string\<close>; U+2028 and U+2029 are three bytes of UTF-8.\<close>

fun html_safe :: "string \<Rightarrow> string" where
  "html_safe (a # b # c # s) =
     (if a = CHR 0xE2 \<and> b = CHR 0x80 \<and> c = CHR 0xA8 then [CHR 0x5C] @ ''u2028'' @ html_safe s
      else if a = CHR 0xE2 \<and> b = CHR 0x80 \<and> c = CHR 0xA9 then [CHR 0x5C] @ ''u2029'' @ html_safe s
      else (if a = CHR ''<'' then [CHR 0x5C] @ ''u003c'' else if a = CHR ''>'' then [CHR 0x5C] @ ''u003e''
            else if a = CHR ''&'' then [CHR 0x5C] @ ''u0026'' else [a]) @ html_safe (b # c # s))"
| "html_safe (a # s) =
     (if a = CHR ''<'' then [CHR 0x5C] @ ''u003c'' else if a = CHR ''>'' then [CHR 0x5C] @ ''u003e''
      else if a = CHR ''&'' then [CHR 0x5C] @ ''u0026'' else [a]) @ html_safe s"
| "html_safe [] = []"

definition client_json_string :: "string \<Rightarrow> string" where
  "client_json_string s = html_safe (to_json_text s)"

fun nat_text :: "nat \<Rightarrow> string" where
  "nat_text n = (if n < 10 then [char_of (48 + n)] else nat_text (n div 10) @ [char_of (48 + n mod 10)])"

declare nat_text.simps [simp del]

definition int_text :: "int \<Rightarrow> string" where
  "int_text n = (if n < 0 then CHR ''-'' # nat_text (nat (- n)) else nat_text (nat n))"

definition is_exp :: "char \<Rightarrow> bool" where
  "is_exp c \<longleftrightarrow> c = CHR ''e'' \<or> c = CHR ''E''"

definition trim0 :: "string \<Rightarrow> string" where
  "trim0 s = dropWhile (\<lambda>c. c = CHR ''0'') s"

text \<open>
  The normal form of a number's text: sign, digits without leading or trailing zeros, decimal
  exponent. Zero is \<^verbatim>\<open>0\<close> whatever its spelling.
\<close>

definition number_text :: "string \<Rightarrow> string" where
  "number_text t =
     (let neg = (t \<noteq> [] \<and> hd t = CHR ''-'');
          s0 = (if neg then tl t else t);
          mant = takeWhile (\<lambda>c. \<not> is_exp c) s0;
          rest = dropWhile (\<lambda>c. \<not> is_exp c) s0;
          e0 = (case rest of [] \<Rightarrow> 0 | _ # ds \<Rightarrow> (case parse_index ds of None \<Rightarrow> 0 | Some e \<Rightarrow> e));
          ip = takeWhile (\<lambda>c. c \<noteq> CHR ''.'') mant;
          fp = tl (dropWhile (\<lambda>c. c \<noteq> CHR ''.'') mant);
          digits = trim0 (ip @ fp)
      in if digits = [] then ''0''
         else let m = rev (trim0 (rev digits));
                  e = e0 - int (length fp) + int (length digits) - int (length m)
              in (if neg then ''-'' else '''') @ m @ ''e'' @ int_text e)"

subsection \<open>Canonical text\<close>

definition join :: "string list \<Rightarrow> string" where
  "join xs = (case xs of [] \<Rightarrow> [] | y # ys \<Rightarrow> y @ concat (map (\<lambda>z. CHR '','' # z) ys))"

fun sequence_res :: "('e + 'a) list \<Rightarrow> 'e + 'a list" where
  "sequence_res [] = Inr []"
| "sequence_res (x # xs) = bind_res x (\<lambda>y. bind_res (sequence_res xs) (\<lambda>ys. Inr (y # ys)))"

fun canonical_client_json :: "nat \<Rightarrow> bool \<Rightarrow> nat \<Rightarrow> cjson \<Rightarrow> string res" where
  "canonical_client_json depth p_norm sz v =
     (if sz > 65536 then raise_code ''JCP03'' ''client payload exceeds size limit''
      else case v of
        CObj n ms \<Rightarrow>
          if depth \<ge> 128 then raise_code ''JCP01'' ''client payload nesting limit''
          else if \<not> distinct (map fst ms)
            then raise_code ''JCP01'' ''duplicate client payload object name''
          else bind_res (sequence_res (map (\<lambda>(k, r). bind_res r (\<lambda>t.
                  Inr (client_json_string k @ '':'' @ t)))
                (sort_key fst (map (\<lambda>(k, x). (k, canonical_client_json (Suc depth) p_norm (octets x) x)) ms))))
              (\<lambda>parts. Inr (''{'' @ join parts @ ''}''))
      | CArr n xs \<Rightarrow>
          if depth \<ge> 128 then raise_code ''JCP01'' ''client payload nesting limit''
          else bind_res (sequence_res
                (map (\<lambda>x. canonical_client_json (Suc depth) p_norm (octets x) x) xs))
              (\<lambda>parts. Inr (''['' @ join parts @ '']''))
      | CStr n s \<Rightarrow> Inr (client_json_string s)
      | CNum s \<Rightarrow> Inr (if p_norm then number_text s else s)
      | CBool b \<Rightarrow> Inr (if b then ''true'' else ''false'')
      | CNull \<Rightarrow> Inr ''null'')"

declare canonical_client_json.simps [simp del]

text \<open>An absent payload is identified by the word \<^verbatim>\<open>absent\<close>.\<close>

definition canonical_payload :: "client_json option \<Rightarrow> string res" where
  "canonical_payload p = (case p of None \<Rightarrow> Inr ''absent''
     | Some c \<Rightarrow> canonical_client_json 0 True (cj_octets c) (cj_tree c))"

subsection \<open>Merge patch\<close>

text \<open>\<^verbatim>\<open>p_target->key\<close> on a \<^verbatim>\<open>JSON\<close> object returns the last member of that name.\<close>

definition cmember :: "string \<Rightarrow> cjson option \<Rightarrow> cjson option" where
  "cmember k v = (case v of Some (CObj n ms) \<Rightarrow> map_of (rev ms) k | _ \<Rightarrow> None)"

definition members_of :: "cjson option \<Rightarrow> (string \<times> cjson) list" where
  "members_of v = (case v of Some (CObj n ms) \<Rightarrow> ms | _ \<Rightarrow> [])"

definition object_octets :: "(string \<times> cjson) list \<Rightarrow> nat" where
  "object_octets ms = 2 + (length ms - 1) +
     sum_list (map (\<lambda>(k, v). length (to_json_text k) + 1 + octets v) ms)"

function merge_client_json :: "cjson option \<Rightarrow> cjson \<Rightarrow> cjson" where
  "merge_client_json target patch = (case patch of
     CObj n ps \<Rightarrow>
       let kept = filter (\<lambda>m. fst m \<notin> set (map fst ps)) (members_of target);
           new = map (\<lambda>(k, v). (k, merge_client_json (cmember k target) v))
                   (filter (\<lambda>m. snd m \<noteq> CNull) ps);
           ms = kept @ new
       in CObj (object_octets ms) ms
   | _ \<Rightarrow> patch)"
  by pat_completeness auto
termination
proof (relation "measure (\<lambda>(t, p). size p)")
  fix target :: "cjson option" and patch :: cjson and n ps x k v
  assume "patch = CObj n ps" "x \<in> set (filter (\<lambda>m. snd m \<noteq> CNull) ps)" "(k, v) = x"
  then have "(k, v) \<in> set ps" by auto
  then have "size v < size (CObj n ps)"
    by (induction ps) auto
  then show "((cmember k target, v), target, patch) \<in> measure (\<lambda>(t, p). size p)"
    using \<open>patch = CObj n ps\<close> by simp
qed simp

declare merge_client_json.simps [simp del]

definition merge_payload :: "client_json option \<Rightarrow> client_json \<Rightarrow> client_json" where
  "merge_payload cur patch = (case cj_tree patch of
     CObj n ps \<Rightarrow> let v = merge_client_json (map_option cj_tree cur) (cj_tree patch)
                   in \<lparr>cj_octets = octets v, cj_tree = v\<rparr>
   | _ \<Rightarrow> patch)"

text \<open>The document the canonical text of a merged value denotes: members sorted, text rewritten.\<close>

fun canon_tree :: "cjson \<Rightarrow> cjson" where
  "canon_tree (CObj n ms) = (let ms' = sort_key fst (map (\<lambda>(k, v). (k, canon_tree v)) ms)
     in CObj (2 + (length ms - 1) +
          sum_list (map (\<lambda>(k, v). length (client_json_string k) + 1 + octets v) ms')) ms')"
| "canon_tree (CArr n xs) = (let xs' = map canon_tree xs
     in CArr (2 + (length xs - 1) + sum_list (map octets xs')) xs')"
| "canon_tree (CStr n s) = CStr (length (client_json_string s)) s"
| "canon_tree v = v"

definition client_update_value ::
  "client_json option \<Rightarrow> string option \<Rightarrow> client_json option \<Rightarrow> client_json option res" where
  "client_update_value cur mode val =
     (case mode of
        None \<Rightarrow> if val \<noteq> None then raise_code ''JCP01'' ''client update mode required'' else Inr cur
      | Some m \<Rightarrow>
          bind_res (canonical_payload val) (\<lambda>_.
          bind_res
            (if m = ''reset'' then Inr val
             else case val of
               Some p \<Rightarrow>
                 if m = ''patch'' then
                   let merged = merge_payload cur p in
                   bind_res (canonical_client_json 0 False (cj_octets merged) (cj_tree merged)) (\<lambda>t.
                   Inr (Some \<lparr>cj_octets = length t, cj_tree = canon_tree (cj_tree merged)\<rparr>))
                 else raise_code ''JCP01'' ''invalid client payload update''
             | None \<Rightarrow> raise_code ''JCP01'' ''invalid client payload update'') (\<lambda>r.
          bind_res (canonical_payload r) (\<lambda>_. Inr r))))"

definition update_client_payload ::
  "string \<Rightarrow> string \<Rightarrow> string option \<Rightarrow> client_json option \<Rightarrow> int option \<Rightarrow> db \<Rightarrow> db res" where
  "update_client_payload t j mode val expected d =
     (case mode of
        None \<Rightarrow> if val \<noteq> None \<or> expected \<noteq> None
                 then raise_code ''JCP01'' ''invalid preserve update'' else Inr d
      | Some m \<Rightarrow>
          (case find_client d t j of
             None \<Rightarrow> raise_code ''P0002'' ''query returned no rows''
           | Some st \<Rightarrow>
               (case expected of
                  None \<Rightarrow> raise_code ''JCP01'' ''expected revision required''
                | Some e \<Rightarrow>
                    if e < 0 then raise_code ''JCP01'' ''expected revision required''
                    else if c_revision st \<noteq> e \<or> c_revision st = 9223372036854775807
                    then raise_code ''JCP02'' ''client payload revision conflict''
                    else bind_res (client_update_value (c_client_payload st) mode val) (\<lambda>v.
                      Inr (d\<lparr>job_client_state := upd_at client_key (t, j)
                        (\<lambda>c. c\<lparr>c_client_payload := v, c_revision := c_revision st + 1\<rparr>)
                        (job_client_state d)\<rparr>)))))"

subsection \<open>Laws\<close>

text \<open>The members of a merged object, one by one.\<close>

lemma merge_object:
  "merge_client_json target (CObj n ps) =
     (let ms = filter (\<lambda>m. fst m \<notin> set (map fst ps)) (members_of target) @
               map (\<lambda>(k, v). (k, merge_client_json (cmember k target) v)) (filter (\<lambda>m. snd m \<noteq> CNull) ps)
      in CObj (object_octets ms) ms)"
  by (subst merge_client_json.simps) (simp add: Let_def)

lemma merge_scalar: "(\<And>n ps. patch \<noteq> CObj n ps) \<Longrightarrow> merge_client_json target patch = patch"
  by (subst merge_client_json.simps) (auto split: cjson.splits)

lemma map_of_rev_filter_keys:
  "map_of (rev (filter (\<lambda>m. fst m \<notin> S) ms)) k = (if k \<in> S then None else map_of (rev ms) k)"
  by (induction ms) (auto simp: map_add_def split: option.splits)

lemma map_of_rev_distinct: "distinct (map fst ms) \<Longrightarrow> map_of (rev ms) k = map_of ms k"
proof (induction ms)
  case (Cons m ms)
  then have "map_of (rev ms) (fst m) = None" by (simp add: map_of_eq_None_iff)
  with Cons show ?case by (cases m) (auto simp: map_add_def split: option.splits)
qed simp

lemma cmember_members: "cmember k v = map_of (rev (members_of v)) k"
  by (auto simp: cmember_def members_of_def split: option.splits cjson.splits)

lemma map_of_map_value:
  "map_of (map (\<lambda>(k, v). (k, f k v)) ms) k = map_option (f k) (map_of ms k)"
  by (induction ms) auto

lemma map_of_filter_value:
  "distinct (map fst ms) \<Longrightarrow>
     map_of (filter (\<lambda>m. P (snd m)) ms) k = (case map_of ms k of None \<Rightarrow> None
       | Some v \<Rightarrow> if P v then Some v else None)"
proof (induction ms)
  case (Cons m ms)
  then show ?case
    by (cases m) (auto simp: map_of_eq_None_iff [symmetric] split: option.splits)
qed simp

text \<open>
  RFC 7396, member by member: a member the patch does not name is kept, one it maps to \<^verbatim>\<open>null\<close> is
  removed, any other is merged recursively.
\<close>

lemma merge_member:
  assumes "distinct (map fst ps)"
  shows "cmember k (Some (merge_client_json target (CObj n ps))) =
    (case map_of ps k of
       None \<Rightarrow> cmember k target
     | Some v \<Rightarrow> if v = CNull then None else Some (merge_client_json (cmember k target) v))"
proof -
  let ?new = "map (\<lambda>(k, v). (k, merge_client_json (cmember k target) v)) (filter (\<lambda>m. snd m \<noteq> CNull) ps)"
  let ?kept = "filter (\<lambda>m. fst m \<notin> set (map fst ps)) (members_of target)"
  have "distinct (map fst ?new)"
    using assms by (simp add: case_prod_unfold comp_def distinct_map_filter)
  then have new: "map_of (rev ?new) k = (case map_of ps k of None \<Rightarrow> None
      | Some v \<Rightarrow> if v \<noteq> CNull then Some (merge_client_json (cmember k target) v) else None)"
    using map_of_filter_value [OF assms, of "\<lambda>v. v \<noteq> CNull" k]
    by (auto simp: map_of_rev_distinct map_of_map_value split: option.splits)
  have kept: "map_of (rev ?kept) k = (if k \<in> set (map fst ps) then None else cmember k target)"
    by (simp add: map_of_rev_filter_keys cmember_members)
  have "cmember k (Some (merge_client_json target (CObj n ps))) =
      (case map_of (rev ?new) k of None \<Rightarrow> map_of (rev ?kept) k | Some v \<Rightarrow> Some v)"
    unfolding merge_object Let_def cmember_members
    by (simp only: members_of_def option.case cjson.case rev_append map_of_append map_add_def)
  moreover have "k \<in> set (map fst ps) \<longleftrightarrow> map_of ps k \<noteq> None" by (simp add: map_of_eq_None_iff)
  ultimately show ?thesis unfolding new kept by (simp split: option.splits)
qed

text \<open>An update changes the payload of one job, at the revision the caller saw, and advances it by one.\<close>

lemma update_client_payload_cases:
  assumes "update_client_payload t j mode val expected d = Inr d'"
  obtains (preserve) "mode = None" "d' = d"
  | (update) m st v where "mode = Some m" "find_client d t j = Some st" "expected = Some (c_revision st)"
      "0 \<le> c_revision st" "client_update_value (c_client_payload st) mode val = Inr v"
      "d' = d\<lparr>job_client_state := upd_at client_key (t, j)
         (\<lambda>c. c\<lparr>c_client_payload := v, c_revision := c_revision st + 1\<rparr>) (job_client_state d)\<rparr>"
  using assms
  by (auto simp: update_client_payload_def res_simps split: option.splits if_splits)

lemma update_client_payload_frame:
  assumes "update_client_payload t j mode val expected d = Inr d'"
  shows "d'\<lparr>job_client_state := job_client_state d\<rparr> = d"
    "map client_key (job_client_state d') = map client_key (job_client_state d)"
  using assms by (cases rule: update_client_payload_cases; simp add: map_key_upd_at client_key_def)+

subsection \<open>Revisions\<close>

definition payload_write :: "job_key \<Rightarrow> int option \<Rightarrow> db \<Rightarrow> db \<Rightarrow> bool" where
  "payload_write k expected d d' \<longleftrightarrow>
     (\<exists>m val. update_client_payload (fst k) (snd k) (Some m) val expected d = Inr d')"

lemma payload_write_row:
  assumes "payload_write k expected d d'"
  obtains st v where "find_client d (fst k) (snd k) = Some st" "expected = Some (c_revision st)"
    "find_client d' (fst k') (snd k') = (if k' = k then Some (st\<lparr>c_client_payload := v,
       c_revision := c_revision st + 1\<rparr>) else find_client d (fst k') (snd k'))"
proof -
  from assms obtain m val where "update_client_payload (fst k) (snd k) (Some m) val expected d = Inr d'"
    by (auto simp: payload_write_def)
  then show thesis
  proof (cases rule: update_client_payload_cases)
    case preserve
    then show thesis by simp
  next
    case (update m st v)
    have "row_at client_key k' (job_client_state d') = (if k' = k then map_option
        (\<lambda>c. c\<lparr>c_client_payload := v, c_revision := c_revision st + 1\<rparr>) (row_at client_key k' (job_client_state d))
        else row_at client_key k' (job_client_state d))"
      unfolding update(6) by (simp add: row_at_upd_at client_key_def)
    then have "find_client d' (fst k') (snd k') = (if k' = k then Some (st\<lparr>c_client_payload := v,
       c_revision := c_revision st + 1\<rparr>) else find_client d (fst k') (snd k'))"
      using update(2) by (auto simp: find_client_def)
    then show thesis using that update(2,3) by blast
  qed
qed

interpretation revisions: versioned_rows "\<lambda>d k. find_client d (fst k) (snd k)" c_revision "\<lambda>_. False" payload_write
proof
  fix k expected d d' v
  assume w: "payload_write k expected d d'" and v: "find_client d (fst k) (snd k) = Some v"
  from w show "\<exists>v'. find_client d' (fst k) (snd k) = Some v' \<and> c_revision v' = c_revision v + 1 \<and>
      (False \<longrightarrow> False)"
    by (rule payload_write_row [where k' = k]) (use v in auto)
next
  fix k g d d'
  assume w: "payload_write k (Some g) d d'"
  then show "\<exists>v. find_client d (fst k) (snd k) = Some v \<and> c_revision v = g"
    by (rule payload_write_row [where k' = k]) auto
next
  fix k expected d d' and k' :: job_key
  assume w: "payload_write k expected d d'" and other: "k' \<noteq> k"
  from w show "find_client d' (fst k') (snd k') = find_client d (fst k') (snd k')"
    by (rule payload_write_row [where k' = k']) (use other in simp)
qed

end
