(* ===== verification/Goal_Admin.thy ===== *)
theory Goal_Admin
  imports Goal_Cycles Client_Payload
begin

section \<open>Preparing jobs and adding goal candidates\<close>

text \<open>
  \<^verbatim>\<open>prepare_job\<close> reserves a job id and a goal id idempotently before the job is submitted;
  \<^verbatim>\<open>add_goal_candidate\<close> makes an existing job a member of an open goal. The random identifiers the SQL
  draws are arguments. The parser of the preparation descriptor's JSON text, which only chooses
  the diagnostic of a conflict, is the argument \<open>parse\<close>.
\<close>

subsection \<open>Preparation\<close>

text \<open>Member lookup in a parsed descriptor, \<^verbatim>\<open>a->'Data'\<close> and \<^verbatim>\<open>a#>ARRAY['Job',key]\<close>.\<close>

definition json_member :: "string \<Rightarrow> json option \<Rightarrow> json option" where
  "json_member k v = (case v of Some (JObject kvs) \<Rightarrow> map_of kvs k | _ \<Rightarrow> None)"

definition mismatch_labels :: "(string \<times> string) list" where
  "mismatch_labels = [(''JobType'', ''job type''), (''Metadata'', ''metadata''),
     (''RunPolicy'', ''run policy''), (''Prerequisites'', ''prerequisites''),
     (''Dependencies'', ''dependencies''), (''ShareGoal'', ''goal sharing''),
     (''ClientPayloadUpdate'', ''initial client payload''), (''Schema'', ''schema'')]"

definition preparation_mismatch :: "(string \<Rightarrow> json option) \<Rightarrow> string \<Rightarrow> string \<Rightarrow> string" where
  "preparation_mismatch parse old new =
     (case (parse old, parse new) of
        (Some a, Some b) \<Rightarrow>
          if json_member ''Data'' (Some a) \<noteq> json_member ''Data'' (Some b) then ''different input''
          else (case find (\<lambda>(k, l). json_member k (json_member ''Job'' (Some a)) \<noteq>
                                     json_member k (json_member ''Job'' (Some b))) mismatch_labels of
                  Some (k, l) \<Rightarrow> ''different '' @ l
                | None \<Rightarrow> ''different job preparation'')
      | _ \<Rightarrow> ''different job preparation'')"

record prepared =
  pr_tenantId :: string
  pr_jobId :: string
  pr_GoalID :: string
  pr_Published :: bool

text \<open>The row a preparation finds: by job id or by request id, the smallest job id first.\<close>

definition find_preparation :: "db \<Rightarrow> string \<Rightarrow> string option \<Rightarrow> string option \<Rightarrow> preparation_row option" where
  "find_preparation d t j r =
     (case sort_key p_job_id (filter (\<lambda>p. p_tenant_id p = t \<and>
         ((j \<noteq> None \<and> Some (p_job_id p) = j) \<or> (r \<noteq> None \<and> p_request_id p = r))) (job_preparations d)) of
        [] \<Rightarrow> None | p # _ \<Rightarrow> Some p)"

definition preparation_conflicts ::
  "db \<Rightarrow> preparation_row \<Rightarrow> string option \<Rightarrow> string option \<Rightarrow> string option \<Rightarrow> bool \<Rightarrow> string \<Rightarrow>
   dependency list \<Rightarrow> bool" where
  "preparation_conflicts d p j r prior sharing descr deps \<longleftrightarrow>
     p_descriptor p \<noteq> descr \<or> p_prior_job_id p \<noteq> prior \<or> p_share_goal p \<noteq> sharing \<or>
     p_dependencies p \<noteq> deps \<or> (j \<noteq> None \<and> Some (p_job_id p) \<noteq> j) \<or>
     (r \<noteq> None \<and> p_request_id p \<noteq> None \<and> p_request_id p \<noteq> r) \<or>
     (\<exists>x \<in> set (job_preparations d). p_tenant_id x = p_tenant_id p \<and> r \<noteq> None \<and> p_request_id x = r \<and>
        p_job_id x \<noteq> p_job_id p)"

definition prepare_job ::
  "(string \<Rightarrow> json option) \<Rightarrow> string \<Rightarrow> string option \<Rightarrow> string option \<Rightarrow> string option \<Rightarrow> bool \<Rightarrow>
   string \<Rightarrow> dependency list \<Rightarrow> string \<Rightarrow> string \<Rightarrow> db \<Rightarrow> (prepared \<times> db) res" where
  "prepare_job parse t j r prior sharing descr deps new_goal new_job d =
     (if btrim t = '''' \<or> descr = '''' \<or> (sharing \<and> j = None \<and> r = None)
      then raise_code ''JGI01'' ''invalid preparation''
      else bind_res (validate_dependencies deps) (\<lambda>_.
      case find_preparation d t j r of
        Some p \<Rightarrow>
          if preparation_conflicts d p j r prior sharing descr deps
          then raise_code ''JGM01'' (preparation_mismatch parse (p_descriptor p) descr)
          else Inr (\<lparr>pr_tenantId = t, pr_jobId = p_job_id p, pr_GoalID = p_goal_id p,
                     pr_Published = p_published p\<rparr>,
            (if r \<noteq> None \<and> p_request_id p = None
             then d\<lparr>job_preparations := upd_at prep_key (t, p_job_id p) (\<lambda>p. p\<lparr>p_request_id := r\<rparr>)
                      (job_preparations d)\<rparr> else d))
      | None \<Rightarrow>
          if j \<noteq> None \<and> find_fact d t (the j) \<noteq> None
          then raise_code ''JGM01'' ''destination already exists without preparation''
          else if prior \<noteq> None \<and> find_fact d t (the prior) = None
          then raise_code ''JJN01'' ''source job not found''
          else
            let source = (case prior of None \<Rightarrow> None
                          | Some q \<Rightarrow> map_option f_goal_id (find_fact d t q));
                job = (case j of Some x \<Rightarrow> x | None \<Rightarrow> new_job)
            in bind_res
                 (if sharing then
                    (case source of None \<Rightarrow> raise_code ''JGI01'' ''shared restart requires a source''
                     | Some g \<Rightarrow> bind_res (goal_info d t g) (\<lambda>info.
                         if g_state info \<noteq> GoalOpen then raise_code ''JGF01'' ''goal is closed''
                         else Inr g))
                  else Inr new_goal) (\<lambda>g.
               if has_key prep_key (t, job) (job_preparations d)
               then raise_code ''23505'' ''duplicate key value violates job_preparations_pkey''
               else Inr (\<lparr>pr_tenantId = t, pr_jobId = job, pr_GoalID = g, pr_Published = False\<rparr>,
                 d\<lparr>job_preparations := job_preparations d @
                   [\<lparr>p_tenant_id = t, p_job_id = job, p_goal_id = g, p_request_id = r,
                     p_prior_job_id = prior, p_share_goal = sharing, p_descriptor = descr,
                     p_dependencies = deps, p_published = False\<rparr>]\<rparr>))))"

subsection \<open>Candidates\<close>

record candidate_info =
  ci_addedAt :: int
  ci_goalState :: goal_state
  ci_successfulJobId :: "string option"

definition add_candidate_row :: "string \<Rightarrow> string \<Rightarrow> string \<Rightarrow> int \<Rightarrow> db \<Rightarrow> db" where
  "add_candidate_row t g j now d = d\<lparr>goal_candidates := goal_candidates d @
     [\<lparr>gc_tenant_id = t, gc_goal_id = g, gc_job_id = j, gc_added_at = now\<rparr>]\<rparr>"

definition succeeded :: "db \<Rightarrow> string \<Rightarrow> string \<Rightarrow> bool" where
  "succeeded d t j \<longleftrightarrow> (\<exists>a \<in> set (jobs_archive d). a_tenant_id a = t \<and> a_job_id a = j \<and>
     a_completion_status a = ''success'')"

definition find_candidate :: "db \<Rightarrow> string \<Rightarrow> string \<Rightarrow> string \<Rightarrow> candidate_row option" where
  "find_candidate d t g j = row_at (\<lambda>c. (gc_tenant_id c, gc_goal_id c, gc_job_id c)) (t, g, j)
     (goal_candidates d)"

definition new_candidate :: "string \<Rightarrow> string \<Rightarrow> string \<Rightarrow> int \<Rightarrow> db \<Rightarrow> db res" where
  "new_candidate t g j now d =
     (let d1 = add_candidate_row t g j now d in
      bind_res (if succeeded d1 t j then resolve_goal t g j now d1 else Inr d1) (\<lambda>d2.
      bind_res (check_goal_cycle d2 t (KGoal, g) now) (\<lambda>_. Inr d2)))"

definition add_goal_candidate ::
  "string \<Rightarrow> string \<Rightarrow> string \<Rightarrow> int \<Rightarrow> db \<Rightarrow> (candidate_info \<times> db) res" where
  "add_goal_candidate t g j now d =
     bind_res (goal_info d t g) (\<lambda>info.
     case find_fact d t j of
       None \<Rightarrow> raise_code ''JJN01'' ''job not found''
     | Some f \<Rightarrow>
         bind_res
           (if f_goal_id f = g then Inr (f_created_at f, d)
            else case find_candidate d t g j of
              Some c \<Rightarrow> Inr (gc_added_at c, d)
            | None \<Rightarrow>
                if g_state info \<noteq> GoalOpen then raise_code ''JGF01'' ''goal is closed''
                else bind_res (new_candidate t g j now d) (\<lambda>d'. Inr (now, d'))) (\<lambda>(added, d').
         bind_res (goal_info d' t g) (\<lambda>info'.
         Inr (\<lparr>ci_addedAt = added, ci_goalState = g_state info',
               ci_successfulJobId = g_successful_job_id info'\<rparr>, d'))))"

subsection \<open>A new candidate keeps the invariants\<close>

lemma closes_goals_retires:
  assumes "closes_goals d d'"
  shows "retires t d d'"
proof -
  have gw: "goals_waits_only d d'" and kept: "closed_goals_kept d d'"
    using assms by (simp_all add: closes_goals_def)
  note sel = goals_waits_only_sel [OF gw]
  have "goal_open d t g" if "goal_open d' t g" for g
  proof -
    from that obtain r where r: "find_goal d' t g = Some r" "g_state r = GoalOpen"
      by (auto simp: goal_open_def)
    have "(t, g) \<in> set (map goal_key (goals d'))"
      using r(1) by (auto simp: find_goal_def dest!: row_at_SomeD intro: rev_image_eqI)
    then have "(t, g) \<in> goal_key ` set (goals d)" by (simp add: sel(12))
    then obtain r0 where "find_goal d t g = Some r0"
      using row_at_None [of goal_key "(t, g)" "goals d"] by (auto simp: find_goal_def)
    then show ?thesis using kept r unfolding closed_goals_kept_def goal_open_def by (metis option.inject)
  qed
  then show ?thesis by (simp add: retires_def archived_def goal_members_def sel)
qed

lemma closes_goals_acyclic:
  assumes "waits_wf d" "closes_goals d d'" "obligations_acyclic d now" "now \<le> now'"
  shows "obligations_acyclic d' now'"
  by (rule retires_acyclic [OF assms(1) _ closes_goals_retires [OF assms(2)] _ assms(4,3)])
     (use assms(2) in \<open>simp_all add: closes_goals_def\<close>)

lemma add_candidate_row_frame:
  "waits_wf (add_candidate_row t g j now d) \<longleftrightarrow> waits_wf d"
  "waits_fresh (add_candidate_row t g j now d) \<longleftrightarrow> waits_fresh d"
proof -
  let ?d = "add_candidate_row t g j now d"
  have "waits_wf ?d \<Longrightarrow> waits_wf d" "waits_wf d \<Longrightarrow> waits_wf ?d"
    by (erule waits_wf_mono; simp add: add_candidate_row_def)+
  then show "waits_wf ?d \<longleftrightarrow> waits_wf d" by blast
  have "fresh_wait ?d = fresh_wait d" by (rule fresh_wait_cong) (simp_all add: add_candidate_row_def)
  then show "waits_fresh ?d \<longleftrightarrow> waits_fresh d" by (simp add: waits_fresh_def add_candidate_row_def)
qed

lemma new_candidate_ok:
  assumes wf: "waits_wf d" and fresh: "waits_fresh d" and run: "new_candidate t g j now d = Inr d'"
    and old: "obligations_acyclic d now"
  shows "closes_goals (add_candidate_row t g j now d) d' \<and> obligations_acyclic d' now"
proof -
  let ?d1 = "add_candidate_row t g j now d"
  have inv1: "waits_wf ?d1" "waits_fresh ?d1" using wf fresh add_candidate_row_frame by auto
  obtain d2 where d2: "(if succeeded ?d1 t j then resolve_goal t g j now ?d1 else Inr ?d1) = Inr d2"
    "check_goal_cycle d2 t (KGoal, g) now = Inr ()" "d' = d2"
    using run by (auto simp: new_candidate_def res_simps Let_def)
  have closes: "closes_goals ?d1 d2"
    using d2(1) resolve_goal_ok [OF inv1, of t g j now] closes_goals_refl [OF inv1]
    by (auto split: if_splits)
  have "awaits_less t' {} ?d1 d2" for t'
    using closes by (simp add: closes_goals_def awaits_less_def waits_shrink_def)
  then have sub: "(a, b) \<in> obligations ?d1 t' now" if "(a, b) \<in> obligations d2 t' now" for t' a b
    using obligations_mono [OF inv1(1) _ closes_goals_retires [OF closes] _ order_refl that] closes
    by (auto simp: closes_goals_def)
  have new: "(a, b) \<in> obligations d t' now \<or> (t' = t \<and> a = (KGoal, g))"
    if "(a, b) \<in> obligations ?d1 t' now" for t' a b
  proof (cases a)
    case (Pair k i)
    have "goal_open ?d1 = goal_open d" "archived ?d1 = archived d" "dependency_waits ?d1 = dependency_waits d"
      by (intro ext | simp add: goal_open_def find_goal_def archived_def add_candidate_row_def)+
    moreover have "(t', i) \<noteq> (t, g) \<Longrightarrow> goal_members ?d1 t' i = goal_members d t' i"
      by (auto simp: goal_members_def add_candidate_row_def)
    ultimately show ?thesis using that Pair
      by (cases k) (auto simp: job_edge_iff [OF wf] job_edge_iff [OF inv1(1)] goal_edge_iff)
  qed
  have "obligations_acyclic d2 now"
    by (rule checked_acyclic [OF old _ d2(2)]) (use sub new in blast)
  then show ?thesis using closes d2(3) by simp
qed

end
