(* ===== verification/Job_Lifecycle.thy ===== *)
theory Job_Lifecycle
  imports Goal_Admin
begin

section \<open>Archiving, completion, cancellation and lease renewal\<close>

text \<open>
  The SQL functions that end a job's life or act on a held lease: \<^verbatim>\<open>_archive_and_delete_job\<close> with its
  triggers, \<^verbatim>\<open>_update_waiters_for_completion\<close>, \<^verbatim>\<open>complete_native_job\<close>, \<^verbatim>\<open>complete_native_unheld_job\<close>,
  \<^verbatim>\<open>cancel_native_job\<close>, \<^verbatim>\<open>validate_native_lease\<close> and \<^verbatim>\<open>renew_native_lease\<close>. A returned job key is the
  Boolean \<^verbatim>\<open>TRUE\<close> of the SQL.
\<close>

subsection \<open>The archive\<close>

text \<open>
  The row \<^verbatim>\<open>_archive_and_delete_job\<close> inserts; the trigger \<^verbatim>\<open>_archive_goal_identity\<close> fills in the goal
  of the active row. The native snapshot columns are written by a later update.
\<close>

definition archive_of :: "job_row \<Rightarrow> string \<Rightarrow> string option \<Rightarrow> int \<Rightarrow> archive_row" where
  "archive_of j status detail now = \<lparr>
     a_goal_id = j_goal_id j, a_archived_at = now, a_tenant_id = j_tenant_id j, a_job_id = j_job_id j,
     a_alternate_after = j_alternate_after j, a_alternate_at = j_alternate_at j,
     a_wait_for = j_wait_for j, a_created_at = j_created_at j, a_expires_at = j_expires_at j,
     a_lease_id = j_lease_id j, a_lease_expiration_count = j_lease_expiration_count j,
     a_consecutive_expirations = j_consecutive_expirations j,
     a_cancel_requested = j_cancel_requested j, a_cancel_requested_by = j_cancel_requested_by j,
     a_cancel_requested_at = j_cancel_requested_at j, a_completion_status = status,
     a_completion_detail = detail, a_completion_error_kind = None, a_completion_retryable = None,
     a_final_route_job_type = None, a_final_work_kind = None, a_final_task_type = None,
     a_final_resume_job_type = None, a_final_task_input_ordinal = None,
     a_final_task_output_ordinal = None, a_final_task_input_hash = None,
     a_final_alternate_job_type = None, a_final_alternate_task_type = None,
     a_final_alternate_after = None, a_final_alternate_at = None, a_final_wait_for = None,
     a_final_available_at = None, a_final_lease_expires_at = None, a_final_lease_worker_id = None,
     a_final_cancel_requested = None \<rparr>"

text \<open>Inserting an archive row: the primary key, the row, then the trigger \<^verbatim>\<open>_terminal_goals\<close>.\<close>

definition insert_archive :: "archive_row \<Rightarrow> int \<Rightarrow> db \<Rightarrow> db res" where
  "insert_archive a now d =
     (if archived d (a_tenant_id a) (a_job_id a)
      then raise_code ''23505'' ''duplicate key value violates unique constraint jobs_archive_pkey''
      else terminal_goals a now (d\<lparr>jobs_archive := jobs_archive d @ [a]\<rparr>))"

definition archive_and_delete_job :: "job_row \<Rightarrow> string \<Rightarrow> string option \<Rightarrow> int \<Rightarrow> db \<Rightarrow> db res" where
  "archive_and_delete_job j status detail now d =
     bind_res (insert_archive (archive_of j status detail now) now d) (\<lambda>d1.
     Inr (delete_job (j_tenant_id j) (j_job_id j) d1))"

subsection \<open>Legacy waiters\<close>

definition waits_on_any :: "string list \<Rightarrow> job_row \<Rightarrow> bool" where
  "waits_on_any done j \<longleftrightarrow> (\<exists>x \<in> set (j_wait_for j). x \<in> set done)"

definition drop_waits :: "string list \<Rightarrow> int \<Rightarrow> job_row \<Rightarrow> job_row" where
  "drop_waits done now j =
     (let remaining = filter (\<lambda>x. x \<notin> set done) (j_wait_for j) in
      j\<lparr>j_wait_for := remaining,
        j_available_at := (if j_wait_until_is_deadline j \<and> remaining = [] then now else j_available_at j),
        j_wait_until_is_deadline := (j_wait_until_is_deadline j \<and> remaining \<noteq> [])\<rparr>)"

definition wakes :: "int \<Rightarrow> job_row \<Rightarrow> bool" where
  "wakes now j \<longleftrightarrow> j_wait_for j = [] \<and> j_available_at j \<le> now \<and> \<not> j_cancel_requested j \<and>
     j_expires_at j > Finite now"

definition update_waiters :: "string \<Rightarrow> string list \<Rightarrow> int \<Rightarrow> db \<Rightarrow> db" where
  "update_waiters t done now d =
     (let touched = filter (\<lambda>j. j_tenant_id j = t \<and> waits_on_any done j) (jobs d);
          d1 = d\<lparr>jobs := map (\<lambda>j. if j_tenant_id j = t \<and> waits_on_any done j
                                   then drop_waits done now j else j) (jobs d)\<rparr>
      in fold (\<lambda>j d. if wakes now j then notify_work t (j_job_id j) (j_route_job_type j) (j_task_type j) d
                     else d) (map (drop_waits done now) touched) d1)"

subsection \<open>Completion\<close>

definition complete_locked_job ::
  "job_row \<Rightarrow> string \<Rightarrow> string \<Rightarrow> string option \<Rightarrow> int \<Rightarrow> db \<Rightarrow> db res" where
  "complete_locked_job j worker status detail now d =
     bind_res (archive_and_delete_job (j\<lparr>j_consecutive_expirations := 0\<rparr>) status detail now d) (\<lambda>d1.
     Inr (emit_trace_event (j_tenant_id j) (j_job_id j) ''job_finished'' worker now
            (update_waiters (j_tenant_id j) [j_job_id j] now d1)))"

definition completion_statuses :: "string list" where
  "completion_statuses = [''success'', ''failed_app'', ''failed_system'', ''failed_timeout'', ''cancelled'']"

text \<open>The snapshot of the active row that \<^verbatim>\<open>_complete_native_locked_job\<close> writes into the archive.\<close>

definition finalize :: "job_row \<Rightarrow> string option \<Rightarrow> bool option \<Rightarrow> archive_row \<Rightarrow> archive_row" where
  "finalize j kind retryable a = a\<lparr>
     a_completion_error_kind := kind, a_completion_retryable := retryable,
     a_final_route_job_type := j_route_job_type j, a_final_work_kind := j_work_kind j,
     a_final_task_type := j_task_type j, a_final_resume_job_type := j_resume_job_type j,
     a_final_task_input_ordinal := j_task_input_ordinal j,
     a_final_task_output_ordinal := j_task_output_ordinal j,
     a_final_task_input_hash := j_task_input_hash j,
     a_final_alternate_job_type := j_alternate_job_type j,
     a_final_alternate_task_type := j_alternate_task_type j,
     a_final_alternate_after := j_alternate_after j, a_final_alternate_at := j_alternate_at j,
     a_final_wait_for := Some (j_wait_for j), a_final_available_at := Some (j_available_at j),
     a_final_lease_expires_at := Some (j_lease_expires_at j),
     a_final_lease_worker_id := j_lease_worker_id j,
     a_final_cancel_requested := Some (j_cancel_requested j)\<rparr>"

definition complete_native_locked_job ::
  "job_row \<Rightarrow> string \<Rightarrow> string \<Rightarrow> string option \<Rightarrow> string option \<Rightarrow> bool option \<Rightarrow> int \<Rightarrow> db \<Rightarrow> db res" where
  "complete_native_locked_job locked worker status detail kind retryable now d =
     (if status \<notin> set completion_statuses then raise ''invalid JobDB completion status''
      else case find_job d (j_tenant_id locked) (j_job_id locked) of
        None \<Rightarrow> raise ''native job state is missing''
      | Some active \<Rightarrow>
          if j_route_job_type active = None then raise ''native job state is missing''
          else bind_res (complete_locked_job locked worker status detail now d) (\<lambda>d1.
            Inr (update_archive (j_tenant_id active) (j_job_id active) (finalize active kind retryable) d1)))"

definition holds :: "job_row \<Rightarrow> string \<Rightarrow> string \<Rightarrow> bool" where
  "holds j lease worker \<longleftrightarrow> j_lease_id j = Some lease \<and> j_lease_worker_id j = Some worker"

text \<open>\<^verbatim>\<open>format('\<dots> %s/%s', tenant, job)\<close>.\<close>

definition job_name :: "string \<Rightarrow> string \<Rightarrow> string" where
  "job_name t j = t @ ''/'' @ j"

definition complete_native_job ::
  "string \<Rightarrow> string \<Rightarrow> string \<Rightarrow> string \<Rightarrow> string \<Rightarrow> string option \<Rightarrow> string option \<Rightarrow> bool option \<Rightarrow>
   string option \<Rightarrow> client_json option \<Rightarrow> int option \<Rightarrow> int \<Rightarrow> db \<Rightarrow> db res" where
  "complete_native_job t j lease worker status detail kind retryable mode val expected now d =
     (if worker = '''' then raise ''worker id is required''
      else if lease = '''' then raise ''lease id is required''
      else if \<not> some_such (find_job d t j) (\<lambda>r. holds r lease worker)
        then raise ''native lease owner mismatch''
      else bind_res (lock_job_for_status d t j ACTIVE (Some lease)
             (''native lease not active for job '' @ job_name t j) now) (\<lambda>r.
        if j_lease_expires_at r \<le> Finite now \<or> j_cancel_requested r then raise ''native lease not active''
        else bind_res (update_client_payload t j mode val expected d) (\<lambda>d1.
          complete_native_locked_job r worker status detail kind retryable now d1)))"

definition complete_native_unheld_job ::
  "string \<Rightarrow> string \<Rightarrow> string \<Rightarrow> string \<Rightarrow> string option \<Rightarrow> string option \<Rightarrow> bool option \<Rightarrow> int \<Rightarrow> db \<Rightarrow> db res"
where
  "complete_native_unheld_job t j worker status detail kind retryable now d =
     (if worker = '''' then raise ''worker id is required''
      else bind_res (lock_job_for_status d t j READY None
             (''native job '' @ job_name t j @ '' is not unheld'') now) (\<lambda>r.
        complete_native_locked_job r worker status detail kind retryable now d))"

subsection \<open>Cancellation\<close>

definition cancel_job :: "string \<Rightarrow> string \<Rightarrow> string \<Rightarrow> int \<Rightarrow> db \<Rightarrow> db res" where
  "cancel_job t j worker now d =
     (case find_job d t j of
        None \<Rightarrow>
          if archived d t j
          then raise (''job_id '' @ job_name t j @ '' has already completed and cannot be cancelled'')
          else raise (''job_id '' @ job_name t j @ '' does not exist'')
      | Some r \<Rightarrow>
          Inr (emit_trace_event t j ''job_cancel_requested'' worker now
            (if j_cancel_requested r then d
             else update_job t j (\<lambda>r. r\<lparr>j_cancel_requested := True,
                    j_cancel_requested_by := Some worker, j_cancel_requested_at := Some now\<rparr>) d)))"

definition cancel_native_job :: "string \<Rightarrow> string \<Rightarrow> string \<Rightarrow> string option \<Rightarrow> int \<Rightarrow> db \<Rightarrow> db res" where
  "cancel_native_job t j worker reason now d =
     (if \<not> some_such (find_job d t j) (\<lambda>r. j_route_job_type r \<noteq> None) then raise ''native job not found''
      else bind_res (cancel_job t j worker now d) (\<lambda>d1.
        case find_job d1 t j of
          None \<Rightarrow> raise ''native job state is missing''
        | Some r \<Rightarrow> complete_native_locked_job r worker ''cancelled'' reason None (Some False) now d1))"

subsection \<open>Validating and renewing a lease\<close>

record lease_row =
  l_tenant_id :: string
  l_job_id :: string
  l_lease_id :: "string option"
  l_lease_expires_at :: tstz
  l_job_type :: string
  l_route_job_type :: "string option"
  l_work_kind :: "string option"
  l_task_type :: "string option"
  l_resume_job_type :: "string option"
  l_task_input_ordinal :: "int option"
  l_task_output_ordinal :: "int option"
  l_task_input_hash :: "string option"
  l_run_policy :: RunPolicy
  l_client_payload :: "client_json option"
  l_client_payload_revision :: int
  l_schema_hash :: "string option"
  l_goal_id :: string

definition lease_of :: "job_row \<Rightarrow> fact_row \<Rightarrow> client_state_row \<Rightarrow> lease_row" where
  "lease_of j f c = \<lparr>
     l_tenant_id = j_tenant_id j, l_job_id = j_job_id j, l_lease_id = j_lease_id j,
     l_lease_expires_at = j_lease_expires_at j, l_job_type = f_job_type f,
     l_route_job_type = j_lease_route_job_type j, l_work_kind = j_lease_work_kind j,
     l_task_type = j_lease_task_type j, l_resume_job_type = j_resume_job_type j,
     l_task_input_ordinal = j_task_input_ordinal j, l_task_output_ordinal = j_task_output_ordinal j,
     l_task_input_hash = j_task_input_hash j, l_run_policy = f_run_policy f,
     l_client_payload = c_client_payload c, l_client_payload_revision = c_revision c,
     l_schema_hash = f_schema_hash f, l_goal_id = j_goal_id j \<rparr>"

text \<open>The join with the facts and the client state: no row when either is missing.\<close>

definition join_lease :: "db \<Rightarrow> job_row \<Rightarrow> lease_row option" where
  "join_lease d j = (case find_fact d (j_tenant_id j) (j_job_id j) of None \<Rightarrow> None
     | Some f \<Rightarrow> map_option (lease_of j f) (find_client d (j_tenant_id j) (j_job_id j)))"

definition validate_native_lease ::
  "string \<Rightarrow> string \<Rightarrow> string \<Rightarrow> string \<Rightarrow> int \<Rightarrow> db \<Rightarrow> lease_row option res" where
  "validate_native_lease t j lease worker now d =
     (if worker = '''' \<or> lease = '''' then raise ''worker id and lease id are required''
      else Inr (case find_job d t j of
        None \<Rightarrow> None
      | Some r \<Rightarrow>
          if holds r lease worker \<and> j_lease_expires_at r > Finite now \<and>
             j_route_job_type r \<noteq> None \<and> \<not> j_cancel_requested r
          then join_lease d r else None))"

definition micros :: "int \<Rightarrow> int" where
  "micros secs = secs * 1000000"

definition extend_lease ::
  "string \<Rightarrow> string \<Rightarrow> string \<Rightarrow> string \<Rightarrow> int \<Rightarrow> int \<Rightarrow> db \<Rightarrow> (tstz \<times> db) res" where
  "extend_lease t j lease worker secs now d =
     (if secs \<le> 0 then raise ''additional_seconds must be positive''
      else case find_job d t j of
        None \<Rightarrow> raise ''native lease not found''
      | Some r \<Rightarrow>
          if j_lease_id r \<noteq> Some lease then raise ''native lease not found''
          else if j_lease_worker_id r \<noteq> Some worker then raise ''native lease owner mismatch''
          else if j_lease_expires_at r \<le> Finite now then raise ''native lease not active''
          else if j_cancel_requested r
            then raise (''job '' @ t @ ''s/'' @ j @ ''s is cancelled and cannot extend the lease'')
          else let new = Finite (now + micros secs) in
            Inr (new, emit_trace_event t j ''lease_extended'' worker now
              (update_job t j (\<lambda>r. r\<lparr>j_lease_expires_at := new\<rparr>) d)))"

definition renew_native_lease ::
  "string \<Rightarrow> string \<Rightarrow> string \<Rightarrow> string \<Rightarrow> int \<Rightarrow> int \<Rightarrow> db \<Rightarrow> (tstz \<times> db) res" where
  "renew_native_lease t j lease worker secs now d =
     (if \<not> some_such (find_job d t j) (\<lambda>r. holds r lease worker \<and> j_route_job_type r \<noteq> None)
      then raise ''native lease not found''
      else extend_lease t j lease worker secs now d)"

end
