(* ===== verification/Job_Work.thy ===== *)
theory Job_Work
  imports Job_Lifecycle
begin

section \<open>Submission, acquisition, rescheduling and task claims\<close>

text \<open>
  The SQL functions that create jobs and move them between waiting and leased:
  \<^verbatim>\<open>submit_native_job\<close>, \<^verbatim>\<open>get_native_work\<close>, \<^verbatim>\<open>reschedule_native_job\<close> and \<^verbatim>\<open>claim_native_task\<close>. The
  random lease, goal and digest values come in as arguments; \<open>locked\<close> is the set of job rows other
  transactions hold, which \<^verbatim>\<open>SKIP LOCKED\<close> passes over. Text is ordered byte by byte.
\<close>

subsection \<open>Legacy wait lists\<close>

text \<open>PostgreSQL's text form of an array, for the message of \<^verbatim>\<open>normalize_wait_for\<close>.\<close>

definition array_quotes :: "string \<Rightarrow> bool" where
  "array_quotes s \<longleftrightarrow> s = '''' \<or> map (\<lambda>c. if CHR ''a'' \<le> c \<and> c \<le> CHR ''z'' then char_of (of_char c - (32 :: nat)) else c) s = ''NULL'' \<or>
     (\<exists>c \<in> set s. c \<in> {CHR ''{'', CHR ''}'', CHR '','', CHR 0x22, CHR 0x5C, CHR '' '', CHR 0x09, CHR 0x0A,
        CHR 0x0B, CHR 0x0C, CHR 0x0D})"

definition array_element :: "string \<Rightarrow> string" where
  "array_element s = (if array_quotes s
     then [CHR 0x22] @ concat (map (\<lambda>c. if c = CHR 0x22 \<or> c = CHR 0x5C then [CHR 0x5C, c] else [c]) s) @ [CHR 0x22]
     else s)"

definition array_text :: "string list \<Rightarrow> string" where
  "array_text xs = ''{'' @ join (map array_element xs) @ ''}''"

definition normalize_wait_for :: "db \<Rightarrow> string \<Rightarrow> string list \<Rightarrow> string list res" where
  "normalize_wait_for d t ids =
     (let clean = filter (\<lambda>x. find_job d t x \<noteq> None) ids;
          missing = filter (\<lambda>x. find_job d t x = None \<and> \<not> archived d t x) ids
      in if missing \<noteq> []
         then raise (''wait_for references unknown jobs in tenant '' @ t @ '': '' @ array_text missing)
         else Inr clean)"

subsection \<open>Submission\<close>

text \<open>The schedule occurrence a submitted job may carry, as \<^verbatim>\<open>p_schedule\<close> names its members.\<close>

record occurrence =
  oc_schedule_id :: string
  oc_generation :: int
  oc_spec_hash :: string
  oc_scheduled_at :: int
  oc_run_id :: string
  oc_reason :: "string option"
  oc_manual :: bool
  oc_backfill_id :: "string option"
  oc_previous_job_id :: "string option"
  oc_failure_history :: "json option"

record submit_args =
  sa_tenant_id :: string
  sa_job_id :: string
  sa_worker_id :: string
  sa_job_type :: string
  sa_run_policy :: RunPolicy
  sa_app_metadata :: json
  sa_schema_hash :: "string option"
  sa_parent_job_id :: "string option"
  sa_schedule :: "occurrence option"
  sa_wait_for :: "string list"
  sa_available_at :: "int option"
  sa_expires_at :: "int option"
  sa_client_mode :: "string option"
  sa_client_value :: "client_json option"
  sa_goal_id :: "string option"
  sa_share_goal :: bool
  sa_dependencies :: "dependency list"

definition expires_of :: "int option \<Rightarrow> tstz" where
  "expires_of e = (case e of None \<Rightarrow> Infinity | Some x \<Rightarrow> Finite x)"

definition facts_of :: "submit_args \<Rightarrow> string \<Rightarrow> int \<Rightarrow> fact_row" where
  "facts_of a g now = \<lparr>
     f_goal_id = g, f_initial_dependencies = sa_dependencies a, f_tenant_id = sa_tenant_id a,
     f_job_id = sa_job_id a, f_job_type = sa_job_type a, f_run_policy = sa_run_policy a,
     f_app_metadata = sa_app_metadata a, f_schema_hash = sa_schema_hash a,
     f_parent_job_id = sa_parent_job_id a,
     f_schedule_id = map_option oc_schedule_id (sa_schedule a),
     f_schedule_generation = map_option oc_generation (sa_schedule a),
     f_schedule_spec_hash = map_option oc_spec_hash (sa_schedule a),
     f_scheduled_at = map_option oc_scheduled_at (sa_schedule a),
     f_schedule_run_id = map_option oc_run_id (sa_schedule a),
     f_schedule_reason = (case sa_schedule a of None \<Rightarrow> None | Some oc \<Rightarrow> oc_reason oc),
     f_schedule_manual = (case sa_schedule a of None \<Rightarrow> False | Some oc \<Rightarrow> oc_manual oc),
     f_schedule_backfill_id = (case sa_schedule a of None \<Rightarrow> None | Some oc \<Rightarrow> oc_backfill_id oc),
     f_schedule_previous_job_id = (case sa_schedule a of None \<Rightarrow> None | Some oc \<Rightarrow> oc_previous_job_id oc),
     f_schedule_failure_history = (case sa_schedule a of None \<Rightarrow> None | Some oc \<Rightarrow> oc_failure_history oc),
     f_created_by_worker_id = Some (sa_worker_id a), f_created_at = now,
     f_expires_at = expires_of (sa_expires_at a), f_hidden_at = None \<rparr>"

text \<open>The immutable facts two submissions of one job id must agree on.\<close>

definition same_facts :: "fact_row \<Rightarrow> fact_row \<Rightarrow> bool" where
  "same_facts e f \<longleftrightarrow> f_job_type e = f_job_type f \<and> f_run_policy e = f_run_policy f \<and>
     f_app_metadata e = f_app_metadata f \<and> f_schema_hash e = f_schema_hash f \<and>
     f_parent_job_id e = f_parent_job_id f \<and> f_schedule_id e = f_schedule_id f \<and>
     f_schedule_generation e = f_schedule_generation f \<and>
     f_schedule_spec_hash e = f_schedule_spec_hash f \<and> f_scheduled_at e = f_scheduled_at f \<and>
     f_schedule_run_id e = f_schedule_run_id f \<and> f_schedule_reason e = f_schedule_reason f \<and>
     f_schedule_manual e = f_schedule_manual f \<and> f_schedule_backfill_id e = f_schedule_backfill_id f \<and>
     f_schedule_previous_job_id e = f_schedule_previous_job_id f \<and>
     f_schedule_failure_history e = f_schedule_failure_history f \<and> f_expires_at e = f_expires_at f"

text \<open>The table constraints a submission can violate.\<close>

definition facts_checked :: "fact_row \<Rightarrow> bool" where
  "facts_checked f \<longleftrightarrow>
     (f_schedule_id f = None \<or> (some_such (f_schedule_generation f) (\<lambda>g. g > 0) \<and>
        f_schedule_spec_hash f \<noteq> Some '''' \<and> f_schedule_run_id f \<noteq> Some '''')) \<and>
     (case f_schedule_failure_history f of None \<Rightarrow> True | Some h \<Rightarrow> is_object h)"

definition run_taken :: "db \<Rightarrow> fact_row \<Rightarrow> bool" where
  "run_taken d f \<longleftrightarrow> f_schedule_id f \<noteq> None \<and> (\<exists>e \<in> set (job_facts d). f_tenant_id e = f_tenant_id f \<and>
     f_schedule_id e = f_schedule_id f \<and> f_schedule_generation e = f_schedule_generation f \<and>
     f_schedule_run_id e = f_schedule_run_id f)"

definition schedule_known :: "db \<Rightarrow> fact_row \<Rightarrow> bool" where
  "schedule_known d f \<longleftrightarrow> (case f_schedule_id f of None \<Rightarrow> True
     | Some s \<Rightarrow> find_schedule d (f_tenant_id f) s \<noteq> None)"

definition new_goal_row :: "string \<Rightarrow> string \<Rightarrow> int \<Rightarrow> goal_row" where
  "new_goal_row t g now = \<lparr>g_tenant_id = t, g_goal_id = g, g_state = GoalOpen, g_revision = 1,
     g_successful_job_id = None, g_failure = None, g_created_at = now, g_updated_at = now,
     g_closed_at = None\<rparr>"

definition new_job_row :: "submit_args \<Rightarrow> string \<Rightarrow> string list \<Rightarrow> int \<Rightarrow> job_row" where
  "new_job_row a g wait_for now = \<lparr>
     j_goal_id = g, j_dependency_wait_id = None, j_tenant_id = sa_tenant_id a, j_job_id = sa_job_id a,
     j_alternate_after = None, j_alternate_at = None, j_wait_for = wait_for,
     j_available_at = (case sa_available_at a of None \<Rightarrow> now | Some x \<Rightarrow> x),
     j_expires_at = expires_of (sa_expires_at a), j_lease_id = None, j_lease_expires_at = MinusInfinity,
     j_lease_expiration_count = 0, j_consecutive_expirations = 0, j_created_at = now,
     j_cancel_requested = False, j_cancel_requested_by = None, j_cancel_requested_at = None,
     j_route_job_type = Some (sa_job_type a), j_work_kind = Some ''JOB'', j_task_type = None,
     j_resume_job_type = None, j_task_input_ordinal = None, j_task_output_ordinal = None,
     j_task_input_hash = None, j_alternate_job_type = None, j_alternate_task_type = None,
     j_lease_worker_id = None, j_lease_route_job_type = None, j_lease_work_kind = None,
     j_lease_task_type = None, j_wait_until_is_deadline = False \<rparr>"

text \<open>The goal a new job belongs to, with the row of a goal that is created for it.\<close>

definition submission_goal :: "submit_args \<Rightarrow> string \<Rightarrow> int \<Rightarrow> db \<Rightarrow> (string \<times> db) res" where
  "submission_goal a new_goal now d =
     (let t = sa_tenant_id a; g = (case sa_goal_id a of None \<Rightarrow> new_goal | Some x \<Rightarrow> x) in
      if sa_share_goal a then
        (if find_prep d t (sa_job_id a) = None
         then raise_code ''JGF01'' ''shared goal is closed or unprepared''
         else bind_res (goal_info d t g) (\<lambda>info.
           if g_state info \<noteq> GoalOpen then raise_code ''JGF01'' ''shared goal is closed or unprepared''
           else Inr (g, d)))
      else if find_goal d t g \<noteq> None then raise_code ''JGF01'' ''goal already exists''
      else Inr (g, d\<lparr>goals := goals d @ [new_goal_row t g now]\<rparr>))"

text \<open>A repeated submission: the stored facts and the digest of the initial payload must agree.\<close>

definition resubmit :: "submit_args \<Rightarrow> fact_row \<Rightarrow> fact_row \<Rightarrow> string \<Rightarrow> db \<Rightarrow> unit res" where
  "resubmit a e f dg d =
     (if f_initial_dependencies e \<noteq> sa_dependencies a then raise_code ''JGM01'' ''different dependencies''
      else if \<not> same_facts e f then raise ''job id already exists with different immutable facts''
      else case find_client d (sa_tenant_id a) (sa_job_id a) of
        None \<Rightarrow> raise ''initial client payload differs or is missing''
      | Some c \<Rightarrow> if c_initial_payload_digest c \<noteq> dg
          then raise ''initial client payload differs or is missing'' else Inr ())"

definition client_of :: "submit_args \<Rightarrow> client_json option \<Rightarrow> string \<Rightarrow> client_state_row" where
  "client_of a initial dg = \<lparr>c_tenant_id = sa_tenant_id a, c_job_id = sa_job_id a,
     c_client_payload = initial, c_revision = (if initial = None then 0 else 1),
     c_initial_payload_digest = dg\<rparr>"

text \<open>The rows of a new job: its facts, its active row, its client state.\<close>

definition add_job :: "fact_row \<Rightarrow> job_row \<Rightarrow> client_state_row \<Rightarrow> db \<Rightarrow> db" where
  "add_job f r c d = d\<lparr>job_facts := job_facts d @ [f], jobs := jobs d @ [r],
     job_client_state := job_client_state d @ [c]\<rparr>"

definition submission_wait :: "submit_args \<Rightarrow> int \<Rightarrow> db \<Rightarrow> db res" where
  "submission_wait a now d =
     (if sa_dependencies a = [] then Inr d
      else bind_res (register_wait (sa_tenant_id a) (sa_job_id a) \<lparr>wr_waitId = ''submission'',
             wr_deadline = None, wr_dependencies = sa_dependencies a\<rparr> True now d) (\<lambda>d4.
           Inr (update_job (sa_tenant_id a) (sa_job_id a)
                  (\<lambda>r. r\<lparr>j_dependency_wait_id := Some ''submission''\<rparr>) d4)))"

definition publish :: "string \<Rightarrow> string \<Rightarrow> db \<Rightarrow> db" where
  "publish t j d = d\<lparr>job_preparations := upd_at prep_key (t, j) (\<lambda>p. p\<lparr>p_published := True\<rparr>)
     (job_preparations d)\<rparr>"

definition create_job :: "submit_args \<Rightarrow> string \<Rightarrow> client_json option \<Rightarrow> string \<Rightarrow> int \<Rightarrow> db \<Rightarrow> db res" where
  "create_job a g initial dg now d =
     (let t = sa_tenant_id a; j = sa_job_id a; f = facts_of a g now in
      if run_taken d f
      then raise_code ''23505'' ''duplicate key value violates unique constraint job_facts_schedule_run_idx''
      else if \<not> schedule_known d f
      then raise_code ''23503'' ''insert violates foreign key constraint on schedules''
      else bind_res (normalize_wait_for d t (sa_wait_for a)) (\<lambda>wait_for.
      if find_job d t j \<noteq> None
      then raise_code ''23505'' ''duplicate key value violates unique constraint jobs_pkey''
      else bind_res (submission_wait a now
             (add_job f (new_job_row a g wait_for now) (client_of a initial dg) d)) (\<lambda>d5.
           bind_res (if sa_share_goal a then check_goal_cycle d5 t (KGoal, g) now else Inr ()) (\<lambda>_.
           Inr (publish t j d5)))))"

definition parent_deleted :: "db \<Rightarrow> submit_args \<Rightarrow> bool" where
  "parent_deleted d a \<longleftrightarrow> (case sa_parent_job_id a of None \<Rightarrow> False
     | Some p \<Rightarrow> (case find_fact d (sa_tenant_id a) p of None \<Rightarrow> False | Some f \<Rightarrow> f_hidden_at f \<noteq> None))"

definition publication_differs :: "db \<Rightarrow> submit_args \<Rightarrow> bool" where
  "publication_differs d a \<longleftrightarrow> (case find_prep d (sa_tenant_id a) (sa_job_id a) of None \<Rightarrow> False
     | Some p \<Rightarrow> sa_goal_id a \<noteq> Some (p_goal_id p) \<or> p_share_goal p \<noteq> sa_share_goal a \<or>
         p_dependencies p \<noteq> sa_dependencies a)"

text \<open>\<open>sha\<close> stands for the hexadecimal SHA-256 of the canonical payload text.\<close>

definition submit_native_job ::
  "(string \<Rightarrow> string) \<Rightarrow> submit_args \<Rightarrow> string \<Rightarrow> int \<Rightarrow> db \<Rightarrow> ((string \<times> bool) \<times> db) res" where
  "submit_native_job sha a new_goal now d =
     (let t = sa_tenant_id a; j = sa_job_id a in
      if t = '''' \<or> j = '''' \<or> sa_worker_id a = '''' \<or> sa_job_type a = ''''
      then raise ''tenant, job, worker, and job type are required''
      else if \<not> is_object (sa_app_metadata a) then raise ''run policy and app metadata must be JSON objects''
      else bind_res (validate_dependencies (sa_dependencies a)) (\<lambda>_.
      if sa_wait_for a \<noteq> [] \<and> sa_dependencies a \<noteq> [] then raise_code ''JGI01'' ''mixed dependencies''
      else if publication_differs d a then raise_code ''JGM01'' ''publication differs from preparation''
      else bind_res
        (case find_fact d t j of
           Some e \<Rightarrow> if sa_goal_id a \<noteq> None \<and> sa_goal_id a \<noteq> Some (f_goal_id e)
                     then raise_code ''JGM01'' ''primary goal differs'' else Inr (f_goal_id e, d)
         | None \<Rightarrow> submission_goal a new_goal now d) (\<lambda>(g, d1).
      if parent_deleted d1 a then raise_code ''JDL01'' ''parent job was deleted''
      else bind_res (client_update_value None (sa_client_mode a) (sa_client_value a)) (\<lambda>initial.
      bind_res (canonical_payload initial) (\<lambda>text.
      let f = facts_of a g now in
      if \<not> facts_checked f then raise_code ''23514'' ''new row violates check constraint on job_facts''
      else case find_fact d1 t j of
        Some e \<Rightarrow> bind_res (resubmit a e f (sha text) d1) (\<lambda>_. Inr ((j, False), d1))
      | None \<Rightarrow> bind_res (create_job a g initial (sha text) now d1) (\<lambda>d2. Inr ((j, True), d2)))))))"

subsection \<open>Acquisition\<close>

text \<open>The route a worker accepts: a job of one of its types, or a task of one of its selectors.\<close>

definition route_accepted :: "string list \<Rightarrow> (string \<times> string) list \<Rightarrow> effective_route \<Rightarrow> bool" where
  "route_accepted job_types selectors er \<longleftrightarrow>
     (er_work_kind er = Some ''JOB'' \<and> (\<exists>jt \<in> set job_types. er_job_type er = Some jt)) \<or>
     (er_work_kind er = Some ''TASK'' \<and>
       (\<exists>(jt, tt) \<in> set selectors. er_job_type er = Some jt \<and> er_task_type er = Some tt))"

record work_query =
  wq_worker_id :: string
  wq_tenant_ids :: "string list option"
  wq_job_types :: "string list"
  wq_task_selectors :: "(string \<times> string) list"
  wq_contains :: json
  wq_lease_seconds :: int
  wq_target_tenant_id :: "string option"
  wq_target_job_id :: "string option"
  wq_predicates :: "MetadataPredicate list"

definition candidate :: "db \<Rightarrow> work_query \<Rightarrow> int \<Rightarrow> job_row \<Rightarrow> bool" where
  "candidate d q now j \<longleftrightarrow>
     job_status_at d j now = READY \<and> j_route_job_type j \<noteq> None \<and>
     (case wq_tenant_ids q of None \<Rightarrow> True | Some ts \<Rightarrow> j_tenant_id j \<in> set ts) \<and>
     (wq_target_tenant_id q = None \<or>
       (Some (j_tenant_id j) = wq_target_tenant_id q \<and> Some (j_job_id j) = wq_target_job_id q)) \<and>
     \<not> j_cancel_requested j \<and> j_expires_at j > Finite now \<and> j_lease_expires_at j \<le> Finite now \<and>
     (case find_fact d (j_tenant_id j) (j_job_id j) of None \<Rightarrow> False
      | Some f \<Rightarrow> jsonb_contains (f_app_metadata f) (wq_contains q) \<and>
          metadata_matches (f_app_metadata f) (wq_predicates q)) \<and>
     find_client d (j_tenant_id j) (j_job_id j) \<noteq> None \<and>
     route_accepted (wq_job_types q) (wq_task_selectors q) (effective_native_route j now)"

definition work_order :: "job_row \<Rightarrow> int \<times> int \<times> string \<times> string" where
  "work_order j = (j_available_at j, j_created_at j, j_tenant_id j, j_job_id j)"

definition pick :: "db \<Rightarrow> work_query \<Rightarrow> (string \<times> string) set \<Rightarrow> int \<Rightarrow> job_row option" where
  "pick d q locked now = find (\<lambda>j. job_key j \<notin> locked) (sort_key work_order (filter (candidate d q now) (jobs d)))"

text \<open>
  The lease a matched row receives. A due alternate route is promoted: it becomes the row's route
  and the alternate is cleared; a claim on the primary route leaves the alternate as it is. A lease
  that was still recorded had expired without release, which the counters remember.
\<close>

definition count_expiration :: "job_row \<Rightarrow> job_row" where
  "count_expiration j = j\<lparr>
     j_lease_expiration_count := j_lease_expiration_count j + (if j_lease_id j \<noteq> None then 1 else 0),
     j_consecutive_expirations := (if j_lease_id j \<noteq> None then j_consecutive_expirations j + 1 else 0)\<rparr>"

definition grant_lease :: "string \<Rightarrow> string \<Rightarrow> int \<Rightarrow> int \<Rightarrow> job_row \<Rightarrow> job_row" where
  "grant_lease lease worker secs now j =
     (let er = effective_native_route j now; task = (er_work_kind er = Some ''TASK'') in
      (count_expiration j)\<lparr>
        j_lease_id := Some lease, j_lease_worker_id := Some worker,
        j_lease_route_job_type := er_job_type er, j_lease_work_kind := er_work_kind er,
        j_lease_task_type := er_task_type er,
        j_route_job_type := er_job_type er, j_work_kind := er_work_kind er, j_task_type := er_task_type er,
        j_resume_job_type := (if task then j_resume_job_type j else None),
        j_task_input_ordinal := (if task then j_task_input_ordinal j else None),
        j_task_output_ordinal := (if task then j_task_output_ordinal j else None),
        j_task_input_hash := (if task then j_task_input_hash j else None),
        j_alternate_job_type := (if er_alternate_due er then None else j_alternate_job_type j),
        j_alternate_task_type := (if er_alternate_due er then None else j_alternate_task_type j),
        j_alternate_after := (if er_alternate_due er then None else j_alternate_after j),
        j_alternate_at := (if er_alternate_due er then None else j_alternate_at j),
        j_lease_expires_at := Finite (now + micros secs)\<rparr>)"

definition get_native_work ::
  "work_query \<Rightarrow> (string \<times> string) set \<Rightarrow> string \<Rightarrow> int \<Rightarrow> db \<Rightarrow> (lease_row option \<times> db) res" where
  "get_native_work q locked new_lease now d =
     (if wq_worker_id q = '''' then raise ''worker id is required''
      else if wq_lease_seconds q < 1 \<or> wq_lease_seconds q > 86400
        then raise ''lease seconds must be between 1 and 86400''
      else if \<not> is_object (wq_contains q)
        then raise ''task selectors and metadata predicates must be arrays; metadata containment must be an object''
      else if (wq_target_tenant_id q = None) \<noteq> (wq_target_job_id q = None)
        then raise ''target tenant and job id must be provided together''
      else bind_res (expire_goal_waits (wq_tenant_ids q) now d) (\<lambda>d1.
      case pick d1 q locked now of
        None \<Rightarrow> Inr (None, d1)
      | Some j \<Rightarrow>
          let grant = grant_lease new_lease (wq_worker_id q) (wq_lease_seconds q) now
          in Inr (join_lease d1 (grant j), update_job (j_tenant_id j) (j_job_id j) grant d1)))"

subsection \<open>Claiming a waiting task\<close>

definition task_conflict :: "string \<Rightarrow> 'a res" where
  "task_conflict msg = raise_code ''JTC01'' msg"

definition claim_row :: "string \<Rightarrow> string \<Rightarrow> int \<Rightarrow> int \<Rightarrow> job_row \<Rightarrow> job_row" where
  "claim_row lease worker secs now j = (count_expiration j)\<lparr>
     j_lease_id := Some lease, j_lease_worker_id := Some worker,
     j_lease_route_job_type := j_resume_job_type j, j_lease_work_kind := Some ''JOB'',
     j_lease_task_type := None, j_lease_expires_at := Finite (now + micros secs),
     j_work_kind := Some ''JOB'', j_route_job_type := j_resume_job_type j, j_task_type := None,
     j_resume_job_type := None, j_task_input_ordinal := None, j_task_output_ordinal := None,
     j_task_input_hash := None, j_alternate_job_type := None, j_alternate_task_type := None,
     j_alternate_after := None, j_alternate_at := None\<rparr>"

record task_coordinates =
  tc_job_type :: string
  tc_task_type :: string
  tc_resume_job_type :: string
  tc_input_ordinal :: int
  tc_output_ordinal :: int
  tc_input_hash :: string

definition at_coordinates :: "task_coordinates \<Rightarrow> job_row \<Rightarrow> bool" where
  "at_coordinates c j \<longleftrightarrow> j_work_kind j = Some ''TASK'' \<and> j_route_job_type j = Some (tc_job_type c) \<and>
     j_task_type j = Some (tc_task_type c) \<and> j_resume_job_type j = Some (tc_resume_job_type c) \<and>
     j_task_input_ordinal j = Some (tc_input_ordinal c) \<and>
     j_task_output_ordinal j = Some (tc_output_ordinal c) \<and>
     j_task_input_hash j = Some (tc_input_hash c)"

definition claim_native_task ::
  "string \<Rightarrow> string \<Rightarrow> string \<Rightarrow> task_coordinates \<Rightarrow> int \<Rightarrow> string \<Rightarrow> int \<Rightarrow> db \<Rightarrow> ((string \<times> tstz) \<times> db) res"
where
  "claim_native_task t j worker c secs new_lease now d =
     bind_res (expire_goal_waits (Some [t]) now d) (\<lambda>d1.
     if worker = '''' then raise ''worker id is required''
     else if secs < 1 \<or> secs > 86400 then raise ''lease seconds must be between 1 and 86400''
     else case find_job d1 t j of
       None \<Rightarrow> task_conflict ''native waiting task not found''
     | Some r \<Rightarrow>
         if job_status_at d1 r now \<noteq> READY then task_conflict ''waiting task is not ready''
         else if j_cancel_requested r \<or> j_lease_expires_at r > Finite now \<or> j_expires_at r \<le> Finite now
           then task_conflict ''waiting task is not eligible''
         else if \<not> at_coordinates c r then task_conflict ''waiting task coordinates do not match''
         else Inr ((new_lease, Finite (now + micros secs)),
           update_job t j (claim_row new_lease worker secs now) d1))"

subsection \<open>Rescheduling\<close>

record reschedule_args =
  ra_tenant_id :: string
  ra_job_id :: string
  ra_lease_id :: "string option"
  ra_worker_id :: string
  ra_route_job_type :: string
  ra_work_kind :: string
  ra_task_type :: "string option"
  ra_resume_job_type :: "string option"
  ra_task_input_ordinal :: "int option"
  ra_task_output_ordinal :: "int option"
  ra_task_input_hash :: "string option"
  ra_wait_for :: "string list"
  ra_available_at :: "int option"
  ra_alternate_job_type :: "string option"
  ra_alternate_task_type :: "string option"
  ra_alternate_after :: "int option"
  ra_client_mode :: "string option"
  ra_client_value :: "client_json option"
  ra_client_expected :: "int option"
  ra_wait_until_is_deadline :: bool
  ra_dependency_wait :: "wait_request option"

definition route_error :: "reschedule_args \<Rightarrow> string option" where
  "route_error a =
     (if ra_work_kind a = ''JOB'' then
        (if ra_task_type a \<noteq> None \<or> ra_resume_job_type a \<noteq> None \<or> ra_task_input_ordinal a \<noteq> None \<or>
            ra_task_output_ordinal a \<noteq> None \<or> ra_task_input_hash a \<noteq> None
         then Some ''job route cannot carry task coordinates'' else None)
      else if ra_work_kind a = ''TASK'' then
        (if ra_task_type a = None \<or> ra_task_type a = Some '''' \<or>
            ra_resume_job_type a = None \<or> ra_resume_job_type a = Some '''' \<or>
            (case ra_task_input_ordinal a of None \<Rightarrow> True | Some n \<Rightarrow> n < 0) \<or>
            (case ra_task_output_ordinal a of None \<Rightarrow> True | Some n \<Rightarrow> n < 0) \<or>
            ra_task_input_hash a = None \<or> ra_task_input_hash a = Some ''''
         then Some ''task route requires complete coordinates'' else None)
      else Some ''work kind must be JOB or TASK'')"

definition alternate_error :: "reschedule_args \<Rightarrow> string option" where
  "alternate_error a =
     (if ra_alternate_job_type a = None \<and> (ra_alternate_task_type a \<noteq> None \<or> ra_alternate_after a \<noteq> None)
      then Some ''cleared alternate route cannot have task or delay''
      else if ra_alternate_job_type a \<noteq> None \<and>
        (ra_alternate_job_type a = Some '''' \<or>
         (case ra_alternate_after a of None \<Rightarrow> True | Some s \<Rightarrow> s < 0) \<or>
         ra_alternate_task_type a = Some '''')
      then Some ''invalid alternate route''
      else if ra_alternate_task_type a \<noteq> None \<and> ra_work_kind a \<noteq> ''TASK''
      then Some ''alternate task route requires task coordinates''
      else None)"

text \<open>A delay in nanoseconds as an interval of microseconds, rounded half to even.\<close>

definition rint_micros :: "int \<Rightarrow> int" where
  "rint_micros ns = (let q = ns div 1000; r = ns mod 1000 in
     if r > 500 \<or> (r = 500 \<and> odd q) then q + 1 else q)"

definition rescheduled :: "reschedule_args \<Rightarrow> string list \<Rightarrow> int \<Rightarrow> job_row \<Rightarrow> job_row" where
  "rescheduled a wait_for v_now j = j\<lparr>
     j_dependency_wait_id := map_option wr_waitId (ra_dependency_wait a),
     j_route_job_type := Some (ra_route_job_type a), j_work_kind := Some (ra_work_kind a),
     j_task_type := ra_task_type a, j_resume_job_type := ra_resume_job_type a,
     j_task_input_ordinal := ra_task_input_ordinal a, j_task_output_ordinal := ra_task_output_ordinal a,
     j_task_input_hash := ra_task_input_hash a, j_wait_for := wait_for,
     j_available_at := (if ra_wait_until_is_deadline a \<and> wait_for = [] then v_now
        else case ra_available_at a of None \<Rightarrow> v_now | Some x \<Rightarrow> x),
     j_wait_until_is_deadline := (ra_wait_until_is_deadline a \<and> wait_for \<noteq> []),
     j_alternate_job_type := ra_alternate_job_type a, j_alternate_task_type := ra_alternate_task_type a,
     j_alternate_after := ra_alternate_after a,
     j_alternate_at := (if ra_alternate_job_type a \<noteq> None
        then map_option (\<lambda>s. v_now + rint_micros s) (ra_alternate_after a) else None),
     j_lease_id := None, j_lease_worker_id := None, j_lease_route_job_type := None,
     j_lease_work_kind := None, j_lease_task_type := None, j_lease_expires_at := MinusInfinity,
     j_consecutive_expirations := 0\<rparr>"

definition lock_for_reschedule :: "reschedule_args \<Rightarrow> int \<Rightarrow> db \<Rightarrow> job_row res" where
  "lock_for_reschedule a now d =
     (let t = ra_tenant_id a; j = ra_job_id a in
      bind_res
        (case ra_lease_id a of
           None \<Rightarrow>
             if ra_client_mode a \<noteq> None \<or> ra_client_value a \<noteq> None \<or> ra_client_expected a \<noteq> None
             then raise_code ''JCP01'' ''client payload updates require a lease''
             else lock_job_for_status d t j READY None
                    (''native job '' @ job_name t j @ '' is not unheld'') now
         | Some lease \<Rightarrow> lock_job_for_status d t j ACTIVE (Some lease)
                    (''native lease not active for job '' @ job_name t j) now) (\<lambda>r.
      if j_route_job_type r = None then raise ''native job state is missing''
      else if ra_lease_id a \<noteq> None \<and> j_lease_worker_id r \<noteq> Some (ra_worker_id a)
        then raise ''native lease owner mismatch''
      else if j_cancel_requested r then raise ''cancelled job cannot be rescheduled''
      else if ra_lease_id a \<noteq> None \<and> j_lease_expires_at r \<le> Finite now then raise ''native lease not active''
      else Inr r))"

definition reschedule_native_job :: "reschedule_args \<Rightarrow> int \<Rightarrow> int \<Rightarrow> db \<Rightarrow> db res" where
  "reschedule_native_job a v_now now d =
     (let t = ra_tenant_id a; j = ra_job_id a in
      if ra_wait_until_is_deadline a \<and> (ra_wait_for a = [] \<or> ra_available_at a = None)
      then raise ''dependency deadline requires wait-for jobs and available-at''
      else if ra_worker_id a = '''' \<or> ra_route_job_type a = ''''
      then raise ''worker id and route job type are required''
      else case route_error a of Some e \<Rightarrow> raise e | None \<Rightarrow>
      (case alternate_error a of Some e \<Rightarrow> raise e | None \<Rightarrow>
      if j \<in> set (ra_wait_for a) then raise ''job cannot wait for itself''
      else bind_res (lock_for_reschedule a now d) (\<lambda>r.
      bind_res (update_client_payload t j (ra_client_mode a) (ra_client_value a) (ra_client_expected a) d) (\<lambda>d1.
      if ra_dependency_wait a \<noteq> None \<and>
         (ra_wait_for a \<noteq> [] \<or> ra_available_at a \<noteq> None \<or> ra_alternate_job_type a \<noteq> None)
      then raise_code ''JGI01'' ''mixed structured and legacy wait''
      else bind_res (cancel_waits t j (map_option wr_waitId (ra_dependency_wait a)) d1) (\<lambda>d2.
      bind_res (case ra_dependency_wait a of None \<Rightarrow> Inr d2
                | Some req \<Rightarrow> register_wait t j req False now d2) (\<lambda>d3.
      bind_res (normalize_wait_for d3 t (ra_wait_for a)) (\<lambda>wait_for.
      Inr (update_job t j (rescheduled a wait_for v_now) d3))))))))"

end
