(* ===== verification/Scheduler_Invariant.thy ===== *)
theory Scheduler_Invariant
  imports Job_Work
begin

section \<open>The invariant of the scheduler\<close>

text \<open>
  What every operation keeps of the database: primary keys, the agreement of the tables (every
  known job is either active or archived, has client state, and belongs to an existing goal), the
  row constraints, and the wait invariant. One lemma per kind of change, which the operations'
  lemmas then combine.
\<close>

subsection \<open>Definition\<close>

definition keys_ok :: "db \<Rightarrow> bool" where
  "keys_ok d \<longleftrightarrow> distinct (map job_key (jobs d)) \<and> distinct (map archive_key (jobs_archive d)) \<and>
     distinct (map fact_key (job_facts d)) \<and> distinct (map client_key (job_client_state d)) \<and>
     fact_key ` set (job_facts d) = job_key ` set (jobs d) \<union> archive_key ` set (jobs_archive d) \<and>
     job_key ` set (jobs d) \<inter> archive_key ` set (jobs_archive d) = {} \<and>
     client_key ` set (job_client_state d) = fact_key ` set (job_facts d)"

definition linked :: "db \<Rightarrow> bool" where
  "linked d \<longleftrightarrow>
     (\<forall>f \<in> set (job_facts d). (f_tenant_id f, f_goal_id f) \<in> goal_key ` set (goals d)) \<and>
     (\<forall>j \<in> set (jobs d). \<exists>f \<in> set (job_facts d). fact_key f = job_key j \<and> f_goal_id f = j_goal_id j) \<and>
     (\<forall>c \<in> set (goal_candidates d). (gc_tenant_id c, gc_goal_id c) \<in> goal_key ` set (goals d) \<and>
        (gc_tenant_id c, gc_job_id c) \<in> fact_key ` set (job_facts d))"

definition waits_ok :: "db \<Rightarrow> bool" where
  "waits_ok d \<longleftrightarrow> waits_wf d \<and> waits_fresh d \<and>
     (\<forall>t j i. (t, j, i) \<in> pending_keys d \<longrightarrow> (t, j) \<in> job_key ` set (jobs d))"

definition db_ok :: "db \<Rightarrow> bool" where
  "db_ok d \<longleftrightarrow> keys_ok d \<and> linked d \<and> goals_ok d \<and> waits_ok d \<and> (\<forall>j \<in> set (jobs d). native_job_ok j)"

lemma db_okD:
  assumes "db_ok d"
  shows "keys_ok d" "linked d" "goals_ok d" "waits_wf d" "waits_fresh d"
    "\<And>j. j \<in> set (jobs d) \<Longrightarrow> native_job_ok j"
    "\<And>t j i. (t, j, i) \<in> pending_keys d \<Longrightarrow> (t, j) \<in> job_key ` set (jobs d)"
  using assms by (auto simp: db_ok_def waits_ok_def)

lemma db_okI:
  assumes "keys_ok d" "linked d" "goals_ok d" "waits_wf d" "waits_fresh d"
    "\<And>j. j \<in> set (jobs d) \<Longrightarrow> native_job_ok j"
    "\<And>t j i. (t, j, i) \<in> pending_keys d \<Longrightarrow> (t, j) \<in> job_key ` set (jobs d)"
  shows "db_ok d"
  using assms by (auto simp: db_ok_def waits_ok_def)

lemma installed_db_ok: "db_ok installed_db"
  by (simp add: db_ok_def keys_ok_def linked_def goals_ok_def waits_ok_def waits_wf_def waits_fresh_def
      pending_keys_def installed_db_def)

lemma find_job_iff:
  assumes "keys_ok d"
  shows "find_job d t j = Some r \<longleftrightarrow> r \<in> set (jobs d) \<and> job_key r = (t, j)"
  using assms by (simp add: keys_ok_def find_job_def row_at_iff)

lemma find_job_key: "find_job d t j = Some r \<Longrightarrow> j_tenant_id r = t \<and> j_job_id r = j \<and> r \<in> set (jobs d)"
  by (auto simp: find_job_def job_key_def dest!: row_at_SomeD)

subsection \<open>Changes that the invariant does not see\<close>

lemma waits_wf_cong:
  assumes "dependency_waits d' = dependency_waits d" "dependency_targets d' = dependency_targets d"
    "fact_key ` set (job_facts d') = fact_key ` set (job_facts d)"
    "goal_key ` set (goals d') = goal_key ` set (goals d)"
  shows "waits_wf d' \<longleftrightarrow> waits_wf d"
  using waits_wf_mono [of d d'] waits_wf_mono [of d' d] assms by auto

lemma waits_fresh_cong:
  assumes "goals d' = goals d" "jobs_archive d' = jobs_archive d" "dependency_waits d' = dependency_waits d"
  shows "waits_fresh d' \<longleftrightarrow> waits_fresh d"
  using fresh_wait_cong [OF assms(1,2)] assms(3) by (simp add: waits_fresh_def)

lemma db_ok_cong:
  assumes "jobs d' = jobs d" "jobs_archive d' = jobs_archive d" "job_facts d' = job_facts d"
    "map client_key (job_client_state d') = map client_key (job_client_state d)"
    "goals d' = goals d" "goal_candidates d' = goal_candidates d"
    "dependency_waits d' = dependency_waits d" "dependency_targets d' = dependency_targets d"
  shows "db_ok d' \<longleftrightarrow> db_ok d"
proof -
  have "client_key ` set (job_client_state d') = client_key ` set (job_client_state d)"
    using assms(4) by (metis list.set_map)
  moreover have "waits_wf d' = waits_wf d" by (rule waits_wf_cong) (simp_all add: assms)
  moreover have "waits_fresh d' = waits_fresh d" by (rule waits_fresh_cong) (simp_all add: assms)
  ultimately show ?thesis
    by (simp add: db_ok_def keys_ok_def linked_def goals_ok_def waits_ok_def pending_keys_def assms)
qed

lemma emit_trace_event_db_ok [simp]: "db_ok (emit_trace_event t j e w now d) \<longleftrightarrow> db_ok d"
  by (rule db_ok_cong) simp_all

lemma notify_work_db_ok [simp]: "db_ok (notify_work t j a b d) \<longleftrightarrow> db_ok d"
  by (rule db_ok_cong) simp_all

lemma update_client_payload_db_ok:
  assumes "update_client_payload t j mode val expected d = Inr d'"
  shows "db_ok d' \<longleftrightarrow> db_ok d"
proof -
  have "d = d'\<lparr>job_client_state := job_client_state d\<rparr>"
    using update_client_payload_frame(1) [OF assms] by simp
  then have "jobs d = jobs d'" "jobs_archive d = jobs_archive d'" "job_facts d = job_facts d'"
    "goals d = goals d'" "goal_candidates d = goal_candidates d'"
    "dependency_waits d = dependency_waits d'" "dependency_targets d = dependency_targets d'"
    by (metis db.select_convs db.surjective db.update_convs(11))+
  then show ?thesis using update_client_payload_frame(2) [OF assms] by (intro db_ok_cong) simp_all
qed

subsection \<open>Changes of active rows\<close>

text \<open>A change of active rows that keeps keys, goals and row validity.\<close>

lemma map_jobs_db_ok:
  assumes ok: "db_ok d" and f: "\<And>x. job_key (f x) = job_key x" "\<And>x. j_goal_id (f x) = j_goal_id x"
    "\<And>x. x \<in> set (jobs d) \<Longrightarrow> native_job_ok (f x)"
  shows "db_ok (d\<lparr>jobs := map f (jobs d)\<rparr>)"
proof -
  let ?d = "d\<lparr>jobs := map f (jobs d)\<rparr>"
  have keys: "map job_key (map f (jobs d)) = map job_key (jobs d)" by (simp add: f(1))
  then have set: "job_key ` set (map f (jobs d)) = job_key ` set (jobs d)" by (metis list.set_map)
  have "waits_wf ?d = waits_wf d" by (rule waits_wf_cong) simp_all
  moreover have "waits_fresh ?d = waits_fresh d" by (rule waits_fresh_cong) simp_all
  moreover have "pending_keys ?d = pending_keys d" by (simp add: pending_keys_def)
  moreover have "linked ?d" using db_okD(2) [OF ok] f by (simp add: linked_def)
  moreover have "job_key \<circ> f = job_key" by (simp add: comp_def f(1))
  then have "keys_ok ?d" using db_okD(1) [OF ok] set by (simp add: keys_ok_def)
  ultimately show ?thesis using db_okD [OF ok] f(3) set
    by (intro db_okI) (auto simp: goals_ok_def)
qed

lemma update_job_db_ok:
  assumes ok: "db_ok d" and f: "\<And>x. job_key (f x) = job_key x" "\<And>x. j_goal_id (f x) = j_goal_id x"
    and r: "find_job d t j = Some r" "native_job_ok (f r)"
  shows "db_ok (update_job t j f d)"
proof -
  let ?f = "\<lambda>x. if job_key x = (t, j) then f x else x"
  have "x = r" if "x \<in> set (jobs d)" "job_key x = (t, j)" for x
    using that r(1) find_job_iff [OF db_okD(1) [OF ok], of t j x] by simp
  then have "db_ok (d\<lparr>jobs := map ?f (jobs d)\<rparr>)"
    by (intro map_jobs_db_ok [OF ok]) (use f r(2) db_okD(6) [OF ok] in auto)
  then show ?thesis by (simp add: update_job_def upd_at_def)
qed

subsection \<open>Changes of waits and goals\<close>

lemma closes_goals_db_ok:
  assumes ok: "db_ok d" and c: "closes_goals d d'"
  shows "db_ok d'"
proof -
  have gw: "goals_waits_only d d'" using c by (simp add: closes_goals_def)
  note sel = goals_waits_only_sel [OF gw]
  have gk: "goal_key ` set (goals d') = goal_key ` set (goals d)" using sel(12) by (metis list.set_map)
  have "pending_keys d' \<subseteq> pending_keys d" using c waits_shrink_pending by (simp add: closes_goals_def)
  then show ?thesis using db_okD [OF ok] c
    by (intro db_okI) (auto simp: keys_ok_def linked_def sel gk closes_goals_def)
qed

lemma waits_settle_closes:
  assumes "waits_settle d d'" "waits_fresh d'"
  shows "closes_goals d d'"
  using assms waits_only_goals_waits_only [of d d'] closed_goals_kept_eq [of d' d]
  by (auto simp: closes_goals_def waits_settle_def waits_only_def goals_ok_def)

lemma registers_db_ok:
  assumes ok: "db_ok d" and r: "registers (t, j, i) d d'" and j: "find_job d t j \<noteq> None"
  shows "db_ok d'"
proof -
  have only: "waits_only d d'" using r by (simp add: registers_def)
  have "(t, j) \<in> job_key ` set (jobs d)"
    using j by (simp add: find_job_def row_at_None)
  then have "(t', j') \<in> job_key ` set (jobs d)" if "(t', j', i') \<in> pending_keys d'" for t' j' i'
    using that r db_okD(7) [OF ok] by (auto simp: registers_def)
  then show ?thesis using db_okD [OF ok] only r
    by (intro db_okI) (auto simp: keys_ok_def linked_def goals_ok_def waits_only_def registers_def)
qed

subsection \<open>Archiving\<close>

text \<open>Archiving a job makes only the waits on it stale.\<close>

lemma archive_row_fresh_except:
  assumes "waits_fresh d" and "a_tenant_id a = t" "a_job_id a = j"
  shows "fresh_except (d\<lparr>jobs_archive := jobs_archive d @ [a]\<rparr>) t (KJob, j)"
proof -
  let ?d = "d\<lparr>jobs_archive := jobs_archive d @ [a]\<rparr>"
  have arch: "archived ?d t' j' \<longleftrightarrow> archived d t' j' \<or> (t', j') = (t, j)" for t' j'
    using assms(2,3) by (auto simp: archived_def has_key_iff archive_key_def)
  have "open_target ?d t' k" if "open_target d t' k" "\<not> (t' = t \<and> k = (KJob, j))" for t' k
    using that by (cases "(d, t', k)" rule: open_target.cases) (auto simp: arch find_goal_def)
  then show ?thesis
    using assms(1) unfolding fresh_except_def waits_fresh_def fresh_wait_def live_dep_def by simp blast
qed

lemma move_key:
  assumes "F = J \<union> A" "J \<inter> A = {}" "k \<in> J"
  shows "F = (J - {k}) \<union> insert k A" "(J - {k}) \<inter> insert k A = {}"
  using assms by blast+

lemma insert_archive_ok:
  assumes ok: "db_ok d" and r: "find_job d t j = Some r"
    and a: "a_tenant_id a = t" "a_job_id a = j"
  shows "\<exists>d'. insert_archive a now d = Inr d' \<and> closes_goals (d\<lparr>jobs_archive := jobs_archive d @ [a]\<rparr>) d' \<and>
    db_ok (delete_job t j d') \<and>
    (a_completion_status a = ''success'' \<longrightarrow> (\<forall>g \<in> set (goals_of_job d t j (a_goal_id a)). \<forall>r.
       find_goal d t g = Some r \<longrightarrow> (\<exists>r'. find_goal d' t g = Some r' \<and> g_state r' \<noteq> GoalOpen \<and>
         (g_state r = GoalOpen \<longrightarrow> g_state r' = GoalSucceeded \<and> g_successful_job_id r' = Some j))))"
proof -
  let ?d = "d\<lparr>jobs_archive := jobs_archive d @ [a]\<rparr>"
  have rk: "r \<in> set (jobs d)" "job_key r = (t, j)"
    using r find_job_iff [OF db_okD(1) [OF ok]] by auto
  have key: "(t, j) \<in> job_key ` set (jobs d)" using rk by (intro image_eqI [of _ _ r]) simp_all
  have notarch: "\<not> archived d t j"
    using db_okD(1) [OF ok] key unfolding archived_def has_key_iff keys_ok_def by blast
  have wf: "waits_wf ?d" using db_okD(4) [OF ok] waits_wf_cong [of ?d d] by simp
  have fr: "fresh_except ?d (a_tenant_id a) (KJob, a_job_id a)"
    using archive_row_fresh_except [OF db_okD(5) [OF ok] a] a by simp
  from terminal_goals_ok [OF wf fr, of now] obtain d' where
    d': "terminal_goals a now ?d = Inr d'" "closes_goals ?d d'"
      "\<And>i. (t, j, i) \<notin> pending_keys d'"
    and res: "a_completion_status a = ''success'' \<longrightarrow> (\<forall>g \<in> set (goals_of_job ?d t j (a_goal_id a)). \<forall>r.
       find_goal ?d t g = Some r \<longrightarrow> (\<exists>r'. find_goal d' t g = Some r' \<and> g_state r' \<noteq> GoalOpen \<and>
         (g_state r = GoalOpen \<longrightarrow> g_state r' = GoalSucceeded \<and> g_successful_job_id r' = Some j)))"
    unfolding a by blast
  have gw: "goals_waits_only ?d d'" using d'(2) by (simp add: closes_goals_def)
  note sel = goals_waits_only_sel [OF gw]
  have "set (map goal_key (goals d')) = set (map goal_key (goals ?d))" by (simp only: sel(12))
  then have gk: "goal_key ` set (goals d') = goal_key ` set (goals d)" by simp
  let ?e = "delete_job t j d'"
  have jobs: "jobs ?e = del_at job_key (t, j) (jobs d)" by (simp add: delete_job_def sel)
  have ak: "archive_key a = (t, j)" using a by (simp add: archive_key_def)
  have cols: "jobs_archive ?e = jobs_archive d @ [a]" "job_facts ?e = job_facts d"
    "job_client_state ?e = job_client_state d" by (simp_all add: delete_job_def sel)
  have jk: "job_key ` set (jobs ?e) = job_key ` set (jobs d) - {(t, j)}"
    unfolding jobs by (rule key_image_del_at)
  have arch: "archive_key ` set (jobs_archive ?e) = insert (t, j) (archive_key ` set (jobs_archive d))"
    by (simp add: cols ak)
  have "(t, j) \<notin> archive_key ` set (jobs_archive d)"
    using notarch by (simp add: archived_def has_key_iff)
  then have "distinct (map archive_key (jobs_archive ?e))" "distinct (map job_key (jobs ?e))"
    using db_okD(1) [OF ok] by (simp add: cols ak keys_ok_def)
      (use db_okD(1) [OF ok] in \<open>simp add: jobs keys_ok_def distinct_del_at\<close>)
  then have "keys_ok ?e"
    using db_okD(1) [OF ok] move_key [OF _ _ key, of "fact_key ` set (job_facts d)"]
    unfolding keys_ok_def jk arch cols(2,3) by simp
  moreover have "linked ?e" using db_okD(2) [OF ok] by (simp add: linked_def delete_job_def sel gk)
  moreover have "goals_ok ?e" using d'(2) db_okD(3) [OF ok] by (simp add: closes_goals_def goals_ok_def delete_job_def)
  moreover have "waits_wf ?e" using d'(2) waits_wf_cong [of ?e d'] by (simp add: closes_goals_def delete_job_def)
  moreover have "waits_fresh ?e"
    using d'(2) waits_fresh_cong [of ?e d'] by (simp add: closes_goals_def delete_job_def)
  moreover have "(t', j') \<in> job_key ` set (jobs ?e)" if "(t', j', i') \<in> pending_keys ?e" for t' j' i'
  proof -
    have p: "(t', j', i') \<in> pending_keys d'" using that by (simp add: pending_keys_def delete_job_def)
    then have "(t', j', i') \<in> pending_keys ?d"
      using d'(2) waits_shrink_pending by (auto simp: closes_goals_def)
    then have "(t', j') \<in> job_key ` set (jobs d)" using db_okD(7) [OF ok] by (simp add: pending_keys_def)
    moreover have "(t', j') \<noteq> (t, j)" using p d'(3) by auto
    ultimately show ?thesis unfolding jobs key_image_del_at by simp
  qed
  moreover have "native_job_ok x" if "x \<in> set (jobs ?e)" for x
    using that db_okD(6) [OF ok] unfolding jobs by simp
  ultimately have "db_ok ?e" by (intro db_okI)
  moreover have "goals_of_job ?d = goals_of_job d" "find_goal ?d = find_goal d"
    by (intro ext; simp add: goals_of_job_def find_goal_def)+
  ultimately show ?thesis using d'(1,2) res
    by (intro exI [of _ d']) (simp only: insert_archive_def a notarch if_False)
qed

subsection \<open>Completion and cancellation\<close>

lemma drop_waits_sel [simp]:
  "job_key (drop_waits ids now j) = job_key j" "j_goal_id (drop_waits ids now j) = j_goal_id j"
  "native_job_ok (drop_waits ids now j) = native_job_ok j"
  by (simp_all add: drop_waits_def Let_def job_key_def native_job_ok_def jobs_native_route_valid_def
      lease_fields_ok_def alternate_ok_def)

text \<open>Waking the waiters touches active rows and notifications only.\<close>

definition woken :: "string \<Rightarrow> string list \<Rightarrow> int \<Rightarrow> job_row \<Rightarrow> job_row" where
  "woken t ids now j = (if j_tenant_id j = t \<and> waits_on_any ids j then drop_waits ids now j else j)"

lemma update_waiters_eq:
  "\<exists>ns. update_waiters t ids now d = d\<lparr>jobs := map (woken t ids now) (jobs d), notifications := ns\<rparr>"
proof -
  have "\<exists>ns. fold (\<lambda>j d. if wakes now j then notify_work t (j_job_id j) (j_route_job_type j) (j_task_type j) d
      else d) xs d = d\<lparr>notifications := ns\<rparr>" for xs and d :: db
  proof (induction xs arbitrary: d)
    case Nil
    show ?case by (rule exI [of _ "notifications d"]) simp
  next
    case (Cons x xs)
    have "\<exists>ns. notify_work t (j_job_id x) (j_route_job_type x) (j_task_type x) d = d\<lparr>notifications := ns\<rparr>"
      by (cases "notify_enabled d") (auto simp: notify_work_def intro: exI [of _ "notifications d"])
    then obtain ns where ns: "notify_work t (j_job_id x) (j_route_job_type x) (j_task_type x) d =
        d\<lparr>notifications := ns\<rparr>" by blast
    show ?case using Cons.IH [of d] Cons.IH [of "d\<lparr>notifications := ns\<rparr>"] by (simp add: ns)
  qed
  then show ?thesis unfolding update_waiters_def Let_def woken_def [abs_def] by fastforce
qed

lemma update_waiters_frame [simp]:
  "goals (update_waiters t ids now d) = goals d"
  "job_preparations (update_waiters t ids now d) = job_preparations d"
  "goal_candidates (update_waiters t ids now d) = goal_candidates d"
  "dependency_waits (update_waiters t ids now d) = dependency_waits d"
  "dependency_targets (update_waiters t ids now d) = dependency_targets d"
  "jobs_archive (update_waiters t ids now d) = jobs_archive d"
  "schedules (update_waiters t ids now d) = schedules d"
  "job_facts (update_waiters t ids now d) = job_facts d"
  "job_client_state (update_waiters t ids now d) = job_client_state d"
  "crash_concern_threshold (update_waiters t ids now d) = crash_concern_threshold d"
  "jobs (update_waiters t ids now d) = map (woken t ids now) (jobs d)"
  using update_waiters_eq [of t ids now d] by auto

lemma update_waiters_db_ok: "db_ok d \<Longrightarrow> db_ok (update_waiters t ids now d)"
proof -
  assume ok: "db_ok d"
  obtain ns where ns: "update_waiters t ids now d = d\<lparr>jobs := map (woken t ids now) (jobs d), notifications := ns\<rparr>"
    using update_waiters_eq by blast
  have "db_ok (d\<lparr>jobs := map (woken t ids now) (jobs d)\<rparr>)"
    by (rule map_jobs_db_ok [OF ok]) (use db_okD(6) [OF ok] in \<open>auto simp: woken_def\<close>)
  then show ?thesis using db_ok_cong [of "d\<lparr>jobs := map (woken t ids now) (jobs d), notifications := ns\<rparr>"
      "d\<lparr>jobs := map (woken t ids now) (jobs d)\<rparr>"] by (simp add: ns)
qed

lemma update_archive_db_ok:
  assumes f: "\<And>a. archive_key (f a) = archive_key a"
  shows "db_ok (update_archive t j f d) \<longleftrightarrow> db_ok d"
proof -
  let ?d = "update_archive t j f d"
  have keys: "map archive_key (jobs_archive ?d) = map archive_key (jobs_archive d)"
    by (simp add: update_archive_def map_key_upd_at f)
  then have set: "archive_key ` set (jobs_archive ?d) = archive_key ` set (jobs_archive d)"
    by (metis list.set_map)
  have "archived ?d = archived d" by (intro ext) (simp add: archived_def has_key_iff set)
  then have "open_target ?d t' k = open_target d t' k" for t' k
    by (cases "(d, t', k)" rule: open_target.cases) (simp_all add: find_goal_def update_archive_def)
  then have "waits_fresh ?d = waits_fresh d"
    by (simp add: waits_fresh_def fresh_wait_def live_dep_def update_archive_def)
  moreover have "waits_wf ?d = waits_wf d" by (rule waits_wf_cong) (simp_all add: update_archive_def)
  moreover have "keys_ok ?d = keys_ok d"
    unfolding keys_ok_def keys set by (simp add: update_archive_def)
  ultimately show ?thesis
    by (simp add: db_ok_def linked_def goals_ok_def waits_ok_def pending_keys_def) 
      (simp add: update_archive_def)
qed

text \<open>What completing a job leaves of the other tables.\<close>

definition completed ::
  "job_row \<Rightarrow> string \<Rightarrow> string option \<Rightarrow> string option \<Rightarrow> bool option \<Rightarrow> int \<Rightarrow> archive_row" where
  "completed r status detail kind retryable now =
     finalize r kind retryable (archive_of (r\<lparr>j_consecutive_expirations := 0\<rparr>) status detail now)"

lemma complete_native_locked_job_ok:
  assumes ok: "db_ok d" and r: "find_job d t j = Some r" and st: "status \<in> set completion_statuses"
  shows "\<exists>d'. complete_native_locked_job r worker status detail kind retryable now d = Inr d' \<and> db_ok d' \<and>
    find_job d' t j = None \<and>
    find_archive d' t j = Some (completed r status detail kind retryable now) \<and>
    (\<forall>t'. retires t' d d') \<and> waits_shrink d d' \<and>
    (status = ''success'' \<longrightarrow> (\<forall>g \<in> set (goals_of_job d t j (j_goal_id r)). \<forall>r.
       find_goal d t g = Some r \<longrightarrow> (\<exists>r'. find_goal d' t g = Some r' \<and> g_state r' \<noteq> GoalOpen \<and>
         (g_state r = GoalOpen \<longrightarrow> g_state r' = GoalSucceeded \<and> g_successful_job_id r' = Some j))))"
proof -
  let ?r = "r\<lparr>j_consecutive_expirations := 0\<rparr>"
  let ?a = "archive_of ?r status detail now"
  have key: "j_tenant_id r = t" "j_job_id r = j" using find_job_key [OF r] by auto
  have ak: "a_tenant_id ?a = t" "a_job_id ?a = j" "a_goal_id ?a = j_goal_id r" "a_completion_status ?a = status"
    by (simp_all add: archive_of_def key)
  from insert_archive_ok [OF ok r ak(1,2), of now] obtain d1 where
    d1: "insert_archive ?a now d = Inr d1" "closes_goals (d\<lparr>jobs_archive := jobs_archive d @ [?a]\<rparr>) d1"
      "db_ok (delete_job t j d1)"
    and res: "status = ''success'' \<longrightarrow> (\<forall>g \<in> set (goals_of_job d t j (j_goal_id r)). \<forall>r.
       find_goal d t g = Some r \<longrightarrow> (\<exists>r'. find_goal d1 t g = Some r' \<and> g_state r' \<noteq> GoalOpen \<and>
         (g_state r = GoalOpen \<longrightarrow> g_state r' = GoalSucceeded \<and> g_successful_job_id r' = Some j)))"
    unfolding ak by blast
  let ?d2 = "delete_job t j d1"
  let ?d4 = "emit_trace_event t j ''job_finished'' worker now (update_waiters t [j] now ?d2)"
  let ?d' = "update_archive t j (finalize r kind retryable) ?d4"
  have fin: "archive_key (finalize r kind retryable a) = archive_key a" for a
    by (simp add: finalize_def archive_key_def)
  have ret: "j_route_job_type r \<noteq> None"
    using db_okD(6) [OF ok] find_job_key [OF r] by (simp add: native_job_ok_def)
  have run: "complete_native_locked_job r worker status detail kind retryable now d = Inr ?d'"
    using st r ret d1(1) by (simp add: complete_native_locked_job_def complete_locked_job_def
        archive_and_delete_job_def key)
  have ok': "db_ok ?d'"
    using update_waiters_db_ok [OF d1(3)] update_archive_db_ok [of "finalize r kind retryable"] fin by simp
  have cols: "goals ?d' = goals d1" "goal_candidates ?d' = goal_candidates d1"
      "dependency_waits ?d' = dependency_waits d1" "job_facts ?d' = job_facts d1"
    by (simp_all add: update_archive_def delete_job_def)
  have gw: "goals_waits_only (d\<lparr>jobs_archive := jobs_archive d @ [?a]\<rparr>) d1"
    using d1(2) by (simp add: closes_goals_def)
  note sel = goals_waits_only_sel [OF gw]
  have arch: "jobs_archive ?d' = upd_at archive_key (t, j) (finalize r kind retryable) (jobs_archive d @ [?a])"
    by (simp add: update_archive_def delete_job_def sel)
  have "row_at archive_key (t, j) (jobs_archive d) = None"
    using d1(1) by (auto simp: insert_archive_def archived_def has_key_def ak split: if_splits)
  moreover have akey: "archive_key ?a = (t, j)" by (simp add: archive_key_def ak)
  ultimately have fa: "find_archive ?d' t j = Some (completed r status detail kind retryable now)"
    by (simp add: find_archive_def arch row_at_upd_at fin row_at_append akey completed_def)
  have "archived ?d' t' j' \<longleftrightarrow> archived d t' j' \<or> (t', j') = (t, j)" for t' j'
    by (auto simp: archived_def has_key_iff arch key_image_upd_at fin akey)
  moreover have "retires t' (d\<lparr>jobs_archive := jobs_archive d @ [?a]\<rparr>) d1" for t'
    by (rule closes_goals_retires [OF d1(2)])
  ultimately have "\<forall>t'. retires t' d ?d'"
    unfolding retires_def goal_open_def find_goal_def goal_members_def cols by simp
  moreover have "waits_shrink d ?d'"
    using d1(2) by (simp add: closes_goals_def waits_shrink_def cols)
  moreover have "find_job ?d' t j = None"
    using ok' fa unfolding find_job_def find_archive_def row_at_None
    by (metis (no_types, lifting) db_okD(1) disjoint_iff keys_ok_def option.distinct(1) row_at_None)
  moreover have "find_goal ?d' = find_goal d1" by (intro ext) (simp add: find_goal_def cols)
  ultimately show ?thesis using run ok' fa res by (intro exI [of _ ?d']) (simp only: simp_thms)
qed

subsection \<open>The invariant with its clock\<close>

definition db_inv :: "db \<Rightarrow> int \<Rightarrow> bool" where
  "db_inv d now \<longleftrightarrow> db_ok d \<and> obligations_acyclic d now"

lemma invD: "db_inv d now \<Longrightarrow> db_ok d" "db_inv d now \<Longrightarrow> obligations_acyclic d now"
  by (simp_all add: db_inv_def)

lemma inv_retires:
  assumes "db_inv d now" "now \<le> now'" "db_ok d'" "\<And>t. retires t d d'" "waits_shrink d d'"
  shows "db_inv d' now'"
  using assms retires_acyclic [OF _ _ assms(4,5,2)] db_okD(4) by (simp add: db_inv_def)

lemma inv_later: "db_inv d now \<Longrightarrow> now \<le> now' \<Longrightarrow> db_inv d now'"
  by (rule inv_retires) (auto simp: db_inv_def retires_def waits_shrink_refl)

lemma inv_installed: "db_inv installed_db now"
proof -
  have wf: "waits_wf installed_db" using db_okD(4) [OF installed_db_ok] .
  have "(a, b) \<notin> obligations installed_db t now" for a b t
  proof -
    obtain k i where a: "a = (k, i)" by (cases a)
    show ?thesis unfolding a using job_edge_iff [OF wf, of i b t now] goal_edge_iff [of i b installed_db t now]
      by (cases k) (simp_all add: installed_db_def goal_open_def find_goal_def)
  qed
  then have "obligations installed_db t now = {}" for t by (intro equals0I) (metis surj_pair)
  then show ?thesis using installed_db_ok by (simp add: db_inv_def obligations_acyclic_def acyclic_def)
qed

lemma same_graph:
  assumes "goals d' = goals d" "jobs_archive d' = jobs_archive d" "job_facts d' = job_facts d"
    "goal_candidates d' = goal_candidates d" "dependency_waits d' = dependency_waits d"
  shows "retires t d d'" "waits_shrink d d'"
  using assms
  by (simp_all add: retires_def archived_def goal_open_def find_goal_def goal_members_def waits_shrink_refl)

lemma inv_same_graph:
  assumes "db_inv d now" "db_ok d'" "goals d' = goals d" "jobs_archive d' = jobs_archive d"
    "job_facts d' = job_facts d" "goal_candidates d' = goal_candidates d"
    "dependency_waits d' = dependency_waits d"
  shows "db_inv d' now"
  by (rule inv_retires [OF assms(1) order_refl assms(2)]) (simp_all add: same_graph assms)

lemma inv_closes_goals: "db_inv d now \<Longrightarrow> closes_goals d d' \<Longrightarrow> db_inv d' now"
  by (rule inv_retires) (auto simp: db_inv_def closes_goals_db_ok closes_goals_retires closes_goals_def)

lemma update_client_payload_cols:
  assumes "update_client_payload t j mode val expected d = Inr d'"
  shows "goals d' = goals d" "jobs_archive d' = jobs_archive d" "job_facts d' = job_facts d"
    "goal_candidates d' = goal_candidates d" "dependency_waits d' = dependency_waits d"
    "jobs d' = jobs d" "crash_concern_threshold d' = crash_concern_threshold d"
  using assms by (cases rule: update_client_payload_cases; simp)+

lemma update_client_payload_inv:
  assumes "db_inv d now" "update_client_payload t j mode val expected d = Inr d'"
  shows "db_inv d' now"
  by (rule inv_same_graph [OF assms(1)])
     (use update_client_payload_db_ok [OF assms(2)] invD(1) [OF assms(1)]
        update_client_payload_cols [OF assms(2)] in auto)

lemma update_job_inv:
  assumes "db_inv d now" "\<And>x. job_key (f x) = job_key x" "\<And>x. j_goal_id (f x) = j_goal_id x"
    "find_job d t j = Some r" "native_job_ok (f r)"
  shows "db_inv (update_job t j f d) now"
  by (rule inv_same_graph [OF assms(1) update_job_db_ok [OF invD(1) [OF assms(1)] assms(2-5)]])
     (simp_all add: update_job_def)

lemma emit_trace_event_inv: "db_inv d now \<Longrightarrow> db_inv (emit_trace_event t j e w at_time d) now"
  by (rule inv_same_graph) (simp_all add: invD)

lemma complete_native_locked_job_inv:
  assumes "db_inv d now" "find_job d t j = Some r"
    "complete_native_locked_job r worker status detail kind retryable now d = Inr d'"
  shows "db_inv d' now"
proof -
  have st: "status \<in> set completion_statuses"
    using assms(3) by (auto simp: complete_native_locked_job_def split: if_splits)
  have "db_ok d' \<and> (\<forall>t'. retires t' d d') \<and> waits_shrink d d'"
    using complete_native_locked_job_ok [OF invD(1) [OF assms(1)] assms(2) st,
        of worker detail kind retryable now] assms(3) by auto
  then have "db_ok d'" "\<And>t'. retires t' d d'" "waits_shrink d d'" by simp_all
  then show ?thesis by (rule inv_retires [OF assms(1) order_refl])
qed

subsection \<open>The operations\<close>

lemma complete_native_job_inv:
  assumes "db_inv d now"
    and run: "complete_native_job t j lease worker status detail kind retryable mode val expected now d = Inr d'"
  shows "db_inv d' now"
proof -
  from run obtain r d1 where r: "find_job d t j = Some r"
      "update_client_payload t j mode val expected d = Inr d1"
      "complete_native_locked_job r worker status detail kind retryable now d1 = Inr d'"
    by (auto simp: complete_native_job_def res_simps split: if_splits)
  have "db_inv d1 now" by (rule update_client_payload_inv [OF assms(1) r(2)])
  moreover have "find_job d1 t j = Some r"
    using r(1) update_client_payload_cols(6) [OF r(2)] by (simp add: find_job_def)
  ultimately show ?thesis using r(3) complete_native_locked_job_inv by blast
qed

lemma complete_native_unheld_job_inv:
  assumes "db_inv d now"
    and run: "complete_native_unheld_job t j worker status detail kind retryable now d = Inr d'"
  shows "db_inv d' now"
  using run complete_native_locked_job_inv [OF assms(1)]
  by (auto simp: complete_native_unheld_job_def res_simps split: if_splits)

lemmas native_ok_defs = native_job_ok_def jobs_native_route_valid_def lease_fields_ok_def alternate_ok_def

lemma native_job_ok_cancel [simp]:
  "native_job_ok (r\<lparr>j_cancel_requested := a, j_cancel_requested_by := b, j_cancel_requested_at := c\<rparr>) =
     native_job_ok r"
  unfolding native_ok_defs by simp

lemma native_job_ok_renew:
  "j_lease_id r \<noteq> None \<Longrightarrow> native_job_ok (r\<lparr>j_lease_expires_at := e\<rparr>) = native_job_ok r"
  unfolding native_ok_defs by (cases "j_lease_id r") simp_all

lemma cancel_job_ok:
  assumes "db_inv d now" "find_job d t j = Some r"
  shows "\<exists>d'. cancel_job t j worker now d = Inr d' \<and> db_inv d' now \<and>
    (\<exists>r'. find_job d' t j = Some r' \<and> j_cancel_requested r' \<and> j_goal_id r' = j_goal_id r)"
proof (cases "j_cancel_requested r")
  case True
  then show ?thesis using assms emit_trace_event_inv by (auto simp: cancel_job_def find_job_def)
next
  case False
  let ?f = "\<lambda>r. r\<lparr>j_cancel_requested := True, j_cancel_requested_by := Some worker,
    j_cancel_requested_at := Some now\<rparr>"
  have "native_job_ok r" using db_okD(6) [OF invD(1) [OF assms(1)]] find_job_key [OF assms(2)] by blast
  then have "db_inv (update_job t j ?f d) now"
    by (intro update_job_inv [OF assms(1) _ _ assms(2)])
       (simp_all add: job_key_def)
  then show ?thesis using False assms(2) emit_trace_event_inv
    by (auto simp: cancel_job_def find_job_def update_job_def row_at_upd_at job_key_def)
qed

lemma cancel_native_job_inv:
  assumes "db_inv d now" and run: "cancel_native_job t j worker reason now d = Inr d'"
  shows "db_inv d' now"
proof -
  from run obtain r d1 r1 where r: "find_job d t j = Some r" "cancel_job t j worker now d = Inr d1"
      "find_job d1 t j = Some r1"
      "complete_native_locked_job r1 worker ''cancelled'' reason None (Some False) now d1 = Inr d'"
    by (auto simp: cancel_native_job_def res_simps split: if_splits option.splits)
  have "db_inv d1 now" using cancel_job_ok [OF assms(1) r(1), of worker] r(2) by auto
  then show ?thesis using r(3,4) complete_native_locked_job_inv by blast
qed

lemma renew_native_lease_inv:
  assumes "db_inv d now" and run: "renew_native_lease t j lease worker secs now d = Inr (e, d')"
  shows "db_inv d' now"
proof -
  from run obtain r where r: "find_job d t j = Some r" "j_lease_id r = Some lease"
      "d' = emit_trace_event t j ''lease_extended'' worker now
        (update_job t j (\<lambda>r. r\<lparr>j_lease_expires_at := Finite (now + micros secs)\<rparr>) d)"
    by (auto simp: renew_native_lease_def extend_lease_def Let_def split: if_splits option.splits)
  have "native_job_ok r" using db_okD(6) [OF invD(1) [OF assms(1)]] find_job_key [OF r(1)] by blast
  then have "db_inv (update_job t j (\<lambda>r. r\<lparr>j_lease_expires_at := Finite (now + micros secs)\<rparr>) d) now"
    by (intro update_job_inv [OF assms(1) _ _ r(1)])
       (use r(2) in \<open>simp_all add: job_key_def native_job_ok_renew\<close>)
  then show ?thesis using r(3) emit_trace_event_inv by simp
qed

lemma expire_goal_waits_inv:
  assumes "db_inv d now" "expire_goal_waits ts now d = Inr d'"
  shows "db_inv d' now \<and> jobs d' = jobs d"
proof -
  note ok = db_okD [OF invD(1) [OF assms(1)]]
  from expire_goal_waits_ok [OF ok(4,5), of ts now] assms(2)
  have s: "waits_settle d d'" "waits_fresh d'" by auto
  then have "jobs d' = jobs d" by (simp add: waits_settle_def waits_only_def)
  then show ?thesis using inv_closes_goals [OF assms(1) waits_settle_closes [OF s]] by simp
qed

lemma count_expiration_sel [simp]:
  "job_key (count_expiration j) = job_key j" "j_goal_id (count_expiration j) = j_goal_id j"
  by (simp_all add: count_expiration_def job_key_def)

lemma grant_lease_sel [simp]:
  "job_key (grant_lease l w s now j) = job_key j" "j_goal_id (grant_lease l w s now j) = j_goal_id j"
  "j_tenant_id (grant_lease l w s now j) = j_tenant_id j" "j_job_id (grant_lease l w s now j) = j_job_id j"
  "j_lease_id (grant_lease l w s now j) = Some l"
  "j_lease_worker_id (grant_lease l w s now j) = Some w"
  "j_lease_expires_at (grant_lease l w s now j) = Finite (now + micros s)"
  "j_cancel_requested (grant_lease l w s now j) = j_cancel_requested j"
  "j_consecutive_expirations (grant_lease l w s now j) =
     (if j_lease_id j \<noteq> None then j_consecutive_expirations j + 1 else 0)"
  by (simp_all add: grant_lease_def Let_def job_key_def count_expiration_def)

lemma grant_lease_native_ok:
  assumes "native_job_ok j"
  shows "native_job_ok (grant_lease l w s now j)"
proof (cases "alternate_due j now")
  case True
  then show ?thesis using assms unfolding native_ok_defs grant_lease_def count_expiration_def Let_def
    by (cases "j_alternate_task_type j") (auto simp: alternate_due_def)
next
  case False
  then show ?thesis using assms unfolding native_ok_defs grant_lease_def count_expiration_def Let_def
    by (cases "j_lease_id j") auto
qed

lemma pick_candidate:
  "pick d q locked now = Some j \<Longrightarrow> j \<in> set (jobs d) \<and> candidate d q now j \<and> job_key j \<notin> locked"
  by (auto simp: pick_def dest!: find_SomeD)

lemma get_native_work_inv:
  assumes "db_inv d now" and run: "get_native_work q locked lease now d = Inr (res, d')"
  shows "db_inv d' now"
proof -
  from run obtain d1 where d1: "expire_goal_waits (wq_tenant_ids q) now d = Inr d1"
    by (auto simp: get_native_work_def res_simps split: if_splits)
  have i1: "db_inv d1 now" using expire_goal_waits_inv [OF assms(1) d1] by simp
  show ?thesis
  proof (cases "pick d1 q locked now")
    case None
    then show ?thesis using run d1 i1 by (auto simp: get_native_work_def split: if_splits)
  next
    case (Some j)
    let ?grant = "grant_lease lease (wq_worker_id q) (wq_lease_seconds q) now"
    have d': "d' = update_job (j_tenant_id j) (j_job_id j) ?grant d1"
      using run d1 Some by (auto simp: get_native_work_def Let_def split: if_splits)
    have j: "j \<in> set (jobs d1)" using pick_candidate [OF Some] by simp
    then have "find_job d1 (j_tenant_id j) (j_job_id j) = Some j"
      by (simp add: find_job_iff [OF db_okD(1) [OF invD(1) [OF i1]]] job_key_def)
    moreover have "native_job_ok j" using db_okD(6) [OF invD(1) [OF i1]] j by blast
    ultimately show ?thesis unfolding d'
      by (intro update_job_inv [OF i1, where r = j] grant_lease_native_ok) simp_all
  qed
qed

lemma claim_row_sel [simp]:
  "job_key (claim_row l w s now j) = job_key j" "j_goal_id (claim_row l w s now j) = j_goal_id j"
  by (simp_all add: claim_row_def job_key_def count_expiration_def)

lemma claim_row_native_ok:
  assumes "native_job_ok j" "at_coordinates c j"
  shows "native_job_ok (claim_row l w s now j)"
  using assms unfolding native_ok_defs claim_row_def count_expiration_def at_coordinates_def
  by (cases "j_lease_id j") auto

lemma claim_native_task_inv:
  assumes "db_inv d now" and run: "claim_native_task t j worker c secs lease now d = Inr (res, d')"
  shows "db_inv d' now"
proof -
  from run obtain d1 r where d1: "expire_goal_waits (Some [t]) now d = Inr d1" "find_job d1 t j = Some r"
      "at_coordinates c r" "d' = update_job t j (claim_row lease worker secs now) d1"
    by (auto simp: claim_native_task_def res_simps task_conflict_def split: if_splits option.splits)
  have i1: "db_inv d1 now" using expire_goal_waits_inv [OF assms(1) d1(1)] by simp
  moreover have "native_job_ok r" using db_okD(6) [OF invD(1) [OF i1]] find_job_key [OF d1(2)] by blast
  ultimately show ?thesis unfolding d1(4)
    by (intro update_job_inv [OF i1 _ _ d1(2)]) (simp_all add: claim_row_native_ok [OF _ d1(3)])
qed

lemma rescheduled_native_ok:
  assumes "native_job_ok j" "route_error a = None" "alternate_error a = None" "ra_route_job_type a \<noteq> ''''"
  shows "native_job_ok (rescheduled a waits v_now j)"
proof -
  have "jobs_native_route_valid (rescheduled a waits v_now j)"
    using assms(2,4) unfolding route_error_def jobs_native_route_valid_def rescheduled_def
    by (auto split: if_splits option.splits)
  moreover have "alternate_ok (rescheduled a waits v_now j)"
    using assms(3) unfolding alternate_error_def alternate_ok_def rescheduled_def
    by (auto split: if_splits option.splits)
  moreover have "lease_fields_ok (rescheduled a waits v_now j)"
    by (simp add: lease_fields_ok_def rescheduled_def)
  ultimately show ?thesis using assms(1) unfolding native_job_ok_def by (simp add: rescheduled_def)
qed

lemma reschedule_native_job_steps:
  assumes "reschedule_native_job a v_now now d = Inr d'"
  obtains r d1 d2 d3 waits where
    "lock_for_reschedule a now d = Inr r" "route_error a = None" "alternate_error a = None"
    "ra_route_job_type a \<noteq> ''''" "ra_job_id a \<notin> set (ra_wait_for a)"
    "update_client_payload (ra_tenant_id a) (ra_job_id a) (ra_client_mode a) (ra_client_value a)
       (ra_client_expected a) d = Inr d1"
    "cancel_waits (ra_tenant_id a) (ra_job_id a) (map_option wr_waitId (ra_dependency_wait a)) d1 = Inr d2"
    "(case ra_dependency_wait a of None \<Rightarrow> Inr d2
      | Some req \<Rightarrow> register_wait (ra_tenant_id a) (ra_job_id a) req False now d2) = Inr d3"
    "normalize_wait_for d3 (ra_tenant_id a) (ra_wait_for a) = Inr waits"
    "d' = update_job (ra_tenant_id a) (ra_job_id a) (rescheduled a waits v_now) d3"
proof -
  have e: "route_error a = None" "alternate_error a = None"
    using assms by (simp_all add: reschedule_native_job_def Let_def split: if_splits option.splits)
  have "ra_route_job_type a \<noteq> '''' \<and> ra_job_id a \<notin> set (ra_wait_for a) \<and> (\<exists>r d1 d2 d3 waits.
      lock_for_reschedule a now d = Inr r \<and>
      update_client_payload (ra_tenant_id a) (ra_job_id a) (ra_client_mode a) (ra_client_value a)
        (ra_client_expected a) d = Inr d1 \<and>
      cancel_waits (ra_tenant_id a) (ra_job_id a) (map_option wr_waitId (ra_dependency_wait a)) d1 = Inr d2 \<and>
      (case ra_dependency_wait a of None \<Rightarrow> Inr d2
       | Some req \<Rightarrow> register_wait (ra_tenant_id a) (ra_job_id a) req False now d2) = Inr d3 \<and>
      normalize_wait_for d3 (ra_tenant_id a) (ra_wait_for a) = Inr waits \<and>
      d' = update_job (ra_tenant_id a) (ra_job_id a) (rescheduled a waits v_now) d3)"
    using assms unfolding reschedule_native_job_def Let_def e option.case
    by (simp only: res_simps sum.inject) blast
  then show ?thesis using that e by blast
qed

lemma lock_for_reschedule_find:
  "lock_for_reschedule a now d = Inr r \<Longrightarrow> find_job d (ra_tenant_id a) (ra_job_id a) = Some r"
  by (auto simp: lock_for_reschedule_def res_simps Let_def split: option.splits if_splits)

lemma cancel_waits_inv:
  assumes "db_inv d now" "cancel_waits t j keep d = Inr d'"
  shows "db_inv d' now \<and> jobs d' = jobs d"
proof -
  note ok = db_okD [OF invD(1) [OF assms(1)]]
  from cancel_waits_ok [OF ok(4), of t j keep] assms(2) ok(5)
  have s: "waits_settle d d'" "waits_fresh d'" by auto
  then have "jobs d' = jobs d" by (simp add: waits_settle_def waits_only_def)
  then show ?thesis using inv_closes_goals [OF assms(1) waits_settle_closes [OF s]] by simp
qed

lemma register_wait_inv:
  assumes "db_inv d now" "register_wait t j req sub now d = Inr d'" "find_job d t j \<noteq> None"
  shows "db_inv d' now \<and> jobs d' = jobs d"
proof -
  note ok = db_okD [OF invD(1) [OF assms(1)]]
  have r: "registers (t, j, wr_waitId req) d d'"
    using register_wait_ok [OF ok(4,5) assms(2)] by simp
  moreover have "obligations_acyclic d' now"
    by (rule register_wait_acyclic [OF ok(4,5) assms(2) invD(2) [OF assms(1)]])
  ultimately show ?thesis using registers_db_ok [OF invD(1) [OF assms(1)] r assms(3)]
    by (simp add: db_inv_def registers_def waits_only_def)
qed

lemma reschedule_native_job_inv:
  assumes "db_inv d now" "reschedule_native_job a v_now now d = Inr d'"
  shows "db_inv d' now"
  using assms(2)
proof (cases rule: reschedule_native_job_steps)
  case (1 r d1 d2 d3 waits)
  let ?t = "ra_tenant_id a" and ?j = "ra_job_id a"
  have f: "find_job d ?t ?j = Some r" by (rule lock_for_reschedule_find [OF 1(1)])
  have i1: "db_inv d1 now" "jobs d1 = jobs d"
    using update_client_payload_inv [OF assms(1) 1(6)] update_client_payload_cols [OF 1(6)] by auto
  have i2: "db_inv d2 now" "jobs d2 = jobs d" using cancel_waits_inv [OF i1(1) 1(7)] i1(2) by auto
  have f2: "find_job d2 ?t ?j = Some r" using f i2 by (simp add: find_job_def)
  have i3: "db_inv d3 now" "jobs d3 = jobs d"
    using 1(8) i2 register_wait_inv [OF i2(1)] f2 by (auto split: option.splits)
  have f3: "find_job d3 ?t ?j = Some r" using f i3 by (simp add: find_job_def)
  have "native_job_ok r" using db_okD(6) [OF invD(1) [OF assms(1)]] find_job_key [OF f] by blast
  then have "native_job_ok (rescheduled a waits v_now r)" by (rule rescheduled_native_ok) (rule 1)+
  then show ?thesis unfolding 1(10)
    by (intro update_job_inv [OF i3(1) _ _ f3]) (simp_all add: rescheduled_def job_key_def)
qed

subsection \<open>Submission\<close>

lemma sub_acyclic:
  assumes "obligations_acyclic d now" "\<And>a b. (a, b) \<in> R \<Longrightarrow> (a, b) \<in> obligations d t now"
  shows "acyclic R"
proof (rule acyclic_subset)
  show "acyclic (obligations d t now)" using assms(1) by (simp add: obligations_acyclic_def)
  show "R \<subseteq> obligations d t now" by (rule subrelI) (rule assms(2))
qed

lemma new_goal_inv:
  assumes i: "db_inv d now" and g: "find_goal d t g = None"
  shows "db_inv (d\<lparr>goals := goals d @ [new_goal_row t g now]\<rparr>) now"
proof -
  let ?d = "d\<lparr>goals := goals d @ [new_goal_row t g now]\<rparr>"
  note ok = db_okD [OF invD(1) [OF i]]
  have key: "goal_key (new_goal_row t g now) = (t, g)" by (simp add: goal_key_def new_goal_row_def)
  have fresh_key: "(t, g) \<notin> goal_key ` set (goals d)" using g by (simp add: find_goal_def row_at_None)
  have find: "find_goal ?d t' g' = (if (t', g') = (t, g) then Some (new_goal_row t g now) else find_goal d t' g')" for t' g'
    using g by (auto simp: find_goal_def row_at_append key split: option.splits)
  have arch: "archived ?d = archived d" by (intro ext) (simp add: archived_def)
  have "open_target ?d t' k" if "open_target d t' k" for t' k
    using that g by (cases "(d, t', k)" rule: open_target.cases) (auto simp: find arch)
  then have "live_dep ?d t' dep" if "live_dep d t' dep" for t' dep
    using that unfolding live_dep_def some_such_iff by blast
  then have "waits_fresh ?d" using ok(5) by (simp add: waits_fresh_def fresh_wait_def)
  moreover have wf: "waits_wf ?d" by (rule waits_wf_mono [OF ok(4)]) auto
  moreover have "goals_ok ?d" using ok(3) fresh_key key
    by (simp add: goals_ok_def goal_row_ok_def new_goal_row_def)
  moreover have "linked ?d" using ok(2) by (auto simp: linked_def)
  ultimately have dbok: "db_ok ?d" using ok
    by (intro db_okI) (auto simp: keys_ok_def pending_keys_def)
  have none: "goal_members d t g = []"
  proof -
    have "f_goal_id f \<noteq> g" if "f \<in> set (job_facts d)" "f_tenant_id f = t" for f
      using ok(2) that fresh_key by (auto simp: linked_def)
    moreover have "gc_goal_id c \<noteq> g" if "c \<in> set (goal_candidates d)" "gc_tenant_id c = t" for c
      using ok(2) that fresh_key by (auto simp: linked_def)
    ultimately show ?thesis by (simp add: goal_members_def filter_empty_conv)
  qed
  have mem: "goal_members ?d = goal_members d" by (intro ext) (simp add: goal_members_def)
  have "(a, b) \<in> obligations d t' now" if e: "(a, b) \<in> obligations ?d t' now" for a b t'
  proof -
    obtain k i where a: "a = (k, i)" by (cases a)
    show ?thesis
    proof (cases k)
      case KJob
      then show ?thesis using e by (simp add: a job_edge_iff [OF wf] job_edge_iff [OF ok(4)] arch)
    next
      case KGoal
      then show ?thesis using e none by (auto simp: a goal_edge_iff goal_open_def find mem arch split: if_splits)
    qed
  qed
  then have "acyclic (obligations ?d t' now)" for t'
    by (rule sub_acyclic [OF invD(2) [OF i]])
  then show ?thesis using dbok by (simp add: db_inv_def obligations_acyclic_def)
qed

lemma acyclic_sink:
  assumes "acyclic R" "S \<subseteq> insert (a, b) R" "a \<noteq> b" "\<And>x. (b, x) \<notin> R"
  shows "acyclic S"
proof -
  have "(b, a) \<notin> R\<^sup>*" using assms(3,4) by (auto elim: converse_rtranclE)
  then have "acyclic (insert (a, b) R)" using assms(1) by (simp add: acyclic_insert)
  then show ?thesis using assms(2) acyclic_subset by blast
qed

lemma add_job_inv:
  assumes i: "db_inv d now" and key: "fact_key f = (t, j)" "job_key r = (t, j)" "client_key c = (t, j)"
    and goal: "f_goal_id f = g" "j_goal_id r = g" "(t, g) \<in> goal_key ` set (goals d)"
    and new: "find_fact d t j = None" and r: "native_job_ok r"
  shows "db_inv (add_job f r c d) now"
proof -
  let ?d = "add_job f r c d"
  note ok = db_okD [OF invD(1) [OF i]]
  have nf: "(t, j) \<notin> fact_key ` set (job_facts d)" using new by (simp add: find_fact_def row_at_None)
  have nj: "(t, j) \<notin> job_key ` set (jobs d)" "(t, j) \<notin> archive_key ` set (jobs_archive d)"
    "(t, j) \<notin> client_key ` set (job_client_state d)" using ok(1) nf by (auto simp: keys_ok_def)
  have wf: "waits_wf ?d" by (rule waits_wf_mono [OF ok(4)]) (auto simp: add_job_def)
  have ft: "f_tenant_id f = t" "f_job_id f = j" using key(1) by (auto simp: fact_key_def)
  have "keys_ok ?d" using ok(1) nf nj key unfolding keys_ok_def by (auto simp: add_job_def)
  moreover have "linked ?d" using ok(2) key goal ft unfolding linked_def by (auto simp: add_job_def)
  moreover have "waits_fresh ?d" using ok(5) waits_fresh_cong [of ?d d] by (simp add: add_job_def)
  moreover have "native_job_ok x" if "x \<in> set (jobs ?d)" for x
    using that ok(6) r by (auto simp: add_job_def)
  moreover have "(t', j') \<in> job_key ` set (jobs ?d)" if "(t', j', i') \<in> pending_keys ?d" for t' j' i'
    using that ok(7) by (simp add: add_job_def pending_keys_def)
  ultimately have dbok: "db_ok ?d" using ok(3) wf by (intro db_okI) (simp_all add: goals_ok_def add_job_def)
  have arch: "archived ?d = archived d" "goal_open ?d = goal_open d"
    by (intro ext, simp add: archived_def goal_open_def find_goal_def add_job_def)+
  have mem: "set (goal_members ?d t' g') = set (goal_members d t' g') \<union> (if (t', g') = (t, g) then {j} else {})"
    for t' g' using ft goal by (auto simp: goal_members_def add_job_def)
  have edge: "(x, y) \<in> obligations d t' now \<or> (t' = t \<and> x = (KGoal, g) \<and> y = (KJob, j))"
    if e: "(x, y) \<in> obligations ?d t' now" for x y t'
  proof -
    obtain k i where x: "x = (k, i)" by (cases x)
    show ?thesis
    proof (cases k)
      case KJob
      then show ?thesis using e
        by (simp add: x job_edge_iff [OF wf] job_edge_iff [OF ok(4)] arch) (simp add: add_job_def)
    next
      case KGoal
      then show ?thesis using e by (auto simp: x goal_edge_iff arch mem split: if_splits)
    qed
  qed
  have sink: "((KJob, j), y) \<notin> obligations d t now" for y
  proof
    assume "((KJob, j), y) \<in> obligations d t now"
    then obtain w where "w \<in> set (dependency_waits d)" "w_tenant_id w = t" "w_job_id w = j" "w_state w = WaitPending"
      by (auto simp: job_edge_iff [OF ok(4)])
    then have "(t, j, w_wait_id w) \<in> pending_keys d" by (force simp: pending_keys_def wait_key_def)
    then show False using ok(7) nj(1) by blast
  qed
  have "acyclic (obligations ?d t' now)" for t'
  proof (cases "t' = t")
    case True
    show ?thesis unfolding True
    proof (rule acyclic_sink)
      show "acyclic (obligations d t now)" using invD(2) [OF i] by (simp add: obligations_acyclic_def)
      show "obligations ?d t now \<subseteq> insert ((KGoal, g), (KJob, j)) (obligations d t now)"
        using edge by (intro subrelI) blast
    qed (use sink in auto)
  next
    case False
    show ?thesis by (rule sub_acyclic [OF invD(2) [OF i]]) (use edge False in blast)
  qed
  then show ?thesis using dbok by (simp add: db_inv_def obligations_acyclic_def)
qed

lemma prep_inv: "db_inv (d\<lparr>job_preparations := ps\<rparr>) now \<longleftrightarrow> db_inv d now"
proof -
  let ?d = "d\<lparr>job_preparations := ps\<rparr>"
  have ok: "db_ok ?d = db_ok d" by (rule db_ok_cong) simp_all
  show ?thesis
    using inv_same_graph [of ?d now d] inv_same_graph [of d now ?d] ok by (auto simp: invD)
qed

lemma new_job_row_native_ok: "sa_job_type a \<noteq> '''' \<Longrightarrow> native_job_ok (new_job_row a g waits now)"
  unfolding native_ok_defs new_job_row_def by simp

lemma create_job_steps:
  assumes "create_job a g initial dg now d = Inr d'"
  obtains waits d5 where
    "normalize_wait_for d (sa_tenant_id a) (sa_wait_for a) = Inr waits"
    "submission_wait a now
       (add_job (facts_of a g now) (new_job_row a g waits now) (client_of a initial dg) d) = Inr d5"
    "d' = publish (sa_tenant_id a) (sa_job_id a) d5"
proof -
  have "\<exists>waits d5. normalize_wait_for d (sa_tenant_id a) (sa_wait_for a) = Inr waits \<and>
      submission_wait a now
        (add_job (facts_of a g now) (new_job_row a g waits now) (client_of a initial dg) d) = Inr d5 \<and>
      d' = publish (sa_tenant_id a) (sa_job_id a) d5"
    using assms unfolding create_job_def Let_def by (simp only: res_simps sum.inject) blast
  then show ?thesis using that by blast
qed

lemma native_job_ok_wait_id [simp]: "native_job_ok (r\<lparr>j_dependency_wait_id := w\<rparr>) = native_job_ok r"
  unfolding native_ok_defs by simp

lemma new_job_inv:
  fixes waits initial dg
  assumes i: "db_inv d now" and goal: "(sa_tenant_id a, g) \<in> goal_key ` set (goals d)"
    and new: "find_fact d (sa_tenant_id a) (sa_job_id a) = None" and jt: "sa_job_type a \<noteq> ''''"
  defines "r \<equiv> new_job_row a g waits now"
  defines "d3 \<equiv> add_job (facts_of a g now) r (client_of a initial dg) d"
  shows "db_inv d3 now" "find_job d3 (sa_tenant_id a) (sa_job_id a) = Some r"
proof -
  show i3: "db_inv d3 now" unfolding d3_def r_def
    by (rule add_job_inv [OF i _ _ _ _ _ goal new])
       (simp_all add: fact_key_def job_key_def client_key_def facts_of_def new_job_row_def client_of_def
          new_job_row_native_ok [OF jt, unfolded new_job_row_def])
  show "find_job d3 (sa_tenant_id a) (sa_job_id a) = Some r"
    unfolding find_job_iff [OF db_okD(1) [OF invD(1) [OF i3]]]
    by (simp add: d3_def r_def add_job_def job_key_def new_job_row_def)
qed

lemma create_job_inv:
  assumes i: "db_inv d now" and goal: "(sa_tenant_id a, g) \<in> goal_key ` set (goals d)"
    and new: "find_fact d (sa_tenant_id a) (sa_job_id a) = None" and jt: "sa_job_type a \<noteq> ''''"
    and run: "create_job a g initial dg now d = Inr d'"
  shows "db_inv d' now"
  using run
proof (cases rule: create_job_steps)
  case (1 waits d5)
  let ?t = "sa_tenant_id a" and ?j = "sa_job_id a"
  let ?r = "new_job_row a g waits now"
  let ?d3 = "add_job (facts_of a g now) ?r (client_of a initial dg) d"
  note i3 = new_job_inv [OF i goal new jt, of waits initial dg]
  have "db_inv d5 now"
  proof (cases "sa_dependencies a = []")
    case True
    then show ?thesis using 1(2) i3(1) by (simp add: submission_wait_def)
  next
    case False
    then obtain d4 where d4: "register_wait ?t ?j \<lparr>wr_waitId = ''submission'', wr_deadline = None,
        wr_dependencies = sa_dependencies a\<rparr> True now ?d3 = Inr d4"
      "d5 = update_job ?t ?j (\<lambda>r. r\<lparr>j_dependency_wait_id := Some ''submission''\<rparr>) d4"
      using 1(2) by (auto simp: submission_wait_def res_simps)
    have i4: "db_inv d4 now" "jobs d4 = jobs ?d3" using register_wait_inv [OF i3(1) d4(1)] i3(2) by auto
    have f4: "find_job d4 ?t ?j = Some ?r" using i3(2) i4(2) by (simp add: find_job_def)
    show ?thesis unfolding d4(2)
      by (rule update_job_inv [OF i4(1) _ _ f4]) (simp_all add: job_key_def new_job_row_native_ok [OF jt])
  qed
  then show ?thesis unfolding 1(3) by (simp add: publish_def prep_inv)
qed

lemma submission_goal_inv:
  assumes i: "db_inv d now" and run: "submission_goal a new_goal now d = Inr (g, d')"
  shows "db_inv d' now \<and> (sa_tenant_id a, g) \<in> goal_key ` set (goals d') \<and> job_facts d' = job_facts d"
proof (cases "sa_share_goal a")
  case True
  then have "d' = d" "find_goal d (sa_tenant_id a) g \<noteq> None"
    using run by (auto simp: submission_goal_def goal_info_def res_simps Let_def split: if_splits option.splits)
  then show ?thesis using i by (simp add: find_goal_def row_at_None)
next
  case False
  then have g: "find_goal d (sa_tenant_id a) g = None"
    "d' = d\<lparr>goals := goals d @ [new_goal_row (sa_tenant_id a) g now]\<rparr>"
    using run by (auto simp: submission_goal_def Let_def split: if_splits)
  then show ?thesis using new_goal_inv [OF i g(1)] by (simp add: goal_key_def new_goal_row_def)
qed

lemma submit_native_job_inv:
  assumes i: "db_inv d now" and run: "submit_native_job sha a new_goal now d = Inr (res, d')"
  shows "db_inv d' now"
proof -
  let ?t = "sa_tenant_id a" and ?j = "sa_job_id a"
  have jt: "sa_job_type a \<noteq> ''''" using run by (auto simp: submit_native_job_def Let_def split: if_splits)
  show ?thesis
  proof (cases "find_fact d ?t ?j")
    case (Some e)
    then have "d' = d" using run
      by (auto simp: submit_native_job_def res_simps Let_def split: if_splits)
    then show ?thesis using i by simp
  next
    case None
    then obtain g d1 initial dg where
      d1: "submission_goal a new_goal now d = Inr (g, d1)" "create_job a g initial dg now d1 = Inr d' \<or> d' = d1"
      using run by (auto simp: submit_native_job_def res_simps Let_def split: if_splits option.splits)
    note g = submission_goal_inv [OF i d1(1)]
    have "find_fact d1 ?t ?j = None" using None g by (simp add: find_fact_def)
    then show ?thesis using d1(2) g create_job_inv [of d1 now a g initial dg d'] jt by blast
  qed
qed

subsection \<open>Goals\<close>

lemma add_goal_candidate_inv:
  assumes i: "db_inv d now" and run: "add_goal_candidate t g j now d = Inr (info, d')"
  shows "db_inv d' now"
proof (cases "d' = d")
  case False
  then obtain f r where f: "find_fact d t j = Some f" "find_goal d t g = Some r"
      "new_candidate t g j now d = Inr d'"
    using run by (auto simp: add_goal_candidate_def goal_info_def res_simps split: option.splits if_splits)
  note ok = db_okD [OF invD(1) [OF i]]
  from new_candidate_ok [OF ok(4,5) f(3) invD(2) [OF i]]
  have c: "closes_goals (add_candidate_row t g j now d) d'" "obligations_acyclic d' now" by auto
  have "linked (add_candidate_row t g j now d)"
    using ok(2) f row_at_SomeD [of fact_key "(t, j)"] row_at_SomeD [of goal_key "(t, g)"]
    unfolding linked_def find_fact_def find_goal_def
    by (simp add: add_candidate_row_def) (metis (no_types, lifting) image_eqI)
  then have "db_ok (add_candidate_row t g j now d)"
    using ok add_candidate_row_frame [of t g j now d]
    by (intro db_okI) (auto simp: keys_ok_def goals_ok_def pending_keys_def add_candidate_row_def)
  then show ?thesis using closes_goals_db_ok [OF _ c(1)] c(2) by (simp add: db_inv_def)
qed (use i in simp)

lemma fail_goal_inv:
  assumes "db_inv d now" "fail_goal t g m now d = Inr (info, d')"
  shows "db_inv d' now"
  using fail_goal_ok [OF db_okD(4,5) [OF invD(1) [OF assms(1)]] assms(2)] inv_closes_goals [OF assms(1)]
  by blast

lemma prepare_job_inv:
  assumes "db_inv d now" "prepare_job parse t j r prior sharing descr deps ng nj d = Inr (p, d')"
  shows "db_inv d' now"
proof -
  have "\<exists>ps. d' = d\<lparr>job_preparations := ps\<rparr>"
    using assms(2) unfolding prepare_job_def Let_def
    by (auto simp: res_simps split: option.splits if_splits intro: exI [of _ "job_preparations d"])
  then show ?thesis using assms(1) prep_inv by auto
qed

end
