(* ===== verification/Base64.thy ===== *)
theory Base64
  imports Main
begin

section \<open>Base64\<close>

text \<open>
  The two encodings of Go's \<^verbatim>\<open>encoding/base64\<close> that the program uses: \<^verbatim>\<open>StdEncoding.Strict()\<close> reads the
  signing key of the server, \<^verbatim>\<open>RawURLEncoding\<close> writes and reads page tokens. A decoder skips line breaks; a
  strict one refuses a last group whose unused bits are not zero. Texts and byte strings are both lists of
  characters.
\<close>

record encoding =
  enc_alphabet :: string
  enc_padding :: bool
  enc_strict :: bool

definition StdEncodingStrict :: encoding where
  "StdEncodingStrict = \<lparr>enc_alphabet = ''ABCDEFGHIJKLMNOPQRSTUVWXYZabcdefghijklmnopqrstuvwxyz0123456789+/'',
     enc_padding = True, enc_strict = True\<rparr>"

definition RawURLEncoding :: encoding where
  "RawURLEncoding = \<lparr>enc_alphabet = ''ABCDEFGHIJKLMNOPQRSTUVWXYZabcdefghijklmnopqrstuvwxyz0123456789-_'',
     enc_padding = False, enc_strict = False\<rparr>"

definition byte :: "char \<Rightarrow> nat" where
  "byte c = of_char c"

definition letter :: "encoding \<Rightarrow> nat \<Rightarrow> char" where
  "letter e n = enc_alphabet e ! n"

fun index_of :: "char \<Rightarrow> string \<Rightarrow> nat option" where
  "index_of c [] = None"
| "index_of c (x # xs) = (if x = c then Some 0 else map_option Suc (index_of c xs))"

definition sextet :: "encoding \<Rightarrow> char \<Rightarrow> nat option" where
  "sextet e c = index_of c (enc_alphabet e)"

definition pads :: "encoding \<Rightarrow> nat \<Rightarrow> string" where
  "pads e n = (if enc_padding e then replicate n (CHR ''='') else [])"

definition is_pad :: "encoding \<Rightarrow> char \<Rightarrow> bool" where
  "is_pad e c \<longleftrightarrow> enc_padding e \<and> c = CHR ''=''"

subsection \<open>Encoding\<close>

fun EncodeToString :: "encoding \<Rightarrow> string \<Rightarrow> string" where
  "EncodeToString e [] = []"
| "EncodeToString e [a] = [letter e (byte a div 4), letter e (byte a mod 4 * 16)] @ pads e 2"
| "EncodeToString e [a, b] = [letter e (byte a div 4), letter e (byte a mod 4 * 16 + byte b div 16),
     letter e (byte b mod 16 * 4)] @ pads e 1"
| "EncodeToString e (a # b # c # s) = [letter e (byte a div 4), letter e (byte a mod 4 * 16 + byte b div 16),
     letter e (byte b mod 16 * 4 + byte c div 64), letter e (byte c mod 64)] @ EncodeToString e s"

subsection \<open>Decoding\<close>

definition two_bytes :: "nat \<Rightarrow> nat \<Rightarrow> nat \<Rightarrow> string" where
  "two_bytes p q r = [char_of (p * 4 + q div 16), char_of (q mod 16 * 16 + r div 4)]"

definition short_group :: "encoding \<Rightarrow> nat \<Rightarrow> nat \<Rightarrow> string option" where
  "short_group e p q = (if enc_strict e \<and> q mod 16 \<noteq> 0 then None else Some [char_of (p * 4 + q div 16)])"

definition long_group :: "encoding \<Rightarrow> nat \<Rightarrow> nat \<Rightarrow> nat \<Rightarrow> string option" where
  "long_group e p q r = (if enc_strict e \<and> r mod 4 \<noteq> 0 then None else Some (two_bytes p q r))"

definition full_group :: "nat \<Rightarrow> nat \<Rightarrow> nat \<Rightarrow> nat \<Rightarrow> string" where
  "full_group p q r t = two_bytes p q r @ [char_of (r mod 4 * 64 + t)]"

fun decode_groups :: "encoding \<Rightarrow> string \<Rightarrow> string option" where
  "decode_groups e [] = Some []"
| "decode_groups e [w] = None"
| "decode_groups e [w, x] = (case (sextet e w, sextet e x) of
     (Some p, Some q) \<Rightarrow> if enc_padding e then None else short_group e p q
   | _ \<Rightarrow> None)"
| "decode_groups e [w, x, y] = (case (sextet e w, sextet e x, sextet e y) of
     (Some p, Some q, Some r) \<Rightarrow> if enc_padding e then None else long_group e p q r
   | _ \<Rightarrow> None)"
| "decode_groups e (w # x # y # z # s) = (case (sextet e w, sextet e x) of
     (Some p, Some q) \<Rightarrow> (case sextet e y of
         None \<Rightarrow> if is_pad e y \<and> is_pad e z \<and> s = [] then short_group e p q else None
       | Some r \<Rightarrow> (case sextet e z of
           None \<Rightarrow> if is_pad e z \<and> s = [] then long_group e p q r else None
         | Some t \<Rightarrow> map_option (append (full_group p q r t)) (decode_groups e s)))
   | _ \<Rightarrow> None)"

definition line_break :: "char \<Rightarrow> bool" where
  "line_break c \<longleftrightarrow> c = CHR 0x0A \<or> c = CHR 0x0D"

definition DecodeString :: "encoding \<Rightarrow> string \<Rightarrow> string option" where
  "DecodeString e s = decode_groups e (filter (\<lambda>c. \<not> line_break c) s)"

subsection \<open>What an alphabet promises\<close>

lemma byte_less [simp]: "byte c < 256"
  by (simp add: byte_def)

lemma char_of_byte [simp]: "char_of (byte c) = c"
  by (simp add: byte_def)

lemma byte_char_of [simp]: "n < 256 \<Longrightarrow> byte (char_of n) = n"
  by (simp add: byte_def)

lemma index_of_Some: "index_of c xs = Some n \<Longrightarrow> n < length xs \<and> xs ! n = c"
  by (induction xs arbitrary: n) (auto split: if_splits)

lemma index_of_None: "index_of c xs = None \<longleftrightarrow> c \<notin> set xs"
  by (induction xs) auto

lemma index_of_nth: "distinct xs \<Longrightarrow> n < length xs \<Longrightarrow> index_of (xs ! n) xs = Some n"
  by (induction xs arbitrary: n) (auto simp: nth_Cons split: nat.splits)

lemma threes_induct [case_names none one two more_three]:
  "P [] \<Longrightarrow> (\<And>a. P [a]) \<Longrightarrow> (\<And>a b. P [a, b]) \<Longrightarrow> (\<And>a b c s. P s \<Longrightarrow> P (a # b # c # s)) \<Longrightarrow> P s"
  for P :: "string \<Rightarrow> bool"
  by induction_schema (pat_completeness, lexicographic_order)

lemma fours_induct [case_names none one two three more_four]:
  "P [] \<Longrightarrow> (\<And>a. P [a]) \<Longrightarrow> (\<And>a b. P [a, b]) \<Longrightarrow> (\<And>a b c. P [a, b, c]) \<Longrightarrow>
     (\<And>a b c d s. P s \<Longrightarrow> P (a # b # c # d # s)) \<Longrightarrow> P s"
  for P :: "string \<Rightarrow> bool"
  by induction_schema (pat_completeness, lexicographic_order)

text \<open>Six bits of one byte and the next: putting them together and taking them apart.\<close>

lemma digit: "k < m \<Longrightarrow> (p * m + k) div m = p" "k < m \<Longrightarrow> (p * m + k) mod m = k" for k m p :: nat
  by simp_all

lemma high_bits: "byte a div 4 < 64" "byte a div 16 < 16" "byte a div 64 < 4"
  using byte_less [of a] by (auto intro!: less_mult_imp_div_less)

lemma low_bits: "n mod 4 < 4" "n mod 16 < 16" "n mod 64 < 64" for n :: nat
  by simp_all

lemma bits [simp]:
  "byte a div 4 < 64" "byte a mod 4 * 16 < 64" "byte a mod 4 * 16 + byte b div 16 < 64"
  "byte b mod 16 * 4 < 64" "byte b mod 16 * 4 + byte c div 64 < 64" "byte c mod 64 < 64"
  using high_bits [of a] high_bits [of b] high_bits [of c] low_bits [of "byte a"] low_bits [of "byte b"] low_bits [of "byte c"]
  by linarith+

lemma joined [simp]:
  "short_group e (byte a div 4) (byte a mod 4 * 16) = Some [a]"
  "long_group e (byte a div 4) (byte a mod 4 * 16 + byte b div 16) (byte b mod 16 * 4) = Some [a, b]"
  "full_group (byte a div 4) (byte a mod 4 * 16 + byte b div 16) (byte b mod 16 * 4 + byte c div 64) (byte c mod 64) = [a, b, c]"
  using digit [OF high_bits(2) [of b], of "byte a mod 4"] digit [OF high_bits(3) [of c], of "byte b mod 16"]
  by (simp_all add: short_group_def long_group_def two_bytes_def full_group_def)

lemma parted:
  assumes "p < 64" "q < 64" "r < 64" "t < 64"
  shows "byte (char_of (p * 4 + q div 16)) = p * 4 + q div 16" "(p * 4 + q div 16) div 4 = p"
    "(p * 4 + q div 16) mod 4 = q div 16"
    "byte (char_of (q mod 16 * 16 + r div 4)) = q mod 16 * 16 + r div 4" "(q mod 16 * 16 + r div 4) div 16 = q mod 16"
    "(q mod 16 * 16 + r div 4) mod 16 = r div 4"
    "byte (char_of (r mod 4 * 64 + t)) = r mod 4 * 64 + t" "(r mod 4 * 64 + t) div 64 = r mod 4"
    "(r mod 4 * 64 + t) mod 64 = t"
proof -
  have q: "q div 16 < 4" and r: "r div 4 < 16" using assms by (auto intro!: less_mult_imp_div_less)
  have "p * 4 + q div 16 < 256" "q mod 16 * 16 + r div 4 < 256" "r mod 4 * 64 + t < 256"
    using q r assms low_bits [of q] low_bits [of r] by linarith+
  then show "byte (char_of (p * 4 + q div 16)) = p * 4 + q div 16"
    "byte (char_of (q mod 16 * 16 + r div 4)) = q mod 16 * 16 + r div 4"
    "byte (char_of (r mod 4 * 64 + t)) = r mod 4 * 64 + t" by (simp_all only: byte_char_of)
  show "(p * 4 + q div 16) div 4 = p" "(p * 4 + q div 16) mod 4 = q div 16" by (rule digit [OF q])+
  show "(q mod 16 * 16 + r div 4) div 16 = q mod 16" "(q mod 16 * 16 + r div 4) mod 16 = r div 4" by (rule digit [OF r])+
  show "(r mod 4 * 64 + t) div 64 = r mod 4" "(r mod 4 * 64 + t) mod 64 = t" by (rule digit [OF assms(4)])+
qed

lemma regrouped: "r div 4 * 4 + r mod 4 = r" "q div 16 * 16 + q mod 16 = q" for q r :: nat
  by simp_all

locale base64 =
  fixes e :: encoding
  assumes alphabet_length: "length (enc_alphabet e) = 64"
    and alphabet_distinct: "distinct (enc_alphabet e)"
    and alphabet_clean: "CHR ''='' \<notin> set (enc_alphabet e)" "CHR 0x0A \<notin> set (enc_alphabet e)" "CHR 0x0D \<notin> set (enc_alphabet e)"
begin

lemma sextet_letter [simp]: "n < 64 \<Longrightarrow> sextet e (letter e n) = Some n"
  by (simp add: sextet_def letter_def index_of_nth alphabet_length alphabet_distinct)

lemma sextetD: "sextet e c = Some n \<Longrightarrow> n < 64 \<and> c = letter e n"
  using index_of_Some [of c "enc_alphabet e" n] by (simp add: sextet_def letter_def alphabet_length)

lemma sextet_pad [simp]: "sextet e (CHR ''='') = None"
  by (simp add: sextet_def index_of_None alphabet_clean)

lemma letter_clean [simp]:
  assumes "n < 64"
  shows "\<not> line_break (letter e n)"
proof -
  have "letter e n \<in> set (enc_alphabet e)" using assms by (simp add: letter_def alphabet_length)
  then show ?thesis using alphabet_clean by (auto simp: line_break_def)
qed

lemma pads_clean [simp]: "filter (\<lambda>c. \<not> line_break c) (pads e n) = pads e n"
  by (simp add: pads_def line_break_def)

lemma encoded_clean: "filter (\<lambda>c. \<not> line_break c) (EncodeToString e bs) = EncodeToString e bs"
  by (induction bs rule: threes_induct) simp_all

lemma decode_encode: "DecodeString e (EncodeToString e bs) = Some bs"
proof -
  have "decode_groups e (EncodeToString e bs) = Some bs"
    by (induction bs rule: threes_induct) (simp_all add: pads_def is_pad_def numeral_2_eq_2)
  then show ?thesis by (simp add: DecodeString_def encoded_clean)
qed

text \<open>What a strict decoder with padding accepts is the encoding of what it returns, line breaks aside.\<close>

lemma decode_canonical:
  assumes "enc_strict e" "enc_padding e" "DecodeString e s = Some bs"
  shows "filter (\<lambda>c. \<not> line_break c) s = EncodeToString e bs"
proof -
  have "x = EncodeToString e bs" if "decode_groups e x = Some bs" for x bs
    using that
  proof (induction x arbitrary: bs rule: fours_induct)
    case (more_four w x y z s)
    obtain p q where pq: "sextet e w = Some p" "sextet e x = Some q"
      using more_four.prems by (cases "sextet e w"; cases "sextet e x") simp_all
    then have p: "p < 64" "w = letter e p" and q: "q < 64" "x = letter e q" by (auto dest: sextetD)
    note bytes = two_bytes_def full_group_def short_group_def long_group_def
    show ?case
    proof (cases "sextet e y")
      case None
      then have "is_pad e y \<and> is_pad e z \<and> s = []" and short: "short_group e p q = Some bs"
        using more_four.prems pq by (auto split: if_splits)
      then have fin: "y = CHR ''=''" "z = CHR ''=''" "s = []" by (auto simp: is_pad_def)
      from short assms(1) have "bs = [char_of (p * 4 + q div 16)]" "q div 16 * 16 = q"
        using regrouped(2) [of q] by (auto simp: bytes split: if_splits)
      then show ?thesis using assms(2) p q fin parted(1-3) [OF p(1) q(1) q(1) q(1)]
        by (simp add: pads_def numeral_2_eq_2)
    next
      case (Some r)
      then have r: "r < 64" "y = letter e r" by (auto dest: sextetD)
      show ?thesis
      proof (cases "sextet e z")
        case None
        then have "is_pad e z \<and> s = []" and long: "long_group e p q r = Some bs"
          using more_four.prems pq Some by (auto split: if_splits)
        then have fin: "z = CHR ''=''" "s = []" by (auto simp: is_pad_def)
        from long assms(1) have "bs = two_bytes p q r" "r div 4 * 4 = r"
          using regrouped(1) [of r] by (auto simp: bytes split: if_splits)
        then show ?thesis using assms(2) p q r fin parted [OF p(1) q(1) r(1) r(1)] regrouped(2) [of q]
          by (simp add: pads_def two_bytes_def)
      next
        case Some': (Some t)
        then have t: "t < 64" "z = letter e t" by (auto dest: sextetD)
        obtain rest where rest: "decode_groups e s = Some rest" "bs = full_group p q r t @ rest"
          using more_four.prems pq Some Some' by auto
        then show ?thesis using parted [OF p(1) q(1) r(1) t(1)] regrouped(1) [of r] regrouped(2) [of q] p q r t more_four.IH [OF rest(1)]
          by (simp add: bytes)
      qed
    qed
  qed (use assms(2) in \<open>auto split: option.splits\<close>)
  then show ?thesis using assms(3) by (simp add: DecodeString_def)
qed

lemma encoded_length:
  assumes "\<not> enc_padding e"
  shows "length (EncodeToString e bs) = (4 * length bs + 2) div 3"
  using assms by (induction bs rule: threes_induct) (simp_all add: pads_def)

end

interpretation std: base64 StdEncodingStrict
  by unfold_locales (simp_all add: StdEncodingStrict_def)

interpretation url: base64 RawURLEncoding
  by unfold_locales (simp_all add: RawURLEncoding_def)

end
