(* ===== verification/Go_Types.thy ===== *)
theory Go_Types
  imports Job_Work Base64
begin

section \<open>The Go side: errors, requests and results\<close>

text \<open>
  The data of \<^verbatim>\<open>pkg/pgjobdb/types.go\<close> and the types the exported functions of the package declare
  next to themselves: one record per struct with one field per Go field. Identifiers are strings, a
  pointer is an \<open>option\<close>, a slice is a list, a \<^verbatim>\<open>json.RawMessage\<close> is a \<open>raw_json\<close>. A \<^verbatim>\<open>time.Time\<close> is
  a number of nanoseconds since the Unix epoch and a \<^verbatim>\<open>time.Duration\<close> a number of nanoseconds.

  Code outside the repository enters as the record \<open>lib\<close>: the identifier and dependency checks of
  JobDB, its client payload check, SHA-256, the driver's rounding of a time to PostgreSQL's
  microseconds, and the JSON text of cursors. What a call cannot determine itself (the server's
  clock, fresh identifiers, rows other transactions hold, the fate of the connection, the iteration order of
  a Go map) is the record \<open>env\<close>, one per database call. \<open>e_now\<close> and \<open>e_wall\<close> are readings of the
  server's clock in microseconds, \<open>e_host\<close> is the caller's clock in nanoseconds.
\<close>

subsection \<open>Errors\<close>

datatype go_error =
    Err string
  | DriverErr string
  | PgErr pg_error
  | ErrLeaseLost
  | ErrJobDeleted
  | ErrJobNotFound
  | ErrScheduleNotFound
  | ErrTaskConflict string
  | PayloadInvalid string
  | PayloadConflict string
  | PayloadTooLarge
  | GoalNotFound string
  | SourceJobNotFound string
  | GoalConflict string
  | InvalidDependency string
  | DependencyWaitNotFound string
  | DependencyWaitConflict string
  | DependencyCycle string
  | ExistingJobMismatch string
  | NoRows

type_synonym 'a go = "go_error + 'a"

subsection \<open>The connection\<close>

text \<open>
  \<open>LinkDown\<close>: the driver reports an error and the statement did not run. \<open>LinkLost\<close>: the statement
  ran and committed, and the answer was lost.
\<close>

datatype link = LinkUp | LinkDown string | LinkLost string

record handle =
  h_ctx_nil :: bool
  h_db_nil :: bool

record env =
  e_link :: link
  e_now :: int
  e_wall :: int
  e_host :: int
  e_uuid :: string
  e_uuid2 :: string
  e_locked :: "(string \<times> string) set"
  e_choice :: nat

subsection \<open>Times\<close>

text \<open>\<^verbatim>\<open>time.Time{}\<close> is midnight of January 1st, year 1.\<close>

definition zero_time :: int where
  "zero_time = - 62135596800000000000"

definition IsZero :: "int \<Rightarrow> bool" where
  "IsZero t \<longleftrightarrow> t = zero_time"

text \<open>A timestamp of the database as a Go time.\<close>

definition go_time :: "int \<Rightarrow> int" where
  "go_time us = us * 1000"

fun go_tstz :: "tstz \<Rightarrow> int option" where
  "go_tstz (Finite us) = Some (go_time us)"
| "go_tstz _ = None"

subsection \<open>Client payload updates\<close>

text \<open>\<^verbatim>\<open>clientpayload.Update\<close>; its value is a raw document, which may not be JSON.\<close>

datatype raw_client = ClientText client_json | ClientGarbage

record ClientPayloadUpdate =
  cu_Mode :: string
  cu_Value :: "raw_client option"
  cu_ExpectedRevision :: "int option"

subsection \<open>Jobs\<close>

record ScheduleOccurrence =
  so_ScheduleID :: string
  so_Generation :: int
  so_SpecHash :: string
  so_ScheduledAt :: int
  so_RunID :: string
  so_Reason :: string
  so_Manual :: bool
  so_BackfillID :: string
  so_PreviousJobID :: string
  so_FailureHistory :: raw_json

record RuntimeMetadata =
  rm_SchemaHash :: string
  rm_ParentJobID :: string
  rm_Schedule :: "ScheduleOccurrence option"

record SubmitJobRequest =
  sr_GoalID :: string
  sr_ShareGoal :: bool
  sr_Dependencies :: "dependency list"
  sr_TenantID :: string
  sr_JobID :: string
  sr_WorkerID :: string
  sr_JobType :: string
  sr_RunPolicy :: RunPolicy
  sr_AppMetadata :: raw_json
  sr_Runtime :: RuntimeMetadata
  sr_WaitFor :: "string list"
  sr_ClientPayloadUpdate :: "ClientPayloadUpdate option"
  sr_AvailableAt :: "int option"
  sr_ExpiresAt :: "int option"

record SubmitJobResult =
  sj_JobID :: string
  sj_Created :: bool

definition WorkKindJob :: string where "WorkKindJob = ''JOB''"
definition WorkKindTask :: string where "WorkKindTask = ''TASK''"

record TaskSelector =
  ts_JobType :: string
  ts_TaskType :: string

record Route =
  rt_JobType :: string
  rt_TaskType :: string

record WorkSelector =
  ws_JobTypes :: "string list"
  ws_Tasks :: "TaskSelector list"

record GetWorkOptions =
  wo_TenantIDs :: "string list"
  wo_AppMetadataContains :: raw_json
  wo_MetadataPredicates :: "MetadataPredicate list"
  wo_LeaseDuration :: int

record GetJobLeaseOptions =
  jo_AppMetadataContains :: raw_json
  jo_MetadataPredicates :: "MetadataPredicate list"
  jo_LeaseDuration :: int

record TaskWork =
  tw_TaskType :: string
  tw_ResumeJobType :: string
  tw_InputOrdinal :: int
  tw_OutputOrdinal :: int
  tw_InputHash :: string

record JobLease =
  jl_GoalID :: string
  jl_TenantID :: string
  jl_JobID :: string
  jl_LeaseID :: string
  jl_WorkerID :: string
  jl_ExpiresAt :: int
  jl_JobType :: string
  jl_RouteJobType :: string
  jl_WorkKind :: string
  jl_Task :: "TaskWork option"
  jl_RunPolicy :: RunPolicy
  jl_ClientPayload :: "client_json option"
  jl_ClientPayloadRevision :: int
  jl_SchemaHash :: string

record LeaseIdentity =
  li_TenantID :: string
  li_JobID :: string
  li_LeaseID :: string
  li_WorkerID :: string

definition CompletionSuccess :: string where "CompletionSuccess = ''success''"
definition CompletionFailedApp :: string where "CompletionFailedApp = ''failed_app''"
definition CompletionFailedSystem :: string where "CompletionFailedSystem = ''failed_system''"
definition CompletionFailedTimeout :: string where "CompletionFailedTimeout = ''failed_timeout''"
definition CompletionCancelled :: string where "CompletionCancelled = ''cancelled''"

record Completion =
  cp_ClientPayloadUpdate :: "ClientPayloadUpdate option"
  cp_Status :: string
  cp_Detail :: string
  cp_ErrorKind :: string
  cp_Retryable :: "bool option"

record AlternateRoute =
  ar_JobType :: string
  ar_TaskType :: string
  ar_After :: int

text \<open>A dependency wait of the public API; its deadline is a Go time.\<close>

record DependencyWait =
  dw_WaitID :: string
  dw_Deadline :: "int option"
  dw_Dependencies :: "dependency list"

record RescheduleRequest =
  rr_DependencyWait :: "DependencyWait option"
  rr_WaitUntilIsDeadline :: bool
  rr_RouteJobType :: string
  rr_WorkKind :: string
  rr_Task :: "TaskWork option"
  rr_WaitFor :: "string list"
  rr_AvailableAt :: "int option"
  rr_ClientPayloadUpdate :: "ClientPayloadUpdate option"
  rr_Alternate :: "AlternateRoute option"

record ClaimTaskRequest =
  cr_TenantID :: string
  cr_JobID :: string
  cr_WorkerID :: string
  cr_JobType :: string
  cr_Task :: TaskWork
  cr_LeaseDuration :: int

record TaskClaim =
  tc_Identity :: LeaseIdentity
  tc_ExpiresAt :: int

record CancelJobRequest =
  ca_TenantID :: string
  ca_JobID :: string
  ca_WorkerID :: string
  ca_Reason :: string

subsection \<open>Listing\<close>

datatype JobStore = StoreActive | StoreArchived

text \<open>
  \<^verbatim>\<open>JobDetail\<close>, what a row of the view \<^verbatim>\<open>native_jobs\<close> decodes to; a null text column decodes to the
  empty string.
\<close>

record JobDetail =
  jd_GoalID :: string
  jd_OtherGoalIDs :: "string list"
  jd_TenantID :: string
  jd_JobID :: string
  jd_Store :: JobStore
  jd_Status :: JobStatus
  jd_JobType :: string
  jd_RouteJobType :: string
  jd_WorkKind :: string
  jd_TaskType :: string
  jd_ResumeJobType :: string
  jd_TaskInputOrdinal :: "int option"
  jd_TaskOutputOrdinal :: "int option"
  jd_TaskInputHash :: string
  jd_AlternateJobType :: string
  jd_AlternateTaskType :: string
  jd_AlternateAfterSeconds :: "int option"
  jd_AlternateAt :: "int option"
  jd_WaitFor :: "string list"
  jd_AvailableAt :: int
  jd_LeaseExpiresAt :: "int option"
  jd_LeaseWorkerID :: string
  jd_CancelRequested :: bool
  jd_ClientPayload :: "client_json option"
  jd_ClientPayloadRevision :: int
  jd_InitialPayloadDigest :: string
  jd_RunPolicy :: RunPolicy
  jd_AppMetadata :: json
  jd_SchemaHash :: string
  jd_ParentJobID :: string
  jd_CreatedAt :: int
  jd_ExpiresAt :: "int option"
  jd_ArchivedAt :: "int option"
  jd_CompletionStatus :: "string option"
  jd_CompletionDetail :: "string option"
  jd_CompletionErrorKind :: "string option"
  jd_CompletionRetryable :: "bool option"
  jd_ScheduleID :: string
  jd_ScheduleGeneration :: "int option"
  jd_ScheduleSpecHash :: string
  jd_ScheduledAt :: "int option"
  jd_ScheduleRunID :: string
  jd_ScheduleReason :: string
  jd_ScheduleManual :: bool
  jd_ScheduleBackfillID :: string
  jd_SchedulePreviousJobID :: string
  jd_ScheduleFailureHistory :: "json option"

record JobStatusInfo =
  si_TenantID :: string
  si_JobID :: string
  si_Store :: JobStore
  si_Status :: JobStatus
  si_JobType :: string
  si_CreatedAt :: int
  si_ArchivedAt :: "int option"
  si_CompletionStatus :: "string option"
  si_CompletionDetail :: "string option"
  si_CancelRequested :: bool

record JobKey =
  jk_TenantID :: string
  jk_JobID :: string

record ListJobsOptions =
  lo_GoalIDs :: "string list"
  lo_IncludeHidden :: bool
  lo_AvailableRoutes :: "Route list"
  lo_Now :: int
  lo_TenantIDs :: "string list"
  lo_Statuses :: "string list"
  lo_Stores :: "string list"
  lo_JobTypes :: "string list"
  lo_TaskSelectors :: "TaskSelector list"
  lo_JobKeys :: "JobKey list"
  lo_ParentJobIDs :: "string list"
  lo_RootOnly :: bool
  lo_MetadataPredicates :: "MetadataPredicate list"
  lo_CreatedAfter :: "int option"
  lo_CreatedBefore :: "int option"
  lo_PageSize :: int
  lo_PageToken :: string

record ListJobsResult =
  lr_Jobs :: "JobDetail list"
  lr_NextPageToken :: string

record ListScheduleRunsOptions =
  ro_TenantID :: string
  ro_ScheduleID :: string
  ro_ScheduledAfter :: "int option"
  ro_ScheduledBefore :: "int option"
  ro_Statuses :: "string list"
  ro_PageSize :: int
  ro_PageToken :: string

record ListScheduleRunsResult =
  rl_Runs :: "JobDetail list"
  rl_NextPageToken :: string

subsection \<open>Schedules\<close>

record Schedule =
  sc_TenantID :: string
  sc_ScheduleID :: string
  sc_State :: schedule_state
  sc_Generation :: int
  sc_SpecHash :: string
  sc_Trigger :: json
  sc_TargetJobType :: string
  sc_TargetSnapshot :: json
  sc_OverlapPolicy :: string
  sc_FailurePolicy :: json
  sc_NextFireAt :: "int option"
  sc_NextJobID :: "string option"
  sc_CreatedAt :: int
  sc_UpdatedAt :: int

record UpsertScheduleRequest =
  us_TenantID :: string
  us_ScheduleID :: string
  us_State :: string
  us_SpecHash :: string
  us_Trigger :: raw_json
  us_TargetJobType :: string
  us_TargetSnapshot :: raw_json
  us_OverlapPolicy :: string
  us_FailurePolicy :: raw_json
  us_NextFireAt :: "int option"
  us_NextJobID :: "string option"
  us_ExpectedGeneration :: "int option"

record ScheduleMutationRequest =
  sm_TenantID :: string
  sm_ScheduleID :: string
  sm_NextFireAt :: "int option"
  sm_NextJobID :: "string option"
  sm_ExpectedGeneration :: "int option"

record ListSchedulesOptions =
  ls_TenantID :: string
  ls_ScheduleIDs :: "string list"
  ls_States :: "string list"
  ls_TargetJobTypes :: "string list"
  ls_PageSize :: int
  ls_PageToken :: string

record ListSchedulesResult =
  lsr_Schedules :: "Schedule list"
  lsr_NextPageToken :: string

subsection \<open>Goals\<close>

record JobPreparation =
  jp_TenantId :: string
  jp_JobId :: string
  jp_RequestID :: string
  jp_PriorJobID :: string
  jp_ShareGoal :: bool
  jp_Descriptor :: string
  jp_Dependencies :: "dependency list"

record PreparedJob =
  pj_TenantId :: string
  pj_JobId :: string
  pj_GoalID :: string
  pj_Published :: bool

subsection \<open>Deletion\<close>

record DeleteJobsRequest =
  dr_TenantID :: string
  dr_JobIDs :: "string list"
  dr_CreatedBefore :: "int option"
  dr_MetadataPredicates :: "MetadataPredicate list"
  dr_All :: bool
  dr_DryRun :: bool
  dr_Now :: int

record DeleteJobsResult =
  dd_MatchedCount :: int
  dd_DeletedCount :: int

subsection \<open>Code outside the repository\<close>

text \<open>
  \<open>l_key_valid\<close> is \<^verbatim>\<open>GoalKey.Validate\<close> and \<^verbatim>\<open>JobKey.Validate\<close> on a pair of identifiers. The fields
  \<open>l_marshal_\<close> and \<open>l_unmarshal_\<close> are \<^verbatim>\<open>json.Marshal\<close> and \<^verbatim>\<open>json.Unmarshal\<close> at the cursor types: the former fails
  for a time outside the years 0 to 9999 (\<open>l_time_json\<close> says when a time has a JSON form), the latter for
  a text that is not the JSON of a cursor.
\<close>

record job_cursor =
  jc_Filter :: string
  jc_CreatedAt :: int
  jc_TenantID :: string
  jc_JobID :: string

record schedule_cursor =
  kc_Filter :: string
  kc_UpdatedAt :: int
  kc_ScheduleID :: string

record run_cursor =
  rc_Filter :: string
  rc_ScheduledAt :: int
  rc_JobID :: string

text \<open>
  What the filter fingerprints hash: the members of the JSON array, each a group of texts, times
  or predicates.
\<close>

datatype filter_part =
    FText string
  | FTexts "string list"
  | FPairs "(string \<times> string) list"
  | FBool bool
  | FTime "int option"
  | FPreds "MetadataPredicate list"

record lib =
  l_identifier :: "string \<Rightarrow> bool"
  l_dependencies :: "dependency list \<Rightarrow> go_error option"
  l_wait :: "DependencyWait \<Rightarrow> go_error option"
  l_update :: "ClientPayloadUpdate option \<Rightarrow> bool \<Rightarrow> go_error option"
  l_goal_key :: "string \<Rightarrow> string \<Rightarrow> go_error option"
  l_job_key :: "string \<Rightarrow> string \<Rightarrow> go_error option"
  l_fail_goal :: "string \<Rightarrow> string \<Rightarrow> string \<Rightarrow> go_error option"
  l_sha256 :: "string \<Rightarrow> string"
  l_parse :: "string \<Rightarrow> json option"
  l_micros :: "int \<Rightarrow> int"
  l_time_json :: "int \<Rightarrow> bool"
  l_filter_hash :: "filter_part list \<Rightarrow> string"
  l_marshal_job :: "job_cursor \<Rightarrow> string option"
  l_unmarshal_job :: "string \<Rightarrow> job_cursor option"
  l_marshal_schedule :: "schedule_cursor \<Rightarrow> string option"
  l_unmarshal_schedule :: "string \<Rightarrow> schedule_cursor option"
  l_marshal_run :: "run_cursor \<Rightarrow> string option"
  l_unmarshal_run :: "string \<Rightarrow> run_cursor option"

subsection \<open>Page tokens\<close>

text \<open>A page token is the JSON text of a cursor in the URL alphabet of base64, without padding.\<close>

definition encode_cursor :: "('c \<Rightarrow> string option) \<Rightarrow> 'c \<Rightarrow> string option" where
  "encode_cursor marshal c = map_option (EncodeToString RawURLEncoding) (marshal c)"

definition decode_cursor :: "(string \<Rightarrow> 'c option) \<Rightarrow> string \<Rightarrow> 'c option" where
  "decode_cursor unmarshal token = (case DecodeString RawURLEncoding token of None \<Rightarrow> None | Some data \<Rightarrow> unmarshal data)"

lemma cursor_roundtrip:
  assumes "marshal c = Some data" "unmarshal data = Some c" "data \<noteq> []"
  obtains token where "encode_cursor marshal c = Some token" "decode_cursor unmarshal token = Some c" "token \<noteq> []"
    "length token = (4 * length data + 2) div 3"
proof
  show "encode_cursor marshal c = Some (EncodeToString RawURLEncoding data)" using assms(1) by (simp add: encode_cursor_def)
  show "decode_cursor unmarshal (EncodeToString RawURLEncoding data) = Some c"
    using assms(2) by (simp add: decode_cursor_def url.decode_encode)
  show len: "length (EncodeToString RawURLEncoding data) = (4 * length data + 2) div 3"
    by (rule url.encoded_length) (simp add: RawURLEncoding_def)
  have "0 < (4 * length data + 2) div 3" using assms(3) by (cases data) auto
  then show "EncodeToString RawURLEncoding data \<noteq> []" using len by auto
qed

end
