(* ===== verification/Scheduler_Api.thy ===== *)
theory Scheduler_Api
  imports Go_Types
begin

section \<open>The scheduling functions of the Go package\<close>

text \<open>
  \<^verbatim>\<open>jobs.go\<close>, \<^verbatim>\<open>leases.go\<close>, \<^verbatim>\<open>completion.go\<close>, \<^verbatim>\<open>reschedule.go\<close>, \<^verbatim>\<open>task.go\<close>, \<^verbatim>\<open>cancel.go\<close>,
  \<^verbatim>\<open>goals.go\<close> and \<^verbatim>\<open>client_payload.go\<close>: each exported function checks its request, builds the
  arguments of one SQL function, calls it, and translates the error or the row it returns. A function
  that talks to the database returns its result and the database after the call. The text an error
  wraps with \<^verbatim>\<open>%w\<close> or \<^verbatim>\<open>%q\<close> after a fixed prefix is not part of the model's message.
\<close>

subsection \<open>Database calls\<close>

text \<open>
  A statement runs in a transaction: an exception leaves the database as it was. A connection that
  fails before the statement runs leaves it too; an answer that is lost does not.
\<close>

definition call_sql :: "env \<Rightarrow> (db \<Rightarrow> ('a \<times> db) res) \<Rightarrow> db \<Rightarrow> 'a go \<times> db" where
  "call_sql e f d =
     (case e_link e of
        LinkDown m \<Rightarrow> (Inl (DriverErr m), d)
      | LinkLost m \<Rightarrow> (case f d of Inl x \<Rightarrow> (Inl (DriverErr m), d) | Inr (x, d') \<Rightarrow> (Inl (DriverErr m), d'))
      | LinkUp \<Rightarrow> (case f d of Inl x \<Rightarrow> (Inl (PgErr x), d) | Inr (x, d') \<Rightarrow> (Inr x, d')))"

definition on_request :: "'b go \<Rightarrow> ('b \<Rightarrow> db \<Rightarrow> 'a go \<times> db) \<Rightarrow> db \<Rightarrow> 'a go \<times> db" where
  "on_request r k d = (case r of Inl x \<Rightarrow> (Inl x, d) | Inr a \<Rightarrow> k a d)"

definition map_err :: "(go_error \<Rightarrow> go_error) \<Rightarrow> 'a go \<times> db \<Rightarrow> 'a go \<times> db" where
  "map_err f r = (case fst r of Inl x \<Rightarrow> (Inl (f x), snd r) | Inr y \<Rightarrow> r)"

definition and_then :: "'a go \<times> db \<Rightarrow> ('a \<Rightarrow> 'b go) \<Rightarrow> 'b go \<times> db" where
  "and_then r f = (bind_res (fst r) f, snd r)"

text \<open>SQL functions that only read, or that return no value of interest.\<close>

definition reading :: "(db \<Rightarrow> 'a res) \<Rightarrow> db \<Rightarrow> ('a \<times> db) res" where
  "reading f d = bind_res (f d) (\<lambda>x. Inr (x, d))"

definition doing :: "(db \<Rightarrow> db res) \<Rightarrow> db \<Rightarrow> (unit \<times> db) res" where
  "doing f d = bind_res (f d) (\<lambda>d'. Inr ((), d'))"

definition fail_if :: "go_error option \<Rightarrow> unit go" where
  "fail_if e = (case e of None \<Rightarrow> Inr () | Some x \<Rightarrow> Inl x)"

definition validateScheduleDB :: "handle \<Rightarrow> unit go" where
  "validateScheduleDB h =
     (if h_ctx_nil h then Inl (Err ''pgjobdb: context is nil'')
      else if h_db_nil h then Inl (Err ''pgjobdb: DB is nil'')
      else Inr ())"

definition validTypeName :: "lib \<Rightarrow> string \<Rightarrow> bool" where
  "validTypeName l name = l_identifier l name"

definition nilIfBlank :: "string \<Rightarrow> string option" where
  "nilIfBlank v = (if v = '''' then None else Some v)"

definition optionalTime :: "lib \<Rightarrow> int option \<Rightarrow> int option" where
  "optionalTime l t = map_option (l_micros l) t"

subsection \<open>Client payload updates and error translation\<close>

definition clientUpdateArgs :: "lib \<Rightarrow> ClientPayloadUpdate option \<Rightarrow> bool \<Rightarrow>
   (string option \<times> raw_client option \<times> int option) go" where
  "clientUpdateArgs l u initial =
     bind_res (fail_if (l_update l u initial)) (\<lambda>_.
     case u of None \<Rightarrow> Inr (None, None, None)
     | Some x \<Rightarrow> Inr (Some (cu_Mode x), cu_Value x, cu_ExpectedRevision x))"

text \<open>The server reads the raw document as a value of type \<^verbatim>\<open>JSON\<close>.\<close>

definition json_arg :: "raw_client option \<Rightarrow> client_json option res" where
  "json_arg v = (case v of None \<Rightarrow> Inr None | Some (ClientText c) \<Rightarrow> Inr (Some c)
     | Some ClientGarbage \<Rightarrow> raise_code ''22P02'' ''invalid input syntax for type json'')"

fun clientPayloadError :: "go_error \<Rightarrow> go_error" where
  "clientPayloadError (PgErr (PgError code msg)) =
     (if code = ''JCP01'' then PayloadInvalid msg
      else if code = ''JCP02'' then PayloadConflict msg
      else if code = ''JCP03'' then PayloadTooLarge
      else PgErr (PgError code msg))"
| "clientPayloadError e = e"

fun goalError :: "go_error \<Rightarrow> go_error" where
  "goalError (PgErr (PgError code msg)) =
     (if code = ''JGN01'' then GoalNotFound msg
      else if code = ''JJN01'' then SourceJobNotFound msg
      else if code = ''JGF01'' then GoalConflict msg
      else if code = ''JGI01'' then InvalidDependency msg
      else if code = ''JGW01'' then DependencyWaitNotFound msg
      else if code = ''JGW02'' then DependencyWaitConflict msg
      else if code = ''JGC01'' then DependencyCycle msg
      else if code = ''JGM01'' then ExistingJobMismatch msg
      else PgErr (PgError code msg))"
| "goalError e = e"

subsection \<open>SubmitJob\<close>

definition policy_error :: "RunPolicy \<Rightarrow> string option" where
  "policy_error p =
     (if rp_InitialIntervalMillis (pol_Retry p) < 0 \<or> rp_MaximumIntervalMillis (pol_Retry p) < 0 \<or>
         rp_MaximumAttempts (pol_Retry p) < 0 \<or> rp_BackoffCoefficient (pol_Retry p) < 0
      then Some ''pgjobdb: run policy retry values must be non-negative''
      else if (case pol_InvocationTimeoutMillis p of None \<Rightarrow> False | Some n \<Rightarrow> n < 0)
      then Some ''pgjobdb: invocation timeout must be non-negative''
      else if (case pol_TotalTimeoutMillis p of None \<Rightarrow> False | Some n \<Rightarrow> n < 0)
      then Some ''pgjobdb: total timeout must be non-negative''
      else None)"

definition history_error :: "raw_json \<Rightarrow> bool" where
  "history_error h = (case h of RawEmpty \<Rightarrow> False | RawInvalid \<Rightarrow> True | RawJson v \<Rightarrow> \<not> is_object v)"

definition occurrence_arg :: "lib \<Rightarrow> ScheduleOccurrence \<Rightarrow> occurrence go" where
  "occurrence_arg l so =
     (if so_ScheduleID so = '''' \<or> so_Generation so < 1 \<or> so_SpecHash so = '''' \<or>
         IsZero (so_ScheduledAt so) \<or> so_RunID so = ''''
      then Inl (Err ''pgjobdb: incomplete schedule occurrence'')
      else if history_error (so_FailureHistory so)
      then Inl (Err ''pgjobdb: failure history must be a JSON object'')
      else if \<not> l_time_json l (so_ScheduledAt so)
      then Inl (Err ''pgjobdb: encode schedule occurrence'')
      else Inr \<lparr>oc_schedule_id = so_ScheduleID so, oc_generation = so_Generation so,
        oc_spec_hash = so_SpecHash so, oc_scheduled_at = l_micros l (so_ScheduledAt so),
        oc_run_id = so_RunID so, oc_reason = nilIfBlank (so_Reason so), oc_manual = so_Manual so,
        oc_backfill_id = nilIfBlank (so_BackfillID so),
        oc_previous_job_id = nilIfBlank (so_PreviousJobID so),
        oc_failure_history = (case so_FailureHistory so of RawJson v \<Rightarrow> Some v | _ \<Rightarrow> None)\<rparr>)"

definition object_or_empty :: "raw_json \<Rightarrow> json option" where
  "object_or_empty r = (case r of RawEmpty \<Rightarrow> Some (JObject [])
     | RawJson v \<Rightarrow> (if is_object v then Some v else None) | RawInvalid \<Rightarrow> None)"

definition bad_wait_for :: "string \<Rightarrow> string list \<Rightarrow> bool" where
  "bad_wait_for job ids \<longleftrightarrow> (\<exists>i \<in> set ids. i = '''' \<or> i = job)"

text \<open>The validation of a request and the arguments it yields; the raw payload goes to the server.\<close>

definition submit_request :: "lib \<Rightarrow> handle \<Rightarrow> SubmitJobRequest \<Rightarrow>
   ((client_json option \<Rightarrow> submit_args) \<times> raw_client option) go" where
  "submit_request l h req =
     bind_res (validateScheduleDB h) (\<lambda>_.
     if sr_TenantID req = '''' \<or> sr_JobID req = '''' \<or> sr_WorkerID req = '''' \<or>
        \<not> validTypeName l (sr_JobType req)
     then Inl (Err ''pgjobdb: tenant, job, worker, and job type are required'')
     else case policy_error (sr_RunPolicy req) of Some m \<Rightarrow> Inl (Err m) | None \<Rightarrow>
     (case object_or_empty (sr_AppMetadata req) of
        None \<Rightarrow> Inl (Err ''pgjobdb: app metadata must be a JSON object'')
      | Some app \<Rightarrow>
        bind_res (clientUpdateArgs l (sr_ClientPayloadUpdate req) True) (\<lambda>(mode, val, revision).
        bind_res (case rm_Schedule (sr_Runtime req) of None \<Rightarrow> Inr None
                  | Some so \<Rightarrow> bind_res (occurrence_arg l so) (\<lambda>oc. Inr (Some oc))) (\<lambda>schedule.
        if bad_wait_for (sr_JobID req) (sr_WaitFor req)
        then Inl (Err ''pgjobdb: wait for job id must be nonempty and distinct from job id'')
        else bind_res (fail_if (l_dependencies l (sr_Dependencies req))) (\<lambda>_.
        Inr (\<lambda>client. \<lparr>sa_tenant_id = sr_TenantID req, sa_job_id = sr_JobID req,
          sa_worker_id = sr_WorkerID req, sa_job_type = sr_JobType req,
          sa_run_policy = sr_RunPolicy req, sa_app_metadata = app,
          sa_schema_hash = nilIfBlank (rm_SchemaHash (sr_Runtime req)),
          sa_parent_job_id = nilIfBlank (rm_ParentJobID (sr_Runtime req)),
          sa_schedule = schedule, sa_wait_for = sr_WaitFor req,
          sa_available_at = optionalTime l (sr_AvailableAt req),
          sa_expires_at = optionalTime l (sr_ExpiresAt req), sa_client_mode = mode,
          sa_client_value = client, sa_goal_id = nilIfBlank (sr_GoalID req),
          sa_share_goal = sr_ShareGoal req, sa_dependencies = sr_Dependencies req\<rparr>, val))))))"

definition submit_error :: "go_error \<Rightarrow> go_error" where
  "submit_error e = (case e of
     PgErr x \<Rightarrow> if pg_code x = ''JDL01'' then ErrJobDeleted else goalError (clientPayloadError e)
   | _ \<Rightarrow> goalError (clientPayloadError e))"

definition SubmitJob :: "lib \<Rightarrow> handle \<Rightarrow> env \<Rightarrow> SubmitJobRequest \<Rightarrow> db \<Rightarrow> SubmitJobResult go \<times> db" where
  "SubmitJob l h e req = on_request (submit_request l h req) (\<lambda>(args, val) d.
     and_then (map_err submit_error (call_sql e (\<lambda>d. bind_res (json_arg val) (\<lambda>client.
         submit_native_job (l_sha256 l) (args client) (e_uuid e) (e_now e) d)) d))
       (\<lambda>(job, created). Inr \<lparr>sj_JobID = job, sj_Created = created\<rparr>))"

subsection \<open>Leases\<close>

text \<open>
  A duration of at most a day converts to a \<^verbatim>\<open>float64\<close> number of seconds whose ceiling is that of
  the exact quotient: the spacing of doubles there is far below a nanosecond.
\<close>

definition leaseSeconds :: "int \<Rightarrow> int go" where
  "leaseSeconds duration =
     (if duration = 0 then Inr 60
      else if duration < 0 \<or> duration > 24 * 3600 * 1000000000
      then Inl (Err ''pgjobdb: lease duration must be between 1 second and 24 hours'')
      else let seconds = (duration + 999999999) div 1000000000
           in Inr (if seconds < 1 then 1 else seconds))"

text \<open>\<^verbatim>\<open>Scan\<close> refuses a null lease id, route or work kind, and a time that is infinite.\<close>

definition scanJobLease :: "lease_row option \<Rightarrow> string \<Rightarrow> JobLease go" where
  "scanJobLease row worker =
     (case row of None \<Rightarrow> Inl NoRows
      | Some r \<Rightarrow>
        (case (l_lease_id r, go_tstz (l_lease_expires_at r), l_route_job_type r, l_work_kind r) of
           (Some lease, Some expires, Some route, Some kind) \<Rightarrow>
             Inr \<lparr>jl_GoalID = l_goal_id r, jl_TenantID = l_tenant_id r, jl_JobID = l_job_id r,
               jl_LeaseID = lease, jl_WorkerID = worker, jl_ExpiresAt = expires,
               jl_JobType = l_job_type r, jl_RouteJobType = route, jl_WorkKind = kind,
               jl_Task = (case l_task_type r of None \<Rightarrow> None
                 | Some task \<Rightarrow> Some \<lparr>tw_TaskType = task,
                     tw_ResumeJobType = (case l_resume_job_type r of None \<Rightarrow> '''' | Some x \<Rightarrow> x),
                     tw_InputOrdinal = (case l_task_input_ordinal r of None \<Rightarrow> 0 | Some x \<Rightarrow> x),
                     tw_OutputOrdinal = (case l_task_output_ordinal r of None \<Rightarrow> 0 | Some x \<Rightarrow> x),
                     tw_InputHash = (case l_task_input_hash r of None \<Rightarrow> '''' | Some x \<Rightarrow> x)\<rparr>),
               jl_RunPolicy = l_run_policy r, jl_ClientPayload = l_client_payload r,
               jl_ClientPayloadRevision = l_client_payload_revision r,
               jl_SchemaHash = (case l_schema_hash r of None \<Rightarrow> '''' | Some x \<Rightarrow> x)\<rparr>
         | _ \<Rightarrow> Inl (Err ''sql: Scan error'')))"

definition work_request :: "lib \<Rightarrow> handle \<Rightarrow> string \<Rightarrow> WorkSelector \<Rightarrow> GetWorkOptions \<Rightarrow> string \<Rightarrow> string \<Rightarrow>
   work_query go" where
  "work_request l h worker sel opts target_tenant target_job =
     bind_res (validateScheduleDB h) (\<lambda>_.
     if worker = '''' then Inl (Err ''pgjobdb: worker id is required'')
     else if \<exists>t \<in> set (ws_JobTypes sel). \<not> validTypeName l t
     then Inl (Err ''pgjobdb: selector job type is required'')
     else if \<exists>t \<in> set (ws_Tasks sel). \<not> validTypeName l (ts_JobType t) \<or> \<not> validTypeName l (ts_TaskType t)
     then Inl (Err ''pgjobdb: task selector job and task types are required'')
     else if ws_JobTypes sel = [] \<and> ws_Tasks sel = []
     then Inl (Err ''pgjobdb: work selector is empty'')
     else case object_or_empty (wo_AppMetadataContains opts) of
       None \<Rightarrow> Inl (Err ''pgjobdb: metadata filter must be a JSON object'')
     | Some metadata \<Rightarrow>
       (case validateMetadataPredicates (wo_MetadataPredicates opts) of Some m \<Rightarrow> Inl (Err m) | None \<Rightarrow>
       bind_res (leaseSeconds (wo_LeaseDuration opts)) (\<lambda>seconds.
       if '''' \<in> set (wo_TenantIDs opts)
       then Inl (Err ''pgjobdb: tenant filter cannot contain an empty id'')
       else Inr \<lparr>wq_worker_id = worker,
         wq_tenant_ids = (if wo_TenantIDs opts = [] then None else Some (wo_TenantIDs opts)),
         wq_job_types = ws_JobTypes sel,
         wq_task_selectors = map (\<lambda>t. (ts_JobType t, ts_TaskType t)) (ws_Tasks sel),
         wq_contains = metadata, wq_lease_seconds = seconds,
         wq_target_tenant_id = nilIfBlank target_tenant, wq_target_job_id = nilIfBlank target_job,
         wq_predicates = wo_MetadataPredicates opts\<rparr>)))"

text \<open>\<^verbatim>\<open>sql.ErrNoRows\<close> becomes a nil lease without an error.\<close>

definition no_rows_is_nil :: "'a go \<Rightarrow> 'a option go" where
  "no_rows_is_nil r = (case r of Inl e \<Rightarrow> if e = NoRows then Inr None else Inl e | Inr x \<Rightarrow> Inr (Some x))"

definition getWork :: "lib \<Rightarrow> handle \<Rightarrow> env \<Rightarrow> string \<Rightarrow> WorkSelector \<Rightarrow> GetWorkOptions \<Rightarrow> string \<Rightarrow> string \<Rightarrow>
   db \<Rightarrow> JobLease option go \<times> db" where
  "getWork l h e worker sel opts target_tenant target_job =
     on_request (work_request l h worker sel opts target_tenant target_job) (\<lambda>q d.
       and_then (call_sql e (get_native_work q (e_locked e) (e_uuid e) (e_now e)) d)
         (\<lambda>row. no_rows_is_nil (scanJobLease row worker)))"

definition GetWork :: "lib \<Rightarrow> handle \<Rightarrow> env \<Rightarrow> string \<Rightarrow> WorkSelector \<Rightarrow> GetWorkOptions \<Rightarrow>
   db \<Rightarrow> JobLease option go \<times> db" where
  "GetWork l h e worker sel opts = getWork l h e worker sel opts '''' ''''"

definition GetJobLease :: "lib \<Rightarrow> handle \<Rightarrow> env \<Rightarrow> string \<Rightarrow> string \<Rightarrow> string \<Rightarrow> WorkSelector \<Rightarrow>
   GetJobLeaseOptions \<Rightarrow> db \<Rightarrow> JobLease option go \<times> db" where
  "GetJobLease l h e tenant job worker sel opts d =
     (if tenant = '''' \<or> job = '''' then (Inl (Err ''pgjobdb: tenant id and job id are required''), d)
      else getWork l h e worker sel \<lparr>wo_TenantIDs = [tenant],
             wo_AppMetadataContains = jo_AppMetadataContains opts,
             wo_MetadataPredicates = jo_MetadataPredicates opts,
             wo_LeaseDuration = jo_LeaseDuration opts\<rparr> tenant job d)"

definition validateLeaseIdentity :: "LeaseIdentity \<Rightarrow> unit go" where
  "validateLeaseIdentity i =
     (if li_TenantID i = '''' \<or> li_JobID i = '''' \<or> li_LeaseID i = '''' \<or> li_WorkerID i = ''''
      then Inl (Err ''pgjobdb: tenant, job, lease, and worker ids are required'') else Inr ())"

definition no_rows_is :: "go_error \<Rightarrow> 'a go \<Rightarrow> 'a go" where
  "no_rows_is e r = (case r of Inl x \<Rightarrow> Inl (if x = NoRows then e else x) | Inr y \<Rightarrow> Inr y)"

definition ValidateLease :: "handle \<Rightarrow> env \<Rightarrow> LeaseIdentity \<Rightarrow> db \<Rightarrow> JobLease go \<times> db" where
  "ValidateLease h e i =
     on_request (bind_res (validateScheduleDB h) (\<lambda>_. validateLeaseIdentity i)) (\<lambda>_ d.
       and_then (call_sql e (reading (validate_native_lease (li_TenantID i) (li_JobID i) (li_LeaseID i)
           (li_WorkerID i) (e_now e))) d)
         (\<lambda>row. no_rows_is ErrLeaseLost (scanJobLease row (li_WorkerID i))))"

text \<open>The renewal and the reading of the new snapshot are two statements.\<close>

definition KeepAliveLease :: "handle \<Rightarrow> env \<Rightarrow> env \<Rightarrow> LeaseIdentity \<Rightarrow> int \<Rightarrow> db \<Rightarrow> JobLease go \<times> db" where
  "KeepAliveLease h e e' i additional =
     on_request (bind_res (validateScheduleDB h) (\<lambda>_. bind_res (validateLeaseIdentity i) (\<lambda>_.
       if additional \<le> 0 then Inl (Err ''pgjobdb: additional lease duration must be positive'')
       else leaseSeconds additional))) (\<lambda>seconds d.
       case call_sql e (renew_native_lease (li_TenantID i) (li_JobID i) (li_LeaseID i) (li_WorkerID i)
              seconds (e_now e)) d of
         (Inl x, d') \<Rightarrow> (Inl x, d')
       | (Inr _, d') \<Rightarrow> ValidateLease h e' i d')"

definition Identity :: "JobLease option \<Rightarrow> LeaseIdentity" where
  "Identity l = (case l of None \<Rightarrow> \<lparr>li_TenantID = '''', li_JobID = '''', li_LeaseID = '''', li_WorkerID = ''''\<rparr>
     | Some x \<Rightarrow> \<lparr>li_TenantID = jl_TenantID x, li_JobID = jl_JobID x, li_LeaseID = jl_LeaseID x,
                  li_WorkerID = jl_WorkerID x\<rparr>)"

definition KeepAlive :: "handle \<Rightarrow> env \<Rightarrow> env \<Rightarrow> JobLease \<Rightarrow> int \<Rightarrow> db \<Rightarrow> JobLease go \<times> db" where
  "KeepAlive h e e' l additional d =
     and_then (KeepAliveLease h e e' (Identity (Some l)) additional d)
       (\<lambda>updated. Inr (l\<lparr>jl_ExpiresAt := jl_ExpiresAt updated\<rparr>))"

subsection \<open>Completion\<close>

definition validateCompletion :: "Completion \<Rightarrow> unit go" where
  "validateCompletion c =
     (if cp_Status c \<in> {CompletionSuccess, CompletionFailedApp, CompletionFailedSystem,
           CompletionFailedTimeout, CompletionCancelled}
      then Inr () else Inl (Err ''pgjobdb: invalid completion status''))"

definition CompleteJob :: "lib \<Rightarrow> handle \<Rightarrow> env \<Rightarrow> LeaseIdentity \<Rightarrow> Completion \<Rightarrow> db \<Rightarrow> unit go \<times> db" where
  "CompleteJob l h e i c =
     on_request (bind_res (validateScheduleDB h) (\<lambda>_.
       if li_TenantID i = '''' \<or> li_JobID i = '''' \<or> li_LeaseID i = '''' \<or> li_WorkerID i = ''''
       then Inl (Err ''pgjobdb: complete requires tenant, job, lease, and worker ids'')
       else bind_res (validateCompletion c) (\<lambda>_. clientUpdateArgs l (cp_ClientPayloadUpdate c) False)))
     (\<lambda>(mode, val, revision) d. map_err clientPayloadError
       (call_sql e (doing (\<lambda>d. bind_res (json_arg val) (\<lambda>client.
          complete_native_job (li_TenantID i) (li_JobID i) (li_LeaseID i) (li_WorkerID i) (cp_Status c)
            (nilIfBlank (cp_Detail c)) (nilIfBlank (cp_ErrorKind c)) (cp_Retryable c) mode client revision
            (e_now e) d))) d))"

definition Complete :: "lib \<Rightarrow> handle \<Rightarrow> env \<Rightarrow> JobLease option \<Rightarrow> Completion \<Rightarrow> db \<Rightarrow> unit go \<times> db" where
  "Complete l h e lease c = CompleteJob l h e (Identity lease) c"

definition CompleteUnheldJob :: "handle \<Rightarrow> env \<Rightarrow> string \<Rightarrow> string \<Rightarrow> string \<Rightarrow> Completion \<Rightarrow> db \<Rightarrow> unit go \<times> db"
where
  "CompleteUnheldJob h e tenant job worker c =
     on_request
       (if cp_ClientPayloadUpdate c \<noteq> None
        then Inl (Err ''pgjobdb: payload updates require a held completion lease'')
        else bind_res (validateScheduleDB h) (\<lambda>_.
          if tenant = '''' \<or> job = '''' \<or> worker = ''''
          then Inl (Err ''pgjobdb: complete requires tenant, job, and worker ids'')
          else validateCompletion c))
     (\<lambda>_. call_sql e (doing (complete_native_unheld_job tenant job worker (cp_Status c)
        (nilIfBlank (cp_Detail c)) (nilIfBlank (cp_ErrorKind c)) (cp_Retryable c) (e_now e))))"

definition CancelJob :: "handle \<Rightarrow> env \<Rightarrow> CancelJobRequest \<Rightarrow> db \<Rightarrow> unit go \<times> db" where
  "CancelJob h e req =
     on_request (bind_res (validateScheduleDB h) (\<lambda>_.
       if ca_TenantID req = '''' \<or> ca_JobID req = '''' \<or> ca_WorkerID req = ''''
       then Inl (Err ''pgjobdb: cancel requires tenant, job, and worker ids'') else Inr ()))
     (\<lambda>_. call_sql e (doing (cancel_native_job (ca_TenantID req) (ca_JobID req) (ca_WorkerID req)
        (nilIfBlank (ca_Reason req)) (e_now e))))"

subsection \<open>Rescheduling\<close>

text \<open>
  \<^verbatim>\<open>After.Seconds() > math.MaxInt32\<close>: next to \<open>2 ^ 31 - 1\<close> seconds a \<^verbatim>\<open>float64\<close> resolves \<open>2 ^ -22\<close> seconds,
  so a fraction of at most 119 nanoseconds is rounded away.
\<close>

definition delay_exceeds_range :: "int \<Rightarrow> bool" where
  "delay_exceeds_range ns \<longleftrightarrow> ns > 2147483647 * 1000000000 + 119"

definition task_args :: "lib \<Rightarrow> RescheduleRequest \<Rightarrow> TaskWork option go" where
  "task_args l req =
     (if rr_WorkKind req = WorkKindJob then
        (if rr_Task req \<noteq> None then Inl (Err ''pgjobdb: job route cannot carry task coordinates'')
         else Inr None)
      else if rr_WorkKind req = WorkKindTask then
        (case rr_Task req of
           None \<Rightarrow> Inl (Err ''pgjobdb: task route requires complete coordinates'')
         | Some t \<Rightarrow>
             if \<not> validTypeName l (tw_TaskType t) \<or> \<not> validTypeName l (tw_ResumeJobType t) \<or>
                tw_InputOrdinal t < 0 \<or> tw_OutputOrdinal t < 0 \<or> tw_InputHash t = ''''
             then Inl (Err ''pgjobdb: task route requires complete coordinates'')
             else Inr (Some t))
      else Inl (Err ''pgjobdb: work kind must be JOB or TASK''))"

definition alternate_args :: "lib \<Rightarrow> RescheduleRequest \<Rightarrow> (string option \<times> string option \<times> int option) go" where
  "alternate_args l req =
     (case rr_Alternate req of
        None \<Rightarrow> Inr (None, None, None)
      | Some a \<Rightarrow>
          if ar_JobType a = '''' then
            (if ar_TaskType a \<noteq> '''' \<or> ar_After a \<noteq> 0
             then Inl (Err ''pgjobdb: cleared alternate route cannot have task or delay'')
             else Inr (None, None, None))
          else if \<not> validTypeName l (ar_JobType a) \<or> (ar_TaskType a \<noteq> '''' \<and> \<not> validTypeName l (ar_TaskType a))
          then Inl (Err ''pgjobdb: invalid alternate route identifiers'')
          else if ar_TaskType a \<noteq> '''' \<and> rr_WorkKind req \<noteq> WorkKindTask
          then Inl (Err ''pgjobdb: alternate task route requires task coordinates'')
          else if ar_After a < 0 then Inl (Err ''pgjobdb: alternate delay must be non-negative'')
          else if delay_exceeds_range (ar_After a)
          then Inl (Err ''pgjobdb: alternate delay exceeds database range'')
          else Inr (Some (ar_JobType a), nilIfBlank (ar_TaskType a), Some (ar_After a)))"

definition wait_args :: "lib \<Rightarrow> RescheduleRequest \<Rightarrow> wait_request option go" where
  "wait_args l req =
     (case rr_DependencyWait req of
        None \<Rightarrow> Inr None
      | Some w \<Rightarrow>
          bind_res (fail_if (l_wait l w)) (\<lambda>_.
          if rr_WaitFor req \<noteq> [] \<or> rr_AvailableAt req \<noteq> None \<or>
             (case rr_Alternate req of None \<Rightarrow> False | Some a \<Rightarrow> ar_JobType a \<noteq> '''')
          then Inl (InvalidDependency '''')
          else if (case dw_Deadline w of None \<Rightarrow> False | Some x \<Rightarrow> \<not> l_time_json l x)
          then Inl (Err ''json: unsupported value'')
          else Inr (Some \<lparr>wr_waitId = dw_WaitID w, wr_deadline = optionalTime l (dw_Deadline w),
                          wr_dependencies = dw_Dependencies w\<rparr>)))"

definition reschedule_request :: "lib \<Rightarrow> handle \<Rightarrow> LeaseIdentity \<Rightarrow> RescheduleRequest \<Rightarrow>
   ((client_json option \<Rightarrow> reschedule_args) \<times> raw_client option) go" where
  "reschedule_request l h i req =
     bind_res (validateScheduleDB h) (\<lambda>_.
     if rr_WaitUntilIsDeadline req \<and> (rr_WaitFor req = [] \<or> rr_AvailableAt req = None)
     then Inl (Err ''pgjobdb: dependency deadline requires wait-for jobs and available-at'')
     else if \<not> validTypeName l (rr_RouteJobType req)
     then Inl (Err ''pgjobdb: route job type is required'')
     else bind_res (task_args l req) (\<lambda>task.
     if bad_wait_for (li_JobID i) (rr_WaitFor req)
     then Inl (Err ''pgjobdb: wait for job id must be nonempty and distinct from job id'')
     else bind_res (clientUpdateArgs l (rr_ClientPayloadUpdate req) False) (\<lambda>(mode, val, revision).
     bind_res (alternate_args l req) (\<lambda>(alternate_job, alternate_task, alternate_after).
     bind_res (wait_args l req) (\<lambda>wait.
     Inr (\<lambda>client. \<lparr>ra_tenant_id = li_TenantID i, ra_job_id = li_JobID i,
       ra_lease_id = nilIfBlank (li_LeaseID i), ra_worker_id = li_WorkerID i,
       ra_route_job_type = rr_RouteJobType req, ra_work_kind = rr_WorkKind req,
       ra_task_type = map_option tw_TaskType task, ra_resume_job_type = map_option tw_ResumeJobType task,
       ra_task_input_ordinal = map_option tw_InputOrdinal task,
       ra_task_output_ordinal = map_option tw_OutputOrdinal task,
       ra_task_input_hash = map_option tw_InputHash task,
       ra_wait_for = rr_WaitFor req, ra_available_at = optionalTime l (rr_AvailableAt req),
       ra_alternate_job_type = alternate_job, ra_alternate_task_type = alternate_task,
       ra_alternate_after = alternate_after, ra_client_mode = mode, ra_client_value = client,
       ra_client_expected = revision, ra_wait_until_is_deadline = rr_WaitUntilIsDeadline req,
       ra_dependency_wait = wait\<rparr>, val))))))"

definition rescheduleJob :: "lib \<Rightarrow> handle \<Rightarrow> env \<Rightarrow> LeaseIdentity \<Rightarrow> RescheduleRequest \<Rightarrow> db \<Rightarrow> unit go \<times> db" where
  "rescheduleJob l h e i req = on_request (reschedule_request l h i req) (\<lambda>(args, val) d.
     map_err (\<lambda>x. goalError (clientPayloadError x)) (call_sql e (doing (\<lambda>d.
       bind_res (json_arg val) (\<lambda>client. reschedule_native_job (args client) (e_wall e) (e_now e) d))) d))"

definition RescheduleJob :: "lib \<Rightarrow> handle \<Rightarrow> env \<Rightarrow> LeaseIdentity \<Rightarrow> RescheduleRequest \<Rightarrow> db \<Rightarrow> unit go \<times> db" where
  "RescheduleJob l h e i req = on_request (validateLeaseIdentity i) (\<lambda>_. rescheduleJob l h e i req)"

definition Reschedule :: "lib \<Rightarrow> handle \<Rightarrow> env \<Rightarrow> JobLease option \<Rightarrow> RescheduleRequest \<Rightarrow> db \<Rightarrow> unit go \<times> db" where
  "Reschedule l h e lease req = RescheduleJob l h e (Identity lease) req"

definition RescheduleUnheldJob :: "lib \<Rightarrow> handle \<Rightarrow> env \<Rightarrow> string \<Rightarrow> string \<Rightarrow> string \<Rightarrow> RescheduleRequest \<Rightarrow>
   db \<Rightarrow> unit go \<times> db" where
  "RescheduleUnheldJob l h e tenant job worker req =
     on_request
       (if rr_ClientPayloadUpdate req \<noteq> None
        then Inl (Err ''pgjobdb: client payload updates require a lease or complete-task authorization'')
        else if tenant = '''' \<or> job = '''' \<or> worker = ''''
        then Inl (Err ''pgjobdb: tenant, job, and worker ids are required'')
        else Inr ())
     (\<lambda>_. rescheduleJob l h e \<lparr>li_TenantID = tenant, li_JobID = job, li_LeaseID = '''',
        li_WorkerID = worker\<rparr> req)"

subsection \<open>Claiming a waiting task\<close>

fun taskError :: "go_error \<Rightarrow> go_error" where
  "taskError (PgErr (PgError code msg)) =
     (if code = ''JTC01'' then ErrTaskConflict msg else PgErr (PgError code msg))"
| "taskError e = e"

text \<open>
  The claim runs in its own transaction. A commit whose answer is lost is a \<open>LinkLost\<close> call: the
  caller sees an error although the claim may be in the database.
\<close>

definition ClaimTask :: "lib \<Rightarrow> handle \<Rightarrow> env \<Rightarrow> ClaimTaskRequest \<Rightarrow> db \<Rightarrow> TaskClaim go \<times> db" where
  "ClaimTask l h e req =
     on_request
       (if h_db_nil h then Inl (Err ''pgjobdb: database is required'')
        else bind_res (validateScheduleDB h) (\<lambda>_.
          let t = cr_Task req in
          if cr_TenantID req = '''' \<or> cr_JobID req = '''' \<or> cr_WorkerID req = '''' \<or>
             \<not> validTypeName l (cr_JobType req) \<or> \<not> validTypeName l (tw_TaskType t) \<or>
             \<not> validTypeName l (tw_ResumeJobType t) \<or> tw_InputOrdinal t < 0 \<or>
             tw_OutputOrdinal t < 0 \<or> tw_InputHash t = ''''
          then Inl (Err ''pgjobdb: claim task requires full route and coordinates'')
          else if cr_LeaseDuration req \<le> 0
          then Inl (Err ''pgjobdb: claim task requires a positive lease duration'')
          else leaseSeconds (cr_LeaseDuration req)))
     (\<lambda>seconds d.
       let t = cr_Task req; c = \<lparr>tc_job_type = cr_JobType req, tc_task_type = tw_TaskType t,
             tc_resume_job_type = tw_ResumeJobType t, tc_input_ordinal = tw_InputOrdinal t,
             tc_output_ordinal = tw_OutputOrdinal t, tc_input_hash = tw_InputHash t\<rparr>
       in and_then (map_err taskError (call_sql e (claim_native_task (cr_TenantID req) (cr_JobID req)
            (cr_WorkerID req) c seconds (e_uuid e) (e_now e)) d))
          (\<lambda>(lease, expires). case go_tstz expires of
             None \<Rightarrow> Inl (Err ''sql: Scan error'')
           | Some at_ns \<Rightarrow> Inr \<lparr>tc_Identity = \<lparr>li_TenantID = cr_TenantID req, li_JobID = cr_JobID req,
               li_LeaseID = lease, li_WorkerID = cr_WorkerID req\<rparr>, tc_ExpiresAt = at_ns\<rparr>))"

subsection \<open>Goals\<close>

text \<open>\<^verbatim>\<open>strings.TrimSpace\<close> on ASCII text.\<close>

definition is_space :: "char \<Rightarrow> bool" where
  "is_space c \<longleftrightarrow> c \<in> {CHR '' '', CHR 0x09, CHR 0x0A, CHR 0x0B, CHR 0x0C, CHR 0x0D}"

definition TrimSpace :: "string \<Rightarrow> string" where
  "TrimSpace s = rev (dropWhile is_space (rev (dropWhile is_space s)))"

definition goalQuery :: "handle \<Rightarrow> env \<Rightarrow> (db \<Rightarrow> ('a \<times> db) res) \<Rightarrow> db \<Rightarrow> 'a go \<times> db" where
  "goalQuery h e f = on_request (validateScheduleDB h) (\<lambda>_ d. map_err goalError (call_sql e f d))"

definition PrepareJob :: "lib \<Rightarrow> handle \<Rightarrow> env \<Rightarrow> JobPreparation \<Rightarrow> db \<Rightarrow> PreparedJob go \<times> db" where
  "PrepareJob l h e req =
     on_request
       (if TrimSpace (jp_TenantId req) = '''' \<or> jp_Descriptor req = '''' \<or>
           (jp_RequestID req \<noteq> '''' \<and> TrimSpace (jp_RequestID req) = '''')
        then Inl (InvalidDependency '''')
        else fail_if (l_dependencies l (jp_Dependencies req)))
     (\<lambda>_ d. and_then (goalQuery h e (prepare_job (l_parse l) (jp_TenantId req) (nilIfBlank (jp_JobId req))
        (nilIfBlank (jp_RequestID req)) (nilIfBlank (jp_PriorJobID req)) (jp_ShareGoal req)
        (jp_Descriptor req) (jp_Dependencies req) (e_uuid e) (e_uuid2 e)) d)
        (\<lambda>p. Inr \<lparr>pj_TenantId = pr_tenantId p, pj_JobId = pr_jobId p, pj_GoalID = pr_GoalID p,
                  pj_Published = pr_Published p\<rparr>))"

text \<open>The goal, candidate and wait snapshots keep the record the SQL document decodes to.\<close>

definition GetGoal :: "lib \<Rightarrow> handle \<Rightarrow> env \<Rightarrow> string \<Rightarrow> string \<Rightarrow> db \<Rightarrow> goal_row go \<times> db" where
  "GetGoal l h e tenant goal = on_request (fail_if (l_goal_key l tenant goal)) (\<lambda>_.
     goalQuery h e (reading (\<lambda>d. goal_info d tenant goal)))"

definition AddGoalCandidate :: "lib \<Rightarrow> handle \<Rightarrow> env \<Rightarrow> string \<Rightarrow> string \<Rightarrow> string \<Rightarrow> db \<Rightarrow>
   candidate_info go \<times> db" where
  "AddGoalCandidate l h e tenant goal job =
     on_request (bind_res (fail_if (l_goal_key l tenant goal)) (\<lambda>_.
       if TrimSpace job = '''' then Inl (InvalidDependency '''') else Inr ())) (\<lambda>_.
     goalQuery h e (add_goal_candidate tenant goal job (e_now e)))"

definition FailGoal :: "lib \<Rightarrow> handle \<Rightarrow> env \<Rightarrow> string \<Rightarrow> string \<Rightarrow> string \<Rightarrow> db \<Rightarrow> goal_row go \<times> db" where
  "FailGoal l h e tenant goal message = on_request (fail_if (l_fail_goal l tenant goal message)) (\<lambda>_.
     goalQuery h e (fail_goal tenant goal message (e_now e)))"

definition GetDependencyWait :: "lib \<Rightarrow> handle \<Rightarrow> env \<Rightarrow> string \<Rightarrow> string \<Rightarrow> string \<Rightarrow> db \<Rightarrow> wait_outcome go \<times> db"
where
  "GetDependencyWait l h e tenant job wait =
     on_request (case l_job_key l tenant job of
         Some x \<Rightarrow> Inl (InvalidDependency '''')
       | None \<Rightarrow> if wait = '''' then Inl (InvalidDependency '''') else Inr ()) (\<lambda>_.
     goalQuery h e (reading (\<lambda>d. dependency_wait_info d tenant job wait (e_now e))))"

end
