(* ===== verification/Paging.thy ===== *)
theory Paging
  imports Go_Types
begin

section \<open>Keyset pagination\<close>

text \<open>
  The list functions of the package share one scheme: the SQL orders the matching rows, skips those
  up to a cursor and returns one row more than the page holds; the Go side cuts the extra row off and
  encodes the last row it keeps as the token of the next page. \<open>page_cut\<close> is that Go tail,
  \<open>collect\<close> a caller that follows tokens to the end. The locale states what the SQL promises and
  proves once that such a caller sees every row exactly once and in order.
\<close>

subsection \<open>The Go tail\<close>

definition page_cut :: "nat \<Rightarrow> ('r \<Rightarrow> 'i) \<Rightarrow> ('i \<Rightarrow> string go) \<Rightarrow> 'r list \<Rightarrow> ('i list \<times> string) go" where
  "page_cut n item encode rows =
     (let items = map item rows in
      if length items > n
      then let kept = take n items in bind_res (encode (last kept)) (\<lambda>token. Inr (kept, token))
      else Inr (items, ''''))"

lemma page_cut_bound: "page_cut n item encode rows = Inr (items, token) \<Longrightarrow> length items \<le> n"
  by (auto simp: page_cut_def Let_def res_simps split: if_splits)

lemma page_cut_last:
  assumes "page_cut n item encode rows = Inr (items, '''')" "\<And>i. encode i \<noteq> Inr ''''"
  shows "items = map item rows"
  using assms by (auto simp: page_cut_def Let_def res_simps split: if_splits)

text \<open>A caller that follows the tokens; \<open>None\<close> when the number of calls does not suffice.\<close>

fun collect :: "(string \<Rightarrow> ('i list \<times> string) go) \<Rightarrow> nat \<Rightarrow> string \<Rightarrow> 'i list go option" where
  "collect f 0 token = None"
| "collect f (Suc k) token =
     (case f token of
        Inl e \<Rightarrow> Some (Inl e)
      | Inr (items, next_token) \<Rightarrow>
          if next_token = '''' then Some (Inr items)
          else (case collect f k next_token of None \<Rightarrow> None
                | Some (Inl e) \<Rightarrow> Some (Inl e)
                | Some (Inr rest) \<Rightarrow> Some (Inr (items @ rest))))"

subsection \<open>The SQL side\<close>

text \<open>
  \<open>full\<close> is the ordered result without cursor and limit; \<open>before k k'\<close> says that key \<open>k\<close> comes before
  \<open>k'\<close> in the order of the query.
\<close>

locale keyset_query =
  fixes good :: "'d \<Rightarrow> bool"
    and full :: "'q \<Rightarrow> 'd \<Rightarrow> 'r list"
    and fetch :: "'q \<Rightarrow> 'k option \<Rightarrow> nat \<Rightarrow> 'd \<Rightarrow> 'r list"
    and key :: "'r \<Rightarrow> 'k"
    and before :: "'k \<Rightarrow> 'k \<Rightarrow> bool"
  assumes ordered: "good d \<Longrightarrow> sorted_wrt (\<lambda>x y. before (key x) (key y)) (full q d)"
    and asym: "before k k' \<Longrightarrow> \<not> before k' k"
    and fetch_def: "good d \<Longrightarrow> fetch q c n d =
      take n (filter (\<lambda>r. case c of None \<Rightarrow> True | Some k \<Rightarrow> before k (key r)) (full q d))"
begin

lemma fetch_start: "good d \<Longrightarrow> fetch q None n d = take n (full q d)"
  by (simp add: fetch_def)

lemma fetch_after:
  assumes "good d" "full q d = xs @ r # ys"
  shows "fetch q (Some (key r)) n d = take n ys"
proof -
  have srt: "sorted_wrt (\<lambda>x y. before (key x) (key y)) (xs @ r # ys)"
    using ordered [OF assms(1), of q] assms(2) by simp
  have irrefl: "\<not> before (key r) (key r)" using asym by blast
  have "filter (\<lambda>x. before (key r) (key x)) xs = []"
    using srt asym by (auto simp: sorted_wrt_append filter_empty_conv)
  moreover have "filter (\<lambda>x. before (key r) (key x)) ys = ys"
    using srt by (auto simp: sorted_wrt_append)
  ultimately show ?thesis using assms irrefl by (simp add: fetch_def)
qed

lemma full_keys_distinct:
  assumes "good d"
  shows "distinct (map key (full q d))"
proof -
  have "sorted_wrt (\<lambda>x y. before (key x) (key y)) rows \<Longrightarrow> distinct (map key rows)" for rows
    by (induction rows) (use asym in fastforce)+
  then show ?thesis using ordered [OF assms] by blast
qed

text \<open>The pages that remain from a position of the listing on.\<close>

lemma collect_rest:
  assumes good: "good d" and n: "0 < n"
    and page: "\<And>token c. cursor token = Some c \<Longrightarrow> f token = page_cut n item encode (fetch q c (Suc n) d)"
    and enc: "\<And>r. r \<in> set (full q d) \<Longrightarrow>
      \<exists>token. encode (item r) = Inr token \<and> token \<noteq> '''' \<and> cursor token = Some (Some (key r))"
    and pos: "full q d = seen @ rest" "cursor token = Some c" "fetch q c (Suc n) d = take (Suc n) rest"
    and fuel: "length rest < fuel"
  shows "collect f fuel token = Some (Inr (map item rest))"
  using pos fuel
proof (induction fuel arbitrary: seen rest token c)
  case 0
  then show ?case by simp
next
  case (Suc fuel)
  have ft: "f token = page_cut n item encode (take (Suc n) rest)"
    using page [OF Suc.prems(2)] Suc.prems(3) by simp
  show ?case
  proof (cases "length rest \<le> n")
    case True
    then show ?thesis by (simp add: ft page_cut_def)
  next
    case False
    define kept where "kept = take n rest"
    have kept: "kept \<noteq> []" "length kept = n" "rest = kept @ drop n rest"
      using False n by (auto simp: kept_def)
    have last: "kept = butlast kept @ [last kept]" using kept(1) by simp
    have split: "full q d = (seen @ butlast kept) @ last kept # drop n rest"
      using Suc.prems(1) kept(3) last by (metis append.assoc append_Cons append_Nil)
    have mem: "last kept \<in> set (full q d)" unfolding split by simp
    from enc [OF mem] obtain token' where t: "encode (item (last kept)) = Inr token'" "token' \<noteq> ''''"
      "cursor token' = Some (Some (key (last kept)))" by blast
    have "map item (take n (take (Suc n) rest)) = map item kept" by (simp add: kept_def min_def)
    then have ft': "f token = Inr (map item kept, token')"
      using False t(1) kept(1) by (simp add: ft page_cut_def take_map [symmetric] last_map)
    have "collect f fuel token' = Some (Inr (map item (drop n rest)))"
      by (rule Suc.IH [of "seen @ kept" "drop n rest", OF _ t(3)])
         (use Suc.prems kept split fetch_after [OF good split] n False in auto)
    then show ?thesis using ft' t(2) kept(3) by (simp add: flip: map_append)
  qed
qed

lemma collect_all:
  assumes "good d" "0 < n" "cursor '''' = Some None"
    and "\<And>token c. cursor token = Some c \<Longrightarrow> f token = page_cut n item encode (fetch q c (Suc n) d)"
    and "\<And>r. r \<in> set (full q d) \<Longrightarrow>
      \<exists>token. encode (item r) = Inr token \<and> token \<noteq> '''' \<and> cursor token = Some (Some (key r))"
  shows "collect f (Suc (length (full q d))) '''' = Some (Inr (map item (full q d)))"
proof (rule collect_rest [where seen = "[]" and c = None, OF assms(1,2)])
  fix token c
  assume "cursor token = Some c"
  then show "f token = page_cut n item encode (fetch q c (Suc n) d)" by (rule assms(4))
qed (use assms(1,3,5) in \<open>simp_all add: fetch_start\<close>)

end

text \<open>Ordering a list of rows by a key that is unique among them.\<close>

definition order_asc :: "('r \<Rightarrow> 'k::linorder) \<Rightarrow> 'r list \<Rightarrow> 'r list" where
  "order_asc key rows = sort_key key rows"

definition order_desc :: "('r \<Rightarrow> 'k::linorder) \<Rightarrow> 'r list \<Rightarrow> 'r list" where
  "order_desc key rows = rev (sort_key key rows)"

lemma distinct_finer_key:
  assumes "\<And>x y. x \<in> set rows \<Longrightarrow> y \<in> set rows \<Longrightarrow> key' x = key' y \<Longrightarrow> key x = key y"
    and "distinct (map key rows)"
  shows "distinct (map key' rows)"
  using assms unfolding distinct_map inj_on_def by blast

lemma order_asc_strict:
  assumes "distinct (map key rows)"
  shows "sorted_wrt (\<lambda>x y. key x < key y) (order_asc key rows)"
proof -
  have "distinct (map key (sort_key key rows))" "sorted (map key (sort_key key rows))"
    using assms by (auto simp: distinct_map)
  then have "sorted_wrt (<) (map key (sort_key key rows))" by (simp add: strict_sorted_iff)
  then show ?thesis by (simp add: order_asc_def sorted_wrt_map)
qed

lemma order_desc_strict:
  assumes "distinct (map key rows)"
  shows "sorted_wrt (\<lambda>x y. key y < key x) (order_desc key rows)"
  using order_asc_strict [OF assms] by (simp add: order_asc_def order_desc_def sorted_wrt_rev)

lemma set_order [simp]: "set (order_asc key rows) = set rows" "set (order_desc key rows) = set rows"
  by (simp_all add: order_asc_def order_desc_def)

definition before_cursor :: "('r \<Rightarrow> 'k::linorder) \<Rightarrow> 'k option \<Rightarrow> 'r \<Rightarrow> bool" where
  "before_cursor key c r = (case c of None \<Rightarrow> True | Some k \<Rightarrow> key r < k)"

lemma filter_order_desc: "filter P (order_desc key xs) = order_desc key (filter P xs)"
  by (simp add: order_desc_def filter_sort flip: rev_filter)

lemma filter_order_asc: "filter P (order_asc key xs) = order_asc key (filter P xs)"
  by (simp add: order_asc_def filter_sort)

text \<open>An optional filter: \<^verbatim>\<open>nil\<close> and the empty list select everything.\<close>

definition any_of :: "'a list option \<Rightarrow> 'a \<Rightarrow> bool" where
  "any_of xs x = (case xs of None \<Rightarrow> True | Some ys \<Rightarrow> x \<in> set ys)"

definition nilIfEmpty :: "'a list \<Rightarrow> 'a list option" where
  "nilIfEmpty xs = (if xs = [] then None else Some xs)"

text \<open>The driver sends a time that is a whole number of microseconds as it is.\<close>

definition micros_exact :: "lib \<Rightarrow> bool" where
  "micros_exact l \<longleftrightarrow> (\<forall>us. l_micros l (go_time us) = us)"

end
