(* ===== verification/Job_Deletion.thy ===== *)
theory Job_Deletion
  imports Scheduler_Invariant Scheduler_Api Paging
begin

section \<open>Deleting jobs\<close>

text \<open>
  \<^verbatim>\<open>delete_native_jobs\<close> of \<^verbatim>\<open>pgjobdb.sql\<close> and \<^verbatim>\<open>DeleteJobs\<close> of \<^verbatim>\<open>delete_jobs.go\<close>. Deletion hides the
  retained identity of every selected job; a job that is still active is first archived as cancelled,
  with everything that waited on it settled. A dry run counts the selection and changes nothing.
\<close>

subsection \<open>SQL\<close>

record delete_args =
  da_tenant_id :: string
  da_job_ids :: "string list"
  da_created_before :: "int option"
  da_predicates :: "MetadataPredicate list"
  da_all :: bool
  da_dry_run :: bool
  da_now :: int

definition delete_filtered :: "delete_args \<Rightarrow> bool" where
  "delete_filtered a \<longleftrightarrow> da_job_ids a \<noteq> [] \<or> da_created_before a \<noteq> None \<or> da_predicates a \<noteq> []"

definition selected_for_deletion :: "delete_args \<Rightarrow> fact_row \<Rightarrow> bool" where
  "selected_for_deletion a f \<longleftrightarrow> f_tenant_id f = da_tenant_id a \<and> f_hidden_at f = None \<and>
     (da_job_ids a = [] \<or> f_job_id f \<in> set (da_job_ids a)) \<and>
     (case da_created_before a of None \<Rightarrow> True | Some c \<Rightarrow> f_created_at f < c) \<and>
     metadata_matches (f_app_metadata f) (da_predicates a)"

definition deletion_ids :: "delete_args \<Rightarrow> db \<Rightarrow> string list" where
  "deletion_ids a d = sort (map f_job_id (filter (selected_for_deletion a) (job_facts d)))"

text \<open>The archive row of a job that was active when it was deleted.\<close>

definition deleted_row :: "job_row \<Rightarrow> int \<Rightarrow> archive_row" where
  "deleted_row j at_time = (archive_of j ''cancelled'' (Some ''job deleted'') at_time)\<lparr>
     a_lease_id := None, a_consecutive_expirations := 0, a_cancel_requested := True,
     a_cancel_requested_by := Some ''job-deletion'', a_cancel_requested_at := Some at_time,
     a_completion_retryable := Some False,
     a_final_route_job_type := j_route_job_type j, a_final_work_kind := j_work_kind j,
     a_final_task_type := j_task_type j, a_final_resume_job_type := j_resume_job_type j,
     a_final_task_input_ordinal := j_task_input_ordinal j,
     a_final_task_output_ordinal := j_task_output_ordinal j,
     a_final_task_input_hash := j_task_input_hash j,
     a_final_alternate_job_type := j_alternate_job_type j,
     a_final_alternate_task_type := j_alternate_task_type j,
     a_final_alternate_after := j_alternate_after j, a_final_alternate_at := j_alternate_at j,
     a_final_wait_for := Some (j_wait_for j), a_final_available_at := Some (j_available_at j),
     a_final_lease_expires_at := Some MinusInfinity, a_final_lease_worker_id := None,
     a_final_cancel_requested := Some True\<rparr>"

definition hide :: "string \<Rightarrow> string \<Rightarrow> int \<Rightarrow> db \<Rightarrow> db" where
  "hide t j at_time d = d\<lparr>job_facts := upd_at fact_key (t, j) (\<lambda>f. f\<lparr>f_hidden_at := Some at_time\<rparr>) (job_facts d)\<rparr>"

definition delete_one :: "delete_args \<Rightarrow> int \<Rightarrow> string \<Rightarrow> db \<Rightarrow> db res" where
  "delete_one a now j d =
     (let t = da_tenant_id a in
      bind_res (case find_job d t j of
          None \<Rightarrow> Inr d
        | Some r \<Rightarrow> bind_res (insert_archive (deleted_row r (da_now a)) now d) (\<lambda>d1.
            Inr (update_waiters t [j] now (delete_job t j d1)))) (\<lambda>d2.
      Inr (emit_trace_event t j ''job_deleted'' ''job-deletion'' (da_now a) (hide t j (da_now a) d2))))"

definition delete_native_jobs :: "delete_args \<Rightarrow> int \<Rightarrow> db \<Rightarrow> ((int \<times> int) \<times> db) res" where
  "delete_native_jobs a now d =
     (if btrim (da_tenant_id a) = '''' then raise ''invalid deletion request''
      else if da_all a = delete_filtered a then raise ''choose deletion selectors or all, exclusively''
      else let ids = deletion_ids a d in
      if da_dry_run a then Inr ((int (length ids), 0), d)
      else bind_res (fold_res (delete_one a now) ids d) (\<lambda>d'.
           Inr ((int (length ids), int (length ids)), d')))"

subsection \<open>Go\<close>

text \<open>The exclusive cutoff, rounded up to the microseconds the database stores.\<close>

definition deletion_cutoff :: "int \<Rightarrow> int" where
  "deletion_cutoff created_before =
     (let at_ns = created_before div 1000 * 1000 in if at_ns < created_before then at_ns + 1000 else at_ns)"

definition delete_request :: "lib \<Rightarrow> handle \<Rightarrow> int \<Rightarrow> DeleteJobsRequest \<Rightarrow> delete_args go" where
  "delete_request l h host_ns req =
     bind_res (validateScheduleDB h) (\<lambda>_.
     if TrimSpace (dr_TenantID req) = '''' then Inl (Err ''pgjobdb: tenant is required'')
     else let filtered = (dr_JobIDs req \<noteq> [] \<or> dr_CreatedBefore req \<noteq> None \<or> dr_MetadataPredicates req \<noteq> []) in
     if dr_All req = filtered then Inl (Err ''pgjobdb: choose selectors or all, exclusively'')
     else if \<exists>i \<in> set (dr_JobIDs req). TrimSpace i = '''' then Inl (Err ''pgjobdb: job ids must not be empty'')
     else case validateMetadataPredicates (dr_MetadataPredicates req) of Some m \<Rightarrow> Inl (Err m) | None \<Rightarrow>
     if (case dr_CreatedBefore req of None \<Rightarrow> False | Some t \<Rightarrow> IsZero t)
     then Inl (Err ''pgjobdb: cutoff must be nonzero'')
     else Inr \<lparr>da_tenant_id = dr_TenantID req, da_job_ids = dr_JobIDs req,
       da_created_before = map_option (\<lambda>t. l_micros l (deletion_cutoff t)) (dr_CreatedBefore req),
       da_predicates = dr_MetadataPredicates req, da_all = dr_All req, da_dry_run = dr_DryRun req,
       da_now = l_micros l (if IsZero (dr_Now req) then host_ns else dr_Now req)\<rparr>)"

definition DeleteJobs :: "lib \<Rightarrow> handle \<Rightarrow> env \<Rightarrow> DeleteJobsRequest \<Rightarrow> db \<Rightarrow> DeleteJobsResult go \<times> db" where
  "DeleteJobs l h e req = on_request (delete_request l h (e_host e) req) (\<lambda>a d.
     and_then (call_sql e (delete_native_jobs a (e_now e)) d)
       (\<lambda>(matched, deleted). Inr \<lparr>dd_MatchedCount = matched, dd_DeletedCount = deleted\<rparr>))"

subsection \<open>The cutoff\<close>

lemma deletion_cutoff_exact: "\<exists>us. deletion_cutoff t = go_time us"
  by (auto simp: deletion_cutoff_def go_time_def Let_def intro: exI [of _ "t div 1000 + 1"])

lemma before_deletion_cutoff: "go_time us < deletion_cutoff t \<longleftrightarrow> go_time us < t"
proof -
  define q r where "q = t div 1000" and "r = t mod 1000"
  have "t = q * 1000 + r" "0 \<le> r" "r < 1000" by (simp_all add: q_def r_def)
  moreover have "us * 1000 < q * 1000 + 1000 \<longleftrightarrow> us \<le> q" by auto
  ultimately show ?thesis unfolding deletion_cutoff_def go_time_def Let_def q_def [symmetric] by auto
qed

subsection \<open>Deletion keeps the invariant\<close>

lemma hide_inv:
  assumes "db_inv d now"
  shows "db_inv (hide t j at_time d) now"
proof -
  let ?f = "\<lambda>f. if fact_key f = (t, j) then f\<lparr>f_hidden_at := Some at_time\<rparr> else f"
  let ?d = "hide t j at_time d"
  have facts: "job_facts ?d = map ?f (job_facts d)" by (simp add: hide_def upd_at_def)
  have sel: "fact_key (?f x) = fact_key x" "f_goal_id (?f x) = f_goal_id x" "f_tenant_id (?f x) = f_tenant_id x"
    "f_job_id (?f x) = f_job_id x" for x
    by (simp_all add: fact_key_def)
  have cols: "goals ?d = goals d" "jobs ?d = jobs d" "jobs_archive ?d = jobs_archive d"
    "goal_candidates ?d = goal_candidates d" "dependency_waits ?d = dependency_waits d"
    "dependency_targets ?d = dependency_targets d" "job_client_state ?d = job_client_state d"
    by (simp_all add: hide_def)
  have keys: "map fact_key (job_facts ?d) = map fact_key (job_facts d)"
    unfolding facts by (simp only: list.map_comp comp_def sel)
  have fkeys: "fact_key ` set (job_facts ?d) = fact_key ` set (job_facts d)"
    using keys by (metis list.set_map)
  have ok: "db_ok d" by (rule invD(1) [OF assms])
  have "waits_wf ?d = waits_wf d" by (rule waits_wf_cong) (simp_all only: cols fkeys)
  moreover have "waits_fresh ?d = waits_fresh d" by (rule waits_fresh_cong) (simp_all only: cols)
  moreover have "keys_ok ?d" using db_okD(1) [OF ok] unfolding keys_ok_def keys fkeys cols .
  moreover have "linked ?d" unfolding linked_def cols fkeys
  proof (intro conjI)
    show "\<forall>f \<in> set (job_facts ?d). (f_tenant_id f, f_goal_id f) \<in> goal_key ` set (goals d)"
      using db_okD(2) [OF ok] unfolding linked_def facts by (auto simp: sel)
    show "\<forall>j' \<in> set (jobs d). \<exists>f \<in> set (job_facts ?d). fact_key f = job_key j' \<and> f_goal_id f = j_goal_id j'"
    proof
      fix j' assume "j' \<in> set (jobs d)"
      then obtain f where "f \<in> set (job_facts d)" "fact_key f = job_key j'" "f_goal_id f = j_goal_id j'"
        using db_okD(2) [OF ok] unfolding linked_def by blast
      then show "\<exists>f \<in> set (job_facts ?d). fact_key f = job_key j' \<and> f_goal_id f = j_goal_id j'"
        using sel [of f] unfolding facts set_map by (metis (no_types, lifting) imageI)
    qed
  qed (use db_okD(2) [OF ok] in \<open>simp add: linked_def\<close>)
  ultimately have ok': "db_ok ?d" using db_okD [OF ok]
    by (intro db_okI) (simp_all add: cols goals_ok_def pending_keys_def)
  have filt: "map f_job_id (filter P (map ?f xs)) = map f_job_id (filter (\<lambda>f. P (?f f)) xs)" for P xs
    by (induction xs) simp_all
  have members: "goal_members ?d t' g = goal_members d t' g" for t' g
    unfolding goal_members_def facts cols filt by (simp only: sel)
  have "retires t' d ?d" for t'
    by (simp add: retires_def members archived_def goal_open_def find_goal_def cols)
  then show ?thesis
    by (rule inv_retires [OF assms order_refl ok']) (use waits_shrink_refl [of d] in \<open>simp add: waits_shrink_def cols\<close>)
qed

lemma insert_archive_inv:
  assumes inv: "db_inv d now" and r: "find_job d t j = Some r" and a: "a_tenant_id a = t" "a_job_id a = j"
  shows "\<exists>d1. insert_archive a now d = Inr d1 \<and> db_inv (update_waiters t ids now (delete_job t j d1)) now"
proof -
  from insert_archive_ok [OF invD(1) [OF inv] r a, of now] obtain d1 where
    d1: "insert_archive a now d = Inr d1" "closes_goals (d\<lparr>jobs_archive := jobs_archive d @ [a]\<rparr>) d1"
      "db_ok (delete_job t j d1)" by blast
  let ?e = "update_waiters t ids now (delete_job t j d1)"
  have gw: "goals_waits_only (d\<lparr>jobs_archive := jobs_archive d @ [a]\<rparr>) d1"
    using d1(2) by (simp add: closes_goals_def)
  note sel = goals_waits_only_sel [OF gw]
  have cols: "goals ?e = goals d1" "goal_candidates ?e = goal_candidates d1"
    "dependency_waits ?e = dependency_waits d1" "job_facts ?e = job_facts d1"
    "jobs_archive ?e = jobs_archive d @ [a]"
    by (simp_all add: delete_job_def sel)
  have arch: "archived ?e t' j'" if "archived d t' j'" for t' j'
    using that unfolding archived_def has_key_iff cols by auto
  have "retires t' (d\<lparr>jobs_archive := jobs_archive d @ [a]\<rparr>) d1" for t'
    by (rule closes_goals_retires [OF d1(2)])
  then have "retires t' d ?e" for t'
    using arch unfolding retires_def goal_open_def find_goal_def goal_members_def cols by simp
  moreover have "waits_shrink d ?e" using d1(2) unfolding closes_goals_def waits_shrink_def cols by simp
  ultimately have "db_inv ?e now"
    by (intro inv_retires [OF inv order_refl]) (auto simp: update_waiters_db_ok d1(3))
  then show ?thesis using d1(1) by blast
qed

lemma delete_one_inv:
  assumes "db_inv d now"
  shows "\<exists>d'. delete_one a now j d = Inr d' \<and> db_inv d' now"
proof (cases "find_job d (da_tenant_id a) j")
  case None
  then show ?thesis using hide_inv [OF assms] emit_trace_event_inv
    by (simp add: delete_one_def Let_def)
next
  case (Some r)
  have "a_tenant_id (deleted_row r (da_now a)) = da_tenant_id a" "a_job_id (deleted_row r (da_now a)) = j"
    using find_job_key [OF Some] by (simp_all add: deleted_row_def archive_of_def)
  from insert_archive_inv [OF assms Some this] obtain d1 where
    "insert_archive (deleted_row r (da_now a)) now d = Inr d1"
    "db_inv (update_waiters (da_tenant_id a) [j] now (delete_job (da_tenant_id a) j d1)) now" by blast
  then show ?thesis using Some hide_inv emit_trace_event_inv by (simp add: delete_one_def Let_def)
qed

lemma delete_loop_inv:
  assumes "db_inv d now"
  shows "\<exists>d'. fold_res (delete_one a now) ids d = Inr d' \<and> db_inv d' now"
  using assms
proof (induction ids arbitrary: d)
  case (Cons i ids)
  from delete_one_inv [OF Cons.prems, of a i] obtain d1 where "delete_one a now i d = Inr d1" "db_inv d1 now"
    by blast
  then show ?case using Cons.IH by simp
qed simp

lemma delete_native_jobs_inv:
  assumes "db_inv d now" "delete_native_jobs a now d = Inr (res, d')"
  shows "db_inv d' now"
  using assms delete_loop_inv [OF assms(1), of a "deletion_ids a d"]
  by (auto simp: delete_native_jobs_def Let_def res_simps split: if_splits)

end
