(* ===== verification/Job_History.thy ===== *)
theory Job_History
  imports Job_Deletion
begin

section \<open>What never changes again\<close>

text \<open>
  The record the scheduler leaves behind: a closed goal keeps its outcome, an archived job its final
  snapshot, a submitted job its facts (only the time it was hidden may be filled in, once), and a
  revision of a client payload its value. Every operation on jobs and goals keeps that history and
  leaves the schedules alone.
\<close>

definition archives_kept :: "db \<Rightarrow> db \<Rightarrow> bool" where
  "archives_kept d d' \<longleftrightarrow> (\<forall>t j a. find_archive d t j = Some a \<longrightarrow> find_archive d' t j = Some a)"

definition facts_kept :: "db \<Rightarrow> db \<Rightarrow> bool" where
  "facts_kept d d' \<longleftrightarrow> (\<forall>t j f. find_fact d t j = Some f \<longrightarrow>
     (\<exists>f'. find_fact d' t j = Some f' \<and> f'\<lparr>f_hidden_at := f_hidden_at f\<rparr> = f \<and>
        (f_hidden_at f \<noteq> None \<longrightarrow> f' = f)))"

text \<open>A revision names one payload for ever: revisions only grow, and the same revision is the same row.\<close>

definition payloads_kept :: "db \<Rightarrow> db \<Rightarrow> bool" where
  "payloads_kept d d' \<longleftrightarrow> (\<forall>t j c. find_client d t j = Some c \<longrightarrow>
     (\<exists>c'. find_client d' t j = Some c' \<and> c_revision c \<le> c_revision c' \<and>
        c_initial_payload_digest c' = c_initial_payload_digest c \<and> (c_revision c' = c_revision c \<longrightarrow> c' = c)))"

definition keeps_history :: "db \<Rightarrow> db \<Rightarrow> bool" where
  "keeps_history d d' \<longleftrightarrow> closed_goals_kept d d' \<and> archives_kept d d' \<and> facts_kept d d' \<and>
     payloads_kept d d' \<and> schedules d' = schedules d"

lemma payloads_kept_refl: "payloads_kept d d"
  by (simp add: payloads_kept_def)

lemma payloads_kept_trans:
  assumes "payloads_kept a b" "payloads_kept b c"
  shows "payloads_kept a c"
  unfolding payloads_kept_def
proof (intro allI impI)
  fix t j x assume "find_client a t j = Some x"
  then obtain y where y: "find_client b t j = Some y" "c_revision x \<le> c_revision y"
    "c_initial_payload_digest y = c_initial_payload_digest x" "c_revision y = c_revision x \<longrightarrow> y = x"
    using assms(1) unfolding payloads_kept_def by blast
  then obtain z where "find_client c t j = Some z" "c_revision y \<le> c_revision z"
    "c_initial_payload_digest z = c_initial_payload_digest y" "c_revision z = c_revision y \<longrightarrow> z = y"
    using assms(2) unfolding payloads_kept_def by blast
  then show "\<exists>c'. find_client c t j = Some c' \<and> c_revision x \<le> c_revision c' \<and>
      c_initial_payload_digest c' = c_initial_payload_digest x \<and> (c_revision c' = c_revision x \<longrightarrow> c' = x)"
    using y by auto
qed

lemma payloads_kept_eq: "job_client_state d' = job_client_state d \<Longrightarrow> payloads_kept d d'"
  by (simp add: payloads_kept_def find_client_def)

lemma archives_kept_trans: "archives_kept a b \<Longrightarrow> archives_kept b c \<Longrightarrow> archives_kept a c"
  by (simp add: archives_kept_def)

lemma facts_kept_refl: "facts_kept d d"
  by (simp add: facts_kept_def)

lemma facts_kept_trans:
  assumes "facts_kept a b" "facts_kept b c"
  shows "facts_kept a c"
  unfolding facts_kept_def
proof (intro allI impI)
  fix t j f
  assume "find_fact a t j = Some f"
  then obtain f1 where f1: "find_fact b t j = Some f1" "f1\<lparr>f_hidden_at := f_hidden_at f\<rparr> = f"
    "f_hidden_at f \<noteq> None \<longrightarrow> f1 = f"
    using assms(1) unfolding facts_kept_def by blast
  then obtain f2 where f2: "find_fact c t j = Some f2" "f2\<lparr>f_hidden_at := f_hidden_at f1\<rparr> = f1"
    "f_hidden_at f1 \<noteq> None \<longrightarrow> f2 = f1"
    using assms(2) unfolding facts_kept_def by blast
  have "f2\<lparr>f_hidden_at := f_hidden_at f\<rparr> = f2\<lparr>f_hidden_at := f_hidden_at f1, f_hidden_at := f_hidden_at f\<rparr>"
    by simp
  then have "f2\<lparr>f_hidden_at := f_hidden_at f\<rparr> = f" unfolding f2(2) using f1(2) by simp
  then show "\<exists>f'. find_fact c t j = Some f' \<and> f'\<lparr>f_hidden_at := f_hidden_at f\<rparr> = f \<and>
      (f_hidden_at f \<noteq> None \<longrightarrow> f' = f)"
    using f1(3) f2 by auto
qed

lemma keeps_history_refl [simp]: "keeps_history d d"
  by (simp add: keeps_history_def archives_kept_def facts_kept_refl payloads_kept_refl)

lemma keeps_history_trans: "keeps_history a b \<Longrightarrow> keeps_history b c \<Longrightarrow> keeps_history a c"
  unfolding keeps_history_def
  using closed_goals_kept_trans archives_kept_trans facts_kept_trans payloads_kept_trans by metis

lemma keeps_history_frame:
  assumes "goals d' = goals d" "jobs_archive d' = jobs_archive d" "job_facts d' = job_facts d"
    "schedules d' = schedules d" "job_client_state d' = job_client_state d"
  shows "keeps_history d d'"
  using assms by (simp add: keeps_history_def closed_goals_kept_def archives_kept_def facts_kept_def find_goal_def
    find_archive_def find_fact_def payloads_kept_eq)

lemma waits_only_history: "waits_only d d' \<Longrightarrow> keeps_history d d'"
  by (rule keeps_history_frame) (simp_all add: waits_only_def)

lemma closes_goals_history:
  assumes "closes_goals d d'"
  shows "keeps_history d d'"
proof -
  have "goals_waits_only d d'" "closed_goals_kept d d'" using assms by (simp_all add: closes_goals_def)
  then show ?thesis
    using goals_waits_only_sel [of d d']
    by (simp add: keeps_history_def archives_kept_def facts_kept_def find_archive_def find_fact_def payloads_kept_eq)
qed

lemma update_job_history: "keeps_history d (update_job t j f d)"
  by (rule keeps_history_frame) (simp_all add: update_job_def)

lemma append_archive_history:
  assumes "\<not> archived d (a_tenant_id a) (a_job_id a)"
  shows "keeps_history d (d\<lparr>jobs_archive := jobs_archive d @ [a]\<rparr>)"
  by (simp add: keeps_history_def closed_goals_kept_def archives_kept_def facts_kept_def find_goal_def
      find_archive_def find_fact_def row_at_append payloads_kept_eq)

lemma insert_archive_history:
  assumes "db_ok d" "find_job d (a_tenant_id a) (a_job_id a) \<noteq> None" "insert_archive a now d = Inr d1"
  shows "keeps_history d d1"
proof -
  obtain r where "find_job d (a_tenant_id a) (a_job_id a) = Some r" using assms(2) by blast
  from insert_archive_ok [OF assms(1) this refl refl, of now] assms(3)
  have "closes_goals (d\<lparr>jobs_archive := jobs_archive d @ [a]\<rparr>) d1" by auto
  moreover have "\<not> archived d (a_tenant_id a) (a_job_id a)"
    using assms(3) by (auto simp: insert_archive_def split: if_splits)
  ultimately show ?thesis
    using append_archive_history closes_goals_history keeps_history_trans by blast
qed

lemma update_client_payload_history:
  assumes "update_client_payload t j mode val expected d = Inr d'"
  shows "keeps_history d d'"
proof (cases mode)
  case None
  then show ?thesis using assms by (auto elim: update_client_payload_cases)
next
  case (Some m)
  have w: "payload_write (t, j) expected d d'" using assms Some by (auto simp: payload_write_def)
  have "payloads_kept d d'" unfolding payloads_kept_def
  proof (intro allI impI)
    fix t' j' c assume c: "find_client d t' j' = Some c"
    from w show "\<exists>c'. find_client d' t' j' = Some c' \<and> c_revision c \<le> c_revision c' \<and>
        c_initial_payload_digest c' = c_initial_payload_digest c \<and> (c_revision c' = c_revision c \<longrightarrow> c' = c)"
      by (rule payload_write_row [where k' = "(t', j')"]) (use c in \<open>auto split: if_splits\<close>)
  qed
  moreover obtain cs where "d' = d\<lparr>job_client_state := cs\<rparr>"
    using assms by (cases rule: update_client_payload_cases) (auto intro: that [of "job_client_state d"])
  ultimately show ?thesis
    by (simp add: keeps_history_def closed_goals_kept_def archives_kept_def facts_kept_def find_goal_def
        find_archive_def find_fact_def)
qed

lemma complete_native_locked_job_history:
  assumes ok: "db_ok d" and r: "find_job d t j = Some r"
    and run: "complete_native_locked_job r worker status detail kind retryable now d = Inr d'"
  shows "keeps_history d d'"
proof -
  have key: "j_tenant_id r = t" "j_job_id r = j" using find_job_key [OF r] by auto
  let ?a = "archive_of (r\<lparr>j_consecutive_expirations := 0\<rparr>) status detail now"
  have ak: "a_tenant_id ?a = t" "a_job_id ?a = j" by (simp_all add: archive_of_def key)
  from run r obtain d1 where d1: "insert_archive ?a now d = Inr d1"
    "d' = update_archive t j (finalize r kind retryable) (emit_trace_event t j ''job_finished'' worker now
       (update_waiters t [j] now (delete_job t j d1)))"
    by (auto simp: complete_native_locked_job_def complete_locked_job_def archive_and_delete_job_def key
        res_simps split: if_splits)
  have h: "keeps_history d d1"
    by (rule insert_archive_history [OF ok _ d1(1)]) (simp add: ak r)
  have fresh: "find_archive d t j = None"
    using d1(1) by (auto simp: insert_archive_def ak archived_iff split: if_splits)
  have fin: "archive_key (finalize r kind retryable a) = archive_key a" for a
    by (simp add: finalize_def archive_key_def)
  have "find_archive d' t' j' = Some a" if a: "find_archive d t' j' = Some a" for t' j' a
  proof -
    have "(t', j') \<noteq> (t, j)" using a fresh by auto
    then have "find_archive d' t' j' = find_archive d1 t' j'"
      by (auto simp: d1(2) find_archive_def update_archive_def delete_job_def row_at_upd_at fin)
    then show ?thesis using h a by (simp add: keeps_history_def archives_kept_def)
  qed
  then show ?thesis using h
    by (simp add: keeps_history_def archives_kept_def closed_goals_kept_def facts_kept_def find_goal_def
        find_fact_def payloads_kept_def find_client_def d1(2) update_archive_def delete_job_def)
qed

subsection \<open>The operations\<close>

lemma complete_native_job_history:
  assumes "db_ok d"
    "complete_native_job t j lease worker status detail kind retryable mode val expected now d = Inr d'"
  shows "keeps_history d d'"
proof -
  from assms(2) obtain r d1 where r: "find_job d t j = Some r"
      "update_client_payload t j mode val expected d = Inr d1"
      "complete_native_locked_job r worker status detail kind retryable now d1 = Inr d'"
    by (auto simp: complete_native_job_def res_simps split: if_splits)
  have "db_ok d1" using update_client_payload_db_ok [OF r(2)] assms(1) by simp
  moreover have "find_job d1 t j = Some r"
    using r(1) update_client_payload_cols(6) [OF r(2)] by (simp add: find_job_def)
  ultimately show ?thesis
    using complete_native_locked_job_history r(3) update_client_payload_history [OF r(2)]
      keeps_history_trans by blast
qed

lemma complete_native_unheld_job_history:
  assumes "db_ok d" "complete_native_unheld_job t j worker status detail kind retryable now d = Inr d'"
  shows "keeps_history d d'"
  using assms complete_native_locked_job_history [OF assms(1)]
  by (auto simp: complete_native_unheld_job_def res_simps split: if_splits)

lemma cancel_job_history:
  assumes "cancel_job t j worker now d = Inr d1"
  shows "keeps_history d d1"
  using assms unfolding cancel_job_def
  by (auto simp: update_job_def split: option.splits if_splits intro!: keeps_history_frame)

lemma cancel_native_job_history:
  assumes "db_inv d now" "cancel_native_job t j worker reason now d = Inr d'"
  shows "keeps_history d d'"
proof -
  from assms(2) obtain d1 r0 r where r: "cancel_job t j worker now d = Inr d1" "find_job d1 t j = Some r"
      "complete_native_locked_job r worker ''cancelled'' reason None (Some False) now d1 = Inr d'"
      "find_job d t j = Some r0"
    by (auto simp: cancel_native_job_def res_simps split: if_splits option.splits)
  have "db_inv d1 now" using cancel_job_ok [OF assms(1) r(4), of worker] r(1) by auto
  then have "db_ok d1" by (rule invD(1))
  then show ?thesis
    using complete_native_locked_job_history [OF _ r(2,3)] cancel_job_history [OF r(1)]
      keeps_history_trans by blast
qed

lemma renew_native_lease_history:
  assumes "renew_native_lease t j lease worker secs now d = Inr (x, d')"
  shows "keeps_history d d'"
  using assms by (auto simp: renew_native_lease_def extend_lease_def res_simps Let_def update_job_def
    split: if_splits option.splits intro!: keeps_history_frame)

lemma get_native_work_history:
  assumes run: "get_native_work q locked lease now d = Inr (x, d')"
  shows "keeps_history d d'"
proof -
  from run obtain d1 where d1: "expire_goal_waits (wq_tenant_ids q) now d = Inr d1"
    by (auto simp: get_native_work_def res_simps split: if_splits)
  then have h: "keeps_history d d1" by (intro waits_only_history expire_goal_waits_waits_only)
  show ?thesis
  proof (cases "pick d1 q locked now")
    case None
    then show ?thesis using run d1 h by (auto simp: get_native_work_def split: if_splits)
  next
    case (Some j)
    then have "d' = update_job (j_tenant_id j) (j_job_id j)
        (grant_lease lease (wq_worker_id q) (wq_lease_seconds q) now) d1"
      using run d1 by (auto simp: get_native_work_def Let_def split: if_splits)
    then show ?thesis using h update_job_history keeps_history_trans by blast
  qed
qed

lemma claim_native_task_history:
  assumes "claim_native_task t j worker c secs lease now d = Inr (x, d')"
  shows "keeps_history d d'"
proof -
  from assms obtain d1 f where "waits_only d d1" "d' = update_job t j f d1"
    by (auto simp: claim_native_task_def res_simps task_conflict_def split: if_splits option.splits
      dest!: expire_goal_waits_waits_only)
  then show ?thesis using waits_only_history update_job_history keeps_history_trans by blast
qed

lemma reschedule_native_job_history:
  assumes "db_inv d now" "reschedule_native_job a v_now now d = Inr d'"
  shows "keeps_history d d'"
  using assms(2)
proof (cases rule: reschedule_native_job_steps)
  case (1 r d1 d2 d3 waits)
  have i1: "db_inv d1 now" by (rule update_client_payload_inv [OF assms(1) 1(6)])
  have i2: "db_inv d2 now" using cancel_waits_inv [OF i1 1(7)] by simp
  have "keeps_history d2 d3"
  proof (cases "ra_dependency_wait a")
    case None
    then show ?thesis using 1(8) by simp
  next
    case (Some req)
    then have "waits_only d2 d3"
      using 1(8) register_wait_ok [OF db_okD(4,5) [OF invD(1) [OF i2]]] by (auto simp: registers_def)
    then show ?thesis by (rule waits_only_history)
  qed
  then have "keeps_history d d3"
    using update_client_payload_history [OF 1(6)] waits_only_history [OF cancel_waits_waits_only [OF 1(7)]]
      keeps_history_trans by blast
  then show ?thesis unfolding 1(10) using update_job_history keeps_history_trans by blast
qed

lemma fail_goal_history:
  assumes "db_inv d now" "fail_goal t g m now d = Inr (info, d')"
  shows "keeps_history d d'"
  using fail_goal_ok [OF db_okD(4,5) [OF invD(1) [OF assms(1)]] assms(2)] closes_goals_history by blast

lemma add_goal_candidate_history:
  assumes "db_inv d now" "add_goal_candidate t g j now d = Inr (info, d')"
  shows "keeps_history d d'"
proof (cases "d' = d")
  case False
  then have "new_candidate t g j now d = Inr d'"
    using assms(2) by (auto simp: add_goal_candidate_def goal_info_def res_simps split: option.splits if_splits)
  from new_candidate_ok [OF db_okD(4,5) [OF invD(1) [OF assms(1)]] this invD(2) [OF assms(1)]]
  have "keeps_history (add_candidate_row t g j now d) d'" using closes_goals_history by blast
  moreover have "keeps_history d (add_candidate_row t g j now d)"
    by (rule keeps_history_frame) (simp_all add: add_candidate_row_def)
  ultimately show ?thesis using keeps_history_trans by blast
qed simp

lemma prepare_job_history:
  assumes "prepare_job parse t j r prior sharing descr deps ng nj d = Inr (p, d')"
  shows "keeps_history d d'"
proof -
  have "\<exists>ps. d' = d\<lparr>job_preparations := ps\<rparr>"
    using assms unfolding prepare_job_def Let_def
    by (auto simp: res_simps split: option.splits if_splits intro: exI [of _ "job_preparations d"])
  then show ?thesis by (auto intro!: keeps_history_frame)
qed

lemma add_job_history:
  assumes "find_fact d (f_tenant_id f) (f_job_id f) = None"
  shows "keeps_history d (add_job f r c d)"
  using assms by (auto simp: add_job_def keeps_history_def closed_goals_kept_def archives_kept_def facts_kept_def
      payloads_kept_def find_goal_def find_archive_def find_fact_def find_client_def row_at_append)

lemma create_job_history:
  assumes i: "db_inv d now" and goal: "(sa_tenant_id a, g) \<in> goal_key ` set (goals d)"
    and new: "find_fact d (sa_tenant_id a) (sa_job_id a) = None" and jt: "sa_job_type a \<noteq> ''''"
    and run: "create_job a g initial dg now d = Inr d'"
  shows "keeps_history d d'"
  using run
proof (cases rule: create_job_steps)
  case (1 waits d5)
  let ?t = "sa_tenant_id a" and ?j = "sa_job_id a"
  let ?d3 = "add_job (facts_of a g now) (new_job_row a g waits now) (client_of a initial dg) d"
  note i3 = new_job_inv [OF i goal new jt, of waits initial dg]
  have h3: "keeps_history d ?d3" by (rule add_job_history) (simp add: facts_of_def new)
  have "keeps_history ?d3 d5"
  proof (cases "sa_dependencies a = []")
    case False
    then obtain d4 where d4: "register_wait ?t ?j \<lparr>wr_waitId = ''submission'', wr_deadline = None,
        wr_dependencies = sa_dependencies a\<rparr> True now ?d3 = Inr d4"
      "d5 = update_job ?t ?j (\<lambda>r. r\<lparr>j_dependency_wait_id := Some ''submission''\<rparr>) d4"
      using 1(2) by (auto simp: submission_wait_def res_simps)
    have "waits_only ?d3 d4"
      using register_wait_ok [OF db_okD(4,5) [OF invD(1) [OF i3(1)]] d4(1)] by (auto simp: registers_def)
    then show ?thesis unfolding d4(2)
      using waits_only_history update_job_history keeps_history_trans by blast
  qed (use 1(2) in \<open>simp add: submission_wait_def\<close>)
  moreover have "keeps_history d5 d'" unfolding 1(3) by (rule keeps_history_frame) (simp_all add: publish_def)
  ultimately show ?thesis using h3 keeps_history_trans by blast
qed

lemma new_goal_history:
  assumes "find_goal d t g = None"
  shows "keeps_history d (d\<lparr>goals := goals d @ [new_goal_row t g now]\<rparr>)"
  by (auto simp: keeps_history_def closed_goals_kept_def archives_kept_def facts_kept_def find_goal_def
      find_archive_def find_fact_def row_at_append payloads_kept_eq)

lemma submission_goal_history:
  assumes "submission_goal a new_goal now d = Inr (g, d')"
  shows "keeps_history d d'"
  using assms new_goal_history
  by (auto simp: submission_goal_def goal_info_def res_simps Let_def split: if_splits option.splits)

lemma submit_native_job_history:
  assumes i: "db_inv d now" and run: "submit_native_job sha a new_goal now d = Inr (res, d')"
  shows "keeps_history d d'"
proof (cases "find_fact d (sa_tenant_id a) (sa_job_id a)")
  case (Some e)
  then have "d' = d" using run
    by (auto simp: submit_native_job_def res_simps Let_def split: if_splits)
  then show ?thesis by simp
next
  case None
  then obtain g d1 initial dg where
    d1: "submission_goal a new_goal now d = Inr (g, d1)" "create_job a g initial dg now d1 = Inr d' \<or> d' = d1"
      "sa_job_type a \<noteq> ''''"
    using run by (auto simp: submit_native_job_def res_simps Let_def split: if_splits option.splits)
  note g = submission_goal_inv [OF i d1(1)]
  have "find_fact d1 (sa_tenant_id a) (sa_job_id a) = None" using None g by (simp add: find_fact_def)
  then have "keeps_history d1 d'" using d1(2,3) g create_job_history [of d1 now a g initial dg d'] by auto
  then show ?thesis using submission_goal_history [OF d1(1)] keeps_history_trans by blast
qed

subsection \<open>Deletion\<close>

text \<open>Deletion fills in the time a job was hidden; it never changes one that is set.\<close>

lemma find_fact_hide:
  "find_fact (hide t j at_time d) t' j' =
     (if (t', j') = (t, j) then map_option (\<lambda>f. f\<lparr>f_hidden_at := Some at_time\<rparr>) (find_fact d t j)
      else find_fact d t' j')"
  by (simp add: hide_def find_fact_def row_at_upd_at fact_key_def)

lemma hide_history:
  assumes "\<And>f. find_fact d t j = Some f \<Longrightarrow> f_hidden_at f = None"
  shows "keeps_history d (hide t j at_time d)"
proof -
  have "facts_kept d (hide t j at_time d)"
    unfolding facts_kept_def using assms by (auto simp: find_fact_hide)
  then show ?thesis
    by (simp add: keeps_history_def closed_goals_kept_def archives_kept_def find_goal_def find_archive_def hide_def
        payloads_kept_eq)
qed

lemma closes_goalsD:
  assumes "closes_goals d d'"
  shows "goals_waits_only d d'" "closed_goals_kept d d'"
  using assms by (simp_all add: closes_goals_def)

lemma delete_one_shape:
  assumes inv: "db_inv d now" and run: "delete_one a now j d = Inr d'"
  obtains d2 where "d' = emit_trace_event (da_tenant_id a) j ''job_deleted'' ''job-deletion'' (da_now a)
      (hide (da_tenant_id a) j (da_now a) d2)"
    "keeps_history d d2" "job_facts d2 = job_facts d"
    "d2 = d \<and> find_job d (da_tenant_id a) j = None \<or> (\<exists>d1. jobs d1 = jobs d \<and>
      d2 = update_waiters (da_tenant_id a) [j] now (delete_job (da_tenant_id a) j d1))"
proof (cases "find_job d (da_tenant_id a) j")
  case None
  then show ?thesis using run by (intro that [of d]) (auto simp: delete_one_def Let_def)
next
  case (Some r)
  let ?t = "da_tenant_id a"
  from run Some obtain d1 where d1: "insert_archive (deleted_row r (da_now a)) now d = Inr d1"
    "d' = emit_trace_event ?t j ''job_deleted'' ''job-deletion'' (da_now a)
      (hide ?t j (da_now a) (update_waiters ?t [j] now (delete_job ?t j d1)))"
    by (auto simp: delete_one_def res_simps Let_def)
  let ?d2 = "update_waiters ?t [j] now (delete_job ?t j d1)"
  have key: "a_tenant_id (deleted_row r (da_now a)) = ?t" "a_job_id (deleted_row r (da_now a)) = j"
    using find_job_key [OF Some] by (simp_all add: deleted_row_def archive_of_def)
  have h: "keeps_history d d1" by (rule insert_archive_history [OF invD(1) [OF inv] _ d1(1)]) (simp add: key Some)
  have "keeps_history d1 ?d2" by (rule keeps_history_frame) (simp_all add: delete_job_def)
  with h have h2: "keeps_history d ?d2" by (rule keeps_history_trans)
  have "closes_goals (d\<lparr>jobs_archive := jobs_archive d @ [deleted_row r (da_now a)]\<rparr>) d1"
    using insert_archive_ok [OF invD(1) [OF inv] Some key, of now] d1(1) by auto
  note sel = goals_waits_only_sel [OF closes_goalsD(1) [OF this]]
  have "jobs d1 = jobs d" "job_facts ?d2 = job_facts d" by (simp_all add: sel delete_job_def)
  then show ?thesis using d1(2) h2 by (intro that [of ?d2]) auto
qed

lemma delete_one_other_fact:
  assumes "db_inv d now" "delete_one a now j d = Inr d'" "i \<noteq> j"
  shows "find_fact d' (da_tenant_id a) i = find_fact d (da_tenant_id a) i"
proof -
  from assms(1,2) obtain d2 where "d' = emit_trace_event (da_tenant_id a) j ''job_deleted'' ''job-deletion'' (da_now a)
      (hide (da_tenant_id a) j (da_now a) d2)" "job_facts d2 = job_facts d" by (rule delete_one_shape)
  then show ?thesis
    using assms(3) find_fact_hide [of "da_tenant_id a" j "da_now a" d2 "da_tenant_id a" i] by (simp add: find_fact_def)
qed

lemma delete_one_history:
  assumes inv: "db_inv d now" and vis: "\<And>f. find_fact d (da_tenant_id a) j = Some f \<Longrightarrow> f_hidden_at f = None"
    and run: "delete_one a now j d = Inr d'"
  shows "keeps_history d d'"
proof -
  let ?t = "da_tenant_id a"
  from inv run obtain d2 where d2: "d' = emit_trace_event ?t j ''job_deleted'' ''job-deletion'' (da_now a)
      (hide ?t j (da_now a) d2)" and h: "keeps_history d d2" "job_facts d2 = job_facts d" by (rule delete_one_shape)
  have "keeps_history d2 (hide ?t j (da_now a) d2)"
    using vis h(2) by (intro hide_history) (simp add: find_fact_def)
  with h(1) have "keeps_history d (hide ?t j (da_now a) d2)" by (rule keeps_history_trans)
  moreover have "keeps_history (hide ?t j (da_now a) d2) d'" unfolding d2 by (rule keeps_history_frame) simp_all
  ultimately show ?thesis by (rule keeps_history_trans)
qed

lemma delete_loop_history:
  assumes "db_inv d now" "distinct ids"
    "\<forall>j \<in> set ids. \<forall>f. find_fact d (da_tenant_id a) j = Some f \<longrightarrow> f_hidden_at f = None"
    "fold_res (delete_one a now) ids d = Inr d'"
  shows "keeps_history d d'"
  using assms
proof (induction ids arbitrary: d)
  case (Cons i ids)
  from Cons.prems(4) obtain d1 where d1: "delete_one a now i d = Inr d1" "fold_res (delete_one a now) ids d1 = Inr d'"
    by (auto simp: res_simps)
  have h: "keeps_history d d1" using delete_one_history [OF Cons.prems(1) _ d1(1)] Cons.prems(3) by auto
  note f = delete_one_other_fact [OF Cons.prems(1) d1(1)]
  have "db_inv d1 now" using delete_one_inv [OF Cons.prems(1), of a i] d1(1) by auto
  moreover have "\<forall>j \<in> set ids. \<forall>g. find_fact d1 (da_tenant_id a) j = Some g \<longrightarrow> f_hidden_at g = None"
  proof
    fix j assume "j \<in> set ids"
    then have "j \<noteq> i" "j \<in> set (i # ids)" using Cons.prems(2) by auto
    then show "\<forall>g. find_fact d1 (da_tenant_id a) j = Some g \<longrightarrow> f_hidden_at g = None"
      using Cons.prems(3) f by metis
  qed
  ultimately have "keeps_history d1 d'" using Cons.IH d1(2) Cons.prems(2) by simp
  then show ?case using h keeps_history_trans by blast
qed simp

lemma deletion_ids_ok:
  assumes "keys_ok d"
  shows "distinct (deletion_ids a d)"
    "\<forall>j \<in> set (deletion_ids a d). \<forall>f. find_fact d (da_tenant_id a) j = Some f \<longrightarrow> f_hidden_at f = None"
proof -
  have k: "distinct (map fact_key (job_facts d))" using assms by (simp add: keys_ok_def)
  then have inj: "inj_on fact_key (set (job_facts d))" by (simp add: distinct_map)
  have "inj_on f_job_id (set (filter (selected_for_deletion a) (job_facts d)))"
    using inj by (auto simp: inj_on_def fact_key_def selected_for_deletion_def)
  then show "distinct (deletion_ids a d)" using k by (simp add: deletion_ids_def distinct_map)
  show "\<forall>j \<in> set (deletion_ids a d). \<forall>f. find_fact d (da_tenant_id a) j = Some f \<longrightarrow> f_hidden_at f = None"
  proof (intro ballI allI impI)
    fix j f assume j: "j \<in> set (deletion_ids a d)" and f: "find_fact d (da_tenant_id a) j = Some f"
    from j obtain g where g: "g \<in> set (job_facts d)" "selected_for_deletion a g" "f_job_id g = j"
      by (auto simp: deletion_ids_def)
    have "f \<in> set (job_facts d)" "fact_key f = (da_tenant_id a, j)"
      using f by (auto simp: find_fact_def dest: row_at_SomeD)
    moreover have "fact_key g = (da_tenant_id a, j)" using g by (simp add: fact_key_def selected_for_deletion_def)
    ultimately have "f = g" using inj g(1) by (auto simp: inj_on_def)
    then show "f_hidden_at f = None" using g(2) by (simp add: selected_for_deletion_def)
  qed
qed

lemma delete_native_jobs_history:
  assumes "db_inv d now" "delete_native_jobs a now d = Inr (res, d')"
  shows "keeps_history d d'"
  using assms(2) delete_loop_history [OF assms(1) deletion_ids_ok [OF db_okD(1) [OF invD(1) [OF assms(1)]]]]
  by (auto simp: delete_native_jobs_def Let_def res_simps split: if_splits)

end
