(* ===== verification/Operator_Functions.thy ===== *)
theory Operator_Functions
  imports Job_History
begin

section \<open>The functions of an operator\<close>

text \<open>
  SQL functions that no Go code calls: the two switches, the threshold of crash concern, clearing the concern
  of a job, and \<^verbatim>\<open>archive_cancelled_jobs\<close>. And that no call leaves an active job marked as cancelled, so that
  the last of them finds nothing to do. A null \<^verbatim>\<open>p_worker_id\<close>, which two of them refuse, is not a value of the model, and a
  null limit or threshold is refused like zero.
\<close>

definition set_trace :: "bool \<Rightarrow> db \<Rightarrow> db" where
  "set_trace enabled d = d\<lparr>trace_enabled := enabled\<rparr>"

definition set_notify :: "bool \<Rightarrow> db \<Rightarrow> db" where
  "set_notify enabled d = d\<lparr>notify_enabled := enabled\<rparr>"

definition set_crash_concern_threshold :: "int \<Rightarrow> db \<Rightarrow> db res" where
  "set_crash_concern_threshold n d =
     (if n \<le> 0 then raise ''threshold must be positive'' else Inr (d\<lparr>crash_concern_threshold := n\<rparr>))"

definition clear_crash_concern :: "string \<Rightarrow> string \<Rightarrow> string \<Rightarrow> int \<Rightarrow> db \<Rightarrow> db res" where
  "clear_crash_concern t j worker now d =
     (case find_job d t j of
        None \<Rightarrow>
          if archived d t j
          then raise (''job_id '' @ job_name t j @ '' has already been archived and cannot clear crash concern'')
          else raise (''job_id '' @ job_name t j @ '' does not exist'')
      | Some r \<Rightarrow>
          if j_cancel_requested r then raise (''job '' @ job_name t j @ ''  is cancelled and cannot clear crash concern'')
          else Inr (emit_trace_event t j ''crash_concern_cleared'' worker now
            (update_job t j (\<lambda>r. r\<lparr>j_consecutive_expirations := 0\<rparr>) d)))"

subsection \<open>Archiving cancelled jobs\<close>

text \<open>
  One statement archives the rows, deletes them and writes the trace; the trigger \<^verbatim>\<open>_terminal_goals\<close> runs for each
  row when the statement ends. Then the waiters of recently archived jobs are updated, tenant by tenant. Rows
  created at the same time, and the tenants, come in the order of the table.
\<close>

definition cancelled_candidates :: "string list option \<Rightarrow> nat \<Rightarrow> (string \<times> string) set \<Rightarrow> int \<Rightarrow> db \<Rightarrow> job_row list" where
  "cancelled_candidates tenants limit locked now d =
     take limit (filter (\<lambda>j. job_key j \<notin> locked) (sort_key j_created_at (filter (\<lambda>j. j_cancel_requested j \<and>
       j_lease_expires_at j \<le> Finite now \<and>
       (case tenants of None \<Rightarrow> True | Some ts \<Rightarrow> ts = [] \<or> j_tenant_id j \<in> set ts)) (jobs d))))"

definition append_cancelled :: "int \<Rightarrow> job_row \<Rightarrow> db \<Rightarrow> db res" where
  "append_cancelled now j d =
     (if archived d (j_tenant_id j) (j_job_id j)
      then raise_code ''23505'' ''duplicate key value violates unique constraint jobs_archive_pkey''
      else Inr (d\<lparr>jobs_archive := jobs_archive d @ [archive_of j ''cancelled'' None now]\<rparr>))"

definition recently_cancelled :: "nat \<Rightarrow> db \<Rightarrow> (string \<times> string) list" where
  "recently_cancelled limit d = map archive_key (take limit (rev (sort_key a_created_at (rev (filter
     (\<lambda>a. a_cancel_requested a \<and> \<not> has_key job_key (archive_key a) (jobs d)) (jobs_archive d))))))"

definition archive_cancelled_jobs ::
  "string \<Rightarrow> string list option \<Rightarrow> int \<Rightarrow> (string \<times> string) set \<Rightarrow> int \<Rightarrow> db \<Rightarrow> (int \<times> db) res" where
  "archive_cancelled_jobs worker tenants limit locked now d =
     (if limit \<le> 0 then raise ''limit must be positive''
      else let rows = cancelled_candidates tenants (nat limit) locked now d in
      bind_res (fold_res (append_cancelled now) rows d) (\<lambda>d1.
      let d2 = fold (\<lambda>j d. emit_trace_event (j_tenant_id j) (j_job_id j) ''job_cancel_archived'' worker now d) rows
             (fold (\<lambda>j d. delete_job (j_tenant_id j) (j_job_id j) d) rows d1) in
      bind_res (fold_res (\<lambda>j d. terminal_goals (archive_of j ''cancelled'' None now) now d) rows d2) (\<lambda>d3.
      if rows = [] then Inr (0, d3)
      else let recent = recently_cancelled (nat limit) d3 in
        Inr (int (length rows), emit_trace_event ''pgjobdb'' ''archive_cancelled_jobs'' ''job_cancel_archived_run'' worker now
          (fold (\<lambda>t d. update_waiters t (map snd (filter (\<lambda>k. fst k = t) recent)) now d) (remdups (map fst recent)) d3)))))"

subsection \<open>No active job is marked as cancelled\<close>

definition cancelled_jobs :: "db \<Rightarrow> (string \<times> string) set" where
  "cancelled_jobs d = job_key ` {j \<in> set (jobs d). j_cancel_requested j}"

definition calm :: "db \<Rightarrow> db \<Rightarrow> bool" where
  "calm d d' \<longleftrightarrow> cancelled_jobs d' \<subseteq> cancelled_jobs d"

lemma calm_refl [simp]: "calm d d"
  by (simp add: calm_def)

lemma calm_trans: "calm a b \<Longrightarrow> calm b c \<Longrightarrow> calm a c"
  by (auto simp: calm_def)

lemma calm_frame: "jobs d' = jobs d \<Longrightarrow> calm d d'"
  by (simp add: calm_def cancelled_jobs_def)

lemma calm_map:
  assumes "\<And>j. job_key (f j) = job_key j" "\<And>j. j_cancel_requested (f j) = j_cancel_requested j"
  shows "calm d (d\<lparr>jobs := map f (jobs d)\<rparr>)"
  using assms by (auto simp: calm_def cancelled_jobs_def)

lemma calm_update:
  assumes "\<And>r. job_key (f r) = job_key r" "\<And>r. j_cancel_requested (f r) \<Longrightarrow> j_cancel_requested r"
  shows "calm d (update_job t j f d)"
  using assms by (fastforce simp: calm_def cancelled_jobs_def update_job_def dest: set_upd_atD)

lemma calm_waits: "waits_only d d' \<Longrightarrow> calm d d'"
  by (rule calm_frame) (simp add: waits_only_def)

lemma calm_trace: "calm d d1 \<Longrightarrow> calm d (emit_trace_event t j e w now d1)"
  by (simp add: calm_def cancelled_jobs_def)

lemma calm_closes: "closes_goals d d' \<Longrightarrow> calm d d'"
  by (rule calm_frame) (use closes_goalsD(1) goals_waits_only_sel in blast)

lemma calm_update_waiters: "calm d (update_waiters t ids now d)"
proof -
  have "j_cancel_requested (woken t ids now j) = j_cancel_requested j" "job_key (woken t ids now j) = job_key j" for j
    by (simp_all add: woken_def drop_waits_def job_key_def Let_def)
  moreover obtain ns where "update_waiters t ids now d = d\<lparr>jobs := map (woken t ids now) (jobs d), notifications := ns\<rparr>"
    using update_waiters_eq by blast
  ultimately show ?thesis by (auto simp: calm_def cancelled_jobs_def)
qed

lemma calm_delete_job: "cancelled_jobs (delete_job t j d) = cancelled_jobs d - {(t, j)}"
  by (auto simp: cancelled_jobs_def delete_job_def)

text \<open>A job that is completed leaves the table of active jobs, marked or not.\<close>

lemma complete_native_locked_job_calm:
  assumes ok: "db_ok d" and r: "find_job d t j = Some r"
    and run: "complete_native_locked_job r worker status detail kind retryable now d = Inr d'"
  shows "cancelled_jobs d' \<subseteq> cancelled_jobs d - {(t, j)}"
proof -
  have key: "j_tenant_id r = t" "j_job_id r = j" using find_job_key [OF r] by auto
  let ?a = "archive_of (r\<lparr>j_consecutive_expirations := 0\<rparr>) status detail now"
  have ak: "a_tenant_id ?a = t" "a_job_id ?a = j" by (simp_all add: archive_of_def key)
  from run r obtain d1 where d1: "insert_archive ?a now d = Inr d1"
    "d' = update_archive t j (finalize r kind retryable) (emit_trace_event t j ''job_finished'' worker now
       (update_waiters t [j] now (delete_job t j d1)))"
    by (auto simp: complete_native_locked_job_def complete_locked_job_def archive_and_delete_job_def key
        res_simps split: if_splits)
  from insert_archive_ok [OF ok r ak, of now] d1(1) have "calm (d\<lparr>jobs_archive := jobs_archive d @ [?a]\<rparr>) d1"
    by (auto intro: calm_closes)
  then have "cancelled_jobs d1 \<subseteq> cancelled_jobs d" by (simp add: calm_def cancelled_jobs_def)
  moreover have "cancelled_jobs d' = cancelled_jobs (update_waiters t [j] now (delete_job t j d1))"
    by (simp add: cancelled_jobs_def d1(2) update_archive_def)
  ultimately show ?thesis
    using calm_update_waiters [of "delete_job t j d1" t "[j]" now] calm_delete_job [of t j d1] by (auto simp: calm_def)
qed

lemma complete_native_locked_job_calm':
  "db_ok d \<Longrightarrow> find_job d t j = Some r \<Longrightarrow> complete_native_locked_job r worker status detail kind retryable now d = Inr d' \<Longrightarrow> calm d d'"
  using complete_native_locked_job_calm by (fastforce simp: calm_def)

subsection \<open>The operations\<close>

lemma update_client_payload_calm: "update_client_payload t j mode val expected d = Inr d' \<Longrightarrow> calm d d'"
  by (rule calm_frame) (simp add: update_client_payload_cols)

lemma complete_native_job_calm:
  assumes "db_ok d" "complete_native_job t j lease worker status detail kind retryable mode val expected now d = Inr d'"
  shows "calm d d'"
proof -
  from assms(2) obtain r d1 where r: "find_job d t j = Some r"
      "update_client_payload t j mode val expected d = Inr d1"
      "complete_native_locked_job r worker status detail kind retryable now d1 = Inr d'"
    by (auto simp: complete_native_job_def res_simps split: if_splits)
  have "db_ok d1" using update_client_payload_db_ok [OF r(2)] assms(1) by simp
  moreover have "find_job d1 t j = Some r" using r(1) update_client_payload_cols(6) [OF r(2)] by (simp add: find_job_def)
  ultimately have "calm d1 d'" using complete_native_locked_job_calm' r(3) by blast
  then show ?thesis using update_client_payload_calm [OF r(2)] calm_trans by blast
qed

lemma complete_native_unheld_job_calm:
  "db_ok d \<Longrightarrow> complete_native_unheld_job t j worker status detail kind retryable now d = Inr d' \<Longrightarrow> calm d d'"
  using complete_native_locked_job_calm' [of d t j]
  by (auto simp: complete_native_unheld_job_def res_simps split: if_splits)

lemma cancel_job_marks: "cancel_job t j worker now d = Inr d1 \<Longrightarrow> cancelled_jobs d1 \<subseteq> insert (t, j) (cancelled_jobs d)"
  by (auto simp: cancel_job_def cancelled_jobs_def update_job_def job_key_def split: option.splits if_splits
      dest!: set_upd_atD)

lemma cancel_native_job_calm:
  assumes "db_inv d now" "cancel_native_job t j worker reason now d = Inr d'"
  shows "calm d d'"
proof -
  from assms(2) obtain d1 r0 r where r: "cancel_job t j worker now d = Inr d1" "find_job d1 t j = Some r"
      "complete_native_locked_job r worker ''cancelled'' reason None (Some False) now d1 = Inr d'"
      "find_job d t j = Some r0"
    by (auto simp: cancel_native_job_def res_simps split: if_splits option.splits)
  have "db_inv d1 now" using cancel_job_ok [OF assms(1) r(4), of worker] r(1) by auto
  then have "cancelled_jobs d' \<subseteq> cancelled_jobs d1 - {(t, j)}"
    using complete_native_locked_job_calm [OF _ r(2,3)] invD(1) by blast
  then show ?thesis using cancel_job_marks [OF r(1)] by (auto simp: calm_def)
qed

lemma renew_native_lease_calm: "renew_native_lease t j lease worker secs now d = Inr (x, d') \<Longrightarrow> calm d d'"
  by (auto simp: renew_native_lease_def extend_lease_def res_simps Let_def job_key_def
    split: if_splits option.splits intro!: calm_trace calm_update)

lemma get_native_work_calm:
  assumes run: "get_native_work q locked lease now d = Inr (x, d')"
  shows "calm d d'"
proof -
  from run obtain d1 where d1: "expire_goal_waits (wq_tenant_ids q) now d = Inr d1"
    by (auto simp: get_native_work_def res_simps split: if_splits)
  then have c: "calm d d1" by (intro calm_waits expire_goal_waits_waits_only)
  show ?thesis
  proof (cases "pick d1 q locked now")
    case None
    then show ?thesis using run d1 c by (auto simp: get_native_work_def split: if_splits)
  next
    case (Some j)
    then have "d' = update_job (j_tenant_id j) (j_job_id j) (grant_lease lease (wq_worker_id q) (wq_lease_seconds q) now) d1"
      using run d1 by (auto simp: get_native_work_def Let_def split: if_splits)
    then show ?thesis by simp (rule calm_trans [OF c calm_update], simp_all)
  qed
qed

lemma claim_native_task_calm:
  assumes "claim_native_task t j worker c secs lease now d = Inr (x, d')"
  shows "calm d d'"
proof -
  from assms obtain d1 l w s where "waits_only d d1" "d' = update_job t j (claim_row l w s now) d1"
    by (auto simp: claim_native_task_def res_simps task_conflict_def split: if_splits option.splits
      dest!: expire_goal_waits_waits_only)
  then show ?thesis
    by simp (rule calm_trans [OF calm_waits calm_update], simp_all add: claim_row_def count_expiration_def job_key_def)
qed

lemma reschedule_native_job_calm:
  assumes "db_inv d now" "reschedule_native_job a v_now now d = Inr d'"
  shows "calm d d'"
  using assms(2)
proof (cases rule: reschedule_native_job_steps)
  case (1 r d1 d2 d3 waits)
  have i1: "db_inv d1 now" by (rule update_client_payload_inv [OF assms(1) 1(6)])
  have i2: "db_inv d2 now" using cancel_waits_inv [OF i1 1(7)] by simp
  have "calm d2 d3"
  proof (cases "ra_dependency_wait a")
    case (Some req)
    then have "waits_only d2 d3"
      using 1(8) register_wait_ok [OF db_okD(4,5) [OF invD(1) [OF i2]]] by (auto simp: registers_def)
    then show ?thesis by (rule calm_waits)
  qed (use 1(8) in simp)
  then have "calm d d3"
    using update_client_payload_calm [OF 1(6)] calm_waits [OF cancel_waits_waits_only [OF 1(7)]] calm_trans by blast
  then show ?thesis unfolding 1(10) by (rule calm_trans [OF _ calm_update]) (simp_all add: rescheduled_def job_key_def Let_def)
qed

lemma fail_goal_calm: "db_inv d now \<Longrightarrow> fail_goal t g m now d = Inr (info, d') \<Longrightarrow> calm d d'"
  using fail_goal_ok [OF db_okD(4,5) [OF invD(1)]] calm_closes by blast

lemma add_goal_candidate_calm:
  assumes "db_inv d now" "add_goal_candidate t g j now d = Inr (info, d')"
  shows "calm d d'"
proof (cases "d' = d")
  case False
  then have "new_candidate t g j now d = Inr d'"
    using assms(2) by (auto simp: add_goal_candidate_def goal_info_def res_simps split: option.splits if_splits)
  from new_candidate_ok [OF db_okD(4,5) [OF invD(1) [OF assms(1)]] this invD(2) [OF assms(1)]]
  have "calm (add_candidate_row t g j now d) d'" using calm_closes by blast
  moreover have "calm d (add_candidate_row t g j now d)" by (rule calm_frame) (simp add: add_candidate_row_def)
  ultimately show ?thesis using calm_trans by blast
qed simp

lemma prepare_job_calm: "prepare_job parse t j r prior sharing descr deps ng nj d = Inr (p, d') \<Longrightarrow> calm d d'"
  unfolding prepare_job_def Let_def by (auto simp: res_simps split: option.splits if_splits intro!: calm_frame)

lemma create_job_calm:
  assumes i: "db_inv d now" and goal: "(sa_tenant_id a, g) \<in> goal_key ` set (goals d)"
    and new: "find_fact d (sa_tenant_id a) (sa_job_id a) = None" and jt: "sa_job_type a \<noteq> ''''"
    and run: "create_job a g initial dg now d = Inr d'"
  shows "calm d d'"
  using run
proof (cases rule: create_job_steps)
  case (1 waits d5)
  let ?t = "sa_tenant_id a" and ?j = "sa_job_id a"
  let ?d3 = "add_job (facts_of a g now) (new_job_row a g waits now) (client_of a initial dg) d"
  note i3 = new_job_inv [OF i goal new jt, of waits initial dg]
  have "calm d ?d3" by (auto simp: calm_def cancelled_jobs_def add_job_def new_job_row_def Let_def)
  moreover have "calm ?d3 d5"
  proof (cases "sa_dependencies a = []")
    case False
    then obtain d4 where d4: "register_wait ?t ?j \<lparr>wr_waitId = ''submission'', wr_deadline = None,
        wr_dependencies = sa_dependencies a\<rparr> True now ?d3 = Inr d4"
      "d5 = update_job ?t ?j (\<lambda>r. r\<lparr>j_dependency_wait_id := Some ''submission''\<rparr>) d4"
      using 1(2) by (auto simp: submission_wait_def res_simps)
    have "waits_only ?d3 d4"
      using register_wait_ok [OF db_okD(4,5) [OF invD(1) [OF i3(1)]] d4(1)] by (auto simp: registers_def)
    then show ?thesis unfolding d4(2)
      by (intro calm_trans [OF calm_waits calm_update]) (simp_all add: job_key_def)
  qed (use 1(2) in \<open>simp add: submission_wait_def\<close>)
  moreover have "calm d5 d'" unfolding 1(3) by (rule calm_frame) (simp add: publish_def)
  ultimately show ?thesis using calm_trans by blast
qed

lemma submit_native_job_calm:
  assumes i: "db_inv d now" and run: "submit_native_job sha a new_goal now d = Inr (res, d')"
  shows "calm d d'"
proof (cases "find_fact d (sa_tenant_id a) (sa_job_id a)")
  case (Some e)
  then have "d' = d" using run by (auto simp: submit_native_job_def res_simps Let_def split: if_splits)
  then show ?thesis by simp
next
  case None
  then obtain g d1 initial dg where
    d1: "submission_goal a new_goal now d = Inr (g, d1)" "create_job a g initial dg now d1 = Inr d' \<or> d' = d1"
      "sa_job_type a \<noteq> ''''"
    using run by (auto simp: submit_native_job_def res_simps Let_def split: if_splits option.splits)
  note g = submission_goal_inv [OF i d1(1)]
  have "find_fact d1 (sa_tenant_id a) (sa_job_id a) = None" using None g by (simp add: find_fact_def)
  then have "calm d1 d'" using d1(2,3) g create_job_calm [of d1 now a g initial dg d'] by auto
  moreover have "jobs d1 = jobs d" using d1(1)
    by (auto simp: submission_goal_def goal_info_def res_simps Let_def split: if_splits option.splits)
  ultimately show ?thesis using calm_frame calm_trans by blast
qed

lemma delete_one_calm:
  assumes "db_inv d now" "delete_one a now j d = Inr d'"
  shows "calm d d'"
  using assms
proof (cases rule: delete_one_shape)
  case (1 d2)
  have "calm d d2" using 1(4)
  proof
    assume "\<exists>d1. jobs d1 = jobs d \<and> d2 = update_waiters (da_tenant_id a) [j] now (delete_job (da_tenant_id a) j d1)"
    then obtain d1 where d1: "jobs d1 = jobs d" "d2 = update_waiters (da_tenant_id a) [j] now (delete_job (da_tenant_id a) j d1)"
      by blast
    have "calm d1 (delete_job (da_tenant_id a) j d1)" by (auto simp: calm_def calm_delete_job)
    then show ?thesis unfolding d1(2) using calm_frame [OF d1(1)] calm_update_waiters calm_trans by blast
  qed simp
  moreover have "calm d2 d'" unfolding 1(1) by (rule calm_frame) (simp add: hide_def)
  ultimately show ?thesis by (rule calm_trans)
qed

lemma delete_loop_calm: "db_inv d now \<Longrightarrow> fold_res (delete_one a now) ids d = Inr d' \<Longrightarrow> calm d d'"
proof (induction ids arbitrary: d)
  case (Cons i ids)
  from Cons.prems(2) obtain d1 where d1: "delete_one a now i d = Inr d1" "fold_res (delete_one a now) ids d1 = Inr d'"
    by (auto simp: res_simps)
  have "db_inv d1 now" using delete_one_inv [OF Cons.prems(1), of a i] d1(1) by auto
  then show ?case using Cons.IH d1(2) delete_one_calm [OF Cons.prems(1) d1(1)] calm_trans by blast
qed simp

lemma delete_native_jobs_calm: "db_inv d now \<Longrightarrow> delete_native_jobs a now d = Inr (res, d') \<Longrightarrow> calm d d'"
  using delete_loop_calm by (auto simp: delete_native_jobs_def Let_def res_simps split: if_splits)

subsection \<open>The calls of an operator\<close>

lemma no_candidates: "cancelled_jobs d = {} \<Longrightarrow> cancelled_candidates tenants limit locked now d = []"
proof -
  assume "cancelled_jobs d = {}"
  then have "filter (\<lambda>j. j_cancel_requested j \<and> j_lease_expires_at j \<le> Finite now \<and>
      (case tenants of None \<Rightarrow> True | Some ts \<Rightarrow> ts = [] \<or> j_tenant_id j \<in> set ts)) (jobs d) = []"
    by (auto simp: cancelled_jobs_def filter_empty_conv)
  then show ?thesis by (simp add: cancelled_candidates_def)
qed

text \<open>With no active job marked as cancelled there is nothing to archive.\<close>

lemma nothing_to_archive:
  assumes "cancelled_jobs d = {}" "0 < limit"
  shows "archive_cancelled_jobs worker tenants limit locked now d = Inr (0, d)"
  using assms by (simp add: archive_cancelled_jobs_def no_candidates res_simps)

datatype operator_call =
    SetTrace bool
  | SetNotify bool
  | SetThreshold int
  | ClearCrashConcern string string string
  | ArchiveCancelled string "string list option" int "(string \<times> string) set"

text \<open>The database after a call; one that fails leaves it as it is.\<close>

fun operate :: "int \<Rightarrow> operator_call \<Rightarrow> db \<Rightarrow> db" where
  "operate now (SetTrace b) d = set_trace b d"
| "operate now (SetNotify b) d = set_notify b d"
| "operate now (SetThreshold n) d = (case set_crash_concern_threshold n d of Inl x \<Rightarrow> d | Inr d' \<Rightarrow> d')"
| "operate now (ClearCrashConcern t j worker) d = (case clear_crash_concern t j worker now d of Inl x \<Rightarrow> d | Inr d' \<Rightarrow> d')"
| "operate now (ArchiveCancelled worker tenants limit locked) d =
     (case archive_cancelled_jobs worker tenants limit locked now d of Inl x \<Rightarrow> d | Inr (n, d') \<Rightarrow> d')"

text \<open>The switches and the threshold are no part of what the invariant speaks of.\<close>

lemma settings_keep:
  assumes "d' = d\<lparr>trace_enabled := a, notify_enabled := b, crash_concern_threshold := n\<rparr>"
  shows "(db_inv d now \<longrightarrow> db_inv d' now) \<and> keeps_history d d' \<and> calm d d'"
proof (intro conjI impI)
  assume inv: "db_inv d now"
  have "db_ok d' \<longleftrightarrow> db_ok d" by (rule db_ok_cong) (simp_all add: assms)
  then show "db_inv d' now" by (intro inv_same_graph [OF inv]) (simp_all add: assms invD(1) [OF inv])
qed (auto intro: keeps_history_frame calm_frame simp: assms)

lemma clear_crash_concern_keeps:
  assumes inv: "db_inv d now'" and run: "clear_crash_concern t j worker now d = Inr d'"
  shows "db_inv d' now' \<and> keeps_history d d' \<and> calm d d'"
proof -
  let ?f = "\<lambda>r. r\<lparr>j_consecutive_expirations := 0 :: int\<rparr>"
  from run obtain r where r: "find_job d t j = Some r"
    "d' = emit_trace_event t j ''crash_concern_cleared'' worker now (update_job t j ?f d)"
    by (auto simp: clear_crash_concern_def split: option.splits if_splits)
  have "native_job_ok r" using db_okD(6) [OF invD(1) [OF inv]] r(1) by (auto simp: find_job_def dest: row_at_SomeD)
  moreover have "jobs_native_route_valid (?f r) = jobs_native_route_valid r" "lease_fields_ok (?f r) = lease_fields_ok r"
    "alternate_ok (?f r) = alternate_ok r" by (simp_all add: jobs_native_route_valid_def lease_fields_ok_def alternate_ok_def)
  ultimately have "native_job_ok (?f r)" by (simp add: native_job_ok_def)
  then have "db_inv (update_job t j ?f d) now'" by (intro update_job_inv [OF inv _ _ r(1)]) (simp_all add: job_key_def)
  moreover have "keeps_history (update_job t j ?f d) d'" unfolding r(2) by (rule keeps_history_frame) simp_all
  moreover have "calm d d'" unfolding r(2) by (intro calm_trace calm_update) (simp_all add: job_key_def)
  ultimately show ?thesis using update_job_history keeps_history_trans emit_trace_event_inv r(2) by blast
qed

lemma operate_keeps:
  assumes "db_inv d now'" "cancelled_jobs d = {}"
  shows "db_inv (operate now c d) now' \<and> keeps_history d (operate now c d) \<and> calm d (operate now c d)"
proof (cases c)
  case (SetTrace b)
  then show ?thesis using settings_keep [where d' = "operate now c d" and d = d and a = b and b = "notify_enabled d" and n = "crash_concern_threshold d"] assms(1)
    by (simp add: set_trace_def)
next
  case (SetNotify b)
  then show ?thesis using settings_keep [where d' = "operate now c d" and d = d and a = "trace_enabled d" and b = b and n = "crash_concern_threshold d"] assms(1)
    by (simp add: set_notify_def)
next
  case (SetThreshold n)
  then show ?thesis using settings_keep [where d' = "operate now c d" and d = d and a = "trace_enabled d" and b = "notify_enabled d" and n = n] assms(1)
    by (cases "n \<le> 0") (simp_all add: set_crash_concern_threshold_def raise_def)
next
  case (ClearCrashConcern t j w)
  then show ?thesis using clear_crash_concern_keeps [OF assms(1)] assms(1) by (auto split: sum.split)
next
  case (ArchiveCancelled w ts limit locked)
  then show ?thesis using nothing_to_archive [OF assms(2), of limit w ts locked now] assms(1)
    by (cases "limit \<le> 0") (simp_all add: archive_cancelled_jobs_def raise_def)
qed

end
