(* ===== verification/Schedules.thy ===== *)
theory Schedules
  imports Scheduler_Api Versioned
begin

section \<open>Schedules\<close>

text \<open>
  The durable schedule definitions: \<^verbatim>\<open>upsert_schedule\<close>, \<^verbatim>\<open>mutate_schedule\<close> and its three callers,
  \<^verbatim>\<open>get_schedule\<close> of \<^verbatim>\<open>pgjobdb.sql\<close> and the functions of \<^verbatim>\<open>schedules.go\<close> over them. Every accepted
  write raises the generation by one; a caller that names the generation it read writes only over that
  generation, and an archived schedule stays archived.
\<close>

subsection \<open>SQL\<close>

record upsert_args =
  ua_tenant_id :: string
  ua_schedule_id :: string
  ua_state :: schedule_state
  ua_spec_hash :: string
  ua_trigger :: json
  ua_target_job_type :: string
  ua_target_snapshot :: json
  ua_overlap_policy :: string
  ua_failure_policy :: json
  ua_next_fire_at :: "int option"
  ua_next_job_id :: "string option"
  ua_expected_generation :: "int option"

text \<open>The \<^verbatim>\<open>CHECK\<close> constraints of the table.\<close>

definition schedule_checked :: "schedule_row \<Rightarrow> bool" where
  "schedule_checked s \<longleftrightarrow> s_generation s > 0 \<and> s_spec_hash s \<noteq> '''' \<and> is_object (s_trigger s) \<and>
     s_target_job_type s \<noteq> '''' \<and> is_object (s_target_snapshot s) \<and> s_overlap_policy s \<noteq> '''' \<and>
     is_object (s_failure_policy s)"

definition upserted :: "upsert_args \<Rightarrow> int \<Rightarrow> schedule_row \<Rightarrow> schedule_row" where
  "upserted a now s = s\<lparr>s_state := ua_state a, s_generation := s_generation s + 1,
     s_spec_hash := ua_spec_hash a, s_trigger := ua_trigger a,
     s_target_job_type := ua_target_job_type a, s_target_snapshot := ua_target_snapshot a,
     s_overlap_policy := ua_overlap_policy a, s_failure_policy := ua_failure_policy a,
     s_next_fire_at := ua_next_fire_at a, s_next_job_id := ua_next_job_id a, s_updated_at := now\<rparr>"

definition new_schedule :: "upsert_args \<Rightarrow> int \<Rightarrow> schedule_row" where
  "new_schedule a now = \<lparr>s_tenant_id = ua_tenant_id a, s_schedule_id = ua_schedule_id a,
     s_state = ua_state a, s_generation = 1, s_spec_hash = ua_spec_hash a, s_trigger = ua_trigger a,
     s_target_job_type = ua_target_job_type a, s_target_snapshot = ua_target_snapshot a,
     s_overlap_policy = ua_overlap_policy a, s_failure_policy = ua_failure_policy a,
     s_next_fire_at = ua_next_fire_at a, s_next_job_id = ua_next_job_id a,
     s_created_at = now, s_updated_at = now\<rparr>"

definition put_schedule :: "schedule_row \<Rightarrow> db \<Rightarrow> (schedule_row \<times> db) res" where
  "put_schedule s d =
     (if \<not> schedule_checked s
      then raise_code ''23514'' ''new row for relation schedules violates check constraint''
      else Inr (s, d\<lparr>schedules := (if has_key schedule_key (schedule_key s) (schedules d)
                       then upd_at schedule_key (schedule_key s) (\<lambda>_. s) (schedules d)
                       else schedules d @ [s])\<rparr>))"

definition generation_differs :: "int option \<Rightarrow> schedule_row \<Rightarrow> bool" where
  "generation_differs expected s = (case expected of None \<Rightarrow> False | Some g \<Rightarrow> s_generation s \<noteq> g)"

definition upsert_schedule :: "upsert_args \<Rightarrow> int \<Rightarrow> db \<Rightarrow> (schedule_row \<times> db) res" where
  "upsert_schedule a now d =
     (if ua_state a \<notin> {ScheduleActive, SchedulePaused}
      then raise ''schedule upsert requires ACTIVE or PAUSED state''
      else if ua_state a = SchedulePaused \<and> (ua_next_fire_at a \<noteq> None \<or> ua_next_job_id a \<noteq> None)
      then raise ''paused schedule cannot have next fire state''
      else if (ua_next_fire_at a = None) \<noteq> (ua_next_job_id a = None)
      then raise ''next fire and next job id must be provided together''
      else case find_schedule d (ua_tenant_id a) (ua_schedule_id a) of
        Some s \<Rightarrow>
          if s_state s = ScheduleArchived then raise ''archived schedule cannot be updated''
          else if generation_differs (ua_expected_generation a) s then raise ''schedule generation mismatch''
          else put_schedule (upserted a now s) d
      | None \<Rightarrow>
          if ua_expected_generation a \<noteq> None then raise ''schedule generation mismatch''
          else put_schedule (new_schedule a now) d)"

definition mutated :: "schedule_state \<Rightarrow> int option \<Rightarrow> string option \<Rightarrow> int \<Rightarrow> schedule_row \<Rightarrow> schedule_row" where
  "mutated st fire job now s = s\<lparr>s_state := st, s_generation := s_generation s + 1,
     s_next_fire_at := fire, s_next_job_id := job, s_updated_at := now\<rparr>"

definition mutate_schedule :: "string \<Rightarrow> string \<Rightarrow> schedule_state \<Rightarrow> int option \<Rightarrow> string option \<Rightarrow>
   int option \<Rightarrow> int \<Rightarrow> db \<Rightarrow> (schedule_row \<times> db) res" where
  "mutate_schedule t i st fire job expected now d =
     (if st \<noteq> ScheduleActive \<and> (fire \<noteq> None \<or> job \<noteq> None)
      then raise ''inactive schedule cannot have next fire state''
      else if (fire = None) \<noteq> (job = None)
      then raise ''next fire and next job id must be provided together''
      else case find_schedule d t i of
        None \<Rightarrow> raise (''schedule '' @ t @ ''/'' @ i @ '' does not exist'')
      | Some s \<Rightarrow>
          if generation_differs expected s then raise ''schedule generation mismatch''
          else if s_state s = ScheduleArchived \<and> st \<noteq> ScheduleArchived
          then raise ''archived schedule cannot change state''
          else put_schedule (mutated st fire job now s) d)"

definition pause_schedule :: "string \<Rightarrow> string \<Rightarrow> int option \<Rightarrow> int \<Rightarrow> db \<Rightarrow> (schedule_row \<times> db) res" where
  "pause_schedule t i expected = mutate_schedule t i SchedulePaused None None expected"

definition resume_schedule :: "string \<Rightarrow> string \<Rightarrow> int option \<Rightarrow> string option \<Rightarrow> int option \<Rightarrow> int \<Rightarrow> db \<Rightarrow>
   (schedule_row \<times> db) res" where
  "resume_schedule t i fire job expected = mutate_schedule t i ScheduleActive fire job expected"

definition archive_schedule :: "string \<Rightarrow> string \<Rightarrow> int option \<Rightarrow> int \<Rightarrow> db \<Rightarrow> (schedule_row \<times> db) res" where
  "archive_schedule t i expected = mutate_schedule t i ScheduleArchived None None expected"

subsection \<open>Go\<close>

definition validateScheduleKey :: "string \<Rightarrow> string \<Rightarrow> unit go" where
  "validateScheduleKey tenant schedule =
     (if tenant = '''' \<or> schedule = ''''
      then Inl (Err ''pgjobdb: tenant id and schedule id are required'') else Inr ())"

definition validateNextFire :: "schedule_state \<Rightarrow> int option \<Rightarrow> string option \<Rightarrow> unit go" where
  "validateNextFire st fire job =
     (if (fire = None) \<noteq> (job = None) \<or> job = Some ''''
      then Inl (Err ''pgjobdb: next fire and next job id must be provided together'')
      else if st \<noteq> ScheduleActive \<and> fire \<noteq> None
      then Inl (Err ''pgjobdb: inactive schedule cannot have next fire state'')
      else Inr ())"

text \<open>The text of a state and back.\<close>

fun state_text :: "schedule_state \<Rightarrow> string" where
  "state_text ScheduleActive = ''ACTIVE''"
| "state_text SchedulePaused = ''PAUSED''"
| "state_text ScheduleArchived = ''ARCHIVED''"

definition state_of_text :: "string \<Rightarrow> schedule_state option" where
  "state_of_text s = find (\<lambda>st. state_text st = s) [ScheduleActive, SchedulePaused, ScheduleArchived]"

definition scanSchedule :: "schedule_row \<Rightarrow> Schedule" where
  "scanSchedule s = \<lparr>sc_TenantID = s_tenant_id s, sc_ScheduleID = s_schedule_id s, sc_State = s_state s,
     sc_Generation = s_generation s, sc_SpecHash = s_spec_hash s, sc_Trigger = s_trigger s,
     sc_TargetJobType = s_target_job_type s, sc_TargetSnapshot = s_target_snapshot s,
     sc_OverlapPolicy = s_overlap_policy s, sc_FailurePolicy = s_failure_policy s,
     sc_NextFireAt = map_option go_time (s_next_fire_at s), sc_NextJobID = s_next_job_id s,
     sc_CreatedAt = go_time (s_created_at s), sc_UpdatedAt = go_time (s_updated_at s)\<rparr>"

text \<open>
  The three documents are checked in the order a Go map yields them: any of the documents at fault
  may be the one the message names.
\<close>

definition bad_documents :: "UpsertScheduleRequest \<Rightarrow> string list" where
  "bad_documents req = map fst (filter (\<lambda>(name, raw). \<not> isJSONObject raw)
     [(''trigger'', us_Trigger req), (''target snapshot'', us_TargetSnapshot req),
      (''failure policy'', us_FailurePolicy req)])"

fun raw_value :: "raw_json \<Rightarrow> json" where
  "raw_value (RawJson v) = v"
| "raw_value _ = JNull"

definition upsert_request :: "lib \<Rightarrow> handle \<Rightarrow> nat \<Rightarrow> UpsertScheduleRequest \<Rightarrow> upsert_args go" where
  "upsert_request l h choice req =
     bind_res (validateScheduleDB h) (\<lambda>_.
     bind_res (validateScheduleKey (us_TenantID req) (us_ScheduleID req)) (\<lambda>_.
     case state_of_text (us_State req) of
       None \<Rightarrow> Inl (Err ''pgjobdb: schedule upsert requires ACTIVE or PAUSED state'')
     | Some st \<Rightarrow>
       if st = ScheduleArchived then Inl (Err ''pgjobdb: schedule upsert requires ACTIVE or PAUSED state'')
       else if us_SpecHash req = '''' \<or> \<not> validTypeName l (us_TargetJobType req) \<or> us_OverlapPolicy req = ''''
       then Inl (Err ''pgjobdb: schedule spec hash, target job type, and overlap policy are required'')
       else if bad_documents req \<noteq> []
       then Inl (Err (''pgjobdb: '' @ bad_documents req ! (choice mod length (bad_documents req)) @
              '' must be a JSON object''))
       else bind_res (validateNextFire st (us_NextFireAt req) (us_NextJobID req)) (\<lambda>_.
       if (case us_ExpectedGeneration req of None \<Rightarrow> False | Some g \<Rightarrow> g < 1)
       then Inl (Err ''pgjobdb: expected generation must be positive'')
       else Inr \<lparr>ua_tenant_id = us_TenantID req, ua_schedule_id = us_ScheduleID req, ua_state = st,
         ua_spec_hash = us_SpecHash req, ua_trigger = raw_value (us_Trigger req),
         ua_target_job_type = us_TargetJobType req,
         ua_target_snapshot = raw_value (us_TargetSnapshot req),
         ua_overlap_policy = us_OverlapPolicy req,
         ua_failure_policy = raw_value (us_FailurePolicy req),
         ua_next_fire_at = optionalTime l (us_NextFireAt req), ua_next_job_id = us_NextJobID req,
         ua_expected_generation = us_ExpectedGeneration req\<rparr>)))"

definition UpsertSchedule :: "lib \<Rightarrow> handle \<Rightarrow> env \<Rightarrow> UpsertScheduleRequest \<Rightarrow> db \<Rightarrow> Schedule go \<times> db" where
  "UpsertSchedule l h e req = on_request (upsert_request l h (e_choice e) req) (\<lambda>a d.
     and_then (call_sql e (upsert_schedule a (e_now e)) d) (\<lambda>s. Inr (scanSchedule s)))"

definition GetSchedule :: "handle \<Rightarrow> env \<Rightarrow> string \<Rightarrow> string \<Rightarrow> db \<Rightarrow> Schedule go \<times> db" where
  "GetSchedule h e tenant schedule =
     on_request (bind_res (validateScheduleDB h) (\<lambda>_. validateScheduleKey tenant schedule)) (\<lambda>_ d.
       and_then (call_sql e (reading (\<lambda>d. Inr (find_schedule d tenant schedule))) d)
         (\<lambda>row. no_rows_is ErrScheduleNotFound
            (case row of None \<Rightarrow> Inl NoRows | Some s \<Rightarrow> Inr (scanSchedule s))))"

definition mutateSchedule :: "lib \<Rightarrow> handle \<Rightarrow> env \<Rightarrow> ScheduleMutationRequest \<Rightarrow> schedule_state \<Rightarrow> db \<Rightarrow>
   Schedule go \<times> db" where
  "mutateSchedule l h e req st =
     on_request (bind_res (validateScheduleDB h) (\<lambda>_.
       bind_res (validateScheduleKey (sm_TenantID req) (sm_ScheduleID req)) (\<lambda>_.
       bind_res (validateNextFire st (sm_NextFireAt req) (sm_NextJobID req)) (\<lambda>_.
       if (case sm_ExpectedGeneration req of None \<Rightarrow> False | Some g \<Rightarrow> g < 1)
       then Inl (Err ''pgjobdb: expected generation must be positive'') else Inr ()))))
     (\<lambda>_ d. and_then (call_sql e
        (case st of
           SchedulePaused \<Rightarrow> pause_schedule (sm_TenantID req) (sm_ScheduleID req)
             (sm_ExpectedGeneration req) (e_now e)
         | ScheduleActive \<Rightarrow> resume_schedule (sm_TenantID req) (sm_ScheduleID req)
             (optionalTime l (sm_NextFireAt req)) (sm_NextJobID req) (sm_ExpectedGeneration req) (e_now e)
         | ScheduleArchived \<Rightarrow> archive_schedule (sm_TenantID req) (sm_ScheduleID req)
             (sm_ExpectedGeneration req) (e_now e)) d)
        (\<lambda>s. Inr (scanSchedule s)))"

definition PauseSchedule :: "lib \<Rightarrow> handle \<Rightarrow> env \<Rightarrow> ScheduleMutationRequest \<Rightarrow> db \<Rightarrow> Schedule go \<times> db" where
  "PauseSchedule l h e req = mutateSchedule l h e req SchedulePaused"

definition ResumeSchedule :: "lib \<Rightarrow> handle \<Rightarrow> env \<Rightarrow> ScheduleMutationRequest \<Rightarrow> db \<Rightarrow> Schedule go \<times> db" where
  "ResumeSchedule l h e req = mutateSchedule l h e req ScheduleActive"

definition ArchiveSchedule :: "lib \<Rightarrow> handle \<Rightarrow> env \<Rightarrow> ScheduleMutationRequest \<Rightarrow> db \<Rightarrow> Schedule go \<times> db" where
  "ArchiveSchedule l h e req = mutateSchedule l h e req ScheduleArchived"

subsection \<open>The schedule table\<close>

definition schedule_ok :: "schedule_row \<Rightarrow> bool" where
  "schedule_ok s \<longleftrightarrow> schedule_checked s \<and> (s_next_fire_at s = None \<longleftrightarrow> s_next_job_id s = None) \<and>
     (s_state s \<noteq> ScheduleActive \<longrightarrow> s_next_fire_at s = None)"

definition schedules_ok :: "db \<Rightarrow> bool" where
  "schedules_ok d \<longleftrightarrow> distinct (map schedule_key (schedules d)) \<and> (\<forall>s \<in> set (schedules d). schedule_ok s)"

text \<open>What a write does: one row, its key unchanged, everything else as before.\<close>

lemma put_schedule_Inr:
  assumes "put_schedule s d = Inr (r, d')"
  shows "r = s \<and> schedule_checked s \<and> d' = d\<lparr>schedules := schedules d'\<rparr> \<and>
    find_schedule d' t i = (if (t, i) = schedule_key s then Some s else find_schedule d t i)"
proof -
  have chk: "schedule_checked s" and r: "r = s"
    and d': "d' = d\<lparr>schedules := (if has_key schedule_key (schedule_key s) (schedules d)
                       then upd_at schedule_key (schedule_key s) (\<lambda>_. s) (schedules d)
                       else schedules d @ [s])\<rparr>"
    using assms by (auto simp: put_schedule_def res_simps)
  have upd: "row_at schedule_key (t, i) (upd_at schedule_key (schedule_key s) (\<lambda>_. s) xs) =
      (if (t, i) = schedule_key s then map_option (\<lambda>_. s) (row_at schedule_key (t, i) xs)
       else row_at schedule_key (t, i) xs)" for xs
    by (induction xs) (auto simp: upd_at_def)
  show ?thesis
  proof (cases "has_key schedule_key (schedule_key s) (schedules d)")
    case True
    then show ?thesis using chk r d' upd [of "schedules d"]
      by (auto simp: find_schedule_def has_key_def)
  next
    case False
    then show ?thesis using chk r d'
      by (auto simp: find_schedule_def has_key_def row_at_append split: option.splits)
  qed
qed

lemma put_schedule_ok:
  assumes "schedules_ok d" "put_schedule s d = Inr (r, d')" "schedule_ok s"
  shows "schedules_ok d'"
proof -
  have d': "schedules d' = (if has_key schedule_key (schedule_key s) (schedules d)
                       then upd_at schedule_key (schedule_key s) (\<lambda>_. s) (schedules d)
                       else schedules d @ [s])"
    using assms(2) by (auto simp: put_schedule_def res_simps)
  have keys: "map schedule_key (upd_at schedule_key (schedule_key s) (\<lambda>_. s) xs) = map schedule_key xs" for xs
    by (induction xs) (auto simp: upd_at_def)
  show ?thesis
  proof (cases "has_key schedule_key (schedule_key s) (schedules d)")
    case True
    then show ?thesis using assms(1,3) keys [of "schedules d"] d'
      by (auto simp: schedules_ok_def dest: set_upd_atD)
  next
    case False
    then show ?thesis using assms(1,3) d' by (auto simp: schedules_ok_def has_key_iff)
  qed
qed

text \<open>The two writes, by what they find.\<close>

lemma upsert_schedule_cases:
  assumes "upsert_schedule a now d = Inr (r, d')"
  obtains (insert) "find_schedule d (ua_tenant_id a) (ua_schedule_id a) = None"
      "ua_expected_generation a = None" "put_schedule (new_schedule a now) d = Inr (r, d')"
      "ua_state a \<noteq> ScheduleArchived" "ua_next_fire_at a = None \<longleftrightarrow> ua_next_job_id a = None"
      "ua_state a = SchedulePaused \<longrightarrow> ua_next_fire_at a = None"
  | (update) s where "find_schedule d (ua_tenant_id a) (ua_schedule_id a) = Some s"
      "s_state s \<noteq> ScheduleArchived" "\<not> generation_differs (ua_expected_generation a) s"
      "put_schedule (upserted a now s) d = Inr (r, d')"
      "ua_state a \<noteq> ScheduleArchived" "ua_next_fire_at a = None \<longleftrightarrow> ua_next_job_id a = None"
      "ua_state a = SchedulePaused \<longrightarrow> ua_next_fire_at a = None"
proof (cases "find_schedule d (ua_tenant_id a) (ua_schedule_id a)")
  case None
  then show thesis using assms insert by (auto simp: upsert_schedule_def res_simps)
next
  case (Some s)
  then show thesis using assms update by (auto simp: upsert_schedule_def res_simps)
qed

lemma mutate_schedule_cases:
  assumes "mutate_schedule t i st fire job expected now d = Inr (r, d')"
  obtains s where "find_schedule d t i = Some s" "\<not> generation_differs expected s"
    "s_state s = ScheduleArchived \<longrightarrow> st = ScheduleArchived"
    "put_schedule (mutated st fire job now s) d = Inr (r, d')"
    "fire = None \<longleftrightarrow> job = None" "st \<noteq> ScheduleActive \<longrightarrow> fire = None"
  using assms by (cases "find_schedule d t i") (auto simp: mutate_schedule_def res_simps)

lemma upserted_key [simp]: "schedule_key (upserted a now s) = schedule_key s"
  by (simp add: schedule_key_def upserted_def)

lemma mutated_key [simp]: "schedule_key (mutated st fire job now s) = schedule_key s"
  by (simp add: schedule_key_def mutated_def)

lemma find_schedule_key: "find_schedule d t i = Some s \<Longrightarrow> schedule_key s = (t, i) \<and> s \<in> set (schedules d)"
  by (auto simp: find_schedule_def dest: row_at_SomeD)

lemma schedule_state_cases: "st \<noteq> ScheduleArchived \<Longrightarrow> st \<noteq> ScheduleActive \<Longrightarrow> st = SchedulePaused"
  by (cases st) auto

lemma upsert_schedule_ok:
  assumes "schedules_ok d" "upsert_schedule a now d = Inr (r, d')"
  shows "schedules_ok d'"
  using assms(2)
proof (cases rule: upsert_schedule_cases)
  case insert
  have "schedule_checked (new_schedule a now)"
    using put_schedule_Inr [OF insert(3)] by simp
  then have "schedule_ok (new_schedule a now)"
    using insert schedule_state_cases by (auto simp: schedule_ok_def new_schedule_def)
  then show ?thesis by (rule put_schedule_ok [OF assms(1) insert(3)])
next
  case (update s)
  have "schedule_checked (upserted a now s)"
    using put_schedule_Inr [OF update(4)] by simp
  then have "schedule_ok (upserted a now s)"
    using update schedule_state_cases by (auto simp: schedule_ok_def upserted_def)
  then show ?thesis by (rule put_schedule_ok [OF assms(1) update(4)])
qed

lemma mutate_schedule_ok:
  assumes "schedules_ok d" "mutate_schedule t i st fire job expected now d = Inr (r, d')"
  shows "schedules_ok d'"
proof -
  from assms(2) obtain s where s: "put_schedule (mutated st fire job now s) d = Inr (r, d')"
    "fire = None \<longleftrightarrow> job = None" "st \<noteq> ScheduleActive \<longrightarrow> fire = None"
    by (rule mutate_schedule_cases)
  have "schedule_checked (mutated st fire job now s)" using put_schedule_Inr [OF s(1)] by simp
  then have "schedule_ok (mutated st fire job now s)"
    using s by (auto simp: schedule_ok_def mutated_def)
  then show ?thesis by (rule put_schedule_ok [OF assms(1) s(1)])
qed

subsection \<open>Generations\<close>

text \<open>An accepted write of a schedule, through either SQL function.\<close>

definition schedule_write :: "string \<times> string \<Rightarrow> int option \<Rightarrow> db \<Rightarrow> db \<Rightarrow> bool" where
  "schedule_write k expected d d' \<longleftrightarrow>
     (\<exists>a now r. (ua_tenant_id a, ua_schedule_id a) = k \<and> ua_expected_generation a = expected \<and>
        upsert_schedule a now d = Inr (r, d')) \<or>
     (\<exists>st fire job now r. mutate_schedule (fst k) (snd k) st fire job expected now d = Inr (r, d'))"

lemma new_schedule_sel [simp]:
  "schedule_key (new_schedule a now) = (ua_tenant_id a, ua_schedule_id a)"
  "s_generation (new_schedule a now) = 1"
  by (simp_all add: schedule_key_def new_schedule_def)

lemma written_sel [simp]:
  "s_generation (upserted a now s) = s_generation s + 1" "s_state (upserted a now s) = ua_state a"
  "s_generation (mutated st fire job now s) = s_generation s + 1" "s_state (mutated st fire job now s) = st"
  by (simp_all add: upserted_def mutated_def)

lemma put_schedule_row: "put_schedule s d = Inr (r, d') \<Longrightarrow> put_schedule s d = Inr (s, d')"
  using put_schedule_Inr by blast

lemma schedule_write_put:
  assumes "schedule_write k expected d d'"
  obtains (new) s where "find_schedule d (fst k) (snd k) = None" "expected = None" "schedule_key s = k"
      "put_schedule s d = Inr (s, d')" "s_generation s = 1"
  | (over) s0 s where "find_schedule d (fst k) (snd k) = Some s0" "\<not> generation_differs expected s0"
      "schedule_key s = k" "put_schedule s d = Inr (s, d')" "s_generation s = s_generation s0 + 1"
      "s_state s0 = ScheduleArchived \<longrightarrow> s_state s = ScheduleArchived"
  using assms unfolding schedule_write_def
proof (elim disjE exE conjE)
  fix a now r
  assume a: "(ua_tenant_id a, ua_schedule_id a) = k" "ua_expected_generation a = expected"
    "upsert_schedule a now d = Inr (r, d')"
  have k: "ua_tenant_id a = fst k" "ua_schedule_id a = snd k" using a(1) by auto
  from a(3) show thesis
  proof (cases rule: upsert_schedule_cases)
    case insert
    show thesis
      by (rule new [of "new_schedule a now", OF _ _ _ put_schedule_row [OF insert(3)]])
         (use insert(1,2) a(2) in \<open>simp_all add: k\<close>)
  next
    case (update s)
    show thesis
      by (rule over [of s "upserted a now s", OF _ _ _ put_schedule_row [OF update(4)]])
         (use update(1-3) a(2) find_schedule_key [OF update(1)] in \<open>simp_all add: k\<close>)
  qed
next
  fix st fire job now r
  assume m: "mutate_schedule (fst k) (snd k) st fire job expected now d = Inr (r, d')"
  from m obtain s where s: "find_schedule d (fst k) (snd k) = Some s" "\<not> generation_differs expected s"
    "s_state s = ScheduleArchived \<longrightarrow> st = ScheduleArchived"
    "put_schedule (mutated st fire job now s) d = Inr (r, d')"
    by (rule mutate_schedule_cases)
  show thesis
    by (rule over [of s "mutated st fire job now s", OF _ _ _ put_schedule_row [OF s(4)]])
       (use s(1-3) find_schedule_key [OF s(1)] in simp_all)
qed

interpretation generations: versioned_rows "\<lambda>d k. find_schedule d (fst k) (snd k)" s_generation
  "\<lambda>s. s_state s = ScheduleArchived" schedule_write
proof
  fix k expected d d' v
  assume w: "schedule_write k expected d d'" and v: "find_schedule d (fst k) (snd k) = Some v"
  from w show "\<exists>v'. find_schedule d' (fst k) (snd k) = Some v' \<and> s_generation v' = s_generation v + 1 \<and>
      (s_state v = ScheduleArchived \<longrightarrow> s_state v' = ScheduleArchived)"
  proof (cases rule: schedule_write_put)
    case (new s)
    then show ?thesis using v by simp
  next
    case (over s0 s)
    then show ?thesis using v put_schedule_Inr [OF over(4), of "fst k" "snd k"] by auto
  qed
next
  fix k g d d'
  assume w: "schedule_write k (Some g) d d'"
  then show "\<exists>v. find_schedule d (fst k) (snd k) = Some v \<and> s_generation v = g"
    by (cases rule: schedule_write_put) (auto simp: generation_differs_def)
next
  fix k expected d d' and k' :: "string \<times> string"
  assume w: "schedule_write k expected d d'" and other: "k' \<noteq> k"
  from w show "find_schedule d' (fst k') (snd k') = find_schedule d (fst k') (snd k')"
  proof (cases rule: schedule_write_put)
    case (new s)
    then show ?thesis using other put_schedule_Inr [OF new(4), of "fst k'" "snd k'"] by auto
  next
    case (over s0 s)
    then show ?thesis using other put_schedule_Inr [OF over(4), of "fst k'" "snd k'"] by auto
  qed
qed

end
