(* ===== verification/Schedule_Pages.thy ===== *)
theory Schedule_Pages
  imports Schedules Paging
begin

section \<open>Listing schedules\<close>

text \<open>
  \<^verbatim>\<open>list_schedules\<close> of \<^verbatim>\<open>pgjobdb.sql\<close> and \<^verbatim>\<open>ListSchedules\<close> of \<^verbatim>\<open>schedules.go\<close>. The page token binds the
  filters of the listing by their fingerprint; a token of another listing is refused.
\<close>

subsection \<open>SQL\<close>

record schedule_query =
  lq_tenant_id :: string
  lq_states :: "string list option"
  lq_target_job_types :: "string list option"
  lq_schedule_ids :: "string list option"

definition schedule_matches :: "schedule_query \<Rightarrow> schedule_row \<Rightarrow> bool" where
  "schedule_matches q s \<longleftrightarrow> s_tenant_id s = lq_tenant_id q \<and> any_of (lq_states q) (state_text (s_state s)) \<and>
     any_of (lq_target_job_types q) (s_target_job_type s) \<and> any_of (lq_schedule_ids q) (s_schedule_id s)"

definition schedule_order :: "schedule_row \<Rightarrow> int \<times> string" where
  "schedule_order s = (s_updated_at s, s_schedule_id s)"

definition schedule_page :: "schedule_query \<Rightarrow> (int \<times> string) option \<Rightarrow> nat \<Rightarrow> db \<Rightarrow> schedule_row list" where
  "schedule_page q c n d = take n (order_desc schedule_order
     (filter (\<lambda>s. schedule_matches q s \<and> before_cursor schedule_order c s) (schedules d)))"

definition list_schedules :: "schedule_query \<Rightarrow> int option \<Rightarrow> string option \<Rightarrow> int \<Rightarrow> db \<Rightarrow> schedule_row list res" where
  "list_schedules q before_at before_id limit d =
     (if limit < 1 \<or> limit > 1000 then raise ''schedule page limit must be between 1 and 1000''
      else if (before_at = None) \<noteq> (before_id = None)
      then raise ''schedule cursor fields must be provided together''
      else Inr (schedule_page q (case (before_at, before_id) of (Some a, Some b) \<Rightarrow> Some (a, b) | _ \<Rightarrow> None)
             (nat limit) d))"

subsection \<open>Go\<close>

definition scheduleFilterHash :: "lib \<Rightarrow> string \<Rightarrow> string list \<Rightarrow> string list \<Rightarrow> string list \<Rightarrow> string" where
  "scheduleFilterHash l tenant ids states types = l_filter_hash l [FText tenant, FTexts ids, FTexts states, FTexts types]"

text \<open>What the query needs beside the cursor: the filters, their fingerprint and the page size.\<close>

definition schedules_request :: "lib \<Rightarrow> handle \<Rightarrow> ListSchedulesOptions \<Rightarrow> (schedule_query \<times> string \<times> int) go" where
  "schedules_request l h opts =
     bind_res (validateScheduleDB h) (\<lambda>_.
     if ls_TenantID opts = '''' then Inl (Err ''pgjobdb: tenant id is required'')
     else let size = (if ls_PageSize opts = 0 then 100 else ls_PageSize opts) in
     if size < 1 \<or> size > 999 then Inl (Err ''pgjobdb: schedule page size must be between 1 and 999'')
     else if \<exists>st \<in> set (ls_States opts). state_of_text st = None
     then Inl (Err ''pgjobdb: invalid schedule state'')
     else let ids = sort (ls_ScheduleIDs opts); states = sort (ls_States opts);
              types = sort (ls_TargetJobTypes opts)
     in Inr (\<lparr>lq_tenant_id = ls_TenantID opts, lq_states = nilIfEmpty states,
          lq_target_job_types = nilIfEmpty types, lq_schedule_ids = nilIfEmpty ids\<rparr>,
        scheduleFilterHash l (ls_TenantID opts) ids states types, size))"

definition encodeScheduleCursor :: "lib \<Rightarrow> schedule_cursor \<Rightarrow> string option" where
  "encodeScheduleCursor l = encode_cursor (l_marshal_schedule l)"

definition decodeScheduleCursor :: "lib \<Rightarrow> string \<Rightarrow> schedule_cursor option" where
  "decodeScheduleCursor l = decode_cursor (l_unmarshal_schedule l)"

definition schedule_cursor_of :: "lib \<Rightarrow> string \<Rightarrow> string \<Rightarrow> (int \<times> string) option go" where
  "schedule_cursor_of l fingerprint token =
     (if token = '''' then Inr None
      else case decodeScheduleCursor l token of
        None \<Rightarrow> Inl (Err ''pgjobdb: invalid schedule page token'')
      | Some c \<Rightarrow>
          if kc_Filter c \<noteq> fingerprint \<or> IsZero (kc_UpdatedAt c) \<or> kc_ScheduleID c = ''''
          then Inl (Err ''pgjobdb: invalid schedule page token'')
          else Inr (Some (l_micros l (kc_UpdatedAt c), kc_ScheduleID c)))"

definition schedule_token :: "lib \<Rightarrow> string \<Rightarrow> Schedule \<Rightarrow> string go" where
  "schedule_token l fingerprint s =
     (case encodeScheduleCursor l \<lparr>kc_Filter = fingerprint, kc_UpdatedAt = sc_UpdatedAt s,
             kc_ScheduleID = sc_ScheduleID s\<rparr> of
        None \<Rightarrow> Inl (Err ''json: unsupported value'') | Some t \<Rightarrow> Inr t)"

definition ListSchedules :: "lib \<Rightarrow> handle \<Rightarrow> env \<Rightarrow> ListSchedulesOptions \<Rightarrow> db \<Rightarrow> ListSchedulesResult go \<times> db" where
  "ListSchedules l h e opts =
     on_request (bind_res (schedules_request l h opts) (\<lambda>(q, fp, size).
       bind_res (schedule_cursor_of l fp (ls_PageToken opts)) (\<lambda>c. Inr (q, fp, size, c))))
     (\<lambda>(q, fp, size, c) d.
       and_then (call_sql e (reading (list_schedules q (map_option fst c) (map_option snd c) (size + 1))) d)
         (\<lambda>rows. bind_res (page_cut (nat size) scanSchedule (schedule_token l fp) rows)
            (\<lambda>(items, token). Inr \<lparr>lsr_Schedules = items, lsr_NextPageToken = token\<rparr>)))"

subsection \<open>Every schedule once, newest first\<close>

definition all_schedules :: "schedule_query \<Rightarrow> db \<Rightarrow> schedule_row list" where
  "all_schedules q d = order_desc schedule_order (filter (schedule_matches q) (schedules d))"

interpretation schedule_pages: keyset_query schedules_ok all_schedules schedule_page schedule_order
  "\<lambda>k k'. k' < k"
proof
  fix d q
  assume "schedules_ok d"
  then have "distinct (map schedule_key (filter (schedule_matches q) (schedules d)))"
    by (simp add: schedules_ok_def distinct_map_filter)
  moreover have "schedule_key x = schedule_key y"
    if "schedule_order x = schedule_order y" "schedule_matches q x" "schedule_matches q y" for x y
    using that by (simp add: schedule_order_def schedule_key_def schedule_matches_def)
  ultimately have "distinct (map schedule_order (filter (schedule_matches q) (schedules d)))"
    by (rule distinct_finer_key [rotated]) auto
  then show "sorted_wrt (\<lambda>x y. schedule_order y < schedule_order x) (all_schedules q d)"
    unfolding all_schedules_def by (rule order_desc_strict)
next
  fix k k' :: "int \<times> string"
  show "k' < k \<Longrightarrow> \<not> k < k'" by simp
next
  fix q c n d
  show "schedule_page q c n d =
      take n (filter (\<lambda>r. case c of None \<Rightarrow> True | Some k \<Rightarrow> schedule_order r < k) (all_schedules q d))"
    unfolding schedule_page_def all_schedules_def filter_order_desc filter_filter before_cursor_def
    by (simp only: conj_commute)
qed

text \<open>
  What the listing relies on of \<^verbatim>\<open>encoding/json\<close>, for the keys of a database: the cursor of a key has a JSON
  text, and reading it gives the cursor back.
\<close>

definition schedule_cursors_ok :: "lib \<Rightarrow> string \<Rightarrow> (int \<times> string) set \<Rightarrow> bool" where
  "schedule_cursors_ok l fp S \<longleftrightarrow> (\<forall>(us, i) \<in> S. \<not> IsZero (go_time us) \<and>
     (\<exists>data. l_marshal_schedule l \<lparr>kc_Filter = fp, kc_UpdatedAt = go_time us, kc_ScheduleID = i\<rparr> = Some data \<and> data \<noteq> '''' \<and>
        l_unmarshal_schedule l data = Some \<lparr>kc_Filter = fp, kc_UpdatedAt = go_time us, kc_ScheduleID = i\<rparr>))"

definition list_schedules_call :: "lib \<Rightarrow> handle \<Rightarrow> env \<Rightarrow> ListSchedulesOptions \<Rightarrow> db \<Rightarrow> string \<Rightarrow>
   (Schedule list \<times> string) go" where
  "list_schedules_call l h e opts d token =
     bind_res (fst (ListSchedules l h e (opts\<lparr>ls_PageToken := token\<rparr>) d))
       (\<lambda>r. Inr (lsr_Schedules r, lsr_NextPageToken r))"

lemma schedules_request_token: "schedules_request l h (opts\<lparr>ls_PageToken := token\<rparr>) = schedules_request l h opts"
  by (cases opts) (simp only: schedules_request_def ListSchedulesOptions.update_convs
    ListSchedulesOptions.select_convs)

lemma schedules_request_size:
  "schedules_request l h opts = Inr (q, fp, sz) \<Longrightarrow> 1 \<le> sz \<and> sz \<le> 999"
  by (auto simp: schedules_request_def res_simps Let_def split: if_splits)

lemma list_schedules_call_page:
  assumes "schedules_request l h opts = Inr (q, fp, sz)" "e_link e = LinkUp"
    and "schedule_cursor_of l fp token = Inr c"
  shows "list_schedules_call l h e opts d token =
    page_cut (nat sz) scanSchedule (schedule_token l fp) (schedule_page q c (Suc (nat sz)) d)"
proof -
  have sz: "1 \<le> sz" "sz \<le> 999" using schedules_request_size [OF assms(1)] by auto
  have nat: "nat (sz + 1) = Suc (nat sz)" using sz by simp
  have "list_schedules q (map_option fst c) (map_option snd c) (sz + 1) d =
      Inr (schedule_page q c (Suc (nat sz)) d)"
    using sz by (cases c) (auto simp: list_schedules_def nat)
  then show ?thesis
    using assms by (simp add: list_schedules_call_def ListSchedules_def schedules_request_token on_request_def
      and_then_def call_sql_def reading_def bind_res_id)
qed

lemma schedules_collected:
  assumes req: "schedules_request l h opts = Inr (q, fp, sz)" and link: "e_link e = LinkUp"
    and ok: "schedules_ok d" and ids: "\<forall>s \<in> set (schedules d). s_schedule_id s \<noteq> ''''"
    and lib: "micros_exact l" "schedule_cursors_ok l fp (schedule_order ` set (schedules d))"
  shows "collect (list_schedules_call l h e opts d) (Suc (length (all_schedules q d))) '''' =
    Some (Inr (map scanSchedule (all_schedules q d)))"
proof (rule schedule_pages.collect_all [OF ok, where encode = "schedule_token l fp" and
      cursor = "\<lambda>t. case schedule_cursor_of l fp t of Inl _ \<Rightarrow> None | Inr c \<Rightarrow> Some c"])
  show "0 < nat sz" using schedules_request_size [OF req] by simp
  show "(case schedule_cursor_of l fp '''' of Inl _ \<Rightarrow> None | Inr c \<Rightarrow> Some c) = Some None"
    by (simp add: schedule_cursor_of_def)
next
  fix token c
  assume "(case schedule_cursor_of l fp token of Inl _ \<Rightarrow> None | Inr c \<Rightarrow> Some c) = Some c"
  then have "schedule_cursor_of l fp token = Inr c" by (auto split: sum.splits)
  then show "list_schedules_call l h e opts d token =
      page_cut (nat sz) scanSchedule (schedule_token l fp) (schedule_page q c (Suc (nat sz)) d)"
    by (rule list_schedules_call_page [OF req link])
next
  fix r
  assume r: "r \<in> set (all_schedules q d)"
  then have mem: "r \<in> set (schedules d)" by (simp add: all_schedules_def)
  let ?c = "\<lparr>kc_Filter = fp, kc_UpdatedAt = go_time (s_updated_at r), kc_ScheduleID = s_schedule_id r\<rparr>"
  have "schedule_order r \<in> schedule_order ` set (schedules d)" using mem by simp
  then obtain data where json: "\<not> IsZero (go_time (s_updated_at r))" "l_marshal_schedule l ?c = Some data"
      "l_unmarshal_schedule l data = Some ?c" "data \<noteq> []"
    using lib(2) unfolding schedule_cursors_ok_def schedule_order_def by fastforce
  obtain t where t: "encodeScheduleCursor l ?c = Some t" "decodeScheduleCursor l t = Some ?c" "t \<noteq> []"
    unfolding encodeScheduleCursor_def decodeScheduleCursor_def
    by (rule cursor_roundtrip [of "l_marshal_schedule l" ?c data "l_unmarshal_schedule l"]) (use json in auto)
  have "schedule_token l fp (scanSchedule r) = Inr t"
    using t(1) by (simp add: schedule_token_def scanSchedule_def)
  moreover have "schedule_cursor_of l fp t = Inr (Some (schedule_order r))"
    using t(2,3) json(1) ids mem lib(1) by (simp add: schedule_cursor_of_def schedule_order_def micros_exact_def)
  ultimately show "\<exists>token. schedule_token l fp (scanSchedule r) = Inr token \<and> token \<noteq> '''' \<and>
      (case schedule_cursor_of l fp token of Inl _ \<Rightarrow> None | Inr c \<Rightarrow> Some c) = Some (Some (schedule_order r))"
    using t(3) by auto
qed

end
