(* ===== verification/Service.thy ===== *)
theory Service
  imports Operator_Functions Schedule_Pages
begin

section \<open>The service over time\<close>

text \<open>
  The scheduler as a transition system. Its state is the database and a clock that never runs
  backwards; a step is one call of an exported Go function that writes, by any client, with any
  request, any outcome of the connection, any identifiers the server generates and any rows locked by
  concurrent transactions, or one call of an operator. Every reachable state is consistent, and no step rewrites history.
\<close>

subsection \<open>Systems that keep a good state\<close>

locale safe_system =
  fixes start :: "'s \<Rightarrow> bool"
    and step :: "'s \<Rightarrow> 's \<Rightarrow> bool"
    and good :: "'s \<Rightarrow> bool"
    and keeps :: "'s \<Rightarrow> 's \<Rightarrow> bool"
  assumes start_good: "start s \<Longrightarrow> good s"
    and step_good: "good s \<Longrightarrow> step s s' \<Longrightarrow> good s'"
    and step_keeps: "good s \<Longrightarrow> step s s' \<Longrightarrow> keeps s s'"
    and keeps_refl: "keeps s s"
    and keeps_trans: "keeps s s' \<Longrightarrow> keeps s' s'' \<Longrightarrow> keeps s s''"
begin

lemma run_good:
  assumes "step\<^sup>*\<^sup>* s s'" "good s"
  shows "good s'"
  using assms by (induction rule: rtranclp_induct) (auto intro: step_good)

lemma run_keeps:
  assumes "step\<^sup>*\<^sup>* s s'" "good s"
  shows "keeps s s'"
  using assms
proof (induction rule: rtranclp_induct)
  case base
  show ?case by (rule keeps_refl)
next
  case (step y z)
  then have "good y" using run_good by blast
  then show ?case using step step_keeps keeps_trans by blast
qed

lemma reached_good: "start s \<Longrightarrow> step\<^sup>*\<^sup>* s s' \<Longrightarrow> good s'"
  using run_good start_good by blast

lemma reached_keeps: "start s \<Longrightarrow> step\<^sup>*\<^sup>* s s1 \<Longrightarrow> step\<^sup>*\<^sup>* s1 s2 \<Longrightarrow> keeps s1 s2"
  using run_keeps reached_good by blast

end

subsection \<open>The calls that write\<close>

datatype api_call =
    SubmitJobCall SubmitJobRequest
  | GetWorkCall string WorkSelector GetWorkOptions
  | GetJobLeaseCall string string string WorkSelector GetJobLeaseOptions
  | KeepAliveLeaseCall env LeaseIdentity int
  | KeepAliveCall env JobLease int
  | CompleteJobCall LeaseIdentity Completion
  | CompleteCall "JobLease option" Completion
  | CompleteUnheldJobCall string string string Completion
  | CancelJobCall CancelJobRequest
  | RescheduleJobCall LeaseIdentity RescheduleRequest
  | RescheduleCall "JobLease option" RescheduleRequest
  | RescheduleUnheldJobCall string string string RescheduleRequest
  | ClaimTaskCall ClaimTaskRequest
  | PrepareJobCall JobPreparation
  | AddGoalCandidateCall string string string
  | FailGoalCall string string string
  | UpsertScheduleCall UpsertScheduleRequest
  | PauseScheduleCall ScheduleMutationRequest
  | ResumeScheduleCall ScheduleMutationRequest
  | ArchiveScheduleCall ScheduleMutationRequest
  | DeleteJobsCall DeleteJobsRequest

text \<open>The database after a call.\<close>

fun after_call :: "lib \<Rightarrow> handle \<Rightarrow> env \<Rightarrow> api_call \<Rightarrow> db \<Rightarrow> db" where
  "after_call l h e (SubmitJobCall req) d = snd (SubmitJob l h e req d)"
| "after_call l h e (GetWorkCall w sel opts) d = snd (GetWork l h e w sel opts d)"
| "after_call l h e (GetJobLeaseCall t j w sel opts) d = snd (GetJobLease l h e t j w sel opts d)"
| "after_call l h e (KeepAliveLeaseCall e' i additional) d = snd (KeepAliveLease h e e' i additional d)"
| "after_call l h e (KeepAliveCall e' lease additional) d = snd (KeepAlive h e e' lease additional d)"
| "after_call l h e (CompleteJobCall i c) d = snd (CompleteJob l h e i c d)"
| "after_call l h e (CompleteCall lease c) d = snd (Complete l h e lease c d)"
| "after_call l h e (CompleteUnheldJobCall t j w c) d = snd (CompleteUnheldJob h e t j w c d)"
| "after_call l h e (CancelJobCall req) d = snd (CancelJob h e req d)"
| "after_call l h e (RescheduleJobCall i req) d = snd (RescheduleJob l h e i req d)"
| "after_call l h e (RescheduleCall lease req) d = snd (Reschedule l h e lease req d)"
| "after_call l h e (RescheduleUnheldJobCall t j w req) d = snd (RescheduleUnheldJob l h e t j w req d)"
| "after_call l h e (ClaimTaskCall req) d = snd (ClaimTask l h e req d)"
| "after_call l h e (PrepareJobCall req) d = snd (PrepareJob l h e req d)"
| "after_call l h e (AddGoalCandidateCall t g j) d = snd (AddGoalCandidate l h e t g j d)"
| "after_call l h e (FailGoalCall t g m) d = snd (FailGoal l h e t g m d)"
| "after_call l h e (UpsertScheduleCall req) d = snd (UpsertSchedule l h e req d)"
| "after_call l h e (PauseScheduleCall req) d = snd (PauseSchedule l h e req d)"
| "after_call l h e (ResumeScheduleCall req) d = snd (ResumeSchedule l h e req d)"
| "after_call l h e (ArchiveScheduleCall req) d = snd (ArchiveSchedule l h e req d)"
| "after_call l h e (DeleteJobsCall req) d = snd (DeleteJobs l h e req d)"

record service =
  sv_db :: db
  sv_now :: int

inductive service_step :: "lib \<Rightarrow> service \<Rightarrow> service \<Rightarrow> bool" for l where
  call: "sv_now s \<le> e_now e \<Longrightarrow>
     service_step l s \<lparr>sv_db = after_call l h e c (sv_db s), sv_now = e_now e\<rparr>"
| operator: "sv_now s \<le> now \<Longrightarrow> service_step l s \<lparr>sv_db = operate now c (sv_db s), sv_now = now\<rparr>"

definition service_start :: "service \<Rightarrow> bool" where
  "service_start s \<longleftrightarrow> sv_db s = installed_db"

abbreviation service_reaches :: "lib \<Rightarrow> service \<Rightarrow> service \<Rightarrow> bool" where
  "service_reaches l \<equiv> (service_step l)\<^sup>*\<^sup>*"

subsection \<open>History\<close>

definition schedules_kept :: "db \<Rightarrow> db \<Rightarrow> bool" where
  "schedules_kept d d' \<longleftrightarrow> (\<forall>t i s. find_schedule d t i = Some s \<longrightarrow>
     (\<exists>s'. find_schedule d' t i = Some s' \<and> s_generation s \<le> s_generation s' \<and>
        (s_generation s' = s_generation s \<longrightarrow> s' = s) \<and>
        (s_state s = ScheduleArchived \<longrightarrow> s_state s' = ScheduleArchived)))"

definition history_kept :: "db \<Rightarrow> db \<Rightarrow> bool" where
  "history_kept d d' \<longleftrightarrow> closed_goals_kept d d' \<and> archives_kept d d' \<and> facts_kept d d' \<and> payloads_kept d d' \<and>
     schedules_kept d d'"

lemma schedules_kept_refl: "schedules_kept d d"
  by (simp add: schedules_kept_def)

lemma schedules_kept_trans:
  assumes "schedules_kept a b" "schedules_kept b c"
  shows "schedules_kept a c"
  unfolding schedules_kept_def
proof (intro allI impI)
  fix t i s assume "find_schedule a t i = Some s"
  then obtain s1 where s1: "find_schedule b t i = Some s1" "s_generation s \<le> s_generation s1"
    "s_generation s1 = s_generation s \<longrightarrow> s1 = s" "s_state s = ScheduleArchived \<longrightarrow> s_state s1 = ScheduleArchived"
    using assms(1) unfolding schedules_kept_def by blast
  then obtain s2 where "find_schedule c t i = Some s2" "s_generation s1 \<le> s_generation s2"
    "s_generation s2 = s_generation s1 \<longrightarrow> s2 = s1" "s_state s1 = ScheduleArchived \<longrightarrow> s_state s2 = ScheduleArchived"
    using assms(2) unfolding schedules_kept_def by blast
  then show "\<exists>s'. find_schedule c t i = Some s' \<and> s_generation s \<le> s_generation s' \<and>
      (s_generation s' = s_generation s \<longrightarrow> s' = s) \<and> (s_state s = ScheduleArchived \<longrightarrow> s_state s' = ScheduleArchived)"
    using s1 by auto
qed

lemma history_kept_refl: "history_kept d d"
  by (simp add: history_kept_def archives_kept_def facts_kept_refl payloads_kept_refl schedules_kept_refl)

lemma history_kept_trans: "history_kept a b \<Longrightarrow> history_kept b c \<Longrightarrow> history_kept a c"
  unfolding history_kept_def
  using closed_goals_kept_trans archives_kept_trans facts_kept_trans payloads_kept_trans schedules_kept_trans by metis

lemma keeps_history_kept: "keeps_history d d' \<Longrightarrow> history_kept d d'"
  by (simp add: keeps_history_def history_kept_def schedules_kept_def find_schedule_def)

lemma schedule_write_kept:
  assumes "schedule_write k expected d d'"
  shows "schedules_kept d d'"
  unfolding schedules_kept_def
proof (intro allI impI)
  fix t i s assume s: "find_schedule d t i = Some s"
  show "\<exists>s'. find_schedule d' t i = Some s' \<and> s_generation s \<le> s_generation s' \<and>
      (s_generation s' = s_generation s \<longrightarrow> s' = s) \<and> (s_state s = ScheduleArchived \<longrightarrow> s_state s' = ScheduleArchived)"
  proof (cases "(t, i) = k")
    case True
    then show ?thesis using generations.advance [OF assms, of s] s by auto
  next
    case False
    then show ?thesis using generations.frame [OF assms False] s by auto
  qed
qed

subsection \<open>A call keeps the state good\<close>

definition service_ok :: "int \<Rightarrow> db \<Rightarrow> bool" where
  "service_ok now d \<longleftrightarrow> db_inv d now \<and> schedules_ok d \<and> cancelled_jobs d = {}"

text \<open>A transaction over a good database ends in one, with the history kept.\<close>

definition advances :: "int \<Rightarrow> db \<Rightarrow> db \<Rightarrow> bool" where
  "advances now d d' \<longleftrightarrow> (service_ok now d \<longrightarrow> service_ok now d' \<and> history_kept d d')"

lemma advances_refl [simp]: "advances now d d"
  by (simp add: advances_def history_kept_refl)

lemma advancesI:
  assumes "db_inv d now \<Longrightarrow> db_inv d' now" "db_inv d now \<Longrightarrow> keeps_history d d'" "db_inv d now \<Longrightarrow> calm d d'"
  shows "advances now d d'"
  using assms by (auto simp: advances_def service_ok_def keeps_history_kept keeps_history_def schedules_ok_def calm_def)

lemma schedule_write_advances:
  assumes "schedule_write k expected d d'" "schedules_ok d \<Longrightarrow> schedules_ok d'"
  shows "advances now d d'"
proof -
  have "d' = d\<lparr>schedules := schedules d'\<rparr>"
    using assms(1) by (cases rule: schedule_write_put) (auto dest: put_schedule_Inr)
  then obtain ss where d': "d' = d\<lparr>schedules := ss\<rparr>" by blast
  have "db_ok d' \<longleftrightarrow> db_ok d" by (rule db_ok_cong) (simp_all add: d')
  then have "db_inv d' now" if "db_inv d now"
    using that by (intro inv_same_graph [OF that]) (simp_all add: d' invD(1) [OF that])
  moreover have "closed_goals_kept d d' \<and> archives_kept d d' \<and> facts_kept d d' \<and> payloads_kept d d'"
    by (simp add: d' closed_goals_kept_def archives_kept_def facts_kept_def find_goal_def find_archive_def find_fact_def
        payloads_kept_eq)
  ultimately show ?thesis
    using assms(2) schedule_write_kept [OF assms(1)]
    by (simp add: advances_def service_ok_def history_kept_def cancelled_jobs_def d')
qed

lemma upsert_schedule_advances: "upsert_schedule a now d = Inr (r, d') \<Longrightarrow> advances now' d d'"
  by (rule schedule_write_advances [of "(ua_tenant_id a, ua_schedule_id a)" "ua_expected_generation a"])
     (auto simp: schedule_write_def intro: upsert_schedule_ok)

lemma mutate_schedule_advances: "mutate_schedule t i st fire job g now d = Inr (r, d') \<Longrightarrow> advances now' d d'"
  by (rule schedule_write_advances [of "(t, i)" g])
     (auto simp: schedule_write_def intro: mutate_schedule_ok)

lemma snd_call_simps [simp]:
  "snd (on_request r k d) = (case r of Inl x \<Rightarrow> d | Inr a \<Rightarrow> snd (k a d))"
  "snd (map_err f x) = snd x" "snd (and_then y g) = snd y"
  by (simp_all add: on_request_def map_err_def and_then_def split: sum.split)

lemma call_sql_advances:
  assumes "\<And>x d'. f d = Inr (x, d') \<Longrightarrow> advances now d d'"
  shows "advances now d (snd (call_sql e f d))"
  using assms by (auto simp: call_sql_def split: link.split sum.split)

lemma on_request_advances:
  assumes "\<And>a. r = Inr a \<Longrightarrow> advances now d (snd (k a d))"
  shows "advances now d (snd (on_request r k d))"
  using assms by (simp split: sum.split)

lemma snd_reading [simp]: "snd (call_sql e (reading f) d) = d"
  by (auto simp: call_sql_def reading_def res_simps split: link.split sum.split)

lemma doing_InrD: "doing f d = Inr (x, d') \<Longrightarrow> f d = Inr d'"
  by (auto simp: doing_def res_simps)

lemma with_json_InrD: "bind_res (json_arg v) f = Inr y \<Longrightarrow> \<exists>c. f c = Inr y"
  by (auto simp: res_simps)

text \<open>The SQL functions, each as one transaction.\<close>

lemma submit_native_job_advances: "submit_native_job sha a g now d = Inr (res, d') \<Longrightarrow> advances now d d'"
  using submit_native_job_inv submit_native_job_history submit_native_job_calm by (intro advancesI) blast+

lemma get_native_work_advances: "get_native_work q locked lease now d = Inr (res, d') \<Longrightarrow> advances now d d'"
  using get_native_work_inv get_native_work_history get_native_work_calm by (intro advancesI) blast+

lemma renew_native_lease_advances: "renew_native_lease t j lease w secs now d = Inr (res, d') \<Longrightarrow> advances now d d'"
  using renew_native_lease_inv renew_native_lease_history renew_native_lease_calm by (intro advancesI) blast+

lemma complete_native_job_advances:
  assumes "complete_native_job t j lease w st detail kind retry mode val expected now d = Inr d'"
  shows "advances now d d'"
  by (rule advancesI) (erule complete_native_job_inv [OF _ assms], rule complete_native_job_history [OF invD(1) assms], assumption,
    rule complete_native_job_calm [OF invD(1) assms])

lemma complete_native_unheld_job_advances:
  assumes "complete_native_unheld_job t j w st detail kind retry now d = Inr d'"
  shows "advances now d d'"
  by (rule advancesI) (erule complete_native_unheld_job_inv [OF _ assms], rule complete_native_unheld_job_history [OF invD(1) assms], assumption,
    rule complete_native_unheld_job_calm [OF invD(1) assms])

lemma cancel_native_job_advances: "cancel_native_job t j w reason now d = Inr d' \<Longrightarrow> advances now d d'"
  using cancel_native_job_inv cancel_native_job_history cancel_native_job_calm by (intro advancesI) blast+

lemma reschedule_native_job_advances: "reschedule_native_job a wall now d = Inr d' \<Longrightarrow> advances now d d'"
  using reschedule_native_job_inv reschedule_native_job_history reschedule_native_job_calm by (intro advancesI) blast+

lemma claim_native_task_advances: "claim_native_task t j w c secs lease now d = Inr (res, d') \<Longrightarrow> advances now d d'"
  using claim_native_task_inv claim_native_task_history claim_native_task_calm by (intro advancesI) blast+

lemma prepare_job_advances:
  "prepare_job parse t j r prior sharing descr deps ng nj d = Inr (p, d') \<Longrightarrow> advances now d d'"
  using prepare_job_inv prepare_job_history prepare_job_calm by (intro advancesI) blast+

lemma add_goal_candidate_advances: "add_goal_candidate t g j now d = Inr (info, d') \<Longrightarrow> advances now d d'"
  using add_goal_candidate_inv add_goal_candidate_history add_goal_candidate_calm by (intro advancesI) blast+

lemma fail_goal_advances: "fail_goal t g m now d = Inr (info, d') \<Longrightarrow> advances now d d'"
  using fail_goal_inv fail_goal_history fail_goal_calm by (intro advancesI) blast+

lemma delete_native_jobs_advances: "delete_native_jobs a now d = Inr (res, d') \<Longrightarrow> advances now d d'"
  using delete_native_jobs_inv delete_native_jobs_history delete_native_jobs_calm by (intro advancesI) blast+

lemmas sql_advances = submit_native_job_advances get_native_work_advances renew_native_lease_advances
  complete_native_job_advances complete_native_unheld_job_advances cancel_native_job_advances
  reschedule_native_job_advances claim_native_task_advances prepare_job_advances
  add_goal_candidate_advances fail_goal_advances delete_native_jobs_advances
  upsert_schedule_advances mutate_schedule_advances

text \<open>The Go functions: whatever the request and the connection do.\<close>

lemma getWork_advances: "advances (e_now e) d (snd (getWork l h e w sel opts tt tj d))"
  unfolding getWork_def by (rule on_request_advances) (auto intro!: call_sql_advances intro: sql_advances)

lemma snd_ValidateLease [simp]: "snd (ValidateLease h e i d) = d"
  by (simp add: ValidateLease_def split: sum.split)

lemma KeepAliveLease_advances: "advances (e_now e) d (snd (KeepAliveLease h e e' i additional d))"
  unfolding KeepAliveLease_def
proof (rule on_request_advances)
  fix secs
  let ?r = "call_sql e (renew_native_lease (li_TenantID i) (li_JobID i) (li_LeaseID i) (li_WorkerID i) secs (e_now e)) d"
  have "advances (e_now e) d (snd ?r)" by (rule call_sql_advances) (rule renew_native_lease_advances)
  then show "advances (e_now e) d (snd (case ?r of (Inl x, d') \<Rightarrow> (Inl x, d') | (Inr _, d') \<Rightarrow> ValidateLease h e' i d'))"
    by (cases ?r) (auto split: sum.split)
qed

lemma CompleteJob_advances: "advances (e_now e) d (snd (CompleteJob l h e i c d))"
  unfolding CompleteJob_def
  by (rule on_request_advances)
     (auto intro!: call_sql_advances dest!: doing_InrD with_json_InrD intro: sql_advances)

lemma rescheduleJob_advances: "advances (e_now e) d (snd (rescheduleJob l h e i req d))"
  unfolding rescheduleJob_def
  by (rule on_request_advances)
     (auto intro!: call_sql_advances dest!: doing_InrD with_json_InrD intro: sql_advances)

lemma mutateSchedule_advances: "advances (e_now e) d (snd (mutateSchedule l h e req st d))"
  unfolding mutateSchedule_def
  by (rule on_request_advances)
     (auto intro!: call_sql_advances intro: sql_advances
       simp: pause_schedule_def resume_schedule_def archive_schedule_def split: schedule_state.splits)

lemma after_call_advances: "advances (e_now e) d (after_call l h e c d)"
proof (cases c)
  case (SubmitJobCall req)
  then show ?thesis unfolding SubmitJobCall after_call.simps SubmitJob_def
    by (intro on_request_advances) (auto intro!: call_sql_advances dest!: with_json_InrD intro: sql_advances)
next
  case (CompleteUnheldJobCall t j w cp)
  then show ?thesis unfolding CompleteUnheldJobCall after_call.simps CompleteUnheldJob_def
    by (intro on_request_advances) (auto intro!: call_sql_advances dest!: doing_InrD intro: sql_advances)
next
  case (CancelJobCall req)
  then show ?thesis unfolding CancelJobCall after_call.simps CancelJob_def
    by (intro on_request_advances) (auto intro!: call_sql_advances dest!: doing_InrD intro: sql_advances)
next
  case (RescheduleJobCall i req)
  then show ?thesis unfolding RescheduleJobCall after_call.simps RescheduleJob_def
    by (intro on_request_advances) (rule rescheduleJob_advances)
next
  case (RescheduleCall lease req)
  then show ?thesis unfolding RescheduleCall after_call.simps Reschedule_def RescheduleJob_def
    by (intro on_request_advances) (rule rescheduleJob_advances)
next
  case (RescheduleUnheldJobCall t j w req)
  then show ?thesis unfolding RescheduleUnheldJobCall after_call.simps RescheduleUnheldJob_def
    by (intro on_request_advances) (rule rescheduleJob_advances)
next
  case (ClaimTaskCall req)
  then show ?thesis unfolding ClaimTaskCall after_call.simps ClaimTask_def Let_def
    by (intro on_request_advances) (auto intro!: call_sql_advances intro: sql_advances)
next
  case (PrepareJobCall req)
  then show ?thesis unfolding PrepareJobCall after_call.simps PrepareJob_def goalQuery_def
    by (intro on_request_advances) (auto intro!: call_sql_advances intro: sql_advances split: sum.split)
next
  case (AddGoalCandidateCall t g j)
  then show ?thesis unfolding AddGoalCandidateCall after_call.simps AddGoalCandidate_def goalQuery_def
    by (intro on_request_advances) (auto intro!: call_sql_advances intro: sql_advances split: sum.split)
next
  case (FailGoalCall t g m)
  then show ?thesis unfolding FailGoalCall after_call.simps FailGoal_def goalQuery_def
    by (intro on_request_advances) (auto intro!: call_sql_advances intro: sql_advances split: sum.split)
next
  case (UpsertScheduleCall req)
  then show ?thesis unfolding UpsertScheduleCall after_call.simps UpsertSchedule_def
    by (intro on_request_advances) (auto intro!: call_sql_advances intro: sql_advances)
next
  case (DeleteJobsCall req)
  then show ?thesis unfolding DeleteJobsCall after_call.simps DeleteJobs_def
    by (intro on_request_advances) (auto intro!: call_sql_advances intro: sql_advances)
qed (simp_all add: GetWork_def GetJobLease_def KeepAlive_def Complete_def PauseSchedule_def ResumeSchedule_def
    ArchiveSchedule_def getWork_advances KeepAliveLease_advances CompleteJob_advances mutateSchedule_advances)

text \<open>The calls of an operator find no job marked as cancelled.\<close>

lemma operate_advances:
  assumes "service_ok now d"
  shows "advances now d (operate now c d)"
  using assms operate_keeps [of d now now c] by (intro advancesI) (auto simp: service_ok_def)

interpretation scheduler: safe_system service_start "service_step l"
  "\<lambda>s. service_ok (sv_now s) (sv_db s)" "\<lambda>s s'. history_kept (sv_db s) (sv_db s')" for l
proof
  show "service_ok (sv_now s) (sv_db s)" if "service_start s" for s
  proof -
    have "schedules_ok installed_db" by (simp add: schedules_ok_def installed_db_def)
    moreover have "cancelled_jobs installed_db = {}" by (simp add: cancelled_jobs_def installed_db_def)
    ultimately show ?thesis using that by (simp add: service_start_def service_ok_def inv_installed)
  qed
next
  fix s s' assume ok: "service_ok (sv_now s) (sv_db s)" and "service_step l s s'"
  have later: "service_ok now (sv_db s)" if "sv_now s \<le> now" for now
    using ok inv_later [OF _ that] by (simp add: service_ok_def)
  have "sv_now s \<le> sv_now s' \<and> advances (sv_now s') (sv_db s) (sv_db s')"
    using \<open>service_step l s s'\<close>
  proof cases
    case (call e h c)
    then show ?thesis using after_call_advances by simp
  next
    case (operator now c)
    then show ?thesis using operate_advances [OF later] by simp
  qed
  then show "service_ok (sv_now s') (sv_db s')" "history_kept (sv_db s) (sv_db s')"
    using later by (simp_all add: advances_def)
qed (auto intro: history_kept_refl history_kept_trans)

end
