(* ===== verification/Job_Listing.thy ===== *)
theory Job_Listing
  imports Scheduler_Invariant Scheduler_Api Paging
begin

section \<open>Reading and listing jobs\<close>

text \<open>
  The view \<^verbatim>\<open>native_jobs\<close> joins the facts of a job with its active or archived row. \<^verbatim>\<open>GetJob\<close> and
  \<^verbatim>\<open>GetJobStatus\<close> read one row of it; \<^verbatim>\<open>listJobs\<close> is the generic listing behind \<^verbatim>\<open>ListJobs\<close> and
  \<^verbatim>\<open>ListJobSummaries\<close>, which run \<^verbatim>\<open>list_native_jobs\<close> and the query of \<^verbatim>\<open>compact_job_lists.sql\<close>;
  \<^verbatim>\<open>ListScheduleRuns\<close> lists the jobs of one schedule.
\<close>

subsection \<open>The view\<close>

record native_row =
  n_fact :: fact_row
  n_source :: "job_row + archive_row"
  n_status :: JobStatus

definition active_native :: "db \<Rightarrow> int \<Rightarrow> fact_row \<Rightarrow> native_row option" where
  "active_native d now f = (case find_job d (f_tenant_id f) (f_job_id f) of
     None \<Rightarrow> None
   | Some j \<Rightarrow> if j_route_job_type j = None then None
       else Some \<lparr>n_fact = f, n_source = Inl j, n_status = job_status_at d j now\<rparr>)"

definition archived_status :: "archive_row \<Rightarrow> JobStatus" where
  "archived_status a = (if a_final_cancel_requested a = Some True \<or> a_completion_status a = ''cancelled''
     then CANCELLED else COMPLETED)"

definition archived_native :: "db \<Rightarrow> fact_row \<Rightarrow> native_row option" where
  "archived_native d f = (case find_archive d (f_tenant_id f) (f_job_id f) of
     None \<Rightarrow> None
   | Some a \<Rightarrow> if a_final_route_job_type a = None then None
       else Some \<lparr>n_fact = f, n_source = Inr a, n_status = archived_status a\<rparr>)"

definition native_jobs :: "db \<Rightarrow> int \<Rightarrow> native_row list" where
  "native_jobs d now = List.map_filter (active_native d now) (job_facts d) @
     List.map_filter (archived_native d) (job_facts d)"

definition n_key :: "native_row \<Rightarrow> job_key" where
  "n_key r = fact_key (n_fact r)"

fun store_of :: "job_row + archive_row \<Rightarrow> JobStore" where
  "store_of (Inl j) = StoreActive"
| "store_of (Inr a) = StoreArchived"

fun store_text :: "JobStore \<Rightarrow> string" where
  "store_text StoreActive = ''ACTIVE''"
| "store_text StoreArchived = ''ARCHIVED''"

fun status_text :: "JobStatus \<Rightarrow> string" where
  "status_text READY = ''READY''"
| "status_text EXPIRED = ''EXPIRED''"
| "status_text PENDING_JOBS = ''PENDING_JOBS''"
| "status_text AWAITING_FUTURE = ''AWAITING_FUTURE''"
| "status_text ACTIVE = ''ACTIVE''"
| "status_text CRASH_CONCERN = ''CRASH_CONCERN''"
| "status_text CANCELLED = ''CANCELLED''"
| "status_text COMPLETED = ''COMPLETED''"

definition known_status :: "string \<Rightarrow> bool" where
  "known_status s \<longleftrightarrow> s \<in> set (map status_text [READY, EXPIRED, PENDING_JOBS, AWAITING_FUTURE, ACTIVE,
     CRASH_CONCERN, CANCELLED, COMPLETED])"

subsection \<open>Decoding a row\<close>

definition text_or_empty :: "string option \<Rightarrow> string" where
  "text_or_empty v = (case v of None \<Rightarrow> '''' | Some s \<Rightarrow> s)"

definition other_goals :: "db \<Rightarrow> fact_row \<Rightarrow> string list" where
  "other_goals d f = sort (map gc_goal_id (filter (\<lambda>c. gc_tenant_id c = f_tenant_id f \<and> gc_job_id c = f_job_id f)
     (goal_candidates d)))"

text \<open>The two selects of the view, column by column: the active row and the archived row.\<close>

definition src :: "(job_row \<Rightarrow> 'a) \<Rightarrow> (archive_row \<Rightarrow> 'a) \<Rightarrow> native_row \<Rightarrow> 'a" where
  "src f g r = (case n_source r of Inl j \<Rightarrow> f j | Inr a \<Rightarrow> g a)"

definition detail_of :: "db \<Rightarrow> client_state_row \<Rightarrow> native_row \<Rightarrow> JobDetail" where
  "detail_of d c r = (let f = n_fact r in \<lparr>
     jd_GoalID = f_goal_id f, jd_OtherGoalIDs = other_goals d f,
     jd_TenantID = f_tenant_id f, jd_JobID = f_job_id f,
     jd_Store = store_of (n_source r), jd_Status = n_status r, jd_JobType = f_job_type f,
     jd_RouteJobType = text_or_empty (src j_route_job_type a_final_route_job_type r),
     jd_WorkKind = text_or_empty (src j_work_kind a_final_work_kind r),
     jd_TaskType = text_or_empty (src j_task_type a_final_task_type r),
     jd_ResumeJobType = text_or_empty (src j_resume_job_type a_final_resume_job_type r),
     jd_TaskInputOrdinal = src j_task_input_ordinal a_final_task_input_ordinal r,
     jd_TaskOutputOrdinal = src j_task_output_ordinal a_final_task_output_ordinal r,
     jd_TaskInputHash = text_or_empty (src j_task_input_hash a_final_task_input_hash r),
     jd_AlternateJobType = text_or_empty (src j_alternate_job_type a_final_alternate_job_type r),
     jd_AlternateTaskType = text_or_empty (src j_alternate_task_type a_final_alternate_task_type r),
     jd_AlternateAfterSeconds = src j_alternate_after a_final_alternate_after r,
     jd_AlternateAt = map_option go_time (src j_alternate_at a_final_alternate_at r),
     jd_WaitFor = src j_wait_for (\<lambda>a. case a_final_wait_for a of None \<Rightarrow> [] | Some xs \<Rightarrow> xs) r,
     jd_AvailableAt = src (\<lambda>j. go_time (j_available_at j))
       (\<lambda>a. case a_final_available_at a of None \<Rightarrow> zero_time | Some t \<Rightarrow> go_time t) r,
     jd_LeaseExpiresAt = src (\<lambda>j. go_tstz (j_lease_expires_at j))
       (\<lambda>a. case a_final_lease_expires_at a of None \<Rightarrow> None | Some t \<Rightarrow> go_tstz t) r,
     jd_LeaseWorkerID = text_or_empty (src j_lease_worker_id a_final_lease_worker_id r),
     jd_CancelRequested = src j_cancel_requested (\<lambda>a. a_final_cancel_requested a = Some True) r,
     jd_ClientPayload = c_client_payload c, jd_ClientPayloadRevision = c_revision c,
     jd_InitialPayloadDigest = c_initial_payload_digest c,
     jd_RunPolicy = f_run_policy f, jd_AppMetadata = f_app_metadata f,
     jd_SchemaHash = text_or_empty (f_schema_hash f), jd_ParentJobID = text_or_empty (f_parent_job_id f),
     jd_CreatedAt = go_time (f_created_at f), jd_ExpiresAt = go_tstz (f_expires_at f),
     jd_ArchivedAt = src (\<lambda>_. None) (\<lambda>a. Some (go_time (a_archived_at a))) r,
     jd_CompletionStatus = src (\<lambda>_. None) (\<lambda>a. Some (a_completion_status a)) r,
     jd_CompletionDetail = src (\<lambda>_. None) a_completion_detail r,
     jd_CompletionErrorKind = src (\<lambda>_. None) a_completion_error_kind r,
     jd_CompletionRetryable = src (\<lambda>_. None) a_completion_retryable r,
     jd_ScheduleID = text_or_empty (f_schedule_id f), jd_ScheduleGeneration = f_schedule_generation f,
     jd_ScheduleSpecHash = text_or_empty (f_schedule_spec_hash f),
     jd_ScheduledAt = map_option go_time (f_scheduled_at f),
     jd_ScheduleRunID = text_or_empty (f_schedule_run_id f),
     jd_ScheduleReason = text_or_empty (f_schedule_reason f), jd_ScheduleManual = f_schedule_manual f,
     jd_ScheduleBackfillID = text_or_empty (f_schedule_backfill_id f),
     jd_SchedulePreviousJobID = text_or_empty (f_schedule_previous_job_id f),
     jd_ScheduleFailureHistory = f_schedule_failure_history f \<rparr>)"

definition status_info_of :: "native_row \<Rightarrow> JobStatusInfo" where
  "status_info_of r = (let f = n_fact r in \<lparr>
     si_TenantID = f_tenant_id f, si_JobID = f_job_id f, si_Store = store_of (n_source r),
     si_Status = n_status r, si_JobType = f_job_type f, si_CreatedAt = go_time (f_created_at f),
     si_ArchivedAt = src (\<lambda>_. None) (\<lambda>a. Some (go_time (a_archived_at a))) r,
     si_CompletionStatus = src (\<lambda>_. None) (\<lambda>a. Some (a_completion_status a)) r,
     si_CompletionDetail = src (\<lambda>_. None) a_completion_detail r,
     si_CancelRequested = src j_cancel_requested (\<lambda>a. a_final_cancel_requested a = Some True) r \<rparr>)"

subsection \<open>Reading one job\<close>

text \<open>The view joined with the client state.\<close>

definition native_jobs_client :: "db \<Rightarrow> int \<Rightarrow> (native_row \<times> client_state_row) list" where
  "native_jobs_client d now = List.map_filter (\<lambda>r.
     map_option (Pair r) (find_client d (f_tenant_id (n_fact r)) (f_job_id (n_fact r)))) (native_jobs d now)"

definition get_native_job :: "string \<Rightarrow> string \<Rightarrow> int \<Rightarrow> db \<Rightarrow> (native_row \<times> client_state_row) option" where
  "get_native_job t j now d = find (\<lambda>(r, c). n_key r = (t, j)) (native_jobs_client d now)"

definition get_native_job_status :: "string \<Rightarrow> string \<Rightarrow> int \<Rightarrow> db \<Rightarrow> native_row option" where
  "get_native_job_status t j now d = find (\<lambda>r. n_key r = (t, j)) (native_jobs d now)"

definition job_id_request :: "handle \<Rightarrow> string \<Rightarrow> string \<Rightarrow> unit go" where
  "job_id_request h tenant job = bind_res (validateScheduleDB h) (\<lambda>_.
     if tenant = '''' \<or> job = '''' then Inl (Err ''pgjobdb: tenant id and job id are required'') else Inr ())"

definition GetJob :: "handle \<Rightarrow> env \<Rightarrow> string \<Rightarrow> string \<Rightarrow> db \<Rightarrow> JobDetail go \<times> db" where
  "GetJob h e tenant job = on_request (job_id_request h tenant job) (\<lambda>_ d.
     and_then (call_sql e (reading (\<lambda>d. Inr (get_native_job tenant job (e_now e) d))) d)
       (\<lambda>row. no_rows_is ErrJobNotFound
          (case row of None \<Rightarrow> Inl NoRows | Some (r, c) \<Rightarrow> Inr (detail_of d c r))))"

definition GetJobStatus :: "handle \<Rightarrow> env \<Rightarrow> string \<Rightarrow> string \<Rightarrow> db \<Rightarrow> JobStatusInfo go \<times> db" where
  "GetJobStatus h e tenant job = on_request (job_id_request h tenant job) (\<lambda>_ d.
     and_then (call_sql e (reading (\<lambda>d. Inr (get_native_job_status tenant job (e_now e) d))) d)
       (\<lambda>row. no_rows_is ErrJobNotFound
          (case row of None \<Rightarrow> Inl NoRows | Some r \<Rightarrow> Inr (status_info_of r))))"

subsection \<open>The listing query\<close>

record job_query =
  q_tenant_ids :: "string list"
  q_statuses :: "string list option"
  q_stores :: "string list option"
  q_job_types :: "string list option"
  q_task_selectors :: "(string \<times> string) list"
  q_job_keys :: "(string \<times> string) list"
  q_parent_job_ids :: "string list option"
  q_root_only :: bool
  q_predicates :: "MetadataPredicate list"
  q_created_after :: "int option"
  q_created_before :: "int option"
  q_available_routes :: "(string \<times> string) list"
  q_now :: int
  q_include_hidden :: bool
  q_goal_ids :: "string list option"

definition goal_listed :: "db \<Rightarrow> job_query \<Rightarrow> fact_row \<Rightarrow> bool" where
  "goal_listed d q f = (case q_goal_ids q of None \<Rightarrow> True
     | Some gs \<Rightarrow> f_goal_id f \<in> set gs \<or> (\<exists>c \<in> set (goal_candidates d). gc_tenant_id c = f_tenant_id f \<and>
         gc_job_id c = f_job_id f \<and> gc_goal_id c \<in> set gs))"

definition route_available :: "db \<Rightarrow> job_query \<Rightarrow> job_row \<Rightarrow> bool" where
  "route_available d q j \<longleftrightarrow> job_status_at d j (q_now q) = READY \<and>
     (let er = effective_native_route j (q_now q) in
      \<exists>(jt, tt) \<in> set (q_available_routes q). er_job_type er = Some jt \<and> text_or_empty (er_task_type er) = tt)"

text \<open>The conditions both queries share; \<open>status\<close> is the status the query sees of the row.\<close>

definition types_listed :: "job_query \<Rightarrow> native_row \<Rightarrow> bool" where
  "types_listed q r \<longleftrightarrow> (q_job_types q = None \<and> q_task_selectors q = []) \<or>
     (case q_job_types q of None \<Rightarrow> False | Some ts \<Rightarrow> f_job_type (n_fact r) \<in> set ts) \<or>
     (src j_work_kind a_final_work_kind r = Some ''TASK'' \<and>
      (\<exists>(jt, tt) \<in> set (q_task_selectors q). src j_route_job_type a_final_route_job_type r = Some jt \<and>
         src j_task_type a_final_task_type r = Some tt))"

definition common_listed :: "db \<Rightarrow> job_query \<Rightarrow> native_row \<Rightarrow> bool" where
  "common_listed d q r \<longleftrightarrow> (let f = n_fact r in
     f_tenant_id f \<in> set (q_tenant_ids q) \<and> goal_listed d q f \<and>
     (q_include_hidden q \<or> f_hidden_at f = None) \<and>
     any_of (q_stores q) (store_text (store_of (n_source r))) \<and> types_listed q r \<and>
     (q_job_keys q = [] \<or> (f_tenant_id f, f_job_id f) \<in> set (q_job_keys q)) \<and>
     (case q_parent_job_ids q of None \<Rightarrow> True
      | Some ps \<Rightarrow> (case f_parent_job_id f of None \<Rightarrow> False | Some p \<Rightarrow> p \<in> set ps)) \<and>
     (q_root_only q \<longrightarrow> f_parent_job_id f = None) \<and>
     metadata_matches (f_app_metadata f) (q_predicates q) \<and>
     (case q_created_after q of None \<Rightarrow> True | Some t \<Rightarrow> t < f_created_at f) \<and>
     (case q_created_before q of None \<Rightarrow> True | Some t \<Rightarrow> f_created_at f < t))"

definition n_order :: "native_row \<Rightarrow> int \<times> string \<times> string" where
  "n_order r = (f_created_at (n_fact r), f_tenant_id (n_fact r), f_job_id (n_fact r))"

text \<open>\<^verbatim>\<open>list_native_jobs\<close>: with a set of routes every row listed is ready on one of them.\<close>

definition native_listed :: "db \<Rightarrow> job_query \<Rightarrow> native_row \<Rightarrow> bool" where
  "native_listed d q r \<longleftrightarrow> common_listed d q r \<and>
     (let offered = (q_available_routes q \<noteq> []) in
      any_of (q_statuses q) (if offered then ''READY'' else status_text (n_status r)) \<and>
      (offered \<longrightarrow> (case find_job d (f_tenant_id (n_fact r)) (f_job_id (n_fact r)) of
         None \<Rightarrow> False | Some j \<Rightarrow> route_available d q j)))"

definition native_item :: "job_query \<Rightarrow> native_row \<times> client_state_row \<Rightarrow> native_row \<times> client_state_row" where
  "native_item q rc = (if q_available_routes q \<noteq> [] then ((fst rc)\<lparr>n_status := READY\<rparr>, snd rc) else rc)"

definition native_page :: "job_query \<times> int \<Rightarrow> (int \<times> string \<times> string) option \<Rightarrow> nat \<Rightarrow> db \<Rightarrow>
   (native_row \<times> client_state_row) list" where
  "native_page qn c n d = map (native_item (fst qn)) (take n (order_desc (\<lambda>rc. n_order (fst rc))
     (filter (\<lambda>rc. native_listed d (fst qn) (fst rc) \<and> before_cursor (\<lambda>rc. n_order (fst rc)) c rc)
       (native_jobs_client d (snd qn)))))"

definition cursor_fields :: "'a option \<Rightarrow> 'b option \<Rightarrow> 'c option \<Rightarrow> ('a \<times> 'b \<times> 'c) option" where
  "cursor_fields a b c = (case (a, b, c) of (Some x, Some y, Some z) \<Rightarrow> Some (x, y, z) | _ \<Rightarrow> None)"

definition list_native_jobs :: "job_query \<Rightarrow> int option \<Rightarrow> string option \<Rightarrow> string option \<Rightarrow> int \<Rightarrow> int \<Rightarrow> db \<Rightarrow>
   (native_row \<times> client_state_row) list res" where
  "list_native_jobs q before_created before_tenant before_job limit now d =
     (if q_tenant_ids q = [] then raise ''tenant ids are required''
      else if limit < 1 \<or> limit > 1000 then raise ''job page limit must be between 1 and 1000''
      else if q_root_only q \<and> q_parent_job_ids q \<noteq> None
      then raise ''root-only and parent job filters cannot be combined''
      else if (before_created = None) \<noteq> (before_tenant = None) \<or> (before_created = None) \<noteq> (before_job = None)
      then raise ''job cursor fields must be provided together''
      else Inr (native_page (q, now) (cursor_fields before_created before_tenant before_job) (nat limit) d))"

subsection \<open>The compact query\<close>

text \<open>
  \<^verbatim>\<open>compact_job_lists.sql\<close> reads the same rows with every status taken at \<^verbatim>\<open>p_now\<close>, and joins the
  client state and the blocking wait after the page is cut.
\<close>

definition compact_listed :: "db \<Rightarrow> job_query \<Rightarrow> native_row \<Rightarrow> bool" where
  "compact_listed d q r \<longleftrightarrow> common_listed d q r \<and> any_of (q_statuses q) (status_text (n_status r)) \<and>
     (q_available_routes q \<noteq> [] \<longrightarrow> (case n_source r of
        Inr a \<Rightarrow> False
      | Inl j \<Rightarrow> n_status r = READY \<and> (let er = effective_native_route j (q_now q) in
          \<exists>(jt, tt) \<in> set (q_available_routes q). er_job_type er = Some jt \<and> text_or_empty (er_task_type er) = tt)))"

record summary_row =
  m_row :: native_row
  m_client :: client_state_row
  m_wait :: "(string \<times> int option) option"

definition blocking_wait :: "db \<Rightarrow> job_query \<Rightarrow> native_row \<Rightarrow> (string \<times> int option) option" where
  "blocking_wait d q r = (case n_source r of
     Inr a \<Rightarrow> None
   | Inl j \<Rightarrow> if j_cancel_requested j then None
       else (case j_dependency_wait_id j of None \<Rightarrow> None
         | Some i \<Rightarrow> (case find_wait d (j_tenant_id j) (j_job_id j) i of
             None \<Rightarrow> None
           | Some w \<Rightarrow> if w_state w = WaitPending \<and>
                 (case w_deadline w of None \<Rightarrow> True | Some x \<Rightarrow> x > q_now q)
               then Some (i, w_deadline w) else None)))"

definition compact_page :: "job_query \<Rightarrow> (int \<times> string \<times> string) option \<Rightarrow> nat \<Rightarrow> db \<Rightarrow> summary_row list" where
  "compact_page q c n d = List.map_filter
     (\<lambda>r. map_option (\<lambda>cl. \<lparr>m_row = r, m_client = cl, m_wait = blocking_wait d q r\<rparr>)
        (find_client d (f_tenant_id (n_fact r)) (f_job_id (n_fact r))))
     (take n (order_desc n_order (filter (\<lambda>r. compact_listed d q r \<and> before_cursor n_order c r)
        (native_jobs d (q_now q)))))"

record JobListSummary =
  jm_TenantID :: string
  jm_JobID :: string
  jm_GoalID :: string
  jm_Store :: JobStore
  jm_Status :: JobStatus
  jm_JobType :: string
  jm_RouteJobType :: string
  jm_WorkKind :: string
  jm_TaskType :: string
  jm_ResumeJobType :: string
  jm_TaskInputOrdinal :: "int option"
  jm_TaskOutputOrdinal :: "int option"
  jm_TaskInputHash :: string
  jm_RunPolicy :: RunPolicy
  jm_WaitFor :: "string list"
  jm_AppMetadata :: json
  jm_SchemaHash :: string
  jm_ParentJobID :: string
  jm_CreatedAt :: int
  jm_AvailableAt :: int
  jm_ExpiresAt :: "int option"
  jm_LeaseExpiresAt :: "int option"
  jm_ArchivedAt :: "int option"
  jm_CancelRequested :: bool
  jm_CompletionStatus :: "string option"
  jm_CompletionDetail :: "string option"
  jm_ClientPayload :: "client_json option"
  jm_ClientPayloadRevision :: int
  jm_BlockingWaitSummary :: "(string \<times> int option) option"

definition summary_of :: "summary_row \<Rightarrow> JobListSummary" where
  "summary_of m = (let r = m_row m; f = n_fact r in \<lparr>
     jm_TenantID = f_tenant_id f, jm_JobID = f_job_id f, jm_GoalID = f_goal_id f,
     jm_Store = store_of (n_source r), jm_Status = n_status r, jm_JobType = f_job_type f,
     jm_RouteJobType = text_or_empty (src j_route_job_type a_final_route_job_type r),
     jm_WorkKind = text_or_empty (src j_work_kind a_final_work_kind r),
     jm_TaskType = text_or_empty (src j_task_type a_final_task_type r),
     jm_ResumeJobType = text_or_empty (src j_resume_job_type a_final_resume_job_type r),
     jm_TaskInputOrdinal = src j_task_input_ordinal a_final_task_input_ordinal r,
     jm_TaskOutputOrdinal = src j_task_output_ordinal a_final_task_output_ordinal r,
     jm_TaskInputHash = text_or_empty (src j_task_input_hash a_final_task_input_hash r),
     jm_RunPolicy = f_run_policy f,
     jm_WaitFor = src j_wait_for (\<lambda>a. case a_final_wait_for a of None \<Rightarrow> [] | Some xs \<Rightarrow> xs) r,
     jm_AppMetadata = f_app_metadata f, jm_SchemaHash = text_or_empty (f_schema_hash f),
     jm_ParentJobID = text_or_empty (f_parent_job_id f), jm_CreatedAt = go_time (f_created_at f),
     jm_AvailableAt = src (\<lambda>j. go_time (j_available_at j))
       (\<lambda>a. case a_final_available_at a of None \<Rightarrow> zero_time | Some t \<Rightarrow> go_time t) r,
     jm_ExpiresAt = go_tstz (f_expires_at f),
     jm_LeaseExpiresAt = src (\<lambda>j. go_tstz (j_lease_expires_at j))
       (\<lambda>a. case a_final_lease_expires_at a of None \<Rightarrow> None | Some t \<Rightarrow> go_tstz t) r,
     jm_ArchivedAt = src (\<lambda>_. None) (\<lambda>a. Some (go_time (a_archived_at a))) r,
     jm_CancelRequested = src j_cancel_requested (\<lambda>a. a_final_cancel_requested a = Some True) r,
     jm_CompletionStatus = src (\<lambda>_. None) (\<lambda>a. Some (a_completion_status a)) r,
     jm_CompletionDetail = src (\<lambda>_. None) a_completion_detail r,
     jm_ClientPayload = c_client_payload (m_client m), jm_ClientPayloadRevision = c_revision (m_client m),
     jm_BlockingWaitSummary = map_option (\<lambda>(i, x). (i, map_option go_time x)) (m_wait m) \<rparr>)"

subsection \<open>listJobs\<close>

definition pairs_of_tasks :: "TaskSelector list \<Rightarrow> (string \<times> string) list" where
  "pairs_of_tasks ts = map (\<lambda>t. (ts_JobType t, ts_TaskType t)) ts"

definition pairs_of_keys :: "JobKey list \<Rightarrow> (string \<times> string) list" where
  "pairs_of_keys ks = map (\<lambda>k. (jk_TenantID k, jk_JobID k)) ks"

definition pairs_of_routes :: "Route list \<Rightarrow> (string \<times> string) list" where
  "pairs_of_routes rs = map (\<lambda>r. (rt_JobType r, rt_TaskType r)) rs"

text \<open>The checks of \<^verbatim>\<open>listJobs\<close> up to the fingerprint, in the order of the code.\<close>

definition list_options_error :: "lib \<Rightarrow> ListJobsOptions \<Rightarrow> string option" where
  "list_options_error l opts =
     (let page_size = (if lo_PageSize opts = 0 then 100 else lo_PageSize opts) in
      if lo_TenantIDs opts = [] then Some ''pgjobdb: tenant ids are required''
      else if lo_RootOnly opts \<and> lo_ParentJobIDs opts \<noteq> []
      then Some ''pgjobdb: root-only and parent filters cannot be combined''
      else if page_size < 1 \<or> page_size > 200 then Some ''pgjobdb: job page size must be between 1 and 200''
      else if (case (lo_CreatedAfter opts, lo_CreatedBefore opts) of (Some a, Some b) \<Rightarrow> \<not> a < b | _ \<Rightarrow> False)
      then Some ''pgjobdb: created-after must precede created-before''
      else if '''' \<in> set (lo_TenantIDs opts) then Some ''pgjobdb: tenant id cannot be empty''
      else if \<exists>s \<in> set (lo_Statuses opts). \<not> known_status s then Some ''pgjobdb: invalid job status''
      else if \<exists>s \<in> set (lo_Stores opts). s \<noteq> ''ACTIVE'' \<and> s \<noteq> ''ARCHIVED''
      then Some ''pgjobdb: invalid job store''
      else if \<exists>t \<in> set (lo_JobTypes opts). \<not> validTypeName l t
      then Some ''pgjobdb: job type filter cannot be empty''
      else if \<exists>t \<in> set (lo_TaskSelectors opts). \<not> validTypeName l (ts_JobType t) \<or> \<not> validTypeName l (ts_TaskType t)
      then Some ''pgjobdb: task selector needs job and task types''
      else if \<exists>k \<in> set (lo_JobKeys opts). jk_TenantID k = '''' \<or> jk_JobID k = ''''
      then Some ''pgjobdb: job key filter is incomplete''
      else if '''' \<in> set (lo_ParentJobIDs opts) then Some ''pgjobdb: parent job id cannot be empty''
      else case validateMetadataPredicates (lo_MetadataPredicates opts) of Some m \<Rightarrow> Some m | None \<Rightarrow>
      if \<exists>r \<in> set (lo_AvailableRoutes opts). \<not> validTypeName l (rt_JobType r) \<or>
           (rt_TaskType r \<noteq> '''' \<and> \<not> validTypeName l (rt_TaskType r))
      then Some ''pgjobdb: invalid available route''
      else if '''' \<in> set (lo_GoalIDs opts) then Some ''pgjobdb: empty goal filter''
      else if (case lo_CreatedAfter opts of None \<Rightarrow> False | Some t \<Rightarrow> \<not> l_time_json l t) \<or>
              (case lo_CreatedBefore opts of None \<Rightarrow> False | Some t \<Rightarrow> \<not> l_time_json l t)
      then Some ''pgjobdb: encode job filters''
      else None)"

definition list_fingerprint :: "lib \<Rightarrow> ListJobsOptions \<Rightarrow> string" where
  "list_fingerprint l opts =
     (let routes = remdups_adj (sort (pairs_of_routes (lo_AvailableRoutes opts)));
          goal_ids = remdups_adj (sort (lo_GoalIDs opts))
      in l_filter_hash l ([FTexts (sort (lo_TenantIDs opts)), FTexts (sort (lo_Statuses opts)),
           FTexts (sort (lo_Stores opts)), FTexts (sort (lo_JobTypes opts)),
           FPairs (sort (pairs_of_tasks (lo_TaskSelectors opts))), FPairs (sort (pairs_of_keys (lo_JobKeys opts))),
           FTexts (sort (lo_ParentJobIDs opts)), FBool (lo_RootOnly opts), FPreds (lo_MetadataPredicates opts),
           FTime (lo_CreatedAfter opts), FTime (lo_CreatedBefore opts)] @
         (if routes \<noteq> [] then [FPairs routes] else []) @
         (if lo_IncludeHidden opts then [FText ''include-hidden''] else []) @
         (if goal_ids \<noteq> [] then [FTexts goal_ids] else [])))"

definition list_query :: "lib \<Rightarrow> int \<Rightarrow> ListJobsOptions \<Rightarrow> job_query" where
  "list_query l host_ns opts = \<lparr>
     q_tenant_ids = sort (lo_TenantIDs opts), q_statuses = nilIfEmpty (sort (lo_Statuses opts)),
     q_stores = nilIfEmpty (sort (lo_Stores opts)), q_job_types = nilIfEmpty (sort (lo_JobTypes opts)),
     q_task_selectors = sort (pairs_of_tasks (lo_TaskSelectors opts)),
     q_job_keys = sort (pairs_of_keys (lo_JobKeys opts)),
     q_parent_job_ids = nilIfEmpty (sort (lo_ParentJobIDs opts)), q_root_only = lo_RootOnly opts,
     q_predicates = lo_MetadataPredicates opts, q_created_after = optionalTime l (lo_CreatedAfter opts),
     q_created_before = optionalTime l (lo_CreatedBefore opts),
     q_available_routes = remdups_adj (sort (pairs_of_routes (lo_AvailableRoutes opts))),
     q_now = l_micros l (if IsZero (lo_Now opts) then host_ns else lo_Now opts),
     q_include_hidden = lo_IncludeHidden opts,
     q_goal_ids = nilIfEmpty (remdups_adj (sort (lo_GoalIDs opts))) \<rparr>"

definition job_cursor_of :: "lib \<Rightarrow> string \<Rightarrow> string \<Rightarrow> (int \<times> string \<times> string) option go" where
  "job_cursor_of l fingerprint token =
     (if token = '''' then Inr None
      else if length token > 4096 then Inl (Err ''pgjobdb: invalid job page token'')
      else case decode_cursor (l_unmarshal_job l) token of
        None \<Rightarrow> Inl (Err ''pgjobdb: invalid job page token'')
      | Some c \<Rightarrow>
          if jc_Filter c \<noteq> fingerprint \<or> IsZero (jc_CreatedAt c) \<or> jc_TenantID c = '''' \<or> jc_JobID c = ''''
          then Inl (Err ''pgjobdb: invalid job page token'')
          else Inr (Some (l_micros l (jc_CreatedAt c), jc_TenantID c, jc_JobID c)))"

definition job_token :: "lib \<Rightarrow> string \<Rightarrow> ('i \<Rightarrow> int \<times> string \<times> string) \<Rightarrow> 'i \<Rightarrow> string go" where
  "job_token l fingerprint identity item = (case identity item of (created, tenant, job) \<Rightarrow>
     (case encode_cursor (l_marshal_job l) \<lparr>jc_Filter = fingerprint, jc_CreatedAt = created, jc_TenantID = tenant, jc_JobID = job\<rparr> of
        None \<Rightarrow> Inl (Err ''json: unsupported value'') | Some t \<Rightarrow> Inr t))"

definition listJobs :: "lib \<Rightarrow> handle \<Rightarrow> env \<Rightarrow> ListJobsOptions \<Rightarrow>
   (job_query \<Rightarrow> (int \<times> string \<times> string) option \<Rightarrow> int \<Rightarrow> db \<Rightarrow> 'r list res) \<Rightarrow> (db \<Rightarrow> 'r \<Rightarrow> 'i) \<Rightarrow>
   ('i \<Rightarrow> int \<times> string \<times> string) \<Rightarrow> db \<Rightarrow> ('i list \<times> string) go \<times> db" where
  "listJobs l h e opts query scan identity =
     on_request (bind_res (validateScheduleDB h) (\<lambda>_.
       case list_options_error l opts of Some m \<Rightarrow> Inl (Err m)
       | None \<Rightarrow> job_cursor_of l (list_fingerprint l opts) (lo_PageToken opts)))
     (\<lambda>c d. let page_size = (if lo_PageSize opts = 0 then 100 else lo_PageSize opts) in
       and_then (call_sql e (reading (query (list_query l (e_host e) opts) c (page_size + 1))) d)
         (page_cut (nat page_size) (scan d) (job_token l (list_fingerprint l opts) identity)))"

definition detail_identity :: "JobDetail \<Rightarrow> int \<times> string \<times> string" where
  "detail_identity j = (jd_CreatedAt j, jd_TenantID j, jd_JobID j)"

definition scanListedJobDetail :: "db \<Rightarrow> native_row \<times> client_state_row \<Rightarrow> JobDetail" where
  "scanListedJobDetail d rc = detail_of d (snd rc) (fst rc)"

definition ListJobs :: "lib \<Rightarrow> handle \<Rightarrow> env \<Rightarrow> ListJobsOptions \<Rightarrow> db \<Rightarrow> ListJobsResult go \<times> db" where
  "ListJobs l h e opts d = and_then
     (listJobs l h e opts (\<lambda>q c limit. list_native_jobs q (map_option fst c) (map_option (\<lambda>c. fst (snd c)) c)
        (map_option (\<lambda>c. snd (snd c)) c) limit (e_now e)) scanListedJobDetail detail_identity d)
     (\<lambda>(items, token). Inr \<lparr>lr_Jobs = items, lr_NextPageToken = token\<rparr>)"

record ListJobSummariesResult =
  lm_Jobs :: "JobListSummary list"
  lm_NextPageToken :: string

definition summary_identity :: "JobListSummary \<Rightarrow> int \<times> string \<times> string" where
  "summary_identity j = (jm_CreatedAt j, jm_TenantID j, jm_JobID j)"

definition ListJobSummaries :: "lib \<Rightarrow> handle \<Rightarrow> env \<Rightarrow> ListJobsOptions \<Rightarrow> db \<Rightarrow> ListJobSummariesResult go \<times> db" where
  "ListJobSummaries l h e opts d = and_then
     (listJobs l h e opts (\<lambda>q c limit d. Inr (compact_page q c (nat limit) d)) (\<lambda>_. summary_of) summary_identity d)
     (\<lambda>(items, token). Inr \<lparr>lm_Jobs = items, lm_NextPageToken = token\<rparr>)"

subsection \<open>Schedule runs\<close>

record run_query =
  u_tenant_id :: string
  u_schedule_id :: string
  u_scheduled_after :: "int option"
  u_scheduled_before :: "int option"
  u_statuses :: "string list option"

definition scheduled_at_of :: "native_row \<Rightarrow> int" where
  "scheduled_at_of r = (case f_scheduled_at (n_fact r) of None \<Rightarrow> 0 | Some t \<Rightarrow> t)"

definition run_order :: "native_row \<Rightarrow> int \<times> string" where
  "run_order r = (scheduled_at_of r, f_job_id (n_fact r))"

definition run_listed :: "run_query \<Rightarrow> native_row \<Rightarrow> bool" where
  "run_listed q r \<longleftrightarrow> (let f = n_fact r in
     f_tenant_id f = u_tenant_id q \<and> f_schedule_id f = Some (u_schedule_id q) \<and> f_hidden_at f = None \<and>
     (case f_scheduled_at f of None \<Rightarrow> False | Some t \<Rightarrow>
        (case u_scheduled_after q of None \<Rightarrow> True | Some a \<Rightarrow> a \<le> t) \<and>
        (case u_scheduled_before q of None \<Rightarrow> True | Some b \<Rightarrow> t \<le> b)) \<and>
     any_of (u_statuses q) (status_text (n_status r)))"

definition run_page :: "run_query \<times> int \<Rightarrow> (int \<times> string) option \<Rightarrow> nat \<Rightarrow> db \<Rightarrow>
   (native_row \<times> client_state_row) list" where
  "run_page qn c n d = take n (order_desc (\<lambda>rc. run_order (fst rc))
     (filter (\<lambda>rc. run_listed (fst qn) (fst rc) \<and> before_cursor (\<lambda>rc. run_order (fst rc)) c rc)
       (native_jobs_client d (snd qn))))"

definition list_native_schedule_runs :: "run_query \<Rightarrow> int option \<Rightarrow> string option \<Rightarrow> int \<Rightarrow> int \<Rightarrow> db \<Rightarrow>
   (native_row \<times> client_state_row) list res" where
  "list_native_schedule_runs q before_scheduled before_job limit now d =
     (if u_tenant_id q = '''' \<or> u_schedule_id q = '''' then raise ''tenant id and schedule id are required''
      else if limit < 1 \<or> limit > 1000 then raise ''schedule run page limit must be between 1 and 1000''
      else if (before_scheduled = None) \<noteq> (before_job = None)
      then raise ''schedule run cursor fields must be provided together''
      else Inr (run_page (q, now)
        (case (before_scheduled, before_job) of (Some a, Some b) \<Rightarrow> Some (a, b) | _ \<Rightarrow> None) (nat limit) d))"

text \<open>The filters of a listing of runs, their fingerprint and the page size.\<close>

definition runs_request :: "lib \<Rightarrow> handle \<Rightarrow> ListScheduleRunsOptions \<Rightarrow> (run_query \<times> string \<times> int) go" where
  "runs_request l h opts =
     bind_res (validateScheduleDB h) (\<lambda>_.
     if ro_TenantID opts = '''' \<or> ro_ScheduleID opts = ''''
     then Inl (Err ''pgjobdb: tenant id and schedule id are required'')
     else if (case (ro_ScheduledAfter opts, ro_ScheduledBefore opts) of (Some a, Some b) \<Rightarrow> a > b | _ \<Rightarrow> False)
     then Inl (Err ''pgjobdb: scheduled-after must not exceed scheduled-before'')
     else let page_size = (if ro_PageSize opts = 0 then 100 else ro_PageSize opts) in
     if page_size < 1 \<or> page_size > 200
     then Inl (Err ''pgjobdb: schedule run page size must be between 1 and 200'')
     else if \<exists>s \<in> set (ro_Statuses opts). \<not> known_status s then Inl (Err ''pgjobdb: invalid job status'')
     else if (case ro_ScheduledAfter opts of None \<Rightarrow> False | Some t \<Rightarrow> \<not> l_time_json l t) \<or>
             (case ro_ScheduledBefore opts of None \<Rightarrow> False | Some t \<Rightarrow> \<not> l_time_json l t)
     then Inl (Err ''json: unsupported value'')
     else let statuses = sort (ro_Statuses opts) in
     Inr (\<lparr>u_tenant_id = ro_TenantID opts, u_schedule_id = ro_ScheduleID opts,
            u_scheduled_after = optionalTime l (ro_ScheduledAfter opts),
            u_scheduled_before = optionalTime l (ro_ScheduledBefore opts), u_statuses = nilIfEmpty statuses\<rparr>,
          l_filter_hash l [FText (ro_TenantID opts), FText (ro_ScheduleID opts), FTime (ro_ScheduledAfter opts),
            FTime (ro_ScheduledBefore opts), FTexts statuses], page_size))"

definition run_cursor_of :: "lib \<Rightarrow> string \<Rightarrow> string \<Rightarrow> (int \<times> string) option go" where
  "run_cursor_of l fingerprint token =
     (if token = '''' then Inr None
      else if length token > 4096 then Inl (Err ''pgjobdb: invalid schedule run page token'')
      else case decode_cursor (l_unmarshal_run l) token of
        None \<Rightarrow> Inl (Err ''pgjobdb: invalid schedule run page token'')
      | Some c \<Rightarrow>
          if rc_Filter c \<noteq> fingerprint \<or> IsZero (rc_ScheduledAt c) \<or> rc_JobID c = ''''
          then Inl (Err ''pgjobdb: invalid schedule run page token'')
          else Inr (Some (l_micros l (rc_ScheduledAt c), rc_JobID c)))"

definition run_token :: "lib \<Rightarrow> string \<Rightarrow> JobDetail \<Rightarrow> string go" where
  "run_token l fingerprint run =
     (case jd_ScheduledAt run of
        None \<Rightarrow> Inl (Err ''pgjobdb: listed schedule run is missing scheduled time'')
      | Some t \<Rightarrow> (case encode_cursor (l_marshal_run l) \<lparr>rc_Filter = fingerprint, rc_ScheduledAt = t, rc_JobID = jd_JobID run\<rparr> of
          None \<Rightarrow> Inl (Err ''json: unsupported value'') | Some x \<Rightarrow> Inr x))"

definition ListScheduleRuns :: "lib \<Rightarrow> handle \<Rightarrow> env \<Rightarrow> ListScheduleRunsOptions \<Rightarrow> db \<Rightarrow>
   ListScheduleRunsResult go \<times> db" where
  "ListScheduleRuns l h e opts =
     on_request (bind_res (runs_request l h opts) (\<lambda>(q, fp, page_size).
       bind_res (run_cursor_of l fp (ro_PageToken opts)) (\<lambda>c. Inr (q, fp, page_size, c))))
     (\<lambda>(q, fp, page_size, c) d.
       and_then (call_sql e (reading (list_native_schedule_runs q (map_option fst c) (map_option snd c)
           (page_size + 1) (e_now e))) d)
         (\<lambda>rows. bind_res (page_cut (nat page_size) (scanListedJobDetail d) (run_token l fp) rows)
            (\<lambda>(items, token). Inr \<lparr>rl_Runs = items, rl_NextPageToken = token\<rparr>)))"

end
