(* ===== verification/Samples.thy ===== *)
theory Samples
  imports Service Job_Listing
begin

section \<open>A concrete run\<close>

text \<open>
  A small history of the scheduler, with a concrete instance of the code outside the repository, that
  the later theories evaluate: a job is submitted, leased and completed, another waits for it.
\<close>

subsection \<open>Texts and numbers on a tape\<close>

definition put_text :: "string \<Rightarrow> string" where
  "put_text s = replicate (length s) (CHR ''1'') @ CHR ''0'' # s"

definition get_text :: "string \<Rightarrow> string \<times> string" where
  "get_text r = (let n = length (takeWhile (\<lambda>c. c = CHR ''1'') r) in (take n (drop (n + 1) r), drop (2 * n + 1) r))"

fun digits :: "nat \<Rightarrow> string" where
  "digits n = (if n = 0 then [] else char_of (n mod 256) # digits (n div 256))"

declare digits.simps [simp del]

primrec undigits :: "string \<Rightarrow> nat" where
  "undigits [] = 0"
| "undigits (c # s) = of_char c + 256 * undigits s"

definition put_int :: "int \<Rightarrow> string" where
  "put_int i = (if i < 0 then CHR ''-'' else CHR ''+'') # put_text (digits (nat \<bar>i\<bar>))"

definition get_int :: "string \<Rightarrow> int \<times> string" where
  "get_int r = (let (s, rest) = get_text (tl r); n = int (undigits s) in (if hd r = CHR ''-'' then - n else n, rest))"

lemma undigits_digits [simp]: "undigits (digits n) = n"
proof (induction n rule: digits.induct)
  case (1 n)
  show ?case
  proof (cases "n = 0")
    case False
    then have "undigits (digits n) = n mod 256 + 256 * (n div 256)" using 1 by (subst digits.simps) simp
    then show ?thesis by simp
  qed (simp add: digits.simps)
qed

lemma takeWhile_marker: "P x \<Longrightarrow> \<not> P y \<Longrightarrow> takeWhile P (replicate n x @ y # ys) = replicate n x"
  by (induction n) auto

lemma get_put_text [simp]: "get_text (put_text s @ r) = (s, r)"
proof -
  have "takeWhile (\<lambda>c. c = CHR ''1'') (put_text s @ r) = replicate (length s) (CHR ''1'')"
    unfolding put_text_def append.assoc append_Cons by (rule takeWhile_marker) simp_all
  moreover have "drop (length s + 1) (put_text s @ r) = s @ r" by (simp add: put_text_def)
  moreover have "drop (2 * length s + 1) (put_text s @ r) = r"
  proof -
    have "length (put_text s) = 2 * length s + 1" by (simp add: put_text_def)
    then show ?thesis by (metis append_eq_conv_conj)
  qed
  ultimately show ?thesis unfolding get_text_def Let_def by simp
qed

lemma get_put_text_end [simp]: "get_text (put_text s) = (s, '''')"
  using get_put_text [of s "''''"] by simp

lemma put_text_nonempty [simp]: "put_text s \<noteq> ''''"
  by (simp add: put_text_def)

lemma get_put_int [simp]: "get_int (put_int i @ r) = (i, r)"
  by (simp add: get_int_def put_int_def)

subsection \<open>The library\<close>

definition sample_time_json :: "int \<Rightarrow> bool" where
  "sample_time_json t \<longleftrightarrow> - 62167219200000000000 \<le> t \<and> t < 253402300800000000000"

definition sample_enc_job :: "job_cursor \<Rightarrow> string option" where
  "sample_enc_job c = (if sample_time_json (jc_CreatedAt c)
     then Some (put_text (jc_Filter c) @ put_int (jc_CreatedAt c) @ put_text (jc_TenantID c) @ put_text (jc_JobID c))
     else None)"

definition sample_dec_job :: "string \<Rightarrow> job_cursor option" where
  "sample_dec_job r = (let (f, r1) = get_text r; (i, r2) = get_int r1; (t, r3) = get_text r2; (j, r4) = get_text r3
     in Some \<lparr>jc_Filter = f, jc_CreatedAt = i, jc_TenantID = t, jc_JobID = j\<rparr>)"

definition sample_enc_schedule :: "schedule_cursor \<Rightarrow> string option" where
  "sample_enc_schedule c = (if sample_time_json (kc_UpdatedAt c)
     then Some (put_text (kc_Filter c) @ put_int (kc_UpdatedAt c) @ put_text (kc_ScheduleID c)) else None)"

definition sample_dec_schedule :: "string \<Rightarrow> schedule_cursor option" where
  "sample_dec_schedule r = (let (f, r1) = get_text r; (i, r2) = get_int r1; (s, r3) = get_text r2
     in Some \<lparr>kc_Filter = f, kc_UpdatedAt = i, kc_ScheduleID = s\<rparr>)"

definition sample_enc_run :: "run_cursor \<Rightarrow> string option" where
  "sample_enc_run c = (if sample_time_json (rc_ScheduledAt c)
     then Some (put_text (rc_Filter c) @ put_int (rc_ScheduledAt c) @ put_text (rc_JobID c)) else None)"

definition sample_dec_run :: "string \<Rightarrow> run_cursor option" where
  "sample_dec_run r = (let (f, r1) = get_text r; (i, r2) = get_int r1; (s, r3) = get_text r2
     in Some \<lparr>rc_Filter = f, rc_ScheduledAt = i, rc_JobID = s\<rparr>)"

definition sample_lib :: lib where
  "sample_lib = \<lparr>l_identifier = (\<lambda>s. s \<noteq> ''''), l_dependencies = (\<lambda>_. None), l_wait = (\<lambda>_. None),
     l_update = (\<lambda>_ _. None), l_goal_key = (\<lambda>_ _. None), l_job_key = (\<lambda>_ _. None),
     l_fail_goal = (\<lambda>_ _ _. None), l_sha256 = (\<lambda>s. ''#'' @ s), l_parse = (\<lambda>_. None),
     l_micros = (\<lambda>t. t div 1000), l_time_json = sample_time_json, l_filter_hash = (\<lambda>_. ''f''),
     l_marshal_job = sample_enc_job, l_unmarshal_job = sample_dec_job,
     l_marshal_schedule = sample_enc_schedule, l_unmarshal_schedule = sample_dec_schedule,
     l_marshal_run = sample_enc_run, l_unmarshal_run = sample_dec_run\<rparr>"

lemma sample_lib_sel [simp]:
  "l_micros sample_lib t = t div 1000" "l_time_json sample_lib = sample_time_json"
  "l_marshal_schedule sample_lib = sample_enc_schedule" "l_unmarshal_schedule sample_lib = sample_dec_schedule"
  "l_marshal_job sample_lib = sample_enc_job" "l_unmarshal_job sample_lib = sample_dec_job"
  "l_marshal_run sample_lib = sample_enc_run" "l_unmarshal_run sample_lib = sample_dec_run"
  by (simp_all add: sample_lib_def)

lemma sample_micros_exact: "micros_exact sample_lib"
  by (simp add: micros_exact_def go_time_def)

lemma sample_schedule_cursors:
  assumes "\<forall>(us, i) \<in> S. sample_time_json (go_time us) \<and> \<not> IsZero (go_time us)"
  shows "schedule_cursors_ok sample_lib fp S"
  using assms by (auto simp: schedule_cursors_ok_def sample_enc_schedule_def sample_dec_schedule_def)

subsection \<open>Requests\<close>

definition sample_handle :: handle where
  "sample_handle = \<lparr>h_ctx_nil = False, h_db_nil = False\<rparr>"

definition sample_env :: "int \<Rightarrow> string \<Rightarrow> env" where
  "sample_env now uuid = \<lparr>e_link = LinkUp, e_now = now, e_wall = now, e_host = now * 1000, e_uuid = uuid,
     e_uuid2 = uuid @ ''2'', e_locked = {}, e_choice = 0\<rparr>"

definition sample_policy :: RunPolicy where
  "sample_policy = \<lparr>pol_Retry = \<lparr>rp_InitialIntervalMillis = 0, rp_BackoffCoefficient = 0,
     rp_MaximumIntervalMillis = 0, rp_MaximumAttempts = 0, rp_NonRetryableErrorTypes = []\<rparr>,
     pol_InvocationTimeoutMillis = None, pol_TotalTimeoutMillis = None\<rparr>"

definition sample_submit :: "string \<Rightarrow> dependency list \<Rightarrow> SubmitJobRequest" where
  "sample_submit j deps = \<lparr>sr_GoalID = '''', sr_ShareGoal = False, sr_Dependencies = deps, sr_TenantID = ''t'',
     sr_JobID = j, sr_WorkerID = ''w'', sr_JobType = ''build'', sr_RunPolicy = sample_policy,
     sr_AppMetadata = RawEmpty, sr_Runtime = \<lparr>rm_SchemaHash = '''', rm_ParentJobID = '''', rm_Schedule = None\<rparr>,
     sr_WaitFor = [], sr_ClientPayloadUpdate = None, sr_AvailableAt = None, sr_ExpiresAt = None\<rparr>"

definition sample_selector :: WorkSelector where
  "sample_selector = \<lparr>ws_JobTypes = [''build''], ws_Tasks = []\<rparr>"

definition sample_work :: GetWorkOptions where
  "sample_work = \<lparr>wo_TenantIDs = [''t''], wo_AppMetadataContains = RawEmpty, wo_MetadataPredicates = [],
     wo_LeaseDuration = 60000000000\<rparr>"

definition sample_success :: Completion where
  "sample_success = \<lparr>cp_ClientPayloadUpdate = None, cp_Status = CompletionSuccess, cp_Detail = '''',
     cp_ErrorKind = '''', cp_Retryable = None\<rparr>"

definition sample_lease :: LeaseIdentity where
  "sample_lease = \<lparr>li_TenantID = ''t'', li_JobID = ''a'', li_LeaseID = ''l1'', li_WorkerID = ''w''\<rparr>"

definition job_succeeds :: "string \<Rightarrow> dependency" where
  "job_succeeds j = \<lparr>dep_target = \<lparr>dt_jobId = Some j, dt_goalId = None\<rparr>, dep_condition = Some ''success''\<rparr>"

subsection \<open>The run\<close>

definition db_submitted :: db where
  "db_submitted = snd (SubmitJob sample_lib sample_handle (sample_env 10 ''ga'') (sample_submit ''a'' []) installed_db)"

definition db_waiting :: db where
  "db_waiting = snd (SubmitJob sample_lib sample_handle (sample_env 20 ''gb'') (sample_submit ''b'' [job_succeeds ''a''])
     db_submitted)"

definition db_leased :: db where
  "db_leased = snd (GetWork sample_lib sample_handle (sample_env 30 ''l1'') ''w'' sample_selector sample_work db_waiting)"

definition db_finished :: db where
  "db_finished = snd (CompleteJob sample_lib sample_handle (sample_env 40 '''') sample_lease sample_success db_leased)"

text \<open>The rows these calls leave behind, on which the later evaluations start.\<close>

definition run_goal :: "string \<Rightarrow> int \<Rightarrow> goal_row" where
  "run_goal g made = \<lparr>g_tenant_id = ''t'', g_goal_id = g, g_state = GoalOpen, g_revision = 1, g_successful_job_id = None,
     g_failure = None, g_created_at = made, g_updated_at = made, g_closed_at = None\<rparr>"

definition run_job :: "string \<Rightarrow> string option \<Rightarrow> string \<Rightarrow> int \<Rightarrow> job_row" where
  "run_job g wait j made = \<lparr>j_goal_id = g, j_dependency_wait_id = wait, j_tenant_id = ''t'', j_job_id = j,
     j_alternate_after = None, j_alternate_at = None, j_wait_for = [], j_available_at = made, j_expires_at = Infinity,
     j_lease_id = None, j_lease_expires_at = MinusInfinity, j_lease_expiration_count = 0, j_consecutive_expirations = 0,
     j_created_at = made, j_cancel_requested = False, j_cancel_requested_by = None, j_cancel_requested_at = None,
     j_route_job_type = Some ''build'', j_work_kind = Some ''JOB'', j_task_type = None, j_resume_job_type = None,
     j_task_input_ordinal = None, j_task_output_ordinal = None, j_task_input_hash = None, j_alternate_job_type = None,
     j_alternate_task_type = None, j_lease_worker_id = None, j_lease_route_job_type = None, j_lease_work_kind = None,
     j_lease_task_type = None, j_wait_until_is_deadline = False\<rparr>"

definition run_fact :: "string \<Rightarrow> dependency list \<Rightarrow> string \<Rightarrow> int \<Rightarrow> fact_row" where
  "run_fact g deps j made = \<lparr>f_goal_id = g, f_initial_dependencies = deps, f_tenant_id = ''t'', f_job_id = j,
     f_job_type = ''build'', f_run_policy = sample_policy, f_app_metadata = JObject [], f_schema_hash = None,
     f_parent_job_id = None, f_schedule_id = None, f_schedule_generation = None, f_schedule_spec_hash = None,
     f_scheduled_at = None, f_schedule_run_id = None, f_schedule_reason = None, f_schedule_manual = False,
     f_schedule_backfill_id = None, f_schedule_previous_job_id = None, f_schedule_failure_history = None,
     f_created_by_worker_id = Some ''w'', f_created_at = made, f_expires_at = Infinity, f_hidden_at = None\<rparr>"

definition run_payload :: "string \<Rightarrow> client_state_row" where
  "run_payload j = \<lparr>c_tenant_id = ''t'', c_job_id = j, c_client_payload = None, c_revision = 0,
     c_initial_payload_digest = ''#absent''\<rparr>"

definition run_wait :: "wait_state \<Rightarrow> string option \<Rightarrow> wait_row" where
  "run_wait st by_job = \<lparr>w_tenant_id = ''t'', w_job_id = ''b'', w_wait_id = ''submission'',
     w_descriptor = [job_succeeds ''a''], w_deadline = None, w_state = st,
     w_outcome = \<lparr>wo_tenantId = ''t'', wo_jobId = ''b'', wo_waitId = ''submission'', wo_deadline = None, wo_state = st,
       wo_dependencies = [\<lparr>do_dep = job_succeeds ''a'', do_state = st, do_blockedReason = None,
         do_satisfiedByJobId = by_job, do_failure = None\<rparr>],
       wo_failedDependencyIndex = None, wo_failure = None\<rparr>\<rparr>"

definition run_leased :: job_row where
  "run_leased = (run_job ''ga'' None ''a'' 10)\<lparr>j_lease_id := Some ''l1'', j_lease_expires_at := Finite 60000030,
     j_lease_worker_id := Some ''w'', j_lease_route_job_type := Some ''build'', j_lease_work_kind := Some ''JOB''\<rparr>"

lemma db_submitted_rows [code]:
  "db_submitted = installed_db\<lparr>goals := [run_goal ''ga'' 10], jobs := [run_job ''ga'' None ''a'' 10],
     job_facts := [run_fact ''ga'' [] ''a'' 10], job_client_state := [run_payload ''a'']\<rparr>"
  by code_simp

lemma db_waiting_rows [code]:
  "db_waiting = db_submitted\<lparr>goals := [run_goal ''ga'' 10, run_goal ''gb'' 20],
     dependency_waits := [run_wait WaitPending None],
     dependency_targets := [\<lparr>t_tenant_id = ''t'', t_job_id = ''b'', t_wait_id = ''submission'', t_target_kind = KJob, t_target_id = ''a''\<rparr>],
     jobs := [run_job ''ga'' None ''a'' 10, run_job ''gb'' (Some ''submission'') ''b'' 20],
     job_facts := [run_fact ''ga'' [] ''a'' 10, run_fact ''gb'' [job_succeeds ''a''] ''b'' 20],
     job_client_state := [run_payload ''a'', run_payload ''b'']\<rparr>"
  by code_simp

lemma db_leased_rows [code]:
  "db_leased = db_waiting\<lparr>jobs := [run_leased, run_job ''gb'' (Some ''submission'') ''b'' 20]\<rparr>"
  by code_simp

lemma db_finished_rows [code]:
  "db_finished = db_leased\<lparr>
     goals := [(run_goal ''ga'' 10)\<lparr>g_state := GoalSucceeded, g_revision := 2, g_successful_job_id := Some ''a'',
       g_updated_at := 40, g_closed_at := Some 40\<rparr>, run_goal ''gb'' 20],
     dependency_waits := [run_wait WaitSatisfied (Some ''a'')], dependency_targets := [],
     jobs := [run_job ''gb'' (Some ''submission'') ''b'' 20],
     jobs_archive := [(archive_of run_leased ''success'' None 40)\<lparr>a_final_route_job_type := Some ''build'',
       a_final_work_kind := Some ''JOB'', a_final_wait_for := Some [], a_final_available_at := Some 10,
       a_final_lease_expires_at := Some (Finite 60000030), a_final_lease_worker_id := Some ''w'',
       a_final_cancel_requested := Some False\<rparr>],
     jobs_trace := [\<lparr>tr_tenant_id = ''t'', tr_job_id = ''a'', tr_event_type = ''job_finished'', tr_worker_id = ''w'', tr_event_at = 40\<rparr>],
     notifications := [WaitNotice ''t'']\<rparr>"
  by code_simp

lemma submitted_ok: "find_job db_submitted ''t'' ''a'' \<noteq> None"
  by code_simp

lemma waiting_ok: "find_job db_waiting ''t'' ''b'' \<noteq> None"
  by code_simp

lemma leased_ok: "map_option j_lease_id (find_job db_leased ''t'' ''a'') = Some (Some ''l1'')"
  by code_simp

lemma finished_ok: "find_job db_finished ''t'' ''a'' = None"
  by code_simp

text \<open>Every database of the run is reached by the service.\<close>

definition sample_state :: "db \<Rightarrow> int \<Rightarrow> service" where
  "sample_state d now = \<lparr>sv_db = d, sv_now = now\<rparr>"

lemma sample_start: "service_start (sample_state installed_db 0)"
  by (simp add: service_start_def sample_state_def)

lemma sample_step:
  assumes "now \<le> now'"
  shows "service_reaches sample_lib (sample_state d now)
    (sample_state (after_call sample_lib sample_handle (sample_env now' uuid) c d) now')"
  using service_step.call [of "sample_state d now" "sample_env now' uuid" sample_lib sample_handle c] assms
  by (auto simp: sample_state_def sample_env_def)

lemma sample_run:
  "service_reaches sample_lib (sample_state installed_db 0) (sample_state db_submitted 10)"
  "service_reaches sample_lib (sample_state db_submitted 10) (sample_state db_waiting 20)"
  "service_reaches sample_lib (sample_state db_waiting 20) (sample_state db_leased 30)"
  "service_reaches sample_lib (sample_state db_leased 30) (sample_state db_finished 40)"
proof -
  show "service_reaches sample_lib (sample_state installed_db 0) (sample_state db_submitted 10)"
    using sample_step [of 0 10 installed_db "''ga''" "SubmitJobCall (sample_submit ''a'' [])"]
    by (simp only: after_call.simps db_submitted_def)
  show "service_reaches sample_lib (sample_state db_submitted 10) (sample_state db_waiting 20)"
    using sample_step [of 10 20 db_submitted "''gb''" "SubmitJobCall (sample_submit ''b'' [job_succeeds ''a''])"]
    by (simp only: after_call.simps db_waiting_def)
  show "service_reaches sample_lib (sample_state db_waiting 20) (sample_state db_leased 30)"
    using sample_step [of 20 30 db_waiting "''l1''" "GetWorkCall ''w'' sample_selector sample_work"]
    by (simp only: after_call.simps db_leased_def)
  show "service_reaches sample_lib (sample_state db_leased 30) (sample_state db_finished 40)"
    using sample_step [of 30 40 db_leased "''''" "CompleteJobCall sample_lease sample_success"]
    by (simp only: after_call.simps db_finished_def)
qed

lemma sample_good:
  assumes "service_reaches sample_lib (sample_state installed_db 0) (sample_state d now)"
  shows "db_inv d now" "schedules_ok d"
  using scheduler.reached_good [OF sample_start assms] by (simp_all add: sample_state_def service_ok_def)

lemma sample_invs:
  "db_inv db_submitted 10" "db_inv db_waiting 20" "db_inv db_leased 30" "db_inv db_finished 40"
  using sample_good(1) [OF sample_run(1)]
    sample_good(1) [OF rtranclp_trans [OF sample_run(1,2)]]
    sample_good(1) [OF rtranclp_trans [OF rtranclp_trans [OF sample_run(1,2)] sample_run(3)]]
    sample_good(1) [OF rtranclp_trans [OF rtranclp_trans [OF rtranclp_trans [OF sample_run(1,2)] sample_run(3)] sample_run(4)]]
  by blast+

subsection \<open>SQL calls of the run\<close>

definition sample_query :: work_query where
  "sample_query = \<lparr>wq_worker_id = ''w'', wq_tenant_ids = Some [''t''], wq_job_types = [''build''],
     wq_task_selectors = [], wq_contains = JObject [], wq_lease_seconds = 60, wq_target_tenant_id = None,
     wq_target_job_id = None, wq_predicates = []\<rparr>"

definition sample_grant :: "lease_row option \<times> db" where
  "sample_grant = projr (get_native_work sample_query {} ''l1'' 30 db_waiting)"

definition sample_row :: lease_row where
  "sample_row = the (fst sample_grant)"

lemma sample_granted: "get_native_work sample_query {} ''l1'' 30 db_waiting = Inr (Some sample_row, snd sample_grant)"
proof -
  have "isl (get_native_work sample_query {} ''l1'' 30 db_waiting) = False" by code_simp
  moreover have "fst sample_grant \<noteq> None" by code_simp
  ultimately show ?thesis
    by (cases "get_native_work sample_query {} ''l1'' 30 db_waiting") (auto simp: sample_grant_def sample_row_def)
qed

text \<open>The leased job is parked on a task instead, which another worker claims.\<close>

definition sample_task :: TaskWork where
  "sample_task = \<lparr>tw_TaskType = ''compile'', tw_ResumeJobType = ''build'', tw_InputOrdinal = 1, tw_OutputOrdinal = 2,
     tw_InputHash = ''h''\<rparr>"

definition sample_park :: RescheduleRequest where
  "sample_park = \<lparr>rr_DependencyWait = None, rr_WaitUntilIsDeadline = False, rr_RouteJobType = ''build'',
     rr_WorkKind = WorkKindTask, rr_Task = Some sample_task, rr_WaitFor = [], rr_AvailableAt = None,
     rr_ClientPayloadUpdate = None, rr_Alternate = None\<rparr>"

definition db_parked :: db where
  "db_parked = snd (RescheduleJob sample_lib sample_handle (sample_env 40 '''') sample_lease sample_park db_leased)"

lemma db_parked_rows [code]:
  "db_parked = db_leased\<lparr>jobs := [run_leased\<lparr>j_available_at := 40, j_lease_id := None, j_lease_expires_at := MinusInfinity,
     j_work_kind := Some ''TASK'', j_task_type := Some ''compile'', j_resume_job_type := Some ''build'',
     j_task_input_ordinal := Some 1, j_task_output_ordinal := Some 2, j_task_input_hash := Some ''h'',
     j_lease_worker_id := None, j_lease_route_job_type := None, j_lease_work_kind := None\<rparr>,
     run_job ''gb'' (Some ''submission'') ''b'' 20]\<rparr>"
  by code_simp

definition sample_coordinates :: task_coordinates where
  "sample_coordinates = \<lparr>tc_job_type = ''build'', tc_task_type = ''compile'', tc_resume_job_type = ''build'',
     tc_input_ordinal = 1, tc_output_ordinal = 2, tc_input_hash = ''h''\<rparr>"

definition sample_claim :: "(string \<times> tstz) \<times> db" where
  "sample_claim = projr (claim_native_task ''t'' ''a'' ''w2'' sample_coordinates 60 ''l2'' 50 db_parked)"

lemma sample_claimed:
  "claim_native_task ''t'' ''a'' ''w2'' sample_coordinates 60 ''l2'' 50 db_parked = Inr (fst sample_claim, snd sample_claim)"
proof -
  have "isl (claim_native_task ''t'' ''a'' ''w2'' sample_coordinates 60 ''l2'' 50 db_parked) = False" by code_simp
  then show ?thesis
    by (cases "claim_native_task ''t'' ''a'' ''w2'' sample_coordinates 60 ''l2'' 50 db_parked") (auto simp: sample_claim_def)
qed

end
