(* ===== verification/Job_Guarantees.thy ===== *)
theory Job_Guarantees
  imports Samples
begin

section \<open>What the scheduler guarantees about jobs\<close>

text \<open>
  The guarantees of the SQL functions a worker calls: which job an acquisition returns, what a lease
  excludes, what completion and cancellation do, how tasks are claimed, and how goals close.
\<close>

subsection \<open>Acquisition\<close>

lemma granted_cases:
  assumes "get_native_work q locked lease now d = Inr (Some row, d')"
  obtains d1 j where "expire_goal_waits (wq_tenant_ids q) now d = Inr d1" "waits_only d d1"
    "pick d1 q locked now = Some j" "l_tenant_id row = j_tenant_id j" "l_job_id row = j_job_id j"
    "d' = update_job (j_tenant_id j) (j_job_id j) (grant_lease lease (wq_worker_id q) (wq_lease_seconds q) now) d1"
proof -
  from assms obtain d1 where d1: "expire_goal_waits (wq_tenant_ids q) now d = Inr d1"
    by (auto simp: get_native_work_def res_simps split: if_splits)
  with assms obtain j where j: "pick d1 q locked now = Some j"
    by (cases "pick d1 q locked now") (auto simp: get_native_work_def split: if_splits)
  let ?g = "grant_lease lease (wq_worker_id q) (wq_lease_seconds q) now"
  have "join_lease d1 (?g j) = Some row" "d' = update_job (j_tenant_id j) (j_job_id j) ?g d1"
    using assms d1 j by (auto simp: get_native_work_def Let_def split: if_splits)
  moreover from this(1) have "l_tenant_id row = j_tenant_id j" "l_job_id row = j_job_id j"
    by (auto simp: join_lease_def lease_of_def split: option.splits)
  ultimately show thesis using that d1 j expire_goal_waits_waits_only [OF d1] by blast
qed

lemma find_sorted_least:
  assumes "sorted (map f xs)" "find P xs = Some x" "y \<in> set xs" "P y"
  shows "f x \<le> f y"
  using assms by (induction xs) (auto split: if_splits)

lemma pick_least:
  assumes "pick d q locked now = Some r" "j \<in> set (jobs d)" "candidate d q now j" "job_key j \<notin> locked"
  shows "work_order r \<le> work_order j"
  by (rule find_sorted_least [where xs = "sort_key work_order (filter (candidate d q now) (jobs d))" and
      P = "\<lambda>j. job_key j \<notin> locked"])
     (use assms in \<open>simp_all add: pick_def\<close>)

lemma find_job_waits_only: "waits_only d d1 \<Longrightarrow> find_job d1 t j = find_job d t j"
  by (simp add: waits_only_def find_job_def)

lemma find_job_update_job:
  assumes "\<And>x. job_key (f x) = job_key x"
  shows "find_job (update_job t j f d) t' j' =
    (if (t', j') = (t, j) then map_option f (find_job d t j) else find_job d t' j')"
  by (simp add: find_job_def update_job_def row_at_upd_at assms)

text \<open>
  C8: an acquisition that returns a job returns a ready one whose row no other transaction holds, the
  first of them in the order of availability, creation and key; the job then carries the new lease.
\<close>

theorem acquisition_least_ready:
  assumes "db_inv d now" "get_native_work q locked lease now d = Inr (Some row, d')"
  shows "\<exists>d1 r. expire_goal_waits (wq_tenant_ids q) now d = Inr d1 \<and>
    find_job d (l_tenant_id row) (l_job_id row) = Some r \<and> candidate d1 q now r \<and> job_key r \<notin> locked \<and>
    job_status_at d1 r now = READY \<and>
    (\<forall>j \<in> set (jobs d). candidate d1 q now j \<longrightarrow> job_key j \<notin> locked \<longrightarrow> work_order r \<le> work_order j) \<and>
    find_job d' (l_tenant_id row) (l_job_id row) =
      Some (grant_lease lease (wq_worker_id q) (wq_lease_seconds q) now r)"
  using assms(2)
proof (cases rule: granted_cases)
  case (1 d1 r)
  have jobs: "jobs d1 = jobs d" using 1(2) by (simp add: waits_only_def)
  note c = pick_candidate [OF 1(3)]
  have keys: "keys_ok d" by (rule db_okD(1) [OF invD(1) [OF assms(1)]])
  have "find_job d (l_tenant_id row) (l_job_id row) = Some r"
    using c jobs by (simp add: find_job_iff [OF keys] 1(4,5) job_key_def)
  moreover from this have "find_job d' (l_tenant_id row) (l_job_id row) =
      Some (grant_lease lease (wq_worker_id q) (wq_lease_seconds q) now r)"
    using find_job_waits_only [OF 1(2)] by (simp add: 1(4-6) find_job_update_job)
  ultimately show ?thesis using 1(1) c pick_least [OF 1(3)] jobs by (auto simp: candidate_def)
qed

theorem acquisition_least_ready_witness:
  "\<exists>d1 r. expire_goal_waits (wq_tenant_ids sample_query) 30 db_waiting = Inr d1 \<and>
    find_job db_waiting (l_tenant_id sample_row) (l_job_id sample_row) = Some r \<and>
    candidate d1 sample_query 30 r \<and> job_status_at d1 r 30 = READY"
  using acquisition_least_ready [OF inv_later [OF sample_invs(2)] sample_granted] by force

text \<open>
  C9: when the arguments are well formed and some acceptable ready job is not held by another
  transaction, the acquisition returns a job.
\<close>

theorem acquisition_finds_work:
  assumes "db_inv d now" "wq_worker_id q \<noteq> ''''" "1 \<le> wq_lease_seconds q" "wq_lease_seconds q \<le> 86400"
    "is_object (wq_contains q)" "(wq_target_tenant_id q = None) = (wq_target_job_id q = None)"
    "expire_goal_waits (wq_tenant_ids q) now d = Inr ex"
    "j \<in> set (jobs ex)" "candidate ex q now j" "job_key j \<notin> locked"
  shows "\<exists>row d'. get_native_work q locked lease now d = Inr (Some row, d')"
proof -
  have "\<exists>x \<in> set (sort_key work_order (filter (candidate ex q now) (jobs ex))). job_key x \<notin> locked"
    using assms(8-10) by auto
  then have "pick ex q locked now \<noteq> None" by (auto simp: pick_def find_None_iff)
  then obtain r where r: "pick ex q locked now = Some r" by blast
  have "candidate ex q now r" using pick_candidate [OF r] by simp
  then have "join_lease ex (grant_lease lease (wq_worker_id q) (wq_lease_seconds q) now r) \<noteq> None"
    by (auto simp: candidate_def join_lease_def split: option.splits)
  then show ?thesis using assms(2-7) r by (auto simp: get_native_work_def Let_def)
qed

theorem acquisition_finds_work_witness:
  "\<exists>row d'. get_native_work sample_query {} ''l9'' 30 db_submitted = Inr (Some row, d')"
proof (rule acquisition_finds_work [where ex = "projr (expire_goal_waits (Some [''t'']) 30 db_submitted)" and
      j = "hd (jobs db_submitted)"])
  show "db_inv db_submitted 30" by (rule inv_later [OF sample_invs(1)]) simp
  show "expire_goal_waits (wq_tenant_ids sample_query) 30 db_submitted =
      Inr (projr (expire_goal_waits (Some [''t'']) 30 db_submitted))" by code_simp
  show "hd (jobs db_submitted) \<in> set (jobs (projr (expire_goal_waits (Some [''t'']) 30 db_submitted)))" by code_simp
  show "candidate (projr (expire_goal_waits (Some [''t'']) 30 db_submitted)) sample_query 30 (hd (jobs db_submitted))"
    by code_simp
qed (simp_all add: sample_query_def)

subsection \<open>Leases\<close>

lemma live_lease_active: "Finite now < j_lease_expires_at r \<Longrightarrow> job_status_at d r now = ACTIVE"
  by (simp add: job_status_ACTIVE)

lemma active_not_admitted: "\<not> status_admits READY ACTIVE"
  by (simp add: status_admits_def)

lemma unheld_lock_refused:
  assumes "find_job d t j = Some r" "Finite now < j_lease_expires_at r"
  shows "lock_job_for_status d t j READY expected msg now = raise msg"
  using assms live_lease_active [of now r d] by (simp add: lock_job_for_status_def active_not_admitted)

lemma get_work_live:
  assumes "db_inv d now" "find_job d t j = Some r" "Finite now < j_lease_expires_at r"
    "get_native_work q locked lease now d = Inr (Some row, d')"
  shows "(l_tenant_id row, l_job_id row) \<noteq> (t, j)"
  using assms(4)
proof (cases rule: granted_cases)
  case (1 d1 r')
  have c: "candidate d1 q now r'" "r' \<in> set (jobs d)"
    using pick_candidate [OF 1(3)] 1(2) by (auto simp: waits_only_def)
  have keys: "keys_ok d" by (rule db_okD(1) [OF invD(1) [OF assms(1)]])
  have "r' = r" if "(l_tenant_id row, l_job_id row) = (t, j)"
    using assms(2) c(2) that find_job_iff [OF keys, of t j r'] by (simp add: 1(4,5) job_key_def)
  then show ?thesis using c(1) assms(3) by (auto simp: candidate_def)
qed

lemma claim_live:
  assumes "find_job d t j = Some r" "Finite now < j_lease_expires_at r"
  shows "claim_native_task t j worker c secs lease now d \<noteq> Inr x"
proof
  assume "claim_native_task t j worker c secs lease now d = Inr x"
  then obtain d1 r' where d1: "expire_goal_waits (Some [t]) now d = Inr d1" "find_job d1 t j = Some r'"
    "job_status_at d1 r' now = READY"
    by (auto simp: claim_native_task_def res_simps task_conflict_def split: option.splits if_splits)
  have "r' = r" using d1(2) assms(1) find_job_waits_only [OF expire_goal_waits_waits_only [OF d1(1)]] by simp
  then show False using d1(3) live_lease_active [OF assms(2), of d1] by simp
qed

lemma reschedule_unheld_live:
  assumes "find_job d (ra_tenant_id a) (ra_job_id a) = Some r" "Finite now < j_lease_expires_at r" "ra_lease_id a = None"
  shows "reschedule_native_job a wall now d \<noteq> Inr z"
proof -
  have "lock_for_reschedule a now d \<noteq> Inr x" for x
    using unheld_lock_refused [OF assms(1,2)] assms(3) by (auto simp: lock_for_reschedule_def Let_def res_simps)
  then show ?thesis by (auto simp: reschedule_native_job_def Let_def res_simps split: option.splits)
qed



lemma lease_lock_refused:
  assumes "find_job d t j = Some r" "j_lease_id r \<noteq> Some lease \<or> j_lease_expires_at r \<le> Finite now"
  shows "lock_job_for_status d t j ACTIVE (Some lease) msg now \<noteq> Inr x"
  using assms by (auto simp: lock_job_for_status_def status_admits_def job_status_ACTIVE)

text \<open>
  C11: a worker whose lease was lost, because it expired or because the job now carries another
  lease, can no longer validate it, renew it, complete the job or reschedule it.
\<close>

theorem lost_lease_refused:
  assumes "find_job d t j = Some r" "j_lease_id r \<noteq> Some lease \<or> j_lease_expires_at r \<le> Finite now"
  shows "(\<forall>worker. validate_native_lease t j lease worker now d \<noteq> Inr (Some row)) \<and>
    (\<forall>worker secs x. renew_native_lease t j lease worker secs now d \<noteq> Inr x) \<and>
    (\<forall>worker status detail kind retryable mode val expected y.
      complete_native_job t j lease worker status detail kind retryable mode val expected now d \<noteq> Inr y) \<and>
    (\<forall>a wall z. (ra_tenant_id a, ra_job_id a, ra_lease_id a) = (t, j, Some lease) \<longrightarrow>
      reschedule_native_job a wall now d \<noteq> Inr z)"
proof (intro conjI allI impI)
  show "validate_native_lease t j lease worker now d \<noteq> Inr (Some row)" for worker
    using assms by (auto simp: validate_native_lease_def holds_def)
  show "renew_native_lease t j lease worker secs now d \<noteq> Inr x" for worker secs x
    using assms by (auto simp: renew_native_lease_def extend_lease_def holds_def)
  show "complete_native_job t j lease worker status detail kind retryable mode val expected now d \<noteq> Inr y"
    for worker status detail kind retryable mode val expected y
    using lease_lock_refused [OF assms] by (auto simp: complete_native_job_def bind_res_Inr if_raise_Inr)
  fix a :: reschedule_args and wall z
  assume "(ra_tenant_id a, ra_job_id a, ra_lease_id a) = (t, j, Some lease)"
  then have "lock_for_reschedule a now d \<noteq> Inr x" for x
    using lease_lock_refused [OF assms] by (auto simp: lock_for_reschedule_def Let_def bind_res_Inr if_raise_Inr)
  then show "reschedule_native_job a wall now d \<noteq> Inr z"
    by (auto simp: reschedule_native_job_def Let_def res_simps split: option.splits)
qed

theorem lost_lease_refused_witness:
  "\<forall>worker secs x. renew_native_lease ''t'' ''a'' ''l1'' worker secs 90000000 db_leased \<noteq> Inr x"
proof -
  have row: "find_job db_leased ''t'' ''a'' = Some (the (find_job db_leased ''t'' ''a''))" by code_simp
  have "j_lease_expires_at (the (find_job db_leased ''t'' ''a'')) \<le> Finite 90000000" by code_simp
  then show ?thesis using lost_lease_refused [OF row, of "''l1''" 90000000] by simp
qed

subsection \<open>Completion and cancellation\<close>

text \<open>
  C12: the holder of a live lease can always complete the job. The job leaves the active table, its
  archive row is the final snapshot with the given outcome, and on success every goal it is the
  primary of or a candidate for is closed, an open one as succeeded through this job.
\<close>

theorem completion_archives:
  assumes "db_inv d now" "find_job d t j = Some r" "holds r lease worker" "Finite now < j_lease_expires_at r"
    "\<not> j_cancel_requested r" "worker \<noteq> ''''" "lease \<noteq> ''''" "status \<in> set completion_statuses"
  shows "\<exists>d'. complete_native_job t j lease worker status detail kind retryable None None None now d = Inr d' \<and>
    find_job d' t j = None \<and> find_archive d' t j = Some (completed r status detail kind retryable now) \<and>
    (status = ''success'' \<longrightarrow> (\<forall>g \<in> set (goals_of_job d t j (j_goal_id r)). \<forall>r.
       find_goal d t g = Some r \<longrightarrow> (\<exists>r'. find_goal d' t g = Some r' \<and> g_state r' \<noteq> GoalOpen \<and>
         (g_state r = GoalOpen \<longrightarrow> g_state r' = GoalSucceeded \<and> g_successful_job_id r' = Some j))))"
proof -
  have "status_admits ACTIVE (job_status_at d r now)"
    using assms(4) by (simp add: status_admits_def job_status_ACTIVE)
  moreover have "j_lease_id r = Some lease" using assms(3) by (simp add: holds_def)
  moreover have "update_client_payload t j None None None d = Inr d" by (simp add: update_client_payload_def)
  ultimately have "complete_native_job t j lease worker status detail kind retryable None None None now d =
      complete_native_locked_job r worker status detail kind retryable now d"
    using assms(2-7) by (simp add: complete_native_job_def lock_job_for_status_def not_le [symmetric])
  then show ?thesis
    using complete_native_locked_job_ok [OF invD(1) [OF assms(1)] assms(2,8), of worker detail kind retryable now]
    by auto
qed

theorem completion_archives_witness:
  "\<exists>d'. complete_native_job ''t'' ''a'' ''l1'' ''w'' ''success'' None None None None None None 40 db_leased = Inr d' \<and>
    find_job d' ''t'' ''a'' = None"
proof -
  have "\<exists>d'. complete_native_job ''t'' ''a'' ''l1'' ''w'' ''success'' None None None None None None 40 db_leased = Inr d' \<and>
      find_job d' ''t'' ''a'' = None \<and>
      find_archive d' ''t'' ''a'' = Some (completed (the (find_job db_leased ''t'' ''a'')) ''success'' None None None 40) \<and>
    (''success'' = ''success'' \<longrightarrow> (\<forall>g \<in> set (goals_of_job db_leased ''t'' ''a'' (j_goal_id (the (find_job db_leased ''t'' ''a'')))). \<forall>r.
       find_goal db_leased ''t'' g = Some r \<longrightarrow> (\<exists>r'. find_goal d' ''t'' g = Some r' \<and> g_state r' \<noteq> GoalOpen \<and>
         (g_state r = GoalOpen \<longrightarrow> g_state r' = GoalSucceeded \<and> g_successful_job_id r' = Some ''a''))))"
  proof (rule completion_archives)
    show "db_inv db_leased 40" by (rule inv_later [OF sample_invs(3)]) simp
    show "find_job db_leased ''t'' ''a'' = Some (the (find_job db_leased ''t'' ''a''))" by code_simp
    show "holds (the (find_job db_leased ''t'' ''a'')) ''l1'' ''w''" by code_simp
    show "Finite 40 < j_lease_expires_at (the (find_job db_leased ''t'' ''a''))" by code_simp
    show "\<not> j_cancel_requested (the (find_job db_leased ''t'' ''a''))" by code_simp
  qed (simp_all add: completion_statuses_def)
  then show ?thesis by blast
qed

text \<open>
  C13: an active job can always be cancelled, held or not; it is archived as cancelled, not retryable,
  with the reason, and no goal is resolved by it.
\<close>

theorem cancellation_archives:
  assumes "db_inv d now" "find_job d t j = Some r"
  shows "\<exists>d' a. cancel_native_job t j worker reason now d = Inr d' \<and> find_job d' t j = None \<and>
    find_archive d' t j = Some a \<and> a_completion_status a = ''cancelled'' \<and> a_completion_detail a = reason \<and>
    a_completion_retryable a = Some False \<and> a_final_cancel_requested a = Some True \<and> db_inv d' now"
proof -
  from cancel_job_ok [OF assms, of worker] obtain d1 r1 where
    d1: "cancel_job t j worker now d = Inr d1" "db_inv d1 now" "find_job d1 t j = Some r1" "j_cancel_requested r1"
    by blast
  have st: "''cancelled'' \<in> set completion_statuses" by (simp add: completion_statuses_def)
  from complete_native_locked_job_ok [OF invD(1) [OF d1(2)] d1(3) st, of worker reason None "Some False" now]
  obtain d' where d': "complete_native_locked_job r1 worker ''cancelled'' reason None (Some False) now d1 = Inr d'"
    "find_job d' t j = None" "find_archive d' t j = Some (completed r1 ''cancelled'' reason None (Some False) now)"
    by blast
  have "native_job_ok r" using db_okD(6) [OF invD(1) [OF assms(1)]] find_job_key [OF assms(2)] by blast
  then have "j_route_job_type r \<noteq> None" by (simp add: native_job_ok_def)
  then have run: "cancel_native_job t j worker reason now d = Inr d'"
    using assms(2) d1 d'(1) by (simp add: cancel_native_job_def)
  show ?thesis using run d'(2,3) cancel_native_job_inv [OF assms(1) run] d1(4)
    by (auto simp: completed_def finalize_def archive_of_def)
qed

theorem cancellation_archives_witness:
  "\<exists>d' a. cancel_native_job ''t'' ''a'' ''w'' (Some ''stop'') 40 db_leased = Inr d' \<and> find_job d' ''t'' ''a'' = None \<and>
    find_archive d' ''t'' ''a'' = Some a \<and> a_completion_status a = ''cancelled''"
proof -
  have "db_inv db_leased 40" by (rule inv_later [OF sample_invs(3)]) simp
  moreover have "find_job db_leased ''t'' ''a'' = Some (the (find_job db_leased ''t'' ''a''))" by code_simp
  ultimately show ?thesis using cancellation_archives by blast
qed

subsection \<open>Waiting tasks\<close>

lemma claim_native_task_cases:
  assumes "claim_native_task t j worker c secs lease now d = Inr (x, d')"
  obtains ex r where "expire_goal_waits (Some [t]) now d = Inr ex" "waits_only d ex" "find_job ex t j = Some r"
    "job_status_at ex r now = READY" "at_coordinates c r" "d' = update_job t j (claim_row lease worker secs now) ex"
    "x = (lease, Finite (now + micros secs))"
proof -
  from assms obtain ex r where e: "expire_goal_waits (Some [t]) now d = Inr ex" "find_job ex t j = Some r"
    "job_status_at ex r now = READY" "at_coordinates c r" "d' = update_job t j (claim_row lease worker secs now) ex"
    "x = (lease, Finite (now + micros secs))"
    by (auto simp: claim_native_task_def res_simps task_conflict_def split: option.splits if_splits)
  then show thesis using that expire_goal_waits_waits_only [OF e(1)] by blast
qed

text \<open>
  C14: a waiting task is claimed at most once. A claim succeeds only on a ready job that waits at
  exactly the given coordinates; it turns the job back to its resume route under the new lease, and any
  later claim of the same coordinates in the resulting state is refused as a conflict.
\<close>

theorem task_claimed_once:
  assumes "claim_native_task t j worker c secs lease now d = Inr (x, d')"
  shows "(\<exists>r. find_job d t j = Some r \<and> at_coordinates c r \<and>
      find_job d' t j = Some (claim_row lease worker secs now r)) \<and>
    (\<forall>worker' secs' lease' now' y. claim_native_task t j worker' c secs' lease' now' d' \<noteq> Inr y)"
  using assms
proof (cases rule: claim_native_task_cases)
  case (1 ex r)
  have f: "find_job d' t j = Some (claim_row lease worker secs now r)"
    using 1(3) by (simp add: 1(6) find_job_update_job)
  have "claim_native_task t j worker' c secs' lease' now' d' \<noteq> Inr (y, d2)" for worker' secs' lease' now' y d2
  proof
    assume "claim_native_task t j worker' c secs' lease' now' d' = Inr (y, d2)"
    then show False
    proof (cases rule: claim_native_task_cases)
      case (1 ex' r')
      then have "find_job d' t j = Some r'" using find_job_waits_only by metis
      then have "r' = claim_row lease worker secs now r" using f by simp
      then show False using 1(5) by (simp add: at_coordinates_def claim_row_def)
    qed
  qed
  then have "claim_native_task t j worker' c secs' lease' now' d' \<noteq> Inr y" for worker' secs' lease' now' y
    by (cases y) simp
  then show ?thesis using f 1(3,5) find_job_waits_only [OF 1(2)] by auto
qed

theorem task_claimed_once_witness:
  "\<forall>worker' secs' lease' now' y.
     claim_native_task ''t'' ''a'' worker' sample_coordinates secs' lease' now' (snd sample_claim) \<noteq> Inr y"
  using task_claimed_once [OF sample_claimed] by simp

end
