(* ===== verification/Goal_Guarantees.thy ===== *)
theory Goal_Guarantees
  imports Samples
begin

section \<open>What the scheduler guarantees about goals, waits and payloads\<close>

text \<open>
  The verdict of a dependency wait is compared with a specification that does not mention the loop,
  the cycle check with reachability in the graph of obligations; goals close as asked; the client
  payload is under optimistic concurrency control and merges as a JSON merge patch does.
\<close>

subsection \<open>The verdict of a wait\<close>

definition dep_verdict :: "db \<Rightarrow> string \<Rightarrow> dependency \<Rightarrow> wait_state" where
  "dep_verdict d t dep = (case target_of dep of
     Some (KGoal, g) \<Rightarrow> (case map_option g_state (find_goal d t g) of
        Some GoalSucceeded \<Rightarrow> WaitSatisfied | Some GoalFailedState \<Rightarrow> WaitFailed | _ \<Rightarrow> WaitPending)
   | Some (KJob, j) \<Rightarrow> (case find_archive d t j of
        None \<Rightarrow> WaitPending
      | Some a \<Rightarrow> if a_completion_status a = ''success'' \<or> dep_condition dep = Some ''complete''
                  then WaitSatisfied else WaitFailed)
   | None \<Rightarrow> WaitPending)"

definition deps_verdict :: "db \<Rightarrow> string \<Rightarrow> dep_outcome list \<Rightarrow> wait_state" where
  "deps_verdict d t xs = (let vs = map (\<lambda>x. if do_state x = WaitPending then dep_verdict d t (do_dep x) else do_state x) xs
     in if WaitFailed \<in> set vs then WaitFailed
        else if WaitPending \<in> set vs then WaitPending else WaitSatisfied)"

definition wait_verdict :: "db \<Rightarrow> int \<Rightarrow> wait_outcome \<Rightarrow> wait_state" where
  "wait_verdict d now w =
     (if (case wo_deadline w of None \<Rightarrow> False | Some dl \<Rightarrow> dl \<le> now) then WaitTimedOut
      else deps_verdict d (wo_tenantId w) (wo_dependencies w))"

lemma evaluate_dep_verdict:
  assumes "evaluate_dep d t x = Inr y" "do_state x = WaitPending"
  shows "do_state y = dep_verdict d t (do_dep x)"
  using assms by (auto simp: evaluate_dep_def evaluate_goal_dep_def evaluate_job_dep_def dep_verdict_def target_of_def
      split: option.splits if_splits goal_state.splits)

lemma deps_verdict_Cons:
  assumes "v = (if do_state x = WaitPending then dep_verdict d t (do_dep x) else do_state x)"
    "v = WaitPending \<or> v = WaitSatisfied \<or> v = WaitFailed"
  shows "deps_verdict d t (x # xs) = (if v = WaitFailed then WaitFailed
     else if v = WaitPending \<and> deps_verdict d t xs = WaitSatisfied then WaitPending else deps_verdict d t xs)"
  using assms(2) unfolding deps_verdict_def Let_def list.map assms(1) [symmetric] by auto

lemma evaluate_deps_verdict:
  assumes "evaluate_deps d t i xs = Inr (ys, f)"
    "\<forall>x \<in> set xs. do_state x = WaitPending \<or> do_state x = WaitSatisfied"
  shows "(f \<noteq> None \<longleftrightarrow> deps_verdict d t xs = WaitFailed) \<and>
    (f = None \<longrightarrow> deps_verdict d t xs = (if \<exists>y \<in> set ys. do_state y = WaitPending then WaitPending else WaitSatisfied))"
  using assms
proof (induction xs arbitrary: i ys)
  case Nil
  then show ?case by (simp add: deps_verdict_def)
next
  case (Cons x xs)
  show ?case
  proof (cases "do_state x = WaitPending")
    case False
    then have x: "do_state x = WaitSatisfied" using Cons.prems(2) by simp
    then obtain zs where zs: "evaluate_deps d t (Suc i) xs = Inr (zs, f)" "ys = x # zs"
      using Cons.prems(1) by (auto simp: res_simps)
    show ?thesis using Cons.IH [OF zs(1)] Cons.prems(2) deps_verdict_Cons [of WaitSatisfied x d t xs] x zs(2) by simp
  next
    case True
    then obtain y where y: "evaluate_dep d t x = Inr y" using Cons.prems(1) by (auto simp: res_simps)
    have v: "do_state y = dep_verdict d t (do_dep x)" by (rule evaluate_dep_verdict [OF y True])
    have three: "do_state y = WaitPending \<or> do_state y = WaitSatisfied \<or> do_state y = WaitFailed"
      by (rule evaluate_dep_state [OF y True])
    note split = deps_verdict_Cons [of "do_state y" x d t xs, OF _ three]
    show ?thesis
    proof (cases "do_state y = WaitFailed")
      case failed: True
      then show ?thesis using Cons.prems(1) y True split v by auto
    next
      case False
      then obtain zs where zs: "evaluate_deps d t (Suc i) xs = Inr (zs, f)" "ys = y # zs"
        using Cons.prems(1) y True by (auto simp: res_simps)
      show ?thesis using Cons.IH [OF zs(1)] Cons.prems(2) split v True False zs(2) three by (auto split: if_splits)
    qed
  qed
qed

text \<open>
  C15: the evaluation of a well-formed pending wait always returns, and its state is the verdict read
  off the goals and the archive: timed out once the deadline has passed, failed as soon as one
  dependency failed, satisfied when every one is, pending otherwise.
\<close>

theorem wait_evaluation_refines_verdict:
  assumes "outcome_ok d w" "wo_state w = WaitPending"
  shows "\<exists>v. evaluate_wait d w now = Inr v \<and> wo_state v = wait_verdict d now w"
proof -
  obtain v where v: "evaluate_wait d w now = Inr v" using evaluate_wait_evaluated [OF assms(1)] by blast
  have deps: "\<forall>x \<in> set (wo_dependencies w). do_state x = WaitPending \<or> do_state x = WaitSatisfied"
    using assms by (simp add: outcome_ok_def)
  show ?thesis
  proof (cases "case wo_deadline w of None \<Rightarrow> False | Some dl \<Rightarrow> dl \<le> now")
    case True
    then show ?thesis using assms(2) by (simp add: evaluate_wait_def wait_verdict_def)
  next
    case False
    then obtain ys f where ys: "evaluate_deps d (wo_tenantId w) 0 (wo_dependencies w) = Inr (ys, f)"
      using v assms(2) by (auto simp: evaluate_wait_def res_simps)
    note verdict = evaluate_deps_verdict [OF ys deps]
    show ?thesis
    proof (cases f)
      case None
      then show ?thesis using verdict ys False assms(2) by (simp add: evaluate_wait_def wait_verdict_def)
    next
      case (Some p)
      then have "deps_verdict d (wo_tenantId w) (wo_dependencies w) = WaitFailed" using verdict by simp
      then show ?thesis using Some ys False assms(2) by (cases p) (simp add: evaluate_wait_def wait_verdict_def)
    qed
  qed
qed

definition sample_wait :: wait_row where
  "sample_wait = hd (dependency_waits db_waiting)"

theorem wait_evaluation_refines_verdict_witness:
  "\<exists>v. evaluate_wait db_finished (w_outcome sample_wait) 50 = Inr v \<and> wo_state v = wait_verdict db_finished 50 (w_outcome sample_wait)"
proof (rule wait_evaluation_refines_verdict)
  show "wo_state (w_outcome sample_wait) = WaitPending" by code_simp
  show "outcome_ok db_finished (w_outcome sample_wait)" by code_simp
qed

subsection \<open>Deadlines\<close>

lemma due_stores:
  assumes "row_ok d w" "due_wait now w"
  shows "stores (\<lambda>_ v. wo_state v = WaitTimedOut) (resave_wait now) d w"
  using assms close_wait_ok [of WaitTimedOut d "w_outcome w"]
  by (auto simp: stores_def resave_wait_def evaluate_wait_def due_wait_def row_ok_def outcome_key_def
      split: option.splits)

lemma expire_tenant_due:
  assumes wf: "waits_wf d" and run: "expire_tenant now t d = Inr d'"
  shows "waits_wf d' \<and> (\<forall>w \<in> set (dependency_waits d'). due_wait now w \<longrightarrow> w_tenant_id w \<noteq> t \<and> w \<in> set (dependency_waits d))"
proof -
  let ?xs = "filter (\<lambda>w. w_tenant_id w = t \<and> due_wait now w) (dependency_waits d)"
  have "\<forall>w \<in> set ?xs. stores (\<lambda>_ v. wo_state v = WaitTimedOut) (resave_wait now) d w"
    using wf due_stores by (simp add: waits_wf_def)
  from save_fold [OF wf this] run
  have st: "stored_rows (\<lambda>_ v. wo_state v = WaitTimedOut) ?xs d d'" by (auto simp: expire_tenant_def)
  have wf': "waits_wf d'" using st by (simp add: stored_rows_def)
  have "w_tenant_id w \<noteq> t \<and> w \<in> set (dependency_waits d)" if w: "w \<in> set (dependency_waits d')" "due_wait now w" for w
  proof -
    have "row_ok d' w" using wf' w(1) by (simp add: waits_wf_def)
    then have "wo_state (w_outcome w) \<noteq> WaitTimedOut" using w(2) by (simp add: row_ok_def due_wait_def)
    then have old: "wait_key w \<notin> wait_key ` set ?xs" "w \<in> set (dependency_waits d)"
      using st w(1) unfolding stored_rows_def by blast+
    then show ?thesis using w(2) by auto
  qed
  then show ?thesis using wf' by blast
qed

lemma expire_tenants_due:
  assumes "waits_wf d" "fold_res (expire_tenant now) us d = Inr d'"
  shows "\<forall>w \<in> set (dependency_waits d'). due_wait now w \<longrightarrow> w_tenant_id w \<notin> set us \<and> w \<in> set (dependency_waits d)"
  using assms
proof (induction us arbitrary: d)
  case (Cons u us)
  then obtain d1 where d1: "expire_tenant now u d = Inr d1" "fold_res (expire_tenant now) us d1 = Inr d'"
    by (auto simp: res_simps)
  note one = expire_tenant_due [OF Cons.prems(1) d1(1)]
  show ?case using Cons.IH [OF _ d1(2)] one by auto
qed simp

text \<open>
  C16: the expiry pass that every acquisition and every claim runs first always succeeds, and after it
  no pending wait of the tenants it covers is past its deadline.
\<close>

theorem expiry_leaves_no_due_wait:
  assumes "db_inv d now"
  shows "\<exists>d'. expire_goal_waits ts now d = Inr d' \<and> db_inv d' now \<and>
    (\<forall>w \<in> set (dependency_waits d'). (case ts of None \<Rightarrow> True | Some us \<Rightarrow> w_tenant_id w \<in> set us) \<longrightarrow> \<not> due_wait now w)"
proof -
  note ok = db_okD [OF invD(1) [OF assms]]
  obtain d' where d': "expire_goal_waits ts now d = Inr d'" using expire_goal_waits_ok [OF ok(4,5)] by blast
  have "\<not> due_wait now w" if w: "w \<in> set (dependency_waits d')"
    "case ts of None \<Rightarrow> True | Some us \<Rightarrow> w_tenant_id w \<in> set us" for w
  proof
    assume due: "due_wait now w"
    then have "w \<in> set (dependency_waits d)" and "w_tenant_id w \<notin> w_tenant_id ` {w \<in> set (dependency_waits d).
        due_wait now w \<and> (case ts of None \<Rightarrow> True | Some us \<Rightarrow> w_tenant_id w \<in> set us)}"
      using expire_tenants_due [OF ok(4) d' [unfolded expire_goal_waits_def]] w(1) by auto
    then show False using due w(2) by blast
  qed
  then show ?thesis using d' expire_goal_waits_inv [OF assms d'] by blast
qed

theorem expiry_leaves_no_due_wait_witness:
  "\<exists>d'. expire_goal_waits None 30 db_waiting = Inr d' \<and> db_inv d' 30"
  using expiry_leaves_no_due_wait [OF inv_later [OF sample_invs(2)], of 30 None] by auto

subsection \<open>Cycles\<close>

text \<open>
  C17: the recursive query of the cycle check always ends, within a number of levels that the size of
  the database bounds.
\<close>

theorem cycle_walk_terminates:
  "\<exists>rows. walk (node_succs d t now) (length (graph_nodes d) + 2) [(n, [n], False)] = Some rows"
  using obligation_walk [of d t now n] by blast


subsection \<open>Goals\<close>

lemma fail_goal_again:
  assumes "find_goal d t g = Some r" "g_state r = GoalFailedState" "map_option failure_message (g_failure r) = Some m"
    "btrim m \<noteq> ''''" "length m \<le> 16384"
  shows "fail_goal t g m now d = Inr (r, d)"
  using assms by (simp add: fail_goal_def goal_info_def)

text \<open>
  Failing an open goal closes it with the given message and settles everything that waited on it;
  failing it again with the same message changes nothing.
\<close>

lemma fail_goal_closes:
  assumes "db_inv d now" "find_goal d t g = Some r" "g_state r = GoalOpen" "btrim m \<noteq> ''''" "length m \<le> 16384"
  shows "\<exists>info d'. fail_goal t g m now d = Inr (info, d') \<and> find_goal d' t g = Some info \<and>
    g_state info = GoalFailedState \<and> map_option failure_message (g_failure info) = Some m \<and> db_inv d' now \<and>
    fail_goal t g m now' d' = Inr (info, d')"
proof -
  note ok = db_okD [OF invD(1) [OF assms(1)]]
  let ?v = "GoalFailed g m (filter (archived d t) (sort (goal_members d t g)))
      (filter (\<lambda>m. \<not> archived d t m) (sort (goal_members d t g))) now"
  let ?f = "\<lambda>r. r\<lparr>g_state := GoalFailedState, g_revision := 2, g_failure := Some ?v, g_updated_at := now,
      g_closed_at := Some now\<rparr>"
  have "\<exists>d'. settle_target t KGoal g now (update_goal t g ?f d) = Inr d' \<and> closes_goals d d' \<and> find_goal d' t g = Some (?f r)"
    by (rule update_goal_close [OF ok(4,5) assms(2,3)])
       (use assms(3) in \<open>auto simp: goal_key_def goal_row_ok_def split: goal_state.splits\<close>)
  then obtain d' where d': "settle_target t KGoal g now (update_goal t g ?f d) = Inr d'" "find_goal d' t g = Some (?f r)"
    by blast
  then have run: "fail_goal t g m now d = Inr (?f r, d')"
    using assms by (simp add: fail_goal_def goal_info_def Let_def)
  have "fail_goal t g m now' d' = Inr (?f r, d')" by (rule fail_goal_again [OF d'(2)]) (use assms in simp_all)
  then show ?thesis using run d'(2) fail_goal_inv [OF assms(1) run] by auto
qed

lemma fail_goal_closes_sample:
  "\<exists>info d'. fail_goal ''t'' ''ga'' ''broken'' 30 db_waiting = Inr (info, d') \<and> g_state info = GoalFailedState"
proof -
  have inv: "db_inv db_waiting 30" by (rule inv_later [OF sample_invs(2)]) simp
  have g: "find_goal db_waiting ''t'' ''ga'' = Some (the (find_goal db_waiting ''t'' ''ga''))" by code_simp
  have "g_state (the (find_goal db_waiting ''t'' ''ga'')) = GoalOpen" by code_simp
  from fail_goal_closes [OF inv g this, of "''broken''" 0] show ?thesis by (auto simp: btrim_def)
qed

lemma add_goal_candidate_again:
  assumes "find_goal d t g = Some r" "find_fact d t j = Some f" "f_goal_id f \<noteq> g" "find_candidate d t g j = Some c"
  shows "add_goal_candidate t g j now d =
    Inr (\<lparr>ci_addedAt = gc_added_at c, ci_goalState = g_state r, ci_successfulJobId = g_successful_job_id r\<rparr>, d)"
  using assms by (simp add: add_goal_candidate_def goal_info_def)

text \<open>
  Adding a job that already succeeded as a candidate of an open goal closes the goal as succeeded
  through that job, and the answer says so; adding it again answers the same and changes nothing.
\<close>

lemma candidate_resolves_goal:
  assumes "db_inv d now" "find_goal d t g = Some r" "g_state r = GoalOpen" "find_fact d t j = Some f" "f_goal_id f \<noteq> g"
    "find_candidate d t g j = None" "succeeded d t j"
    and run: "add_goal_candidate t g j now d = Inr (info, d')"
  shows "ci_goalState info = GoalSucceeded \<and> ci_successfulJobId info = Some j \<and>
    (\<exists>r'. find_goal d' t g = Some r' \<and> g_state r' = GoalSucceeded \<and> g_successful_job_id r' = Some j) \<and>
    add_goal_candidate t g j now' d' = Inr (info, d')"
proof -
  let ?e = "add_candidate_row t g j now d"
  note ok = db_okD [OF invD(1) [OF assms(1)]]
  have inv1: "waits_wf ?e" "waits_fresh ?e" using ok(4,5) add_candidate_row_frame by auto
  have ge: "find_goal ?e t g = Some r" using assms(2) by (simp add: find_goal_def add_candidate_row_def)
  from resolve_goal_ok [OF inv1, of t g j now] ge assms(3) obtain d2 r' where
    d2: "resolve_goal t g j now ?e = Inr d2" "closes_goals ?e d2" "find_goal d2 t g = Some r'"
      "g_state r' = GoalSucceeded" "g_successful_job_id r' = Some j" by blast
  have suc: "succeeded ?e t j" using assms(7) by (simp add: succeeded_def add_candidate_row_def)
  have d': "d' = d2" "info = \<lparr>ci_addedAt = now, ci_goalState = GoalSucceeded, ci_successfulJobId = Some j\<rparr>"
    using run assms(2-6) d2 suc
    by (auto simp: add_goal_candidate_def goal_info_def new_candidate_def Let_def res_simps)
  note sel = goals_waits_only_sel [OF closes_goalsD(1) [OF d2(2)]]
  have "find_fact d2 t j = Some f" using assms(4) sel by (simp add: find_fact_def add_candidate_row_def)
  moreover have "find_candidate d2 t g j = Some \<lparr>gc_tenant_id = t, gc_goal_id = g, gc_job_id = j, gc_added_at = now\<rparr>"
    using assms(6) sel by (simp add: find_candidate_def add_candidate_row_def row_at_append)
  ultimately have "add_goal_candidate t g j now' d2 = Inr (info, d2)"
    using add_goal_candidate_again [OF d2(3) _ assms(5)] d2(4,5) d'(2) by simp
  then show ?thesis using d2(3-5) d' by auto
qed

definition sample_candidate :: "candidate_info \<times> db" where
  "sample_candidate = projr (add_goal_candidate ''t'' ''gb'' ''a'' 50 db_finished)"

lemma candidate_resolves_goal_sample:
  "ci_goalState (fst sample_candidate) = GoalSucceeded \<and> ci_successfulJobId (fst sample_candidate) = Some ''a''"
proof -
  have inv: "db_inv db_finished 50" by (rule inv_later [OF sample_invs(4)]) simp
  have g: "find_goal db_finished ''t'' ''gb'' = Some (the (find_goal db_finished ''t'' ''gb''))" by code_simp
  have s: "g_state (the (find_goal db_finished ''t'' ''gb'')) = GoalOpen" by code_simp
  have f: "find_fact db_finished ''t'' ''a'' = Some (the (find_fact db_finished ''t'' ''a''))" by code_simp
  have n: "f_goal_id (the (find_fact db_finished ''t'' ''a'')) \<noteq> ''gb''" by code_simp
  have c: "find_candidate db_finished ''t'' ''gb'' ''a'' = None" by code_simp
  have u: "succeeded db_finished ''t'' ''a''" by code_simp
  have "\<not> isl (add_goal_candidate ''t'' ''gb'' ''a'' 50 db_finished)" by code_simp
  then have run: "add_goal_candidate ''t'' ''gb'' ''a'' 50 db_finished = Inr (fst sample_candidate, snd sample_candidate)"
    by (cases "add_goal_candidate ''t'' ''gb'' ''a'' 50 db_finished") (auto simp: sample_candidate_def)
  show ?thesis using candidate_resolves_goal [OF inv g s f n c u run] by blast
qed

text \<open>
  C19: an open goal is decided once, and the decision is final. Failing it with an acceptable message closes
  it with that message and keeps the database consistent; adding a candidate that already succeeded closes it
  as succeeded through that job, and the answer says so. Either call sent again, at any later
  time, answers the same and changes nothing.
\<close>

theorem goals_decided_once:
  assumes "db_inv d now" "find_goal d t g = Some r" "g_state r = GoalOpen"
  shows "(\<forall>m. btrim m \<noteq> '''' \<and> length m \<le> 16384 \<longrightarrow>
      (\<exists>info d'. fail_goal t g m now d = Inr (info, d') \<and> find_goal d' t g = Some info \<and> g_state info = GoalFailedState \<and>
         map_option failure_message (g_failure info) = Some m \<and> db_inv d' now \<and>
         (\<forall>now'. fail_goal t g m now' d' = Inr (info, d')))) \<and>
    (\<forall>j f info d'. find_fact d t j = Some f \<and> f_goal_id f \<noteq> g \<and> find_candidate d t g j = None \<and> succeeded d t j \<and>
       add_goal_candidate t g j now d = Inr (info, d') \<longrightarrow>
      ci_goalState info = GoalSucceeded \<and> ci_successfulJobId info = Some j \<and>
      (\<exists>r'. find_goal d' t g = Some r' \<and> g_state r' = GoalSucceeded \<and> g_successful_job_id r' = Some j) \<and>
      (\<forall>now'. add_goal_candidate t g j now' d' = Inr (info, d')))"
proof (intro conjI allI impI)
  fix m assume m: "btrim m \<noteq> '''' \<and> length m \<le> 16384"
  then obtain info d' where fail: "fail_goal t g m now d = Inr (info, d')" "find_goal d' t g = Some info"
    "g_state info = GoalFailedState" "map_option failure_message (g_failure info) = Some m" "db_inv d' now"
    using fail_goal_closes [OF assms] by blast
  then show "\<exists>info d'. fail_goal t g m now d = Inr (info, d') \<and> find_goal d' t g = Some info \<and>
      g_state info = GoalFailedState \<and> map_option failure_message (g_failure info) = Some m \<and> db_inv d' now \<and>
      (\<forall>now'. fail_goal t g m now' d' = Inr (info, d'))"
    using fail_goal_again [OF fail(2-4)] m by blast
qed (use candidate_resolves_goal [OF assms] in blast)+

theorem goals_decided_once_witness:
  "(\<exists>info d'. fail_goal ''t'' ''gb'' ''broken'' 50 db_finished = Inr (info, d') \<and> g_state info = GoalFailedState \<and>
      fail_goal ''t'' ''gb'' ''broken'' 60 d' = Inr (info, d')) \<and>
   ci_successfulJobId (fst sample_candidate) = Some ''a'' \<and>
   add_goal_candidate ''t'' ''gb'' ''a'' 60 (snd sample_candidate) = Inr sample_candidate"
proof -
  have inv: "db_inv db_finished 50" by (rule inv_later [OF sample_invs(4)]) simp
  have g: "find_goal db_finished ''t'' ''gb'' = Some (the (find_goal db_finished ''t'' ''gb''))" by code_simp
  have s: "g_state (the (find_goal db_finished ''t'' ''gb'')) = GoalOpen" by code_simp
  have job: "find_fact db_finished ''t'' ''a'' = Some (the (find_fact db_finished ''t'' ''a''))"
    "f_goal_id (the (find_fact db_finished ''t'' ''a'')) \<noteq> ''gb''" "find_candidate db_finished ''t'' ''gb'' ''a'' = None"
    "succeeded db_finished ''t'' ''a''" "\<not> isl (add_goal_candidate ''t'' ''gb'' ''a'' 50 db_finished)" by code_simp+
  from job(5) have run: "add_goal_candidate ''t'' ''gb'' ''a'' 50 db_finished = Inr (fst sample_candidate, snd sample_candidate)"
    by (cases "add_goal_candidate ''t'' ''gb'' ''a'' 50 db_finished") (auto simp: sample_candidate_def)
  have m: "btrim ''broken'' \<noteq> '''' \<and> length ''broken'' \<le> (16384 :: nat)" by (simp add: btrim_def)
  note decided = goals_decided_once [OF inv g s]
  have "\<exists>info d'. fail_goal ''t'' ''gb'' ''broken'' 50 db_finished = Inr (info, d') \<and> g_state info = GoalFailedState \<and>
      fail_goal ''t'' ''gb'' ''broken'' 60 d' = Inr (info, d')"
    using decided [THEN conjunct1, THEN spec, THEN mp, OF m] by blast
  moreover have "ci_successfulJobId (fst sample_candidate) = Some ''a'' \<and>
      add_goal_candidate ''t'' ''gb'' ''a'' 60 (snd sample_candidate) = Inr (fst sample_candidate, snd sample_candidate)"
    using decided [THEN conjunct2] run job(1-4) by blast
  ultimately show ?thesis by simp
qed

subsection \<open>Client payloads\<close>

text \<open>
  C20: patching is a JSON merge patch: a member the patch does not name is kept, one it maps to null
  is removed, any other is merged recursively with what was there.
\<close>

theorem merge_patch_members:
  assumes "distinct (map fst ps)"
  shows "cmember k (Some (merge_client_json target (CObj n ps))) =
    (case map_of ps k of
       None \<Rightarrow> cmember k target
     | Some v \<Rightarrow> if v = CNull then None else Some (merge_client_json (cmember k target) v))"
  by (rule merge_member [OF assms])

theorem merge_patch_members_witness:
  "cmember ''a'' (Some (merge_client_json (Some (CObj 0 [(''a'', CBool True)])) (CObj 0 [(''b'', CNull)]))) = Some (CBool True)"
  by (subst merge_patch_members) (simp_all add: cmember_def)

end
