(* ===== verification/Job_Pages.thy ===== *)
theory Job_Pages
  imports Job_Listing
begin

section \<open>Complete listings of jobs\<close>

text \<open>
  The generic \<^verbatim>\<open>listJobs\<close> runs over two queries, the view query behind \<^verbatim>\<open>ListJobs\<close> and the compact
  query behind \<^verbatim>\<open>ListJobSummaries\<close>. The locale says what it needs of a query and of the decoded
  rows, and proves once that a caller who follows the tokens sees every matching job exactly once,
  newest first. Both queries meet it, and so does the listing of schedule runs in its own order.
\<close>

subsection \<open>Rows of the view\<close>

lemma map_filter_Cons: "List.map_filter f (x # xs) = (case f x of None \<Rightarrow> List.map_filter f xs | Some y \<Rightarrow> y # List.map_filter f xs)"
  by (simp add: List.map_filter_simps split: option.split)

lemma map_key_map_filter:
  assumes "\<And>x y. f x = Some y \<Longrightarrow> k y = g x"
  shows "map k (List.map_filter f xs) = map g (filter (\<lambda>x. f x \<noteq> None) xs)"
  by (induction xs) (auto simp: map_filter_Cons List.map_filter_simps assms split: option.split)

lemma set_map_filter: "set (List.map_filter f xs) = {y. \<exists>x \<in> set xs. f x = Some y}"
  by (induction xs) (auto simp: map_filter_Cons List.map_filter_simps split: option.split)

lemma active_native_fact: "active_native d now f = Some r \<Longrightarrow> n_fact r = f"
  by (auto simp: active_native_def split: option.splits if_splits)

lemma archived_native_fact: "archived_native d f = Some r \<Longrightarrow> n_fact r = f"
  by (auto simp: archived_native_def split: option.splits if_splits)

lemma native_jobs_facts:
  assumes "keys_ok d"
  shows "distinct (map n_fact (native_jobs d now))" "set (map n_fact (native_jobs d now)) \<subseteq> set (job_facts d)"
proof -
  have dist: "distinct (job_facts d)" using assms by (simp add: keys_ok_def distinct_map)
  have "map n_fact (native_jobs d now) = filter (\<lambda>f. active_native d now f \<noteq> None) (job_facts d) @
      filter (\<lambda>f. archived_native d f \<noteq> None) (job_facts d)"
    unfolding native_jobs_def map_append
    by (simp add: map_key_map_filter [where g = id] active_native_fact archived_native_fact)
  moreover have "archived_native d f = None" if "active_native d now f \<noteq> None" for f
  proof -
    have "fact_key f \<in> job_key ` set (jobs d)"
      using that unfolding active_native_def find_job_def fact_key_def
      by (auto split: option.splits dest!: row_at_SomeD intro: rev_image_eqI)
    then have "fact_key f \<notin> archive_key ` set (jobs_archive d)"
      using assms unfolding keys_ok_def by blast
    then have "find_archive d (f_tenant_id f) (f_job_id f) = None"
      by (simp add: find_archive_def row_at_None fact_key_def)
    then show ?thesis by (simp add: archived_native_def)
  qed
  ultimately show "distinct (map n_fact (native_jobs d now))" "set (map n_fact (native_jobs d now)) \<subseteq> set (job_facts d)"
    using dist by auto
qed

lemma native_order_distinct:
  assumes "keys_ok d"
  shows "distinct (map n_order (native_jobs d now))"
proof (rule distinct_finer_key [where key = n_fact])
  fix x y
  assume xy: "x \<in> set (native_jobs d now)" "y \<in> set (native_jobs d now)" "n_order x = n_order y"
  then have "n_fact x \<in> set (job_facts d)" "n_fact y \<in> set (job_facts d)"
    using native_jobs_facts(2) [OF assms, of now] by auto
  moreover have "fact_key (n_fact x) = fact_key (n_fact y)" using xy(3) by (simp add: n_order_def fact_key_def)
  ultimately show "n_fact x = n_fact y" using assms by (auto simp: keys_ok_def distinct_map inj_on_def)
qed (rule native_jobs_facts(1) [OF assms])

text \<open>Every row of the view has a client state, so the join loses nothing.\<close>

lemma fact_has_client:
  assumes "keys_ok d" "f \<in> set (job_facts d)"
  shows "\<exists>c. find_client d (f_tenant_id f) (f_job_id f) = Some c"
proof -
  have "(f_tenant_id f, f_job_id f) \<in> client_key ` set (job_client_state d)"
    using assms unfolding keys_ok_def by (metis fact_key_def image_eqI)
  then show ?thesis using row_at_None [of client_key "(f_tenant_id f, f_job_id f)" "job_client_state d"]
    by (auto simp: find_client_def)
qed

definition with_client :: "db \<Rightarrow> native_row \<Rightarrow> native_row \<times> client_state_row" where
  "with_client d r = (r, the (find_client d (f_tenant_id (n_fact r)) (f_job_id (n_fact r))))"

lemma map_filter_total: "(\<And>x. x \<in> set xs \<Longrightarrow> f x = Some (g x)) \<Longrightarrow> List.map_filter f xs = map g xs"
  by (induction xs) (auto simp: List.map_filter_simps)

lemma native_jobs_client_map:
  assumes "keys_ok d"
  shows "native_jobs_client d now = map (with_client d) (native_jobs d now)"
  unfolding native_jobs_client_def
proof (rule map_filter_total)
  fix r assume "r \<in> set (native_jobs d now)"
  then have "n_fact r \<in> set (job_facts d)" using native_jobs_facts(2) [OF assms, of now] by auto
  then show "map_option (Pair r) (find_client d (f_tenant_id (n_fact r)) (f_job_id (n_fact r))) = Some (with_client d r)"
    using fact_has_client [OF assms] by (auto simp: with_client_def)
qed

lemma fst_with_client [simp]: "fst (with_client d r) = r"
  by (simp add: with_client_def)

definition fact_order :: "fact_row \<Rightarrow> int \<times> string \<times> string" where
  "fact_order f = (f_created_at f, f_tenant_id f, f_job_id f)"

lemma n_order_fact: "n_order r = fact_order (n_fact r)"
  by (simp add: n_order_def fact_order_def)

subsection \<open>The contract of a job listing\<close>

definition job_page_size :: "ListJobsOptions \<Rightarrow> int" where
  "job_page_size opts = (if lo_PageSize opts = 0 then 100 else lo_PageSize opts)"

text \<open>
  What the listing relies on of \<^verbatim>\<open>encoding/json\<close>, for the keys of a database: the cursor of a key has a JSON
  text, which reads back as the cursor. The decoder refuses tokens of more than 4096 characters, which are
  those of a JSON text of more than 3072.
\<close>

definition job_cursors_ok :: "lib \<Rightarrow> string \<Rightarrow> (int \<times> string \<times> string) set \<Rightarrow> bool" where
  "job_cursors_ok l fp S \<longleftrightarrow> (\<forall>(us, t, j) \<in> S. \<not> IsZero (go_time us) \<and> t \<noteq> '''' \<and> j \<noteq> '''' \<and>
     (\<exists>data. l_marshal_job l \<lparr>jc_Filter = fp, jc_CreatedAt = go_time us, jc_TenantID = t, jc_JobID = j\<rparr> = Some data \<and>
        data \<noteq> '''' \<and> length data \<le> 3072 \<and>
        l_unmarshal_job l data = Some \<lparr>jc_Filter = fp, jc_CreatedAt = go_time us, jc_TenantID = t, jc_JobID = j\<rparr>))"

text \<open>A caller's view of one page: the items and the token of the next page.\<close>

definition page_call :: "(job_query \<Rightarrow> (int \<times> string \<times> string) option \<Rightarrow> int \<Rightarrow> db \<Rightarrow> 'r list res) \<Rightarrow> (db \<Rightarrow> 'r \<Rightarrow> 'i) \<Rightarrow>
   ('i \<Rightarrow> int \<times> string \<times> string) \<Rightarrow> lib \<Rightarrow> handle \<Rightarrow> env \<Rightarrow> ListJobsOptions \<Rightarrow> db \<Rightarrow> string \<Rightarrow> ('i list \<times> string) go" where
  "page_call query scan identity l h e opts d token =
     fst (listJobs l h e (opts\<lparr>lo_PageToken := token\<rparr>) query scan identity d)"

locale job_listing = keyset_query good full fetch key "\<lambda>k k'. k' < k"
  for good :: "db \<Rightarrow> bool" and full :: "job_query \<Rightarrow> db \<Rightarrow> 'r list"
    and fetch :: "job_query \<Rightarrow> (int \<times> string \<times> string) option \<Rightarrow> nat \<Rightarrow> db \<Rightarrow> 'r list"
    and key :: "'r \<Rightarrow> int \<times> string \<times> string" +
  fixes query :: "job_query \<Rightarrow> (int \<times> string \<times> string) option \<Rightarrow> int \<Rightarrow> db \<Rightarrow> 'r list res"
    and scan :: "db \<Rightarrow> 'r \<Rightarrow> 'i"
    and identity :: "'i \<Rightarrow> int \<times> string \<times> string"
  assumes query_ok: "q_tenant_ids q \<noteq> [] \<Longrightarrow> \<not> (q_root_only q \<and> q_parent_job_ids q \<noteq> None) \<Longrightarrow>
      1 \<le> limit \<Longrightarrow> limit \<le> 1000 \<Longrightarrow> query q c limit d = Inr (fetch q c (nat limit) d)"
    and identity_ok: "identity (scan d r) = (go_time (fst (key r)), snd (key r))"
    and keys_known: "good d \<Longrightarrow> r \<in> set (full q d) \<Longrightarrow> key r \<in> fact_order ` set (job_facts d)"
begin

lemma options_token:
  "list_options_error l (opts\<lparr>lo_PageToken := token\<rparr>) = list_options_error l opts"
  "list_fingerprint l (opts\<lparr>lo_PageToken := token\<rparr>) = list_fingerprint l opts"
  "list_query l host (opts\<lparr>lo_PageToken := token\<rparr>) = list_query l host opts"
  by (cases opts, simp only: list_options_error_def list_fingerprint_def list_query_def
      ListJobsOptions.update_convs ListJobsOptions.select_convs)+

lemma options_query:
  assumes "list_options_error l opts = None"
  shows "q_tenant_ids (list_query l host opts) \<noteq> []" "1 \<le> job_page_size opts" "job_page_size opts \<le> 200"
    "\<not> (q_root_only (list_query l host opts) \<and> q_parent_job_ids (list_query l host opts) \<noteq> None)"
proof -
  have "lo_TenantIDs opts \<noteq> []" "\<not> (lo_RootOnly opts \<and> lo_ParentJobIDs opts \<noteq> [])"
    "\<not> (job_page_size opts < 1 \<or> job_page_size opts > 200)"
    using assms unfolding list_options_error_def Let_def job_page_size_def by (auto split: if_splits)
  moreover have "sort xs = [] \<longleftrightarrow> xs = []" for xs :: "string list" by (metis set_empty set_sort)
  ultimately show "q_tenant_ids (list_query l host opts) \<noteq> []" "1 \<le> job_page_size opts" "job_page_size opts \<le> 200"
    "\<not> (q_root_only (list_query l host opts) \<and> q_parent_job_ids (list_query l host opts) \<noteq> None)"
    by (auto simp: list_query_def nilIfEmpty_def)
qed

lemma page_call_page:
  assumes "validateScheduleDB h = Inr ()" "list_options_error l opts = None" "e_link e = LinkUp"
    "job_cursor_of l (list_fingerprint l opts) token = Inr c"
  shows "page_call query scan identity l h e opts d token = page_cut (nat (job_page_size opts)) (scan d)
    (job_token l (list_fingerprint l opts) identity)
    (fetch (list_query l (e_host e) opts) c (Suc (nat (job_page_size opts))) d)"
proof -
  note o = options_query(1,4) [OF assms(2), of "e_host e"] options_query(2,3) [OF assms(2)]
  have "nat (job_page_size opts + 1) = Suc (nat (job_page_size opts))" using o(3) by simp
  then have q: "query (list_query l (e_host e) opts) c (job_page_size opts + 1) d =
      Inr (fetch (list_query l (e_host e) opts) c (Suc (nat (job_page_size opts))) d)"
    using query_ok [OF o(1,2), of "job_page_size opts + 1" c d] o(3,4) by simp
  have tok: "lo_PageToken (opts\<lparr>lo_PageToken := token\<rparr>) = token" "job_page_size (opts\<lparr>lo_PageToken := token\<rparr>) = job_page_size opts"
    by (simp_all add: job_page_size_def)
  show ?thesis
    using assms(1,3) unfolding page_call_def listJobs_def options_token assms(2) tok assms(4) Let_def
      job_page_size_def [symmetric] on_request_def
    by (simp add: assms(4) and_then_def call_sql_def reading_def q)
qed

lemma pages_collected:
  assumes "validateScheduleDB h = Inr ()" "list_options_error l opts = None" "e_link e = LinkUp" "good d"
    and lib: "micros_exact l" "job_cursors_ok l (list_fingerprint l opts) (fact_order ` set (job_facts d))"
  shows "collect (page_call query scan identity l h e opts d) (Suc (length (full (list_query l (e_host e) opts) d))) '''' =
    Some (Inr (map (scan d) (full (list_query l (e_host e) opts) d)))"
proof (rule collect_all [OF assms(4), where encode = "job_token l (list_fingerprint l opts) identity" and
      cursor = "\<lambda>t. case job_cursor_of l (list_fingerprint l opts) t of Inl _ \<Rightarrow> None | Inr c \<Rightarrow> Some c"])
  show "0 < nat (job_page_size opts)" using options_query(2) [OF assms(2)] by simp
  show "(case job_cursor_of l (list_fingerprint l opts) '''' of Inl _ \<Rightarrow> None | Inr c \<Rightarrow> Some c) = Some None"
    by (simp add: job_cursor_of_def)
next
  fix token c
  assume "(case job_cursor_of l (list_fingerprint l opts) token of Inl _ \<Rightarrow> None | Inr c \<Rightarrow> Some c) = Some c"
  then have "job_cursor_of l (list_fingerprint l opts) token = Inr c" by (auto split: sum.splits)
  then show "page_call query scan identity l h e opts d token = page_cut (nat (job_page_size opts)) (scan d)
      (job_token l (list_fingerprint l opts) identity)
      (fetch (list_query l (e_host e) opts) c (Suc (nat (job_page_size opts))) d)"
    by (rule page_call_page [OF assms(1-3)])
next
  fix r
  assume "r \<in> set (full (list_query l (e_host e) opts) d)"
  then have "key r \<in> fact_order ` set (job_facts d)" by (rule keys_known [OF assms(4)])
  moreover obtain us t j where k: "key r = (us, t, j)" by (cases "key r")
  ultimately obtain data where json: "\<not> IsZero (go_time us)" "t \<noteq> []" "j \<noteq> []" "l_marshal_job l \<lparr>jc_Filter = list_fingerprint l opts, jc_CreatedAt = go_time us, jc_TenantID = t, jc_JobID = j\<rparr> = Some data"
      "l_unmarshal_job l data = Some \<lparr>jc_Filter = list_fingerprint l opts, jc_CreatedAt = go_time us, jc_TenantID = t, jc_JobID = j\<rparr>"
      "data \<noteq> []" "length data \<le> 3072"
    using lib(2) unfolding job_cursors_ok_def by fastforce
  let ?c = "\<lparr>jc_Filter = list_fingerprint l opts, jc_CreatedAt = go_time us, jc_TenantID = t, jc_JobID = j\<rparr>"
  obtain token where t: "encode_cursor (l_marshal_job l) ?c = Some token"
    "decode_cursor (l_unmarshal_job l) token = Some ?c" "token \<noteq> []" "length token = (4 * length data + 2) div 3"
    by (rule cursor_roundtrip [of "l_marshal_job l" ?c data "l_unmarshal_job l"]) (use json in auto)
  then have short: "length token \<le> 4096" using json(7) by simp
  have "job_token l (list_fingerprint l opts) identity (scan d r) = Inr token"
    using t(1) by (simp add: job_token_def identity_ok k)
  moreover have "job_cursor_of l (list_fingerprint l opts) token = Inr (Some (key r))"
    using t(2,3) json(1-3) short lib(1) by (simp add: job_cursor_of_def micros_exact_def k)
  ultimately show "\<exists>token. job_token l (list_fingerprint l opts) identity (scan d r) = Inr token \<and> token \<noteq> '''' \<and>
      (case job_cursor_of l (list_fingerprint l opts) token of Inl _ \<Rightarrow> None | Inr c \<Rightarrow> Some c) = Some (Some (key r))"
    using t(3) by auto
qed

end

subsection \<open>The view query\<close>

definition native_query :: "int \<Rightarrow> job_query \<Rightarrow> (int \<times> string \<times> string) option \<Rightarrow> int \<Rightarrow> db \<Rightarrow>
   (native_row \<times> client_state_row) list res" where
  "native_query now q c limit = list_native_jobs q (map_option fst c) (map_option (\<lambda>c. fst (snd c)) c)
     (map_option (\<lambda>c. snd (snd c)) c) limit now"

definition all_native :: "int \<Rightarrow> job_query \<Rightarrow> db \<Rightarrow> (native_row \<times> client_state_row) list" where
  "all_native now q d = map (native_item q) (order_desc (\<lambda>rc. n_order (fst rc))
     (filter (\<lambda>rc. native_listed d q (fst rc)) (native_jobs_client d now)))"

lemma native_item_order [simp]: "n_order (fst (native_item q rc)) = n_order (fst rc)"
  "n_fact (fst (native_item q rc)) = n_fact (fst rc)"
  by (simp_all add: native_item_def n_order_def)

lemma filter_map_same: "(\<And>x. P (f x) = P x) \<Longrightarrow> filter P (map f xs) = map f (filter P xs)"
  by (induction xs) auto

interpretation native_pages: job_listing keys_ok "all_native now" "\<lambda>q. native_page (q, now)" "\<lambda>rc. n_order (fst rc)"
  "native_query now" scanListedJobDetail detail_identity for now
proof
  fix d q
  assume ok: "keys_ok d"
  have "distinct (map (\<lambda>rc. n_order (fst rc)) (filter (\<lambda>rc. native_listed d q (fst rc)) (native_jobs_client d now)))"
    using native_order_distinct [OF ok, of now]
    by (intro distinct_map_filter) (simp add: native_jobs_client_map [OF ok] comp_def)
  then show "sorted_wrt (\<lambda>x y. n_order (fst y) < n_order (fst x)) (all_native now q d)"
    unfolding all_native_def sorted_wrt_map native_item_order by (rule order_desc_strict)
next
  fix d q c n
  show "native_page (q, now) c n d = take n (filter
      (\<lambda>r. case c of None \<Rightarrow> True | Some k \<Rightarrow> n_order (fst r) < k) (all_native now q d))"
  proof -
    have "filter (\<lambda>r. case c of None \<Rightarrow> True | Some k \<Rightarrow> n_order (fst r) < k) (all_native now q d) =
        map (native_item q) (order_desc (\<lambda>rc. n_order (fst rc))
          (filter (\<lambda>r. (case c of None \<Rightarrow> True | Some k \<Rightarrow> n_order (fst r) < k)) (filter (\<lambda>rc. native_listed d q (fst rc)) (native_jobs_client d now))))"
      unfolding all_native_def filter_order_desc [symmetric]
      by (rule filter_map_same) (simp split: option.split)
    moreover have "filter (\<lambda>r. (case c of None \<Rightarrow> True | Some k \<Rightarrow> n_order (fst r) < k)) (filter (\<lambda>rc. native_listed d q (fst rc)) xs) =
        filter (\<lambda>rc. native_listed d q (fst rc) \<and> before_cursor (\<lambda>rc. n_order (fst rc)) c rc) xs" for xs
      unfolding filter_filter before_cursor_def by (rule filter_cong) auto
    ultimately show ?thesis by (cases c) (simp_all add: native_page_def take_map before_cursor_def)
  qed
next
  fix q :: job_query and c limit d
  assume "q_tenant_ids q \<noteq> []" "\<not> (q_root_only q \<and> q_parent_job_ids q \<noteq> None)" "1 \<le> limit" "limit \<le> (1000::int)"
  then show "native_query now q c limit d = Inr (native_page (q, now) c (nat limit) d)"
    by (cases c) (auto simp: native_query_def list_native_jobs_def cursor_fields_def)
next
  fix d r
  show "detail_identity (scanListedJobDetail d r) = (go_time (fst (n_order (fst r))), snd (n_order (fst r)))"
    by (simp add: detail_identity_def scanListedJobDetail_def detail_of_def Let_def n_order_def)
next
  fix d r q
  assume ok: "keys_ok d" and "r \<in> set (all_native now q d)"
  then have "n_fact (fst r) \<in> n_fact ` set (native_jobs d now)"
    by (auto simp: all_native_def native_jobs_client_map [OF ok])
  then have "n_fact (fst r) \<in> set (job_facts d)" using native_jobs_facts(2) [OF ok, of now] by auto
  then show "n_order (fst r) \<in> fact_order ` set (job_facts d)" by (simp add: n_order_fact)
qed simp

subsection \<open>The compact query\<close>

definition summary_row_of :: "db \<Rightarrow> job_query \<Rightarrow> native_row \<Rightarrow> summary_row" where
  "summary_row_of d q r = \<lparr>m_row = r, m_client = snd (with_client d r), m_wait = blocking_wait d q r\<rparr>"

definition all_compact :: "job_query \<Rightarrow> db \<Rightarrow> summary_row list" where
  "all_compact q d = map (summary_row_of d q) (order_desc n_order (filter (compact_listed d q) (native_jobs d (q_now q))))"

definition compact_query :: "job_query \<Rightarrow> (int \<times> string \<times> string) option \<Rightarrow> int \<Rightarrow> db \<Rightarrow> summary_row list res" where
  "compact_query q c limit d = Inr (compact_page q c (nat limit) d)"

lemma summary_row_of_row [simp]: "m_row (summary_row_of d q r) = r"
  by (simp add: summary_row_of_def)

lemma compact_page_map:
  assumes "keys_ok d"
  shows "compact_page q c n d = take n (map (summary_row_of d q)
    (order_desc n_order (filter (\<lambda>r. compact_listed d q r \<and> before_cursor n_order c r) (native_jobs d (q_now q)))))"
proof -
  let ?rows = "order_desc n_order (filter (\<lambda>r. compact_listed d q r \<and> before_cursor n_order c r) (native_jobs d (q_now q)))"
  have "compact_page q c n d = map (summary_row_of d q) (take n ?rows)"
    unfolding compact_page_def
  proof (rule map_filter_total)
    fix r assume "r \<in> set (take n ?rows)"
    then have "r \<in> set (native_jobs d (q_now q))" by (auto dest: in_set_takeD)
    then have "n_fact r \<in> set (job_facts d)" using native_jobs_facts(2) [OF assms, of "q_now q"] by auto
    then show "map_option (\<lambda>cl. \<lparr>m_row = r, m_client = cl, m_wait = blocking_wait d q r\<rparr>)
        (find_client d (f_tenant_id (n_fact r)) (f_job_id (n_fact r))) = Some (summary_row_of d q r)"
      using fact_has_client [OF assms] by (auto simp: summary_row_of_def with_client_def)
  qed
  then show ?thesis by (simp add: take_map)
qed

interpretation compact_pages: job_listing keys_ok all_compact compact_page "\<lambda>m. n_order (m_row m)"
  compact_query "\<lambda>_. summary_of" summary_identity
proof
  fix d q
  assume ok: "keys_ok d"
  have "distinct (map n_order (filter (compact_listed d q) (native_jobs d (q_now q))))"
    by (intro distinct_map_filter native_order_distinct [OF ok])
  then show "sorted_wrt (\<lambda>x y. n_order (m_row y) < n_order (m_row x)) (all_compact q d)"
    unfolding all_compact_def sorted_wrt_map summary_row_of_row by (rule order_desc_strict)
next
  fix d q c n
  assume ok: "keys_ok d"
  have "filter (\<lambda>m. case c of None \<Rightarrow> True | Some k \<Rightarrow> n_order (m_row m) < k) (all_compact q d) =
      map (summary_row_of d q) (filter (\<lambda>r. case c of None \<Rightarrow> True | Some k \<Rightarrow> n_order r < k)
        (order_desc n_order (filter (compact_listed d q) (native_jobs d (q_now q)))))"
    unfolding all_compact_def by (cases c) (simp_all add: filter_map comp_def)
  moreover have "filter (\<lambda>r. case c of None \<Rightarrow> True | Some k \<Rightarrow> n_order r < k) (filter (compact_listed d q) xs) =
      filter (\<lambda>r. compact_listed d q r \<and> before_cursor n_order c r) xs" for xs
    unfolding filter_filter before_cursor_def by (rule filter_cong) auto
  ultimately show "compact_page q c n d = take n (filter (\<lambda>m. case c of None \<Rightarrow> True | Some k \<Rightarrow> n_order (m_row m) < k) (all_compact q d))"
    by (cases c) (simp_all add: compact_page_map [OF ok] filter_order_desc before_cursor_def)
next
  fix d r
  show "summary_identity (summary_of r) = (go_time (fst (n_order (m_row r))), snd (n_order (m_row r)))"
    by (simp add: summary_identity_def summary_of_def Let_def n_order_def)
next
  fix d r q
  assume ok: "keys_ok d" and "r \<in> set (all_compact q d)"
  then have "n_fact (m_row r) \<in> n_fact ` set (native_jobs d (q_now q))" by (auto simp: all_compact_def)
  then have "n_fact (m_row r) \<in> set (job_facts d)" using native_jobs_facts(2) [OF ok, of "q_now q"] by auto
  then show "n_order (m_row r) \<in> fact_order ` set (job_facts d)" by (simp add: n_order_fact)
qed (simp_all add: compact_query_def)

subsection \<open>Both queries list the same jobs\<close>

lemma native_row_source:
  assumes "keys_ok d" "r \<in> set (native_jobs d now)"
  shows "(case n_source r of Inl j \<Rightarrow> find_job d (f_tenant_id (n_fact r)) (f_job_id (n_fact r)) = Some j \<and>
       n_status r = job_status_at d j now
     | Inr a \<Rightarrow> find_job d (f_tenant_id (n_fact r)) (f_job_id (n_fact r)) = None)"
proof -
  from assms(2) obtain f where "f \<in> set (job_facts d)" "active_native d now f = Some r \<or> archived_native d f = Some r"
    by (auto simp: native_jobs_def set_map_filter)
  then show ?thesis
  proof (elim disjE)
    assume "active_native d now f = Some r"
    then show ?thesis by (auto simp: active_native_def split: option.splits if_splits)
  next
    assume r: "archived_native d f = Some r"
    then have "fact_key f \<in> archive_key ` set (jobs_archive d)"
      unfolding archived_native_def find_archive_def fact_key_def
      by (auto split: option.splits dest!: row_at_SomeD intro: rev_image_eqI)
    then have "fact_key f \<notin> job_key ` set (jobs d)" using assms(1) unfolding keys_ok_def by blast
    then have "find_job d (f_tenant_id f) (f_job_id f) = None" by (simp add: find_job_def row_at_None fact_key_def)
    then show ?thesis using r by (auto simp: archived_native_def split: option.splits if_splits)
  qed
qed

lemma listed_agree:
  assumes "keys_ok d" "r \<in> set (native_jobs d (q_now q))"
  shows "native_listed d q r \<longleftrightarrow> compact_listed d q r"
    "compact_listed d q r \<Longrightarrow> q_available_routes q \<noteq> [] \<Longrightarrow> n_status r = READY"
proof -
  note s = native_row_source [OF assms]
  show "native_listed d q r \<longleftrightarrow> compact_listed d q r"
  proof (cases "n_source r")
    case (Inl j)
    then show ?thesis using s by (auto simp: native_listed_def compact_listed_def route_available_def Let_def)
  next
    case (Inr a)
    then show ?thesis using s by (auto simp: native_listed_def compact_listed_def Let_def)
  qed
  show "n_status r = READY" if "compact_listed d q r" "q_available_routes q \<noteq> []"
    using that by (auto simp: compact_listed_def split: sum.splits)
qed

lemma insort_key_map: "insort_key k (f x) (map f xs) = map f (insort_key (\<lambda>x. k (f x)) x xs)"
  by (induction xs) auto

lemma order_desc_map: "order_desc k (map f xs) = map f (order_desc (\<lambda>x. k (f x)) xs)"
proof -
  have "sort_key k (map f xs) = map f (sort_key (\<lambda>x. k (f x)) xs)"
    by (induction xs) (simp_all add: insort_key_map)
  then show ?thesis by (simp add: order_desc_def rev_map)
qed

lemma listings_agree:
  assumes "keys_ok d"
  shows "all_native (q_now q) q d = map (\<lambda>m. (m_row m, m_client m)) (all_compact q d)"
proof -
  let ?rows = "filter (compact_listed d q) (native_jobs d (q_now q))"
  have "filter (\<lambda>rc. native_listed d q (fst rc)) (native_jobs_client d (q_now q)) = map (with_client d) ?rows"
    using listed_agree(1) [OF assms]
    by (simp add: native_jobs_client_map [OF assms] filter_map comp_def cong: filter_cong)
  then have "all_native (q_now q) q d = map (\<lambda>r. native_item q (with_client d r)) (order_desc n_order ?rows)"
    by (simp add: all_native_def order_desc_map comp_def)
  moreover have "native_item q (with_client d r) = (m_row (summary_row_of d q r), m_client (summary_row_of d q r))"
    if "r \<in> set (order_desc n_order ?rows)" for r
  proof -
    have r: "r \<in> set (native_jobs d (q_now q))" "compact_listed d q r" using that by auto
    have "(with_client d r) = (r, m_client (summary_row_of d q r))" by (simp add: summary_row_of_def with_client_def)
    then show ?thesis using listed_agree(2) [OF assms r] by (simp add: native_item_def)
  qed
  ultimately show ?thesis by (simp add: all_compact_def comp_def)
qed

subsection \<open>Schedule runs\<close>

definition all_runs :: "run_query \<times> int \<Rightarrow> db \<Rightarrow> (native_row \<times> client_state_row) list" where
  "all_runs qn d = order_desc (\<lambda>rc. run_order (fst rc))
     (filter (\<lambda>rc. run_listed (fst qn) (fst rc)) (native_jobs_client d (snd qn)))"

interpretation run_pages: keyset_query keys_ok all_runs run_page "\<lambda>rc. run_order (fst rc)" "\<lambda>k k'. k' < k"
proof
  fix d and qn :: "run_query \<times> int"
  assume ok: "keys_ok d"
  let ?rows = "filter (\<lambda>rc. run_listed (fst qn) (fst rc)) (native_jobs_client d (snd qn))"
  have "distinct (map (\<lambda>rc. n_order (fst rc)) ?rows)"
    using native_order_distinct [OF ok, of "snd qn"]
    by (intro distinct_map_filter) (simp add: native_jobs_client_map [OF ok] comp_def)
  moreover have "fst x = fst y" if "x \<in> set ?rows" "y \<in> set ?rows" "run_order (fst x) = run_order (fst y)" for x y
  proof -
    have xy: "fst x \<in> set (native_jobs d (snd qn))" "fst y \<in> set (native_jobs d (snd qn))"
      using that(1,2) by (auto simp: native_jobs_client_map [OF ok])
    have "fact_key (n_fact (fst x)) = fact_key (n_fact (fst y))"
      using that by (simp add: run_listed_def Let_def run_order_def fact_key_def)
    moreover have "n_fact (fst x) \<in> set (job_facts d)" "n_fact (fst y) \<in> set (job_facts d)"
      using xy native_jobs_facts(2) [OF ok, of "snd qn"] by auto
    ultimately have "n_fact (fst x) = n_fact (fst y)" using ok by (auto simp: keys_ok_def distinct_map inj_on_def)
    then show ?thesis using xy native_jobs_facts(1) [OF ok, of "snd qn"] by (auto simp: distinct_map inj_on_def)
  qed
  ultimately have "distinct (map (\<lambda>rc. run_order (fst rc)) ?rows)"
    by (elim distinct_finer_key [rotated]) metis
  then show "sorted_wrt (\<lambda>x y. run_order (fst y) < run_order (fst x)) (all_runs qn d)"
    unfolding all_runs_def by (rule order_desc_strict)
next
  fix qn c n d
  show "run_page qn c n d = take n (filter (\<lambda>r. case c of None \<Rightarrow> True | Some k \<Rightarrow> run_order (fst r) < k) (all_runs qn d))"
    unfolding run_page_def all_runs_def filter_order_desc filter_filter before_cursor_def by (simp only: conj_commute)
qed simp

end
