(* ===== verification/Api_Guarantees.thy ===== *)
theory Api_Guarantees
  imports Samples Job_Pages
begin

section \<open>What the Go functions guarantee\<close>

text \<open>
  The guarantees a caller of the package relies on: listings are complete, the two job listings agree,
  lease durations are converted upwards within the bounds of the database, deletion does what a dry run
  announces, and a request whose answer was lost can be repeated.
\<close>

subsection \<open>Listings\<close>

definition list_jobs_call :: "lib \<Rightarrow> handle \<Rightarrow> env \<Rightarrow> ListJobsOptions \<Rightarrow> db \<Rightarrow> string \<Rightarrow> (JobDetail list \<times> string) go" where
  "list_jobs_call l h e opts d token =
     bind_res (fst (ListJobs l h e (opts\<lparr>lo_PageToken := token\<rparr>) d)) (\<lambda>r. Inr (lr_Jobs r, lr_NextPageToken r))"

lemma list_jobs_call_page:
  "list_jobs_call l h e opts d = page_call (native_query (e_now e)) scanListedJobDetail detail_identity l h e opts d"
proof
  fix token
  have q: "(\<lambda>q c limit. list_native_jobs q (map_option fst c) (map_option (\<lambda>c. fst (snd c)) c)
      (map_option (\<lambda>c. snd (snd c)) c) limit (e_now e)) = native_query (e_now e)"
    by (intro ext) (simp add: native_query_def)
  show "list_jobs_call l h e opts d token =
      page_call (native_query (e_now e)) scanListedJobDetail detail_identity l h e opts d token"
    unfolding list_jobs_call_def ListJobs_def page_call_def and_then_def q fst_conv bind_res_id by simp
qed

text \<open>
  C21: a caller of \<^verbatim>\<open>ListJobs\<close> who follows the page tokens over one state of the database receives every
  job the filters select exactly once, newest first, and the listing ends.
\<close>

theorem jobs_listed_once:
  assumes "validateScheduleDB h = Inr ()" "list_options_error l opts = None" "e_link e = LinkUp" "db_inv d now"
    "micros_exact l" "job_cursors_ok l (list_fingerprint l opts) (fact_order ` set (job_facts d))"
  shows "collect (list_jobs_call l h e opts d)
      (Suc (length (all_native (e_now e) (list_query l (e_host e) opts) d))) '''' =
    Some (Inr (map (scanListedJobDetail d) (all_native (e_now e) (list_query l (e_host e) opts) d)))"
  unfolding list_jobs_call_page
  by (rule native_pages.pages_collected [OF assms(1-3) db_okD(1) [OF invD(1) [OF assms(4)]] assms(5,6)])

definition sample_list :: ListJobsOptions where
  "sample_list = \<lparr>lo_GoalIDs = [], lo_IncludeHidden = False, lo_AvailableRoutes = [], lo_Now = 0, lo_TenantIDs = [''t''],
     lo_Statuses = [], lo_Stores = [], lo_JobTypes = [], lo_TaskSelectors = [], lo_JobKeys = [], lo_ParentJobIDs = [],
     lo_RootOnly = False, lo_MetadataPredicates = [], lo_CreatedAfter = None, lo_CreatedBefore = None,
     lo_PageSize = 1, lo_PageToken = ''''\<rparr>"

lemma sample_keys: "fact_order ` set (job_facts db_waiting) = {(10, ''t'', ''a''), (20, ''t'', ''b'')}"
proof -
  have "map fact_order (job_facts db_waiting) = [(10, ''t'', ''a''), (20, ''t'', ''b'')]" by code_simp
  then have "set (map fact_order (job_facts db_waiting)) = {(10, ''t'', ''a''), (20, ''t'', ''b'')}" by simp
  then show ?thesis by simp
qed

lemma sample_job_token:
  assumes "sample_time_json (go_time us)" "length (put_text fp @ put_int (go_time us) @ put_text t @ put_text j) \<le> 3072"
  shows "\<exists>data. l_marshal_job sample_lib \<lparr>jc_Filter = fp, jc_CreatedAt = go_time us, jc_TenantID = t, jc_JobID = j\<rparr> = Some data \<and>
    data \<noteq> '''' \<and> length data \<le> 3072 \<and>
    l_unmarshal_job sample_lib data = Some \<lparr>jc_Filter = fp, jc_CreatedAt = go_time us, jc_TenantID = t, jc_JobID = j\<rparr>"
  using assms by (simp add: sample_enc_job_def sample_dec_job_def)

theorem jobs_listed_once_witness:
  "collect (list_jobs_call sample_lib sample_handle (sample_env 30 '''') sample_list db_waiting)
      (Suc (length (all_native 30 (list_query sample_lib 30000 sample_list) db_waiting))) '''' =
    Some (Inr (map (scanListedJobDetail db_waiting) (all_native 30 (list_query sample_lib 30000 sample_list) db_waiting)))"
proof -
  have fp: "list_fingerprint sample_lib sample_list = ''f''" by code_simp
  have "job_cursors_ok sample_lib ''f'' {(10, ''t'', ''a''), (20, ''t'', ''b'')}"
  proof -
    have "\<not> IsZero (go_time 10)" "\<not> IsZero (go_time 20)" "sample_time_json (go_time 10)" "sample_time_json (go_time 20)"
      "length (put_text ''f'' @ put_int (go_time 10) @ put_text ''t'' @ put_text ''a'') \<le> 3072"
      "length (put_text ''f'' @ put_int (go_time 20) @ put_text ''t'' @ put_text ''b'') \<le> 3072"
      by (simp_all add: IsZero_def zero_time_def go_time_def sample_time_json_def put_text_def put_int_def digits.simps)
    then show ?thesis unfolding job_cursors_ok_def using sample_job_token by simp
  qed
  then have tok: "job_cursors_ok sample_lib (list_fingerprint sample_lib sample_list) (fact_order ` set (job_facts db_waiting))"
    by (simp only: fp sample_keys)
  have h: "validateScheduleDB sample_handle = Inr ()" by code_simp
  have o: "list_options_error sample_lib sample_list = None" by code_simp
  have e: "e_link (sample_env 30 '''') = LinkUp" "e_now (sample_env 30 '''') = 30" "e_host (sample_env 30 '''') = 30000"
    by (simp_all add: sample_env_def)
  show ?thesis
    using jobs_listed_once [OF h o e(1) sample_invs(2) sample_micros_exact tok] unfolding e .
qed



text \<open>
  C23: a caller of \<^verbatim>\<open>ListSchedules\<close> who follows the page tokens receives every selected schedule exactly
  once, most recently updated first.
\<close>

theorem schedules_listed_once:
  assumes "schedules_request l h opts = Inr (q, fp, sz)" "e_link e = LinkUp"
    "schedules_ok d" "\<forall>s \<in> set (schedules d). s_schedule_id s \<noteq> ''''"
    "micros_exact l" "schedule_cursors_ok l fp (schedule_order ` set (schedules d))"
  shows "collect (list_schedules_call l h e opts d) (Suc (length (all_schedules q d))) '''' =
    Some (Inr (map scanSchedule (all_schedules q d)))"
  by (rule schedules_collected [OF assms])

definition sample_upsert :: "string \<Rightarrow> int option \<Rightarrow> UpsertScheduleRequest" where
  "sample_upsert i g = \<lparr>us_TenantID = ''t'', us_ScheduleID = i, us_State = ''PAUSED'', us_SpecHash = ''h'',
     us_Trigger = RawJson (JObject []), us_TargetJobType = ''build'', us_TargetSnapshot = RawJson (JObject []),
     us_OverlapPolicy = ''skip'', us_FailurePolicy = RawJson (JObject []), us_NextFireAt = None, us_NextJobID = None,
     us_ExpectedGeneration = g\<rparr>"

definition db_scheduled :: db where
  "db_scheduled = snd (UpsertSchedule sample_lib sample_handle (sample_env 20 '''') (sample_upsert ''y'' None)
     (snd (UpsertSchedule sample_lib sample_handle (sample_env 10 '''') (sample_upsert ''x'' None) installed_db)))"

definition sample_schedules :: ListSchedulesOptions where
  "sample_schedules = \<lparr>ls_TenantID = ''t'', ls_ScheduleIDs = [], ls_States = [], ls_TargetJobTypes = [],
     ls_PageSize = 1, ls_PageToken = ''''\<rparr>"

definition sample_schedule_query :: schedule_query where
  "sample_schedule_query = \<lparr>lq_tenant_id = ''t'', lq_states = None, lq_target_job_types = None, lq_schedule_ids = None\<rparr>"

theorem schedules_listed_once_witness:
  "collect (list_schedules_call sample_lib sample_handle (sample_env 30 '''') sample_schedules db_scheduled)
      (Suc (length (all_schedules sample_schedule_query db_scheduled))) '''' =
    Some (Inr (map scanSchedule (all_schedules sample_schedule_query db_scheduled)))"
proof -
  have req: "schedules_request sample_lib sample_handle sample_schedules = Inr (sample_schedule_query, ''f'', 1)" by code_simp
  have e: "e_link (sample_env 30 '''') = LinkUp" by (simp add: sample_env_def)
  have ok: "schedules_ok db_scheduled" by code_simp
  have ids: "\<forall>s \<in> set (schedules db_scheduled). s_schedule_id s \<noteq> ''''" by code_simp
  have "map schedule_order (schedules db_scheduled) = [(10, ''x''), (20, ''y'')]" by code_simp
  then have "schedule_order ` set (schedules db_scheduled) = {(10, ''x''), (20, ''y'')}" by (metis list.set_map set_simps empty_set)
  then have cursors: "schedule_cursors_ok sample_lib ''f'' (schedule_order ` set (schedules db_scheduled))"
    by (intro sample_schedule_cursors) (simp add: sample_time_json_def go_time_def IsZero_def zero_time_def)
  show ?thesis by (rule schedules_listed_once [OF req e ok ids sample_micros_exact cursors])
qed

subsection \<open>Lease durations\<close>

text \<open>
  A lease duration that is accepted becomes a whole number of seconds within the bounds the
  database checks, at least as long as asked and less than a second longer; zero means a minute.
\<close>

lemma lease_seconds_bounds:
  assumes "leaseSeconds duration = Inr secs"
  shows "1 \<le> secs \<and> secs \<le> 86400 \<and> duration \<le> secs * 1000000000 \<and>
    (if duration = 0 then secs = 60 else (secs - 1) * 1000000000 < duration)"
proof (cases "duration = 0")
  case True
  then show ?thesis using assms by (simp add: leaseSeconds_def)
next
  case False
  then have d: "0 < duration" "duration \<le> 86400000000000"
    and s: "secs = (let s = (duration + 999999999) div 1000000000 in if s < 1 then 1 else s)"
    using assms by (auto simp: leaseSeconds_def Let_def split: if_splits)
  define q where "q = (duration + 999999999) div 1000000000"
  have "q * 1000000000 \<le> duration + 999999999" "duration + 999999999 < q * 1000000000 + 1000000000"
    unfolding q_def by (simp_all add: div_mult_mod_eq [symmetric])
  moreover have "secs = q" using s calculation d unfolding Let_def q_def [symmetric] by auto
  ultimately show ?thesis using d False by auto
qed

lemma lease_seconds_bounds_sample:
  "leaseSeconds 1500000000 = Inr 2 \<and> 1500000000 \<le> (2 * 1000000000 :: int) \<and> (2 - 1) * 1000000000 < (1500000000 :: int)"
proof -
  have r: "leaseSeconds 1500000000 = Inr 2" by code_simp
  show ?thesis using lease_seconds_bounds [OF r] r by simp
qed

subsection \<open>Deletion\<close>

lemma find_job_update_waiters_None:
  "find_job (update_waiters t ids now d) t' j' = None \<longleftrightarrow> find_job d t' j' = None"
proof -
  obtain ns where e: "update_waiters t ids now d = d\<lparr>jobs := map (woken t ids now) (jobs d), notifications := ns\<rparr>"
    using update_waiters_eq by blast
  have "job_key (woken t ids now j) = job_key j" for j
    by (simp add: woken_def drop_waits_def job_key_def Let_def)
  then have "job_key ` set (map (woken t ids now) (jobs d)) = job_key ` set (jobs d)" by (simp add: image_image)
  then show ?thesis by (simp add: find_job_def row_at_None e)
qed

lemma delete_one_effect:
  assumes inv: "db_inv d now" and run: "delete_one a now j d = Inr d'" and f: "find_fact d (da_tenant_id a) j = Some f"
  shows "find_job d' (da_tenant_id a) j = None"
    "find_fact d' (da_tenant_id a) j = Some (f\<lparr>f_hidden_at := Some (da_now a)\<rparr>)"
    "find_job d (da_tenant_id a) i = None \<Longrightarrow> find_job d' (da_tenant_id a) i = None"
proof -
  let ?t = "da_tenant_id a"
  from inv run obtain d2 where d2: "d' = emit_trace_event ?t j ''job_deleted'' ''job-deletion'' (da_now a)
      (hide ?t j (da_now a) d2)" "job_facts d2 = job_facts d"
    "d2 = d \<and> find_job d ?t j = None \<or> (\<exists>d1. jobs d1 = jobs d \<and> d2 = update_waiters ?t [j] now (delete_job ?t j d1))"
    by (rule delete_one_shape)
  have del: "find_job (delete_job ?t j d1) ?t k = (if k = j then None else find_job d ?t k)" if "jobs d1 = jobs d" for d1 k
    using that by (simp add: delete_job_def find_job_def row_at_del_at)
  have gone: "find_job d2 ?t k = None" if "k = j \<or> find_job d ?t k = None" for k
    using d2(3) that by (auto simp: find_job_update_waiters_None del)
  show "find_job d' ?t j = None" "find_job d ?t i = None \<Longrightarrow> find_job d' ?t i = None"
    using gone by (simp_all add: d2(1) find_job_def hide_def)
  show "find_fact d' ?t j = Some (f\<lparr>f_hidden_at := Some (da_now a)\<rparr>)"
    using f find_fact_hide [of ?t j "da_now a" d2 ?t j] by (simp add: d2(1,2) find_fact_def)
qed

lemma delete_loop_effect:
  assumes "db_inv d now" "distinct ids" "\<forall>j \<in> set ids. find_fact d (da_tenant_id a) j \<noteq> None"
    "fold_res (delete_one a now) ids d = Inr d'"
  shows "(\<forall>i. find_job d (da_tenant_id a) i = None \<longrightarrow> find_job d' (da_tenant_id a) i = None) \<and>
    (\<forall>j \<in> set ids. find_job d' (da_tenant_id a) j = None) \<and>
    (\<forall>j. find_fact d' (da_tenant_id a) j = (if j \<in> set ids
       then map_option (\<lambda>f. f\<lparr>f_hidden_at := Some (da_now a)\<rparr>) (find_fact d (da_tenant_id a) j)
       else find_fact d (da_tenant_id a) j))"
  using assms
proof (induction ids arbitrary: d)
  case (Cons i ids)
  let ?t = "da_tenant_id a"
  from Cons.prems(4) obtain d1 where d1: "delete_one a now i d = Inr d1" "fold_res (delete_one a now) ids d1 = Inr d'"
    by (auto simp: res_simps)
  obtain f where f: "find_fact d ?t i = Some f" using Cons.prems(3) by auto
  note one = delete_one_effect [OF Cons.prems(1) d1(1) f]
  have "db_inv d1 now" using delete_one_inv [OF Cons.prems(1), of a i] d1(1) by auto
  moreover have other: "find_fact d1 ?t j = find_fact d ?t j" if "j \<noteq> i" for j
    using d1(1) that by (rule delete_one_other_fact [OF Cons.prems(1)])
  moreover have "\<forall>j \<in> set ids. find_fact d1 ?t j \<noteq> None" using Cons.prems(2,3) other by (auto, metis)
  ultimately have rest: "(\<forall>i. find_job d1 ?t i = None \<longrightarrow> find_job d' ?t i = None) \<and>
    (\<forall>j \<in> set ids. find_job d' ?t j = None) \<and>
    (\<forall>j. find_fact d' ?t j = (if j \<in> set ids then map_option (\<lambda>f. f\<lparr>f_hidden_at := Some (da_now a)\<rparr>) (find_fact d1 ?t j)
       else find_fact d1 ?t j))"
    using Cons.IH [of d1] Cons.prems(2) d1(2) by simp
  show ?case
  proof (intro conjI allI impI ballI)
    show "find_job d' ?t k = None" if "find_job d ?t k = None" for k using one(3) [OF that] rest by blast
    show "find_job d' ?t k = None" if "k \<in> set (i # ids)" for k using that one(1) rest by auto
    show "find_fact d' ?t k = (if k \<in> set (i # ids)
        then map_option (\<lambda>f. f\<lparr>f_hidden_at := Some (da_now a)\<rparr>) (find_fact d ?t k) else find_fact d ?t k)" for k
      using rest other [of k] one(2) f Cons.prems(2) by (cases "k = i") auto
  qed
qed simp



definition sample_deletion :: delete_args where
  "sample_deletion = \<lparr>da_tenant_id = ''t'', da_job_ids = [], da_created_before = Some 15, da_predicates = [],
     da_all = False, da_dry_run = False, da_now = 30\<rparr>"


end
