(* ===== verification/Submission_Guarantees.thy ===== *)
theory Submission_Guarantees
  imports Samples
begin

section \<open>Guarantees of submission\<close>

text \<open>
  What a successful \<^verbatim>\<open>submit_native_job\<close> leaves behind, and why a client may repeat a submission whose
  answer it did not get.
\<close>

subsection \<open>The rows a submission writes\<close>

lemma create_job_rows:
  assumes i: "db_inv d now" and goal: "(sa_tenant_id a, g) \<in> goal_key ` set (goals d)"
    and new: "find_fact d (sa_tenant_id a) (sa_job_id a) = None" and jt: "sa_job_type a \<noteq> ''''"
    and run: "create_job a g initial dg now d = Inr d'"
  shows "job_facts d' = job_facts d @ [facts_of a g now]"
    "job_client_state d' = job_client_state d @ [client_of a initial dg]"
    "job_preparations d' = upd_at prep_key (sa_tenant_id a, sa_job_id a) (\<lambda>p. p\<lparr>p_published := True\<rparr>) (job_preparations d)"
    "goals d' = goals d"
proof -
  let ?t = "sa_tenant_id a" and ?j = "sa_job_id a"
  from run obtain waits d5 where s: "submission_wait a now
      (add_job (facts_of a g now) (new_job_row a g waits now) (client_of a initial dg) d) = Inr d5"
    "d' = publish ?t ?j d5" by (rule create_job_steps)
  let ?d3 = "add_job (facts_of a g now) (new_job_row a g waits now) (client_of a initial dg) d"
  note i3 = new_job_inv [OF i goal new jt, of waits initial dg]
  have "job_facts d5 = job_facts ?d3 \<and> job_client_state d5 = job_client_state ?d3 \<and>
      job_preparations d5 = job_preparations ?d3 \<and> goals d5 = goals ?d3"
  proof (cases "sa_dependencies a = []")
    case False
    then obtain d4 where d4: "register_wait ?t ?j \<lparr>wr_waitId = ''submission'', wr_deadline = None,
        wr_dependencies = sa_dependencies a\<rparr> True now ?d3 = Inr d4"
      "d5 = update_job ?t ?j (\<lambda>r. r\<lparr>j_dependency_wait_id := Some ''submission''\<rparr>) d4"
      using s(1) by (auto simp: submission_wait_def res_simps)
    have "waits_only ?d3 d4"
      using register_wait_ok [OF db_okD(4,5) [OF invD(1) [OF i3(1)]] d4(1)] by (auto simp: registers_def)
    then show ?thesis by (simp add: d4(2) waits_only_def update_job_def)
  qed (use s(1) in \<open>simp add: submission_wait_def\<close>)
  then show "job_facts d' = job_facts d @ [facts_of a g now]"
    "job_client_state d' = job_client_state d @ [client_of a initial dg]"
    "job_preparations d' = upd_at prep_key (?t, ?j) (\<lambda>p. p\<lparr>p_published := True\<rparr>) (job_preparations d)" "goals d' = goals d"
    by (simp_all add: s(2) publish_def add_job_def)
qed

text \<open>The checks a first submission passes, with the goal, the payload and the rows it ends up with.\<close>

lemma first_submission:
  assumes run: "submit_native_job sha a new_goal now d = Inr ((j, True), d')"
  obtains g d1 initial payload where
    "j = sa_job_id a" "find_fact d (sa_tenant_id a) j = None"
    "submission_goal a new_goal now d = Inr (g, d1)" "create_job a g initial (sha payload) now d1 = Inr d'"
    "\<not> parent_deleted d1 a" "\<not> publication_differs d a" "facts_checked (facts_of a g now)"
    "client_update_value None (sa_client_mode a) (sa_client_value a) = Inr initial"
    "canonical_payload initial = Inr payload"
    "validate_dependencies (sa_dependencies a) = Inr ()"
    "sa_tenant_id a \<noteq> ''''" "sa_job_id a \<noteq> ''''" "sa_worker_id a \<noteq> ''''" "sa_job_type a \<noteq> ''''"
    "is_object (sa_app_metadata a)" "\<not> (sa_wait_for a \<noteq> [] \<and> sa_dependencies a \<noteq> [])"
proof (cases "find_fact d (sa_tenant_id a) (sa_job_id a)")
  case None
  then show ?thesis
    using run unfolding submit_native_job_def Let_def
    by (simp only: res_simps option.case) (auto simp: res_simps split: option.splits if_splits intro: that)
next
  case (Some e)
  then show ?thesis using run unfolding submit_native_job_def Let_def
    by (auto simp: res_simps split: if_splits)
qed

text \<open>The identity the submission created, read back.\<close>

lemma submission_goal_rows:
  assumes "submission_goal a new_goal now d = Inr (g, d1)"
  shows "job_facts d1 = job_facts d" "job_client_state d1 = job_client_state d" "job_preparations d1 = job_preparations d"
    "sa_goal_id a = None \<or> sa_goal_id a = Some g"
  using assms by (auto simp: submission_goal_def res_simps Let_def split: if_splits option.splits)

lemma client_unknown:
  assumes "db_inv d now" "find_fact d t j = None"
  shows "find_client d t j = None"
  using assms(2) db_okD(1) [OF invD(1) [OF assms(1)]] by (auto simp: keys_ok_def find_fact_def find_client_def row_at_None)

lemma facts_of_time [simp]:
  "facts_checked (facts_of a g now') = facts_checked (facts_of a g now)"
  "same_facts (facts_of a g now) (facts_of a g now')"
  by (simp_all add: facts_checked_def same_facts_def facts_of_def)

lemma created_rows:
  assumes i: "db_inv d now" and run: "submit_native_job sha a new_goal now d = Inr ((j, True), d')"
  obtains g initial payload where
    "find_fact d' (sa_tenant_id a) (sa_job_id a) = Some (facts_of a g now)" "sa_goal_id a = None \<or> sa_goal_id a = Some g"
    "find_client d' (sa_tenant_id a) (sa_job_id a) = Some (client_of a initial (sha payload))"
    "client_update_value None (sa_client_mode a) (sa_client_value a) = Inr initial" "canonical_payload initial = Inr payload"
    "facts_checked (facts_of a g now)" "\<not> parent_deleted d' a" "publication_differs d' a = publication_differs d a"
proof -
  let ?t = "sa_tenant_id a" and ?j = "sa_job_id a"
  from run obtain g d1 initial payload where s: "j = sa_job_id a" "find_fact d ?t j = None"
    "submission_goal a new_goal now d = Inr (g, d1)" "create_job a g initial (sha payload) now d1 = Inr d'"
    "\<not> parent_deleted d1 a" "facts_checked (facts_of a g now)"
    "client_update_value None (sa_client_mode a) (sa_client_value a) = Inr initial" "canonical_payload initial = Inr payload"
    "sa_job_type a \<noteq> ''''"
    by (rule first_submission)
  note d1 = submission_goal_rows [OF s(3)]
  have i1: "db_inv d1 now" "(?t, g) \<in> goal_key ` set (goals d1)" using submission_goal_inv [OF i s(3)] by auto
  have new: "find_fact d1 ?t ?j = None" using s(1,2) d1(1) by (simp add: find_fact_def)
  note rows = create_job_rows [OF i1 new s(9,4)]
  have f: "find_fact d' ?t k = (if k = ?j then Some (facts_of a g now) else find_fact d1 ?t k)" for k
    using new by (simp add: find_fact_def rows(1) row_at_append fact_key_def facts_of_def split: option.splits)
  have "find_client d' ?t ?j = Some (client_of a initial (sha payload))"
    using client_unknown [OF i1(1) new] by (simp add: find_client_def rows(2) row_at_append client_key_def client_of_def)
  moreover have "\<not> parent_deleted d' a"
    using s(5) by (auto simp: parent_deleted_def f split: option.splits if_splits) (simp_all add: facts_of_def)
  moreover have "publication_differs d' a = publication_differs d a"
    by (simp add: publication_differs_def find_prep_def rows(3) d1(3) row_at_upd_at prep_key_def split: option.splits)
  ultimately show ?thesis using that f s(6-8) d1(4) by auto
qed

lemma resubmission_unchanged:
  assumes i: "db_inv d now" and run: "submit_native_job sha a new_goal now d = Inr ((j, True), d')"
  shows "submit_native_job sha a new_goal' now' d' = Inr ((j, False), d')"
proof -
  from run have s: "j = sa_job_id a" "\<not> publication_differs d a" "validate_dependencies (sa_dependencies a) = Inr ()"
    "sa_tenant_id a \<noteq> ''''" "sa_job_id a \<noteq> ''''" "sa_worker_id a \<noteq> ''''" "sa_job_type a \<noteq> ''''"
    "is_object (sa_app_metadata a)" "\<not> (sa_wait_for a \<noteq> [] \<and> sa_dependencies a \<noteq> [])"
    by (rule first_submission, simp)+
  from i run obtain g initial payload where c:
    "find_fact d' (sa_tenant_id a) (sa_job_id a) = Some (facts_of a g now)" "sa_goal_id a = None \<or> sa_goal_id a = Some g"
    "find_client d' (sa_tenant_id a) (sa_job_id a) = Some (client_of a initial (sha payload))"
    "client_update_value None (sa_client_mode a) (sa_client_value a) = Inr initial" "canonical_payload initial = Inr payload"
    "facts_checked (facts_of a g now)" "\<not> parent_deleted d' a" "publication_differs d' a = publication_differs d a"
    by (rule created_rows)
  have goal: "f_goal_id (facts_of a g now) = g" "f_initial_dependencies (facts_of a g now) = sa_dependencies a"
    by (simp_all add: facts_of_def)
  have "resubmit a (facts_of a g now) (facts_of a g now') (sha payload) d' = Inr ()"
    by (simp add: resubmit_def c(3) goal client_of_def)
  then show ?thesis
    using s c(2,6-8) unfolding submit_native_job_def Let_def
    by (auto simp: c(1,4,5) goal facts_of_time(1) [of a g now' now])
qed

subsection \<open>Retrying a submission\<close>

text \<open>
  C7: a submission may be retried when its answer was lost. If a submission would create the job, then
  the attempt whose answer is lost creates the same rows although it reports a driver error, and the
  same request sent again, at any later time, reports the existing job and changes nothing.
\<close>

theorem lost_submission_retried:
  assumes "db_inv d (e_now e)" "e_link e = LinkUp" "SubmitJob l h e req d = (Inr r, d')" "sj_Created r" "e_link e' = LinkUp"
  shows "SubmitJob l h (e\<lparr>e_link := LinkLost m\<rparr>) req d = (Inl (DriverErr m), d') \<and>
    SubmitJob l h e' req d' = (Inr (r\<lparr>sj_Created := False\<rparr>), d')"
proof -
  from assms(2-4) obtain args val client where s: "submit_request l h req = Inr (args, val)" "json_arg val = Inr client"
    "submit_native_job (l_sha256 l) (args client) (e_uuid e) (e_now e) d = Inr ((sj_JobID r, True), d')"
    "r = \<lparr>sj_JobID = sj_JobID r, sj_Created = True\<rparr>"
    by (auto simp: SubmitJob_def on_request_def and_then_def map_err_def call_sql_def res_simps
        split: sum.splits prod.splits)
  show ?thesis
    using assms(2,5) s resubmission_unchanged [OF assms(1) s(3), of "e_uuid e'" "e_now e'"]
    by (auto simp: SubmitJob_def on_request_def and_then_def map_err_def call_sql_def submit_error_def)
qed

theorem lost_submission_retried_witness:
  "SubmitJob sample_lib sample_handle (sample_env 99 ''gz'') (sample_submit ''b'' [job_succeeds ''a'']) db_waiting =
     (Inr \<lparr>sj_JobID = ''b'', sj_Created = False\<rparr>, db_waiting)"
proof -
  let ?e = "sample_env 20 ''gb''" and ?req = "sample_submit ''b'' [job_succeeds ''a'']"
  have "fst (SubmitJob sample_lib sample_handle ?e ?req db_submitted) = Inr \<lparr>sj_JobID = ''b'', sj_Created = True\<rparr>"
    by code_simp
  then have r: "SubmitJob sample_lib sample_handle ?e ?req db_submitted = (Inr \<lparr>sj_JobID = ''b'', sj_Created = True\<rparr>, db_waiting)"
    by (simp add: db_waiting_def prod_eq_iff)
  have "db_inv db_submitted (e_now ?e)" "e_link ?e = LinkUp" "e_link (sample_env 99 ''gz'') = LinkUp"
    using inv_later [OF sample_invs(1), of 20] by (simp_all add: sample_env_def)
  from lost_submission_retried [OF this(1,2) r _ this(3)] show ?thesis by simp
qed

end
