(* ===== verification/Discovery.thy ===== *)
theory Discovery
  imports Scheduler_Api Paging
begin

section \<open>Discovering goals and waits\<close>

text \<open>
  \<^verbatim>\<open>goal_discovery.go\<close>: the listings of goals and of dependency waits, whose SQL the Go code assembles
  from the filters of the request, and the wait that blocks a job. The validation of a request, the
  page size, the scope of a listing and the page tokens belong to JobDB: they are the record
  \<open>discovery\<close>. A decoded token is the key of the last row seen, and the empty token is the empty key.
\<close>

subsection \<open>Requests\<close>

text \<open>A JobDB metadata predicate; a value that \<^verbatim>\<open>json.Marshal\<close> refuses is \<open>None\<close>.\<close>

record jobdb_predicate =
  jm_Path :: "string list"
  jm_Values :: "json option list"

record GoalCandidateFilter =
  gf_JobIDs :: "string list"
  gf_JobTypes :: "string list"
  gf_MetadataEquals :: "jobdb_predicate list"

record ListGoalsRequest =
  lg_TenantId :: string
  lg_GoalIDs :: "string list"
  lg_States :: "string list"
  lg_CreatedAfter :: "int option"
  lg_CreatedBefore :: "int option"
  lg_UpdatedAfter :: "int option"
  lg_UpdatedBefore :: "int option"
  lg_Candidate :: "GoalCandidateFilter option"
  lg_PageSize :: int
  lg_PageToken :: string

record ListDependencyWaitsRequest =
  lw_TenantId :: string
  lw_ConsumerJobID :: string
  lw_Target :: "(string \<times> string) option"
  lw_States :: "string list"
  lw_PageSize :: int
  lw_PageToken :: string

text \<open>\<open>lw_Target\<close> pairs the \<^verbatim>\<open>JobID\<close> and the \<^verbatim>\<open>GoalID\<close> of the target. A summary adds four counts to the goal.\<close>

record GoalSummary =
  gs_Goal :: goal_row
  gs_CandidateCount :: nat
  gs_NonTerminalCandidateCount :: nat
  gs_TerminalCandidateCount :: nat
  gs_UnavailableCandidateCount :: nat

record discovery =
  y_goals_valid :: "ListGoalsRequest \<Rightarrow> go_error option"
  y_waits_valid :: "ListDependencyWaitsRequest \<Rightarrow> go_error option"
  y_page_size :: "int \<Rightarrow> nat"
  y_goals_scope :: "ListGoalsRequest \<Rightarrow> string go"
  y_waits_scope :: "ListDependencyWaitsRequest \<Rightarrow> string go"
  y_decode :: "string \<Rightarrow> string \<Rightarrow> nat \<Rightarrow> string list go"
  y_encode :: "string \<Rightarrow> string list \<Rightarrow> string"

fun goal_state_text :: "goal_state \<Rightarrow> string" where
  "goal_state_text GoalOpen = ''OPEN''"
| "goal_state_text GoalSucceeded = ''SUCCEEDED''"
| "goal_state_text GoalFailedState = ''FAILED''"

fun wait_state_text :: "wait_state \<Rightarrow> string" where
  "wait_state_text WaitPending = ''PENDING''"
| "wait_state_text WaitSatisfied = ''SATISFIED''"
| "wait_state_text WaitFailed = ''FAILED''"
| "wait_state_text WaitTimedOut = ''TIMED_OUT''"
| "wait_state_text WaitCancelled = ''CANCELLED''"

subsection \<open>Goals\<close>

text \<open>The \<^verbatim>\<open>WHERE\<close> clause of the listing, with its bound arguments.\<close>

record candidate_query =
  cq_job_ids :: "string list option"
  cq_job_types :: "string list option"
  cq_predicates :: "(string list \<times> json list) list"

record goals_query =
  gq_tenant_id :: string
  gq_goal_ids :: "string list option"
  gq_states :: "string list option"
  gq_created_after :: "int option"
  gq_created_before :: "int option"
  gq_updated_after :: "int option"
  gq_updated_before :: "int option"
  gq_candidate :: "candidate_query option"

definition encode_predicate :: "jobdb_predicate \<Rightarrow> (string list \<times> json list) go" where
  "encode_predicate p =
     (if None \<in> set (jm_Values p) then Inl (InvalidDependency ''invalid metadata value'')
      else Inr (jm_Path p, map the (jm_Values p)))"

fun encode_predicates :: "jobdb_predicate list \<Rightarrow> (string list \<times> json list) list go" where
  "encode_predicates [] = Inr []"
| "encode_predicates (p # ps) =
     bind_res (encode_predicate p) (\<lambda>q. bind_res (encode_predicates ps) (\<lambda>qs. Inr (q # qs)))"

definition goals_query_of :: "lib \<Rightarrow> ListGoalsRequest \<Rightarrow> goals_query go" where
  "goals_query_of l req =
     bind_res (case lg_Candidate req of None \<Rightarrow> Inr None
       | Some f \<Rightarrow> bind_res (encode_predicates (gf_MetadataEquals f)) (\<lambda>ps.
           Inr (Some \<lparr>cq_job_ids = nilIfEmpty (gf_JobIDs f), cq_job_types = nilIfEmpty (gf_JobTypes f),
                      cq_predicates = ps\<rparr>))) (\<lambda>cand.
     Inr \<lparr>gq_tenant_id = lg_TenantId req, gq_goal_ids = nilIfEmpty (lg_GoalIDs req),
          gq_states = nilIfEmpty (lg_States req),
          gq_created_after = optionalTime l (lg_CreatedAfter req),
          gq_created_before = optionalTime l (lg_CreatedBefore req),
          gq_updated_after = optionalTime l (lg_UpdatedAfter req),
          gq_updated_before = optionalTime l (lg_UpdatedBefore req), gq_candidate = cand\<rparr>)"

definition at_least :: "int option \<Rightarrow> int \<Rightarrow> bool" where
  "at_least b x \<longleftrightarrow> (case b of None \<Rightarrow> True | Some y \<Rightarrow> y \<le> x)"

definition at_most :: "int option \<Rightarrow> int \<Rightarrow> bool" where
  "at_most b x \<longleftrightarrow> (case b of None \<Rightarrow> True | Some y \<Rightarrow> x \<le> y)"

definition candidate_matches :: "candidate_query \<Rightarrow> fact_row \<Rightarrow> bool" where
  "candidate_matches c f \<longleftrightarrow> any_of (cq_job_ids c) (f_job_id f) \<and> any_of (cq_job_types c) (f_job_type f) \<and>
     (\<forall>(path, vals) \<in> set (cq_predicates c). \<exists>v \<in> set vals. jsonb_path (f_app_metadata f) path = Some v)"

definition goal_matches :: "goals_query \<Rightarrow> db \<Rightarrow> goal_row \<Rightarrow> bool" where
  "goal_matches q d g \<longleftrightarrow> g_tenant_id g = gq_tenant_id q \<and> any_of (gq_goal_ids q) (g_goal_id g) \<and>
     any_of (gq_states q) (goal_state_text (g_state g)) \<and>
     at_least (gq_created_after q) (g_created_at g) \<and> at_most (gq_created_before q) (g_created_at g) \<and>
     at_least (gq_updated_after q) (g_updated_at g) \<and> at_most (gq_updated_before q) (g_updated_at g) \<and>
     (case gq_candidate q of None \<Rightarrow> True
      | Some c \<Rightarrow> \<exists>m \<in> set (goal_members d (g_tenant_id g) (g_goal_id g)).
          some_such (find_fact d (g_tenant_id g) m) (candidate_matches c))"

definition goals_page :: "goals_query \<Rightarrow> string \<Rightarrow> nat \<Rightarrow> db \<Rightarrow> goal_row list" where
  "goals_page q after n d = take n (order_asc g_goal_id
     (filter (\<lambda>g. goal_matches q d g \<and> after < g_goal_id g) (goals d)))"

text \<open>The lateral join that counts the members of a goal.\<close>

definition goal_summary :: "db \<Rightarrow> goal_row \<Rightarrow> GoalSummary" where
  "goal_summary d g = (let t = g_tenant_id g; ms = goal_members d t (g_goal_id g) in
     \<lparr>gs_Goal = g, gs_CandidateCount = length ms,
      gs_NonTerminalCandidateCount = length (filter (\<lambda>m. \<not> archived d t m \<and> find_fact d t m \<noteq> None) ms),
      gs_TerminalCandidateCount = length (filter (\<lambda>m. archived d t m) ms),
      gs_UnavailableCandidateCount = length (filter (\<lambda>m. find_fact d t m = None) ms)\<rparr>)"

text \<open>A predicate without values would make the statement end in an empty pair of parentheses.\<close>

definition list_goals :: "goals_query \<Rightarrow> string \<Rightarrow> nat \<Rightarrow> db \<Rightarrow> GoalSummary list res" where
  "list_goals q after n d =
     (if (case gq_candidate q of None \<Rightarrow> False | Some c \<Rightarrow> \<exists>p \<in> set (cq_predicates c). snd p = [])
      then raise_code ''42601'' ''syntax error''
      else Inr (map (goal_summary d) (goals_page q after n d)))"

definition discovery_cut :: "nat \<Rightarrow> ('i \<Rightarrow> string) \<Rightarrow> 'i list \<Rightarrow> 'i list \<times> string" where
  "discovery_cut page_size token items =
     (if length items > page_size then (take page_size items, token (items ! (page_size - 1))) else (items, ''''))"

definition ListGoals :: "discovery \<Rightarrow> lib \<Rightarrow> handle \<Rightarrow> env \<Rightarrow> ListGoalsRequest \<Rightarrow> db \<Rightarrow>
   (GoalSummary list \<times> string) go \<times> db" where
  "ListGoals y l h e req = on_request
     (bind_res (fail_if (y_goals_valid y req)) (\<lambda>_.
      bind_res (validateScheduleDB h) (\<lambda>_.
      bind_res (y_goals_scope y (req\<lparr>lg_PageToken := '''', lg_PageSize := 0\<rparr>)) (\<lambda>scope.
      bind_res (y_decode y (lg_PageToken req) scope 1) (\<lambda>after.
      bind_res (goals_query_of l req) (\<lambda>q. Inr (scope, after, q)))))))
     (\<lambda>(scope, after, q) d.
       let page_size = y_page_size y (lg_PageSize req) in
       and_then (map_err goalError (call_sql e (reading (list_goals q (after ! 0) (page_size + 1))) d))
         (\<lambda>rows. Inr (discovery_cut page_size (\<lambda>s. y_encode y scope [g_goal_id (gs_Goal s)]) rows)))"

subsection \<open>Waits\<close>

record waits_query =
  wq_tenant :: string
  wq_consumer :: "string option"
  wq_target :: "dep_target option"
  wq_states :: "string list option"

definition waits_query_of :: "ListDependencyWaitsRequest \<Rightarrow> waits_query" where
  "waits_query_of req = \<lparr>wq_tenant = lw_TenantId req, wq_consumer = nilIfBlank (lw_ConsumerJobID req),
     wq_target = map_option (\<lambda>(j, g). \<lparr>dt_jobId = nilIfBlank j, dt_goalId = nilIfBlank g\<rparr>) (lw_Target req),
     wq_states = nilIfEmpty (lw_States req)\<rparr>"

text \<open>The row of \<^verbatim>\<open>dependency_targets\<close> the join asks for: the goal if one is named, else the job.\<close>

definition target_key :: "dep_target \<Rightarrow> target_kind \<times> string" where
  "target_key x = (case dt_goalId x of Some g \<Rightarrow> (KGoal, g)
     | None \<Rightarrow> (KJob, case dt_jobId x of None \<Rightarrow> '''' | Some j \<Rightarrow> j))"

definition wait_order :: "wait_row \<Rightarrow> string \<times> string" where
  "wait_order w = (w_job_id w, w_wait_id w)"

definition wait_candidate :: "waits_query \<Rightarrow> db \<Rightarrow> wait_row \<Rightarrow> bool" where
  "wait_candidate q d w \<longleftrightarrow> w_tenant_id w = wq_tenant q \<and>
     (case wq_consumer q of None \<Rightarrow> True | Some j \<Rightarrow> w_job_id w = j) \<and>
     (case wq_target q of None \<Rightarrow> True
      | Some x \<Rightarrow> w_state w = WaitPending \<and>
          (\<exists>r \<in> set (dependency_targets d). target_wait_key r = wait_key w \<and>
             (t_target_kind r, t_target_id r) = target_key x))"

definition projected :: "waits_query \<Rightarrow> wait_outcome \<Rightarrow> bool" where
  "projected q v \<longleftrightarrow>
     (case wq_target q of None \<Rightarrow> True
      | Some x \<Rightarrow> wo_state v = WaitPending \<and>
          (\<exists>y \<in> set (wo_dependencies v). do_state y = WaitPending \<and> dep_target (do_dep y) = x)) \<and>
     any_of (wq_states q) (wait_state_text (wo_state v))"

text \<open>Every candidate is evaluated at the time of the statement; then the outcomes are filtered.\<close>

fun evaluate_rows :: "db \<Rightarrow> int \<Rightarrow> wait_row list \<Rightarrow> wait_outcome list res" where
  "evaluate_rows d now [] = Inr []"
| "evaluate_rows d now (w # ws) =
     bind_res (evaluate_wait d (w_outcome w) now) (\<lambda>v. bind_res (evaluate_rows d now ws) (\<lambda>vs. Inr (v # vs)))"

definition list_waits :: "waits_query \<Rightarrow> string \<times> string \<Rightarrow> nat \<Rightarrow> int \<Rightarrow> db \<Rightarrow> wait_outcome list res" where
  "list_waits q after n now d = bind_res
     (evaluate_rows d now (order_asc wait_order
        (filter (\<lambda>w. wait_candidate q d w \<and> after < wait_order w) (dependency_waits d))))
     (\<lambda>vs. Inr (take n (filter (projected q) vs)))"

definition ListDependencyWaits :: "discovery \<Rightarrow> handle \<Rightarrow> env \<Rightarrow> ListDependencyWaitsRequest \<Rightarrow> db \<Rightarrow>
   (wait_outcome list \<times> string) go \<times> db" where
  "ListDependencyWaits y h e req = on_request
     (bind_res (fail_if (y_waits_valid y req)) (\<lambda>_.
      bind_res (validateScheduleDB h) (\<lambda>_.
      bind_res (y_waits_scope y (req\<lparr>lw_PageToken := '''', lw_PageSize := 0\<rparr>)) (\<lambda>scope.
      bind_res (y_decode y (lw_PageToken req) scope 2) (\<lambda>after. Inr (scope, after))))))
     (\<lambda>(scope, after) d.
       let page_size = y_page_size y (lw_PageSize req) in
       and_then (map_err goalError (call_sql e (reading (list_waits (waits_query_of req)
           (after ! 0, after ! 1) (page_size + 1) (e_now e))) d))
         (\<lambda>rows. Inr (discovery_cut page_size (\<lambda>v. y_encode y scope [wo_jobId v, wo_waitId v]) rows)))"

subsection \<open>The wait that blocks a job\<close>

definition blocking_info :: "string \<Rightarrow> string \<Rightarrow> int \<Rightarrow> db \<Rightarrow> wait_outcome option res" where
  "blocking_info t j now d =
     (case find_job d t j of None \<Rightarrow> Inr None
      | Some r \<Rightarrow> (case j_dependency_wait_id r of None \<Rightarrow> Inr None
          | Some i \<Rightarrow> bind_res (dependency_wait_info d t j i now) (\<lambda>v. Inr (Some v))))"

definition BlockingDependencyWait :: "env \<Rightarrow> string \<Rightarrow> string \<Rightarrow> db \<Rightarrow> wait_outcome option go \<times> db" where
  "BlockingDependencyWait e t j d =
     and_then (map_err goalError (call_sql e (reading (blocking_info t j (e_now e))) d))
       (\<lambda>v. Inr (case v of None \<Rightarrow> None | Some w \<Rightarrow> if wo_state w \<noteq> WaitPending then None else Some w))"

end
