(* ===== verification/Discovery_Pages.thy ===== *)
theory Discovery_Pages
  imports Discovery Scheduler_Invariant
begin

section \<open>Paging through goals and waits\<close>

text \<open>
  The two discovery queries are keyset queries: goals in the order of their identifiers, waits in the
  order of job and wait identifier. What is relied on of JobDB's page tokens is that decoding the
  empty token gives the empty key, that decoding undoes encoding under the same scope, and that a
  page holds at least one row.
\<close>

definition discovery_tokens_ok :: "discovery \<Rightarrow> bool" where
  "discovery_tokens_ok y \<longleftrightarrow> (\<forall>n. 0 < y_page_size y n) \<and>
     (\<forall>scope n. y_decode y '''' scope n = Inr (replicate n '''')) \<and>
     (\<forall>scope parts. y_encode y scope parts \<noteq> '''' \<and>
        y_decode y (y_encode y scope parts) scope (length parts) = Inr parts)"

lemma discovery_cut_page:
  assumes "0 < n"
  shows "Inr (discovery_cut n token (map item rows)) = page_cut n item (\<lambda>i. Inr (token i)) rows"
proof (cases "length rows > n")
  case True
  then have "take n (map item rows) \<noteq> []" using assms by auto
  then have "last (take n (map item rows)) = map item rows ! (n - 1)" using True by (simp add: last_conv_nth min_def)
  then show ?thesis using True by (simp add: discovery_cut_def page_cut_def Let_def)
qed (simp add: discovery_cut_def page_cut_def)

lemma text_after_empty: "s \<noteq> '''' \<Longrightarrow> '''' < (s :: string)"
  by (cases s) simp_all

subsection \<open>Goals\<close>

definition all_goals :: "goals_query \<Rightarrow> db \<Rightarrow> goal_row list" where
  "all_goals q d = order_asc g_goal_id (filter (goal_matches q d) (goals d))"

definition goals_listable :: "db \<Rightarrow> bool" where
  "goals_listable d \<longleftrightarrow> distinct (map goal_key (goals d)) \<and> (\<forall>g \<in> set (goals d). g_goal_id g \<noteq> '''')"

definition goals_after :: "goals_query \<Rightarrow> string option \<Rightarrow> nat \<Rightarrow> db \<Rightarrow> goal_row list" where
  "goals_after q c n d = goals_page q (case c of None \<Rightarrow> '''' | Some k \<Rightarrow> k) n d"

interpretation goal_pages: keyset_query goals_listable all_goals goals_after g_goal_id "(<)"
proof
  fix d q
  assume good: "goals_listable d"
  then have "distinct (map goal_key (filter (goal_matches q d) (goals d)))"
    by (simp add: goals_listable_def distinct_map_filter)
  then have "distinct (map g_goal_id (filter (goal_matches q d) (goals d)))"
    by (rule distinct_finer_key [rotated]) (auto simp: goal_key_def goal_matches_def)
  then show "sorted_wrt (\<lambda>x y. g_goal_id x < g_goal_id y) (all_goals q d)"
    unfolding all_goals_def by (rule order_asc_strict)
next
  fix k k' :: string
  show "k < k' \<Longrightarrow> \<not> k' < k" by simp
next
  fix d q c n
  assume good: "goals_listable d"
  have "goal_matches q d g \<and> (case c of None \<Rightarrow> '''' | Some k \<Rightarrow> k) < g_goal_id g \<longleftrightarrow>
      goal_matches q d g \<and> (case c of None \<Rightarrow> True | Some k \<Rightarrow> k < g_goal_id g)" if "g \<in> set (goals d)" for g
    using good that text_after_empty by (auto simp: goals_listable_def split: option.splits)
  then show "goals_after q c n d =
      take n (filter (\<lambda>r. case c of None \<Rightarrow> True | Some k \<Rightarrow> k < g_goal_id r) (all_goals q d))"
    unfolding goals_after_def goals_page_def all_goals_def filter_order_asc filter_filter
    by (simp only: cong: filter_cong)
qed

definition list_goals_call :: "discovery \<Rightarrow> lib \<Rightarrow> handle \<Rightarrow> env \<Rightarrow> ListGoalsRequest \<Rightarrow> db \<Rightarrow> string \<Rightarrow>
   (GoalSummary list \<times> string) go" where
  "list_goals_call y l h e req d token = fst (ListGoals y l h e (req\<lparr>lg_PageToken := token\<rparr>) d)"

text \<open>The predicates of a request name at least one value each.\<close>

definition predicates_named :: "goals_query \<Rightarrow> bool" where
  "predicates_named q \<longleftrightarrow> (case gq_candidate q of None \<Rightarrow> True | Some c \<Rightarrow> \<forall>p \<in> set (cq_predicates c). snd p \<noteq> [])"

lemma list_goals_call_page:
  assumes "validateScheduleDB h = Inr ()" "e_link e = LinkUp" "y_goals_valid y (req\<lparr>lg_PageToken := token\<rparr>) = None"
    and "y_goals_scope y (req\<lparr>lg_PageToken := '''', lg_PageSize := 0\<rparr>) = Inr scope"
    and "goals_query_of l req = Inr q" "predicates_named q" "discovery_tokens_ok y"
    and "y_decode y token scope 1 = Inr after"
  shows "list_goals_call y l h e req d token =
    page_cut (y_page_size y (lg_PageSize req)) (goal_summary d) (\<lambda>s. Inr (y_encode y scope [g_goal_id (gs_Goal s)]))
      (goals_page q (after ! 0) (Suc (y_page_size y (lg_PageSize req))) d)"
proof -
  have q: "goals_query_of l (req\<lparr>lg_PageToken := token\<rparr>) = Inr q" using assms(5) by (simp add: goals_query_of_def)
  have named: "\<not> (case gq_candidate q of None \<Rightarrow> False | Some c \<Rightarrow> \<exists>p \<in> set (cq_predicates c). snd p = [])"
    using assms(6) by (auto simp: predicates_named_def split: option.splits)
  have pos: "0 < y_page_size y (lg_PageSize req)" using assms(7) by (simp add: discovery_tokens_ok_def)
  show ?thesis
    using assms(1-4,8) q named by (simp add: list_goals_call_def ListGoals_def on_request_def fail_if_def and_then_def
        map_err_def call_sql_def reading_def list_goals_def Let_def discovery_cut_page [OF pos])
qed

lemma goals_collected:
  assumes req: "validateScheduleDB h = Inr ()" "e_link e = LinkUp" "\<And>token. y_goals_valid y (req\<lparr>lg_PageToken := token\<rparr>) = None"
    "y_goals_scope y (req\<lparr>lg_PageToken := '''', lg_PageSize := 0\<rparr>) = Inr scope"
    "goals_query_of l req = Inr q" "predicates_named q" and tok: "discovery_tokens_ok y" and d: "goals_listable d"
  shows "collect (list_goals_call y l h e req d) (Suc (length (all_goals q d))) '''' =
    Some (Inr (map (goal_summary d) (all_goals q d)))"
proof -
  let ?cursor = "\<lambda>token. case y_decode y token scope 1 of Inl x \<Rightarrow> None
    | Inr parts \<Rightarrow> Some (if parts ! 0 = '''' then None else Some (parts ! 0))"
  show ?thesis
  proof (rule goal_pages.collect_all [where cursor = ?cursor and n = "y_page_size y (lg_PageSize req)"
        and encode = "\<lambda>s. Inr (y_encode y scope [g_goal_id (gs_Goal s)])", OF d])
    show "0 < y_page_size y (lg_PageSize req)" "?cursor '''' = Some None" using tok by (simp_all add: discovery_tokens_ok_def)
    show "list_goals_call y l h e req d token = page_cut (y_page_size y (lg_PageSize req)) (goal_summary d)
        (\<lambda>s. Inr (y_encode y scope [g_goal_id (gs_Goal s)])) (goals_after q c (Suc (y_page_size y (lg_PageSize req))) d)"
      if "?cursor token = Some c" for token c
    proof -
      from that obtain parts where "y_decode y token scope 1 = Inr parts" "c = (if parts ! 0 = '''' then None else Some (parts ! 0))"
        by (auto split: sum.splits)
      then show ?thesis using list_goals_call_page [OF req(1-2) req(3) req(4-6) tok] by (simp add: goals_after_def)
    qed
    show "\<exists>token. Inr (y_encode y scope [g_goal_id (gs_Goal (goal_summary d r))]) = Inr token \<and> token \<noteq> '''' \<and>
        ?cursor token = Some (Some (g_goal_id r))" if "r \<in> set (all_goals q d)" for r
    proof -
      have "g_goal_id r \<noteq> ''''" using that d by (simp add: all_goals_def goals_listable_def)
      moreover have "y_encode y scope [g_goal_id r] \<noteq> ''''" "y_decode y (y_encode y scope [g_goal_id r]) scope 1 = Inr [g_goal_id r]"
        using tok unfolding discovery_tokens_ok_def by (auto dest!: spec [of _ "[g_goal_id r]"])
      ultimately show ?thesis by (simp add: goal_summary_def Let_def)
    qed
  qed
qed

subsection \<open>Waits\<close>

definition outcome_at :: "db \<Rightarrow> int \<Rightarrow> wait_row \<Rightarrow> wait_outcome" where
  "outcome_at d now w = projr (evaluate_wait d (w_outcome w) now)"

definition outcome_order :: "wait_outcome \<Rightarrow> string \<times> string" where
  "outcome_order v = (wo_jobId v, wo_waitId v)"

definition all_waits :: "waits_query \<times> int \<Rightarrow> db \<Rightarrow> wait_outcome list" where
  "all_waits qt d = (case qt of (q, now) \<Rightarrow> filter (projected q) (map (outcome_at d now)
     (order_asc wait_order (filter (wait_candidate q d) (dependency_waits d)))))"

definition waits_after :: "waits_query \<times> int \<Rightarrow> (string \<times> string) option \<Rightarrow> nat \<Rightarrow> db \<Rightarrow> wait_outcome list" where
  "waits_after qt c n d = (case qt of (q, now) \<Rightarrow>
     projr (list_waits q (case c of None \<Rightarrow> ('''', '''') | Some k \<Rightarrow> k) n now d))"

definition waits_listable :: "db \<Rightarrow> bool" where
  "waits_listable d \<longleftrightarrow> waits_wf d \<and> (\<forall>w \<in> set (dependency_waits d). w_job_id w \<noteq> '''')"

lemma outcome_at_ok:
  assumes "waits_listable d" "w \<in> set (dependency_waits d)"
  shows "evaluate_wait d (w_outcome w) now = Inr (outcome_at d now w)" "outcome_order (outcome_at d now w) = wait_order w"
proof -
  have ok: "row_ok d w" using assms by (simp add: waits_listable_def waits_wf_def)
  then obtain v where v: "evaluate_wait d (w_outcome w) now = Inr v"
    using evaluate_wait_evaluated [of d "w_outcome w" now] by (auto simp: row_ok_def)
  then show e: "evaluate_wait d (w_outcome w) now = Inr (outcome_at d now w)" by (simp add: outcome_at_def)
  show "outcome_order (outcome_at d now w) = wait_order w"
    using evaluate_wait_key [OF e] ok by (simp add: outcome_order_def outcome_key_def wait_order_def row_ok_def wait_key_def)
qed

lemma evaluate_rows_ok:
  assumes "waits_listable d" "set ws \<subseteq> set (dependency_waits d)"
  shows "evaluate_rows d now ws = Inr (map (outcome_at d now) ws)"
  using assms by (induction ws) (simp_all add: outcome_at_ok)

lemma list_waits_ok:
  assumes "waits_listable d"
  shows "list_waits q after n now d = Inr (take n (filter (\<lambda>v. projected q v \<and> after < outcome_order v)
    (map (outcome_at d now) (order_asc wait_order (filter (wait_candidate q d) (dependency_waits d))))))"
proof -
  let ?ws = "order_asc wait_order (filter (wait_candidate q d) (dependency_waits d))"
  let ?rest = "order_asc wait_order (filter (\<lambda>w. wait_candidate q d w \<and> after < wait_order w) (dependency_waits d))"
  have sub: "set ?ws \<subseteq> set (dependency_waits d)" "set ?rest \<subseteq> set (dependency_waits d)" by auto
  have "?rest = filter (\<lambda>w. after < wait_order w) ?ws" by (simp add: filter_order_asc conj_commute)
  moreover have "filter (\<lambda>w. after < wait_order w) ?ws = filter (\<lambda>w. after < outcome_order (outcome_at d now w)) ?ws"
    by (rule filter_cong) (use outcome_at_ok(2) [OF assms] sub(1) in auto)
  ultimately have "map (outcome_at d now) ?rest = filter (\<lambda>v. after < outcome_order v) (map (outcome_at d now) ?ws)"
    by (simp add: filter_map comp_def)
  then show ?thesis using evaluate_rows_ok [OF assms sub(2), of now] by (simp add: list_waits_def conj_commute)
qed

interpretation wait_pages: keyset_query waits_listable all_waits waits_after outcome_order "(<)"
proof
  fix d and qt :: "waits_query \<times> int"
  assume good: "waits_listable d"
  obtain q now where qt: "qt = (q, now)" by (cases qt)
  let ?ws = "order_asc wait_order (filter (wait_candidate q d) (dependency_waits d))"
  have "distinct (map wait_key (filter (wait_candidate q d) (dependency_waits d)))"
    using good by (simp add: waits_listable_def waits_wf_def distinct_map_filter)
  then have "distinct (map wait_order (filter (wait_candidate q d) (dependency_waits d)))"
    by (rule distinct_finer_key [rotated]) (auto simp: wait_key_def wait_order_def wait_candidate_def)
  then have "sorted_wrt (\<lambda>x y. wait_order x < wait_order y) ?ws" by (rule order_asc_strict)
  then have "sorted_wrt (\<lambda>x y. outcome_order (outcome_at d now x) < outcome_order (outcome_at d now y)) ?ws"
    by (rule sorted_wrt_mono_rel [rotated]) (simp add: outcome_at_ok(2) [OF good])
  then show "sorted_wrt (\<lambda>x y. outcome_order x < outcome_order y) (all_waits qt d)"
    by (simp add: all_waits_def qt sorted_wrt_map sorted_wrt_filter)
next
  fix k k' :: "string \<times> string"
  show "k < k' \<Longrightarrow> \<not> k' < k" by simp
next
  fix d n and c :: "(string \<times> string) option" and qt :: "waits_query \<times> int"
  assume good: "waits_listable d"
  obtain q now where qt: "qt = (q, now)" by (cases qt)
  let ?vs = "map (outcome_at d now) (order_asc wait_order (filter (wait_candidate q d) (dependency_waits d)))"
  let ?k = "case c of None \<Rightarrow> ('''', '''') | Some k \<Rightarrow> k"
  have "('''', '''') < outcome_order v" if "v \<in> set ?vs" for v
  proof -
    from that obtain w where "w \<in> set (dependency_waits d)" "v = outcome_at d now w" by auto
    then have "outcome_order v = wait_order w" "w_job_id w \<noteq> ''''"
      using outcome_at_ok(2) [OF good] good by (auto simp: waits_listable_def)
    then show ?thesis using text_after_empty by (simp add: wait_order_def less_prod_def)
  qed
  then have "filter (\<lambda>v. projected q v \<and> ?k < outcome_order v) ?vs =
      filter (\<lambda>v. projected q v \<and> (case c of None \<Rightarrow> True | Some k \<Rightarrow> k < outcome_order v)) ?vs"
    by (intro filter_cong) (auto split: option.splits)
  then show "waits_after qt c n d =
      take n (filter (\<lambda>r. case c of None \<Rightarrow> True | Some k \<Rightarrow> k < outcome_order r) (all_waits qt d))"
    by (simp add: waits_after_def all_waits_def qt list_waits_ok [OF good])
qed

definition list_waits_call :: "discovery \<Rightarrow> handle \<Rightarrow> env \<Rightarrow> ListDependencyWaitsRequest \<Rightarrow> db \<Rightarrow> string \<Rightarrow>
   (wait_outcome list \<times> string) go" where
  "list_waits_call y h e req d token = fst (ListDependencyWaits y h e (req\<lparr>lw_PageToken := token\<rparr>) d)"

lemma list_waits_call_page:
  assumes "validateScheduleDB h = Inr ()" "e_link e = LinkUp" "y_waits_valid y (req\<lparr>lw_PageToken := token\<rparr>) = None"
    and "y_waits_scope y (req\<lparr>lw_PageToken := '''', lw_PageSize := 0\<rparr>) = Inr scope" "discovery_tokens_ok y"
    and "waits_listable d" "y_decode y token scope 2 = Inr after"
  shows "list_waits_call y h e req d token =
    page_cut (y_page_size y (lw_PageSize req)) (\<lambda>v. v) (\<lambda>v. Inr (y_encode y scope [wo_jobId v, wo_waitId v]))
      (projr (list_waits (waits_query_of req) (after ! 0, after ! 1) (Suc (y_page_size y (lw_PageSize req))) (e_now e) d))"
proof -
  have q: "waits_query_of (req\<lparr>lw_PageToken := token\<rparr>) = waits_query_of req" by (simp add: waits_query_of_def)
  have pos: "0 < y_page_size y (lw_PageSize req)" using assms(5) by (simp add: discovery_tokens_ok_def)
  show ?thesis
    using assms(1-4,7) q by (simp add: list_waits_call_def ListDependencyWaits_def on_request_def fail_if_def and_then_def
        map_err_def call_sql_def reading_def list_waits_ok [OF assms(6)] Let_def
        discovery_cut_page [OF pos, where item = "\<lambda>v. v", simplified])
qed

lemma waits_collected:
  assumes req: "validateScheduleDB h = Inr ()" "e_link e = LinkUp" "\<And>token. y_waits_valid y (req\<lparr>lw_PageToken := token\<rparr>) = None"
    "y_waits_scope y (req\<lparr>lw_PageToken := '''', lw_PageSize := 0\<rparr>) = Inr scope"
    and tok: "discovery_tokens_ok y" and d: "waits_listable d"
  shows "collect (list_waits_call y h e req d) (Suc (length (all_waits (waits_query_of req, e_now e) d))) '''' =
    Some (Inr (all_waits (waits_query_of req, e_now e) d))"
proof -
  let ?qt = "(waits_query_of req, e_now e)" and ?n = "y_page_size y (lw_PageSize req)"
  let ?cursor = "\<lambda>token. case y_decode y token scope 2 of Inl x \<Rightarrow> None
    | Inr parts \<Rightarrow> Some (if (parts ! 0, parts ! 1) = ('''', '''') then None else Some (parts ! 0, parts ! 1))"
  have "collect (list_waits_call y h e req d) (Suc (length (all_waits ?qt d))) '''' =
      Some (Inr (map (\<lambda>v. v) (all_waits ?qt d)))"
  proof (rule wait_pages.collect_all [where cursor = ?cursor and n = ?n
        and encode = "\<lambda>v. Inr (y_encode y scope [wo_jobId v, wo_waitId v])", OF d])
    show "0 < ?n" "?cursor '''' = Some None" using tok by (simp_all add: discovery_tokens_ok_def eval_nat_numeral)
    show "list_waits_call y h e req d token = page_cut ?n (\<lambda>v. v)
        (\<lambda>v. Inr (y_encode y scope [wo_jobId v, wo_waitId v])) (waits_after ?qt c (Suc ?n) d)"
      if "?cursor token = Some c" for token c
    proof -
      from that obtain parts where "y_decode y token scope 2 = Inr parts"
        "c = (if (parts ! 0, parts ! 1) = ('''', '''') then None else Some (parts ! 0, parts ! 1))"
        by (auto split: sum.splits)
      then show ?thesis using list_waits_call_page [OF req(1-2) req(3) req(4) tok d] by (simp add: waits_after_def)
    qed
    show "\<exists>token. Inr (y_encode y scope [wo_jobId r, wo_waitId r]) = Inr token \<and> token \<noteq> '''' \<and>
        ?cursor token = Some (Some (outcome_order r))" if "r \<in> set (all_waits ?qt d)" for r
    proof -
      from that obtain w where "w \<in> set (dependency_waits d)" "r = outcome_at d (e_now e) w" by (auto simp: all_waits_def)
      then have "wo_jobId r \<noteq> ''''" using outcome_at_ok(2) [OF d] d
        by (auto simp: waits_listable_def outcome_order_def wait_order_def)
      moreover have "y_encode y scope [wo_jobId r, wo_waitId r] \<noteq> ''''"
        "y_decode y (y_encode y scope [wo_jobId r, wo_waitId r]) scope 2 = Inr [wo_jobId r, wo_waitId r]"
        using tok unfolding discovery_tokens_ok_def by (auto dest!: spec [of _ "[wo_jobId r, wo_waitId r]"] simp: eval_nat_numeral)
      ultimately show ?thesis by (simp add: outcome_order_def)
    qed
  qed
  then show ?thesis by simp
qed

end
