(* ===== verification/Discovery_Guarantees.thy ===== *)
theory Discovery_Guarantees
  imports Discovery_Pages Samples
begin

section \<open>Guarantees of the discovery listings\<close>

text \<open>
  Following the page tokens of \<^verbatim>\<open>ListGoals\<close> and \<^verbatim>\<open>ListDependencyWaits\<close> shows every selected row once, and
  the counts of a goal summary add up. \<open>sample_discovery\<close> is a concrete token codec.
\<close>

fun get_texts :: "nat \<Rightarrow> string \<Rightarrow> string list" where
  "get_texts 0 r = []"
| "get_texts (Suc n) r = (case get_text r of (s, rest) \<Rightarrow> s # get_texts n rest)"

definition sample_discovery :: discovery where
  "sample_discovery = \<lparr>y_goals_valid = (\<lambda>_. None), y_waits_valid = (\<lambda>_. None), y_page_size = (\<lambda>_. 1),
     y_goals_scope = (\<lambda>_. Inr ''g''), y_waits_scope = (\<lambda>_. Inr ''w''),
     y_decode = (\<lambda>token _ n. Inr (if token = '''' then replicate n '''' else get_texts n (tl token))),
     y_encode = (\<lambda>_ parts. CHR ''#'' # concat (map put_text parts))\<rparr>"

lemma get_texts_put: "get_texts (length parts) (concat (map put_text parts)) = parts"
  by (induction parts) simp_all

lemma sample_discovery_tokens: "discovery_tokens_ok sample_discovery"
  by (simp add: discovery_tokens_ok_def sample_discovery_def get_texts_put)

definition sample_goals :: ListGoalsRequest where
  "sample_goals = \<lparr>lg_TenantId = ''t'', lg_GoalIDs = [], lg_States = [''OPEN''], lg_CreatedAfter = None,
     lg_CreatedBefore = None, lg_UpdatedAfter = None, lg_UpdatedBefore = None, lg_Candidate = None,
     lg_PageSize = 0, lg_PageToken = ''''\<rparr>"

definition sample_waits :: ListDependencyWaitsRequest where
  "sample_waits = \<lparr>lw_TenantId = ''t'', lw_ConsumerJobID = '''', lw_Target = Some (''a'', ''''), lw_States = [],
     lw_PageSize = 0, lw_PageToken = ''''\<rparr>"

lemma sample_handle_valid: "validateScheduleDB sample_handle = Inr ()"
  by code_simp

subsection \<open>Listings\<close>

text \<open>
  C25: a caller of \<^verbatim>\<open>ListGoals\<close> who follows the page tokens receives every goal the filters select exactly
  once, in the order of their identifiers, each with its counts.
\<close>

theorem goals_discovered_once:
  assumes "validateScheduleDB h = Inr ()" "e_link e = LinkUp" "\<And>token. y_goals_valid y (req\<lparr>lg_PageToken := token\<rparr>) = None"
    "y_goals_scope y (req\<lparr>lg_PageToken := '''', lg_PageSize := 0\<rparr>) = Inr scope"
    "goals_query_of l req = Inr q" "predicates_named q" "discovery_tokens_ok y" "goals_listable d"
  shows "collect (list_goals_call y l h e req d) (Suc (length (all_goals q d))) '''' =
    Some (Inr (map (goal_summary d) (all_goals q d)))"
  by (rule goals_collected [OF assms])

theorem goals_discovered_once_witness:
  "collect (list_goals_call sample_discovery sample_lib sample_handle (sample_env 30 '''') sample_goals db_waiting)
     (Suc (length (all_goals (projr (goals_query_of sample_lib sample_goals)) db_waiting))) '''' =
   Some (Inr (map (goal_summary db_waiting) (all_goals (projr (goals_query_of sample_lib sample_goals)) db_waiting)))"
proof (rule goals_discovered_once [OF sample_handle_valid _ _ _ _ _ sample_discovery_tokens])
  show "e_link (sample_env 30 '''') = LinkUp" by (simp add: sample_env_def)
  show "y_goals_valid sample_discovery (sample_goals\<lparr>lg_PageToken := token\<rparr>) = None" for token
    by (simp add: sample_discovery_def)
  show "y_goals_scope sample_discovery (sample_goals\<lparr>lg_PageToken := '''', lg_PageSize := 0\<rparr>) = Inr ''g''"
    by (simp add: sample_discovery_def)
  show "goals_query_of sample_lib sample_goals = Inr (projr (goals_query_of sample_lib sample_goals))" by code_simp
  show "predicates_named (projr (goals_query_of sample_lib sample_goals))" by code_simp
  show "goals_listable db_waiting" by code_simp
qed

text \<open>
  C26: a caller of \<^verbatim>\<open>ListDependencyWaits\<close> who follows the page tokens receives every selected wait exactly
  once, in the order of consumer and wait identifier, as it evaluates at the time of the statement.
\<close>

theorem waits_discovered_once:
  assumes "validateScheduleDB h = Inr ()" "e_link e = LinkUp" "\<And>token. y_waits_valid y (req\<lparr>lw_PageToken := token\<rparr>) = None"
    "y_waits_scope y (req\<lparr>lw_PageToken := '''', lw_PageSize := 0\<rparr>) = Inr scope"
    "discovery_tokens_ok y" "db_inv d now" "\<forall>w \<in> set (dependency_waits d). w_job_id w \<noteq> ''''"
  shows "collect (list_waits_call y h e req d) (Suc (length (all_waits (waits_query_of req, e_now e) d))) '''' =
    Some (Inr (all_waits (waits_query_of req, e_now e) d))"
  using waits_collected [OF assms(1-5)] assms(6,7) db_okD(4) [OF invD(1)] by (simp add: waits_listable_def)

theorem waits_discovered_once_witness:
  "collect (list_waits_call sample_discovery sample_handle (sample_env 30 '''') sample_waits db_waiting)
     (Suc (length (all_waits (waits_query_of sample_waits, 30) db_waiting))) '''' =
   Some (Inr (all_waits (waits_query_of sample_waits, 30) db_waiting))"
proof -
  have e: "e_link (sample_env 30 '''') = LinkUp" "e_now (sample_env 30 '''') = 30" by (simp_all add: sample_env_def)
  have v: "y_waits_valid sample_discovery (sample_waits\<lparr>lw_PageToken := token\<rparr>) = None" for token
    by (simp add: sample_discovery_def)
  have s: "y_waits_scope sample_discovery (sample_waits\<lparr>lw_PageToken := '''', lw_PageSize := 0\<rparr>) = Inr ''w''"
    by (simp add: sample_discovery_def)
  have j: "\<forall>w \<in> set (dependency_waits db_waiting). w_job_id w \<noteq> ''''" by code_simp
  show ?thesis
    using waits_discovered_once [OF sample_handle_valid e(1) v s sample_discovery_tokens sample_invs(2) j] e(2) by simp
qed

subsection \<open>Counts\<close>

lemma member_known:
  assumes "db_inv d now" "m \<in> set (goal_members d t g)"
  shows "find_fact d t m \<noteq> None"
  using assms(2) db_okD(2) [OF invD(1) [OF assms(1)]]
  by (auto simp: goal_members_def linked_def find_fact_def row_at_None fact_key_def image_iff)

text \<open>
  C27: the counts of a goal summary add up. In a consistent database every member of a goal is known, so
  none is unavailable, and each is counted once, as finished or as unfinished.
\<close>

theorem goal_counts_add_up:
  assumes "db_inv d now"
  shows "gs_UnavailableCandidateCount (goal_summary d g) = 0 \<and>
    gs_NonTerminalCandidateCount (goal_summary d g) + gs_TerminalCandidateCount (goal_summary d g) =
      gs_CandidateCount (goal_summary d g) \<and>
    gs_CandidateCount (goal_summary d g) = card (set (goal_members d (g_tenant_id g) (g_goal_id g)))"
proof -
  let ?t = "g_tenant_id g" and ?ms = "goal_members d (g_tenant_id g) (g_goal_id g)"
  note known = member_known [OF assms]
  have "filter (\<lambda>m. find_fact d ?t m = None) ?ms = []" using known by (auto simp: filter_empty_conv)
  moreover have "filter (\<lambda>m. \<not> archived d ?t m \<and> find_fact d ?t m \<noteq> None) ?ms = filter (\<lambda>m. \<not> archived d ?t m) ?ms"
    using known by (intro filter_cong) auto
  moreover have "length (filter (\<lambda>m. \<not> archived d ?t m) ?ms) + length (filter (\<lambda>m. archived d ?t m) ?ms) = length ?ms"
    using sum_length_filter_compl [of "archived d ?t" ?ms] by simp
  moreover have "distinct ?ms" unfolding goal_members_def by (rule distinct_remdups)
  then have "length ?ms = card (set ?ms)" by (rule distinct_card [symmetric])
  ultimately show ?thesis by (simp add: goal_summary_def Let_def)
qed

theorem goal_counts_add_up_witness:
  "gs_NonTerminalCandidateCount (goal_summary db_finished (hd (goals db_finished))) +
     gs_TerminalCandidateCount (goal_summary db_finished (hd (goals db_finished))) = 1"
proof -
  have "gs_CandidateCount (goal_summary db_finished (hd (goals db_finished))) = 1" by code_simp
  then show ?thesis using goal_counts_add_up [OF sample_invs(4)] by simp
qed

end
