(* ===== verification/Go_Float.thy ===== *)
theory Go_Float
  imports Prelude
begin

section \<open>Durations as floating-point seconds\<close>

text \<open>
  The delay of an alternate route crosses the database as a \<^verbatim>\<open>float64\<close> number of seconds. A positive
  double is a pair \<open>(m, k)\<close> that stands for \<open>m / 2 ^ k\<close>; every operation rounds the exact result to 53
  significant bits, ties to even. Only nonnegative values within the range of normal numbers occur.
\<close>

text \<open>The number of binary digits.\<close>

function bit_count :: "int \<Rightarrow> int" where
  "bit_count n = (if n \<le> 0 then 0 else 1 + bit_count (n div 2))"
  by pat_completeness auto
termination
  by (relation "measure nat") auto

declare bit_count.simps [simp del]

definition shl :: "int \<Rightarrow> int \<Rightarrow> int" where
  "shl n k = n * 2 ^ nat k"

text \<open>The integer nearest to \<open>p / q\<close>.\<close>

definition half_even :: "int \<Rightarrow> int \<Rightarrow> int" where
  "half_even p q = (let n = p div q; r = p mod q in
     if 2 * r < q \<or> (2 * r = q \<and> even n) then n else n + 1)"

text \<open>The exponent of \<open>p / q\<close>: \<open>2 ^ e \<le> p / q < 2 ^ (e + 1)\<close>.\<close>

definition exponent :: "int \<Rightarrow> int \<Rightarrow> int" where
  "exponent p q = (let b = bit_count p - bit_count q in
     if shl q b \<le> shl p (- b) then b else b - 1)"

definition float64 :: "int \<Rightarrow> int \<Rightarrow> int \<times> int" where
  "float64 p q = (if p = 0 then (0, 0) else let k = 52 - exponent p q in (half_even (shl p k) (shl q (- k)), k))"

text \<open>
  \<^verbatim>\<open>Duration.Seconds\<close>: whole seconds plus the remaining nanoseconds divided by \<open>1e9\<close>; and the way back,
  \<^verbatim>\<open>time.Duration(seconds * float64(time.Second))\<close>, which cuts the fraction off.
\<close>

definition duration_seconds :: "int \<Rightarrow> int \<times> int" where
  "duration_seconds ns = (case float64 (ns mod 1000000000) 1000000000 of (m, k) \<Rightarrow>
     float64 (shl (ns div 1000000000) k + m) (shl 1 k))"

definition seconds_duration :: "int \<times> int \<Rightarrow> int" where
  "seconds_duration x = (case x of (m, k) \<Rightarrow>
     (case float64 (shl (m * 1000000000) (- k)) (shl 1 k) of (n, j) \<Rightarrow> shl n (- j) div shl 1 j))"

definition alternate_duration :: "int \<Rightarrow> int" where
  "alternate_duration ns = seconds_duration (duration_seconds ns)"

subsection \<open>Whole seconds are exact\<close>

lemma bit_count_bounds: "0 < n \<Longrightarrow> 0 < bit_count n \<and> 2 ^ nat (bit_count n - 1) \<le> n \<and> n < 2 ^ nat (bit_count n)"
proof (induction n rule: bit_count.induct)
  case (1 n)
  show ?case
  proof (cases "n = 1")
    case True
    then show ?thesis by (simp add: bit_count.simps)
  next
    case False
    then have h: "0 < n div 2" using "1.prems" by auto
    let ?b = "bit_count (n div 2)"
    from "1.IH" h "1.prems" have b: "0 < ?b" "2 ^ nat (?b - 1) \<le> n div 2" "n div 2 < 2 ^ nat ?b" by auto
    have e: "bit_count n = 1 + ?b" using "1.prems" by (subst bit_count.simps) simp
    have "nat ?b = Suc (nat (?b - 1))" "nat (1 + ?b) = Suc (nat ?b)" using b(1) by auto
    then have p: "(2::int) ^ nat (1 + ?b - 1) = 2 * 2 ^ nat (?b - 1)" "(2::int) ^ nat (1 + ?b) = 2 * 2 ^ nat ?b" by simp_all
    show ?thesis unfolding e p using b by linarith
  qed
qed

lemma half_even_exact: "0 < q \<Longrightarrow> half_even (n * q) q = n"
  by (simp add: half_even_def Let_def)

lemma shl_simps [simp]: "0 \<le> k \<Longrightarrow> shl n (- k) = n" "shl n 0 = n" "shl 0 k = 0"
  by (simp_all add: shl_def)

lemma exponent_integer:
  assumes "0 < n" "n < 2 ^ 53" "0 < q"
  shows "exponent (n * q) q \<le> 52"
proof -
  let ?p = "n * q" and ?bp = "bit_count (n * q)" and ?bq = "bit_count q"
  have p: "0 < ?p" using assms by simp
  note bp = bit_count_bounds [OF p] and bq = bit_count_bounds [OF assms(3)]
  have "(2::int) ^ nat (?bp - 1) < 2 ^ 53 * 2 ^ nat ?bq"
    using bp bq assms mult_strict_mono [OF assms(2), of q "2 ^ nat ?bq"] by linarith
  then have "(2::int) ^ nat (?bp - 1) < 2 ^ (53 + nat ?bq)" by (simp add: power_add)
  then have "nat (?bp - 1) < 53 + nat ?bq" by (rule power_less_imp_less_exp [rotated]) simp
  then have "?bp - ?bq \<le> 53" using bp bq by linarith
  moreover have "?bp - ?bq \<le> 52" if "shl q (?bp - ?bq) \<le> shl ?p (- (?bp - ?bq))"
  proof (cases "0 \<le> ?bp - ?bq")
    case True
    then have "q * 2 ^ nat (?bp - ?bq) \<le> q * n" using that by (simp add: shl_def mult.commute)
    then have "2 ^ nat (?bp - ?bq) \<le> n" using assms(3) by (simp add: mult_le_cancel_left)
    then have "(2::int) ^ nat (?bp - ?bq) < 2 ^ 53" using assms(2) by linarith
    then have "nat (?bp - ?bq) < 53" by (rule power_less_imp_less_exp [rotated]) simp
    then show ?thesis using True by linarith
  qed simp
  ultimately show ?thesis by (simp add: exponent_def Let_def)
qed

lemma float64_integer:
  assumes "0 < n" "n < 2 ^ 53" "0 < q"
  obtains k where "0 \<le> k" "float64 (n * q) q = (shl n k, k)"
proof -
  let ?k = "52 - exponent (n * q) q"
  have k: "0 \<le> ?k" using exponent_integer [OF assms] by simp
  have "half_even (shl (n * q) ?k) q = shl n ?k"
    using half_even_exact [OF assms(3), of "n * 2 ^ nat ?k"] by (simp add: shl_def ac_simps)
  moreover have "shl q (- ?k) = q" using k by (rule shl_simps)
  ultimately have "float64 (n * q) q = (shl n ?k, ?k)" using assms unfolding float64_def Let_def by auto
  then show ?thesis using that [of ?k] k by blast
qed

lemma alternate_duration_seconds:
  assumes "0 \<le> s" "s * 1000000000 < 2 ^ 53"
  shows "alternate_duration (s * 1000000000) = s * 1000000000"
proof (cases "s = 0")
  case True
  then show ?thesis by (simp add: alternate_duration_def duration_seconds_def seconds_duration_def float64_def)
next
  case False
  then have s: "0 < s" "s < 2 ^ 53" "0 < s * 1000000000" using assms by auto
  obtain k where k: "0 \<le> k" "float64 s 1 = (shl s k, k)" using float64_integer [OF s(1,2), of 1] by auto
  have "float64 0 1000000000 = (0, 0)" by (simp add: float64_def)
  then have "duration_seconds (s * 1000000000) = (shl s k, k)"
    using k(2) by (simp add: duration_seconds_def)
  moreover obtain j where j: "0 \<le> j" "float64 (s * 1000000000 * shl 1 k) (shl 1 k) = (shl (s * 1000000000) j, j)"
    using float64_integer [OF s(3) assms(2), of "shl 1 k"] by (auto simp: shl_def)
  moreover have "shl (shl s k * 1000000000) (- k) = s * 1000000000 * shl 1 k" using k(1) by (simp add: shl_def)
  moreover have "shl (s * 1000000000) j div shl 1 j = s * 1000000000" by (simp add: shl_def)
  ultimately show ?thesis by (simp add: alternate_duration_def seconds_duration_def)
qed

lemma alternate_duration_1001ms: "alternate_duration 1001000000 = 1000999999"
  by code_simp

end
