(* ===== verification/Runtime_Types.thy ===== *)
theory Runtime_Types
  imports Job_Listing Schedule_Pages Job_Deletion Discovery Go_Float
begin

section \<open>The interface of the JobDB runtime\<close>

text \<open>
  The runtime adapter (\<^verbatim>\<open>runtime/internal/runtimeadapter\<close>) translates between the scheduler port of JobDB
  and the typed API of this package. The types of that port are not under \<^verbatim>\<open>src/\<close>: the records here
  have the fields the adapter reads or writes, and the encoding of a schedule's failure history is the
  parameter \<open>history\<close>. An interval of JobDB is a number of nanoseconds.
\<close>

subsection \<open>Errors\<close>

text \<open>
  \<open>Native\<close> is an error passed through; the others are \<^verbatim>\<open>jobdb.ErrJobNotFound\<close>,
  \<^verbatim>\<open>jobdb.ErrExecutionLeaseLost\<close> and \<^verbatim>\<open>jobdb.ErrConflict\<close> with the text wrapped behind them.
\<close>

datatype rt_error =
    Native go_error
  | RtErr string
  | RtJobNotFound
  | RtLeaseLost string
  | RtConflict string

type_synonym 'a rt = "rt_error + 'a"

definition passed :: "'a go \<Rightarrow> 'a rt" where
  "passed r = (case r of Inl x \<Rightarrow> Inl (Native x) | Inr v \<Rightarrow> Inr v)"

definition translated :: "(go_error \<Rightarrow> rt_error) \<Rightarrow> 'a go \<Rightarrow> 'a rt" where
  "translated f r = (case r of Inl x \<Rightarrow> Inl (f x) | Inr v \<Rightarrow> Inr v)"

lemma passed_simps [simp]: "passed (Inl x) = Inl (Native x)" "passed (Inr v) = Inr v"
  by (simp_all add: passed_def)

lemma translated_simps [simp]: "translated f (Inl x) = Inl (f x)" "translated f (Inr v) = Inr v"
  by (simp_all add: translated_def)

subsection \<open>Run policies\<close>

record JobdbRetry =
  jr_InitialInterval :: int
  jr_BackoffCoefficient :: rat
  jr_MaximumInterval :: int
  jr_MaximumAttempts :: int
  jr_NonRetryableErrorTypes :: "string list"

record JobdbPolicy =
  jy_Retry :: JobdbRetry
  jy_InvocationTimeout :: "int option"
  jy_TotalTimeout :: "int option"

subsection \<open>Leases and work\<close>

record RtIdentity =
  ri_TenantId :: string
  ri_JobId :: string
  ri_LeaseID :: string
  ri_WorkerID :: string
  ri_ExpiresAt :: int

record RtTask =
  rk_TaskType :: string
  rk_ResumeJobType :: string
  rk_InputOrdinal :: int
  rk_OutputOrdinal :: int
  rk_InputHash :: string

record RtSelector =
  rs_JobTypes :: "string list"
  rs_Tasks :: "(string \<times> string) list"

record LeaseSnapshot =
  lp_GoalID :: string
  lp_Identity :: RtIdentity
  lp_JobType :: string
  lp_RouteJobType :: string
  lp_WorkKind :: string
  lp_RunPolicy :: JobdbPolicy
  lp_ClientPayload :: "client_json option"
  lp_ClientPayloadRevision :: int
  lp_SchemaHash :: string
  lp_Duration :: int
  lp_TaskWork :: "RtTask option"

record WorkRequest =
  wr_TenantId :: string
  wr_WorkerID :: string
  wr_Selector :: RtSelector
  wr_MetadataEquals :: "jobdb_predicate list"
  wr_LeaseDuration :: int
  wr_Limit :: int

record JobLeaseRequest =
  jq_TenantId :: string
  jq_JobId :: string
  jq_WorkerID :: string
  jq_Selector :: RtSelector
  jq_LeaseDuration :: int

record CompletionMutation =
  cm_Identity :: RtIdentity
  cm_Status :: string
  cm_Detail :: string
  cm_ErrorKind :: string
  cm_Retryable :: "bool option"
  cm_ClientPayloadUpdate :: "ClientPayloadUpdate option"

record RescheduleMutation =
  rm_Identity :: RtIdentity
  rm_DependencyWait :: "DependencyWait option"
  rm_RouteJobType :: string
  rm_WorkKind :: string
  rm_WaitUntil :: "int option"
  rm_WaitForJobIDs :: "string list"
  rm_ClientPayloadUpdate :: "ClientPayloadUpdate option"
  rm_TaskWork :: "RtTask option"
  rm_AlternateRoute :: "AlternateRoute option"

record RtClaimRequest =
  cq_TenantId :: string
  cq_JobId :: string
  cq_WorkerID :: string
  cq_JobType :: string
  cq_Task :: RtTask
  cq_LeaseDuration :: int

subsection \<open>Jobs\<close>

text \<open>The failure history of a schedule: its empty value and its JSON encoding and decoding.\<close>

record 'h history =
  y_none :: 'h
  y_marshal :: "'h \<Rightarrow> json option"
  y_unmarshal :: "json \<Rightarrow> 'h option"
  y_kind :: string

record 'h OccurrenceMetadata =
  om_ScheduleId :: string
  om_Kind :: string
  om_Generation :: int
  om_SpecHash :: string
  om_ScheduledAt :: int
  om_RunId :: string
  om_Manual :: bool
  om_BackfillId :: string
  om_PreviousJobId :: string
  om_FailureHistory :: 'h

record CompletionSnapshot =
  cs_Status :: string
  cs_Detail :: string
  cs_ErrorKind :: string
  cs_Retryable :: "bool option"

record 'h StoredJob =
  sto_GoalID :: string
  sto_OtherGoalIDs :: "string list"
  sto_TenantId :: string
  sto_JobId :: string
  sto_Store :: JobStore
  sto_Status :: JobStatus
  sto_JobType :: string
  sto_RouteJobType :: string
  sto_WorkKind :: string
  sto_ClientPayload :: "client_json option"
  sto_ClientPayloadRevision :: int
  sto_InitialPayloadDigest :: string
  sto_AppMetadata :: json
  sto_SchemaHash :: string
  sto_ParentJobID :: string
  sto_AvailableAt :: int
  sto_ExpiresAt :: "int option"
  sto_LeaseExpiresAt :: "int option"
  sto_LeaseWorkerID :: string
  sto_CreatedAt :: int
  sto_ArchivedAt :: "int option"
  sto_CancelRequested :: bool
  sto_WaitForJobIDs :: "string list"
  sto_RunPolicy :: JobdbPolicy
  sto_TaskWork :: "RtTask option"
  sto_AlternateRoute :: "AlternateRoute option"
  sto_Schedule :: "'h OccurrenceMetadata option"
  sto_Completion :: "CompletionSnapshot option"
  sto_Lease :: "RtIdentity option"
  sto_BlockingWait :: "wait_outcome option"
  sto_BlockingWaitSummary :: "(string \<times> int option) option"

record 'h CreateJobRequest =
  cj_GoalID :: string
  cj_ShareGoal :: bool
  cj_Dependencies :: "dependency list"
  cj_ClientPayload :: "raw_client option"
  cj_TenantId :: string
  cj_JobId :: string
  cj_WorkerID :: string
  cj_JobType :: string
  cj_RunPolicy :: JobdbPolicy
  cj_AppMetadata :: raw_json
  cj_SchemaHash :: string
  cj_ParentJobID :: string
  cj_AvailableAt :: "int option"
  cj_ExpiresAt :: "int option"
  cj_WaitForJobIDs :: "string list"
  cj_Schedule :: "'h OccurrenceMetadata option"

record RtListJobsRequest =
  lj_GoalIDs :: "string list"
  lj_RootOnly :: bool
  lj_CreatedAfter :: "int option"
  lj_IncludeHidden :: bool
  lj_CreatedBefore :: "int option"
  lj_PageSize :: int
  lj_PageToken :: string
  lj_Now :: int
  lj_AvailableRoutes :: "(string \<times> string) list"
  lj_TenantIds :: "string list"
  lj_Statuses :: "string list"
  lj_Stores :: "string list"
  lj_JobTypes :: "string list"
  lj_JobTasks :: "(string \<times> string) list"
  lj_JobKeys :: "(string \<times> string) list"
  lj_ParentJobIDs :: "string list"
  lj_MetadataEquals :: "jobdb_predicate list"

subsection \<open>Schedules and deletion\<close>

record StoredScheduleMutation =
  um_TenantId :: string
  um_ScheduleId :: string
  um_State :: string
  um_SpecHash :: string
  um_TriggerSnapshot :: raw_json
  um_TargetJobType :: string
  um_TargetSnapshot :: raw_json
  um_OverlapPolicy :: string
  um_FailurePolicySnapshot :: raw_json
  um_NextFireAt :: "int option"
  um_NextJobKey :: "(string \<times> string) option"
  um_ExpectedGeneration :: "int option"

record ScheduleStateMutation =
  tm_TenantId :: string
  tm_ScheduleId :: string
  tm_State :: string
  tm_NextFireAt :: "int option"
  tm_NextJobKey :: "(string \<times> string) option"
  tm_ExpectedGeneration :: "int option"

record StoredSchedule =
  ss_TenantId :: string
  ss_ScheduleId :: string
  ss_State :: schedule_state
  ss_Generation :: int
  ss_SpecHash :: string
  ss_TriggerSnapshot :: json
  ss_TargetJobType :: string
  ss_TargetSnapshot :: json
  ss_OverlapPolicy :: string
  ss_FailurePolicySnapshot :: json
  ss_NextFireAt :: "int option"
  ss_CreatedAt :: int
  ss_UpdatedAt :: int
  ss_NextJobKey :: "(string \<times> string) option"

record RtListSchedulesRequest =
  sl_TenantId :: string
  sl_ScheduleIDs :: "string list"
  sl_States :: "string list"
  sl_TargetJobTypes :: "string list"
  sl_PageSize :: int
  sl_PageToken :: string

record RtListRunsRequest =
  sn_TenantId :: string
  sn_ScheduleId :: string
  sn_ScheduledAfter :: "int option"
  sn_ScheduledBefore :: "int option"
  sn_Statuses :: "string list"
  sn_PageSize :: int
  sn_PageToken :: string

record RtDeleteRequest =
  xd_TenantID :: string
  xd_JobIDs :: "string list"
  xd_CreatedBefore :: "int option"
  xd_MetadataEquals :: "jobdb_predicate list"
  xd_All :: bool
  xd_DryRun :: bool
  xd_Now :: int

end
