(* ===== verification/Runtime_Adapter.thy ===== *)
theory Runtime_Adapter
  imports Runtime_Types
begin

section \<open>The runtime adapter\<close>

text \<open>
  \<^verbatim>\<open>runtimeadapter/jobs.go\<close>, \<^verbatim>\<open>leases.go\<close>, \<^verbatim>\<open>mutations.go\<close>, \<^verbatim>\<open>schedules.go\<close> and \<^verbatim>\<open>delete_jobs.go\<close>: each
  method of \<^verbatim>\<open>Scheduler\<close> converts its request, calls one or more functions of the typed API and converts
  the answer. A method that reads a job back after a change runs three more statements; each of them
  sees the database as it is at that moment, so they come with their own environment and snapshot
  (\<open>views\<close>). The text that an error formats behind a fixed prefix is dropped.
\<close>

subsection \<open>Run policies\<close>

definition durationFromMillis :: "int \<Rightarrow> int rt" where
  "durationFromMillis millis =
     (if millis < 0 \<or> millis > 9223372036854775807 div 1000000
      then Inl (RtErr ''run policy duration in milliseconds is out of range'')
      else Inr (millis * 1000000))"

definition durationToMillis :: "int \<Rightarrow> int rt" where
  "durationToMillis duration =
     (if duration < 0 \<or> duration mod 1000000 \<noteq> 0
      then Inl (RtErr ''run policy duration must be a nonnegative whole number of milliseconds'')
      else Inr (duration div 1000000))"

definition optional_res :: "('a \<Rightarrow> 'b rt) \<Rightarrow> 'a option \<Rightarrow> 'b option rt" where
  "optional_res f v = (case v of None \<Rightarrow> Inr None | Some x \<Rightarrow> bind_res (f x) (\<lambda>y. Inr (Some y)))"

definition runPolicyFromPgjobdb :: "RunPolicy \<Rightarrow> JobdbPolicy rt" where
  "runPolicyFromPgjobdb p =
     bind_res (durationFromMillis (rp_InitialIntervalMillis (pol_Retry p))) (\<lambda>initial.
     bind_res (durationFromMillis (rp_MaximumIntervalMillis (pol_Retry p))) (\<lambda>maximum.
     bind_res (optional_res durationFromMillis (pol_InvocationTimeoutMillis p)) (\<lambda>invocation.
     bind_res (optional_res durationFromMillis (pol_TotalTimeoutMillis p)) (\<lambda>total.
     Inr \<lparr>jy_Retry = \<lparr>jr_InitialInterval = initial,
            jr_BackoffCoefficient = rp_BackoffCoefficient (pol_Retry p),
            jr_MaximumInterval = maximum, jr_MaximumAttempts = rp_MaximumAttempts (pol_Retry p),
            jr_NonRetryableErrorTypes = rp_NonRetryableErrorTypes (pol_Retry p)\<rparr>,
          jy_InvocationTimeout = invocation, jy_TotalTimeout = total\<rparr>))))"

definition runPolicyToPgjobdb :: "JobdbPolicy \<Rightarrow> RunPolicy rt" where
  "runPolicyToPgjobdb p =
     bind_res (durationToMillis (jr_InitialInterval (jy_Retry p))) (\<lambda>initial.
     bind_res (durationToMillis (jr_MaximumInterval (jy_Retry p))) (\<lambda>maximum.
     bind_res (optional_res durationToMillis (jy_InvocationTimeout p)) (\<lambda>invocation.
     bind_res (optional_res durationToMillis (jy_TotalTimeout p)) (\<lambda>total.
     Inr \<lparr>pol_Retry = \<lparr>rp_InitialIntervalMillis = initial,
            rp_BackoffCoefficient = jr_BackoffCoefficient (jy_Retry p),
            rp_MaximumIntervalMillis = maximum, rp_MaximumAttempts = jr_MaximumAttempts (jy_Retry p),
            rp_NonRetryableErrorTypes = jr_NonRetryableErrorTypes (jy_Retry p)\<rparr>,
          pol_InvocationTimeoutMillis = invocation, pol_TotalTimeoutMillis = total\<rparr>))))"

subsection \<open>Small conversions\<close>

definition identityToPgjobdb :: "RtIdentity \<Rightarrow> LeaseIdentity" where
  "identityToPgjobdb i = \<lparr>li_TenantID = ri_TenantId i, li_JobID = ri_JobId i, li_LeaseID = ri_LeaseID i,
     li_WorkerID = ri_WorkerID i\<rparr>"

definition taskToPgjobdb :: "RtTask \<Rightarrow> TaskWork" where
  "taskToPgjobdb t = \<lparr>tw_TaskType = rk_TaskType t, tw_ResumeJobType = rk_ResumeJobType t,
     tw_InputOrdinal = rk_InputOrdinal t, tw_OutputOrdinal = rk_OutputOrdinal t, tw_InputHash = rk_InputHash t\<rparr>"

definition workSelectorToPgjobdb :: "RtSelector \<Rightarrow> WorkSelector" where
  "workSelectorToPgjobdb s = \<lparr>ws_JobTypes = rs_JobTypes s,
     ws_Tasks = map (\<lambda>(j, t). \<lparr>ts_JobType = j, ts_TaskType = t\<rparr>) (rs_Tasks s)\<rparr>"

fun metadataPredicatesToPgjobdb :: "jobdb_predicate list \<Rightarrow> MetadataPredicate list rt" where
  "metadataPredicatesToPgjobdb [] = Inr []"
| "metadataPredicatesToPgjobdb (p # ps) =
     (if None \<in> set (jm_Values p) then Inl (RtErr ''encode metadata predicate: '')
      else bind_res (metadataPredicatesToPgjobdb ps) (\<lambda>qs.
        Inr (\<lparr>mp_Path = jm_Path p, mp_Values = map (\<lambda>v. RawJson (the v)) (jm_Values p)\<rparr> # qs)))"

definition str_contains :: "string \<Rightarrow> string \<Rightarrow> bool" where
  "str_contains s sub \<longleftrightarrow> (\<exists>i \<in> set [0..<Suc (length s)]. take (length sub) (drop i s) = sub)"

text \<open>The errors that mean that the caller no longer holds the lease are told apart by their text.\<close>

fun translateLeaseError :: "go_error \<Rightarrow> rt_error" where
  "translateLeaseError ErrLeaseLost = RtLeaseLost ''''"
| "translateLeaseError (PgErr (PgError code msg)) =
     (if code = ''P0001'' \<and> (str_contains msg ''lease not found'' \<or> str_contains msg ''lease not active'' \<or>
          str_contains msg ''lease owner mismatch'' \<or> str_contains msg ''cannot extend the lease'')
      then RtLeaseLost msg else Native (PgErr (PgError code msg)))"
| "translateLeaseError e = Native e"

fun translateScheduleMutationError :: "go_error \<Rightarrow> rt_error" where
  "translateScheduleMutationError (PgErr (PgError code msg)) =
     (if code = ''P0001'' \<and> (str_contains msg ''generation mismatch'' \<or> str_contains msg ''archived schedule'')
      then RtConflict msg else Native (PgErr (PgError code msg)))"
| "translateScheduleMutationError e = Native e"

subsection \<open>Leases\<close>

definition leaseFromPgjobdb :: "JobLease \<Rightarrow> int \<Rightarrow> LeaseSnapshot rt" where
  "leaseFromPgjobdb lease requested =
     bind_res (runPolicyFromPgjobdb (jl_RunPolicy lease)) (\<lambda>policy.
     Inr \<lparr>lp_GoalID = jl_GoalID lease,
       lp_Identity = \<lparr>ri_TenantId = jl_TenantID lease, ri_JobId = jl_JobID lease, ri_LeaseID = jl_LeaseID lease,
         ri_WorkerID = jl_WorkerID lease, ri_ExpiresAt = jl_ExpiresAt lease\<rparr>,
       lp_JobType = jl_JobType lease, lp_RouteJobType = jl_RouteJobType lease, lp_WorkKind = jl_WorkKind lease,
       lp_RunPolicy = policy, lp_ClientPayload = jl_ClientPayload lease,
       lp_ClientPayloadRevision = jl_ClientPayloadRevision lease, lp_SchemaHash = jl_SchemaHash lease,
       lp_Duration = (if requested = 0 then 60000000000 else requested),
       lp_TaskWork = (if jl_WorkKind lease = WorkKindTask
         then map_option (\<lambda>t. \<lparr>rk_TaskType = tw_TaskType t, rk_ResumeJobType = tw_ResumeJobType t,
           rk_InputOrdinal = tw_InputOrdinal t, rk_OutputOrdinal = tw_OutputOrdinal t,
           rk_InputHash = tw_InputHash t\<rparr>) (jl_Task lease) else None)\<rparr>)"

text \<open>
  The loop of \<^verbatim>\<open>AcquireWork\<close>: \<open>es n\<close> is the environment of its \<open>n\<close>th call. An error of a later round
  discards the leases of the earlier ones.
\<close>

fun acquire_rounds :: "lib \<Rightarrow> handle \<Rightarrow> (nat \<Rightarrow> env) \<Rightarrow> WorkRequest \<Rightarrow> GetWorkOptions \<Rightarrow> nat \<Rightarrow> nat \<Rightarrow> db \<Rightarrow>
   LeaseSnapshot list rt \<times> db" where
  "acquire_rounds l h es req opts n 0 d = (Inr [], d)"
| "acquire_rounds l h es req opts n (Suc k) d =
     (case GetWork l h (es n) (wr_WorkerID req) (workSelectorToPgjobdb (wr_Selector req)) opts d of
        (Inl x, d1) \<Rightarrow> (Inl (Native x), d1)
      | (Inr None, d1) \<Rightarrow> (Inr [], d1)
      | (Inr (Some lease), d1) \<Rightarrow>
          (case leaseFromPgjobdb lease (wr_LeaseDuration req) of
             Inl x \<Rightarrow> (Inl x, d1)
           | Inr snapshot \<Rightarrow> (case acquire_rounds l h es req opts (Suc n) k d1 of
                 (Inl x, d2) \<Rightarrow> (Inl x, d2)
               | (Inr rest, d2) \<Rightarrow> (Inr (snapshot # rest), d2))))"

definition acquire_limit :: "WorkRequest \<Rightarrow> nat" where
  "acquire_limit req = (if wr_Limit req \<le> 0 then 1 else nat (wr_Limit req))"

definition AcquireWork :: "lib \<Rightarrow> handle \<Rightarrow> (nat \<Rightarrow> env) \<Rightarrow> WorkRequest \<Rightarrow> db \<Rightarrow> LeaseSnapshot list rt \<times> db" where
  "AcquireWork l h es req d =
     (case metadataPredicatesToPgjobdb (wr_MetadataEquals req) of
        Inl x \<Rightarrow> (Inl x, d)
      | Inr ps \<Rightarrow> acquire_rounds l h es req \<lparr>wo_TenantIDs = [wr_TenantId req], wo_AppMetadataContains = RawEmpty,
          wo_MetadataPredicates = ps, wo_LeaseDuration = wr_LeaseDuration req\<rparr> 0 (acquire_limit req) d)"

definition AcquireJobLease :: "lib \<Rightarrow> handle \<Rightarrow> env \<Rightarrow> JobLeaseRequest \<Rightarrow> db \<Rightarrow> LeaseSnapshot option rt \<times> db" where
  "AcquireJobLease l h e req d =
     (case GetJobLease l h e (jq_TenantId req) (jq_JobId req) (jq_WorkerID req)
             (workSelectorToPgjobdb (jq_Selector req)) \<lparr>jo_AppMetadataContains = RawEmpty,
               jo_MetadataPredicates = [], jo_LeaseDuration = jq_LeaseDuration req\<rparr> d of
        (Inl x, d1) \<Rightarrow> (Inl (Native x), d1)
      | (Inr None, d1) \<Rightarrow> (Inr None, d1)
      | (Inr (Some lease), d1) \<Rightarrow>
          (bind_res (leaseFromPgjobdb lease (jq_LeaseDuration req)) (\<lambda>s. Inr (Some s)), d1))"

definition Scheduler_ValidateLease :: "handle \<Rightarrow> env \<Rightarrow> RtIdentity \<Rightarrow> db \<Rightarrow> LeaseSnapshot rt \<times> db" where
  "Scheduler_ValidateLease h e i d = (case ValidateLease h e (identityToPgjobdb i) d of (r, d1) \<Rightarrow>
     (bind_res (translated translateLeaseError r) (\<lambda>lease. leaseFromPgjobdb lease 0), d1))"

definition Scheduler_KeepAliveLease :: "handle \<Rightarrow> env \<Rightarrow> env \<Rightarrow> RtIdentity \<Rightarrow> int \<Rightarrow> db \<Rightarrow> LeaseSnapshot rt \<times> db" where
  "Scheduler_KeepAliveLease h e e' i duration d = (case KeepAliveLease h e e' (identityToPgjobdb i) duration d of
     (r, d1) \<Rightarrow> (bind_res (translated translateLeaseError r) (\<lambda>lease. leaseFromPgjobdb lease duration), d1))"

end
