(* ===== verification/Runtime_Jobs.thy ===== *)
theory Runtime_Jobs
  imports Runtime_Adapter
begin

section \<open>Jobs, schedules and deletion through the adapter\<close>

text \<open>
  The conversions of job rows and the methods that write and read them back. A stored row that the
  adapter cannot represent (a task route without coordinates, a policy out of range) is an error.
\<close>

subsection \<open>Job rows\<close>

definition coordinates_missing :: "string \<Rightarrow> string \<Rightarrow> int option \<Rightarrow> int option \<Rightarrow> string \<Rightarrow> bool" where
  "coordinates_missing task resume input output hash \<longleftrightarrow>
     task = '''' \<or> resume = '''' \<or> input = None \<or> output = None \<or> hash = ''''"

definition task_of_row :: "string \<Rightarrow> string \<Rightarrow> string \<Rightarrow> int option \<Rightarrow> int option \<Rightarrow> string \<Rightarrow> RtTask option rt" where
  "task_of_row kind task resume input output hash =
     (if kind \<noteq> WorkKindTask then Inr None
      else if coordinates_missing task resume input output hash then Inl (RtErr ''task route for '')
      else Inr (Some \<lparr>rk_TaskType = task, rk_ResumeJobType = resume, rk_InputOrdinal = the input,
        rk_OutputOrdinal = the output, rk_InputHash = hash\<rparr>))"

definition alternate_of_detail :: "JobDetail \<Rightarrow> AlternateRoute option rt" where
  "alternate_of_detail j =
     (if jd_AlternateJobType j = '''' then Inr None
      else case jd_AlternateAfterSeconds j of
        None \<Rightarrow> Inl (RtErr ''alternate route for '')
      | Some ns \<Rightarrow> Inr (Some \<lparr>ar_JobType = jd_AlternateJobType j, ar_TaskType = jd_AlternateTaskType j,
          ar_After = alternate_duration ns\<rparr>))"

definition occurrence_of_detail :: "'h history \<Rightarrow> JobDetail \<Rightarrow> 'h OccurrenceMetadata option rt" where
  "occurrence_of_detail y j =
     (if jd_ScheduleID j = '''' then Inr None
      else case (jd_ScheduleGeneration j, jd_ScheduledAt j) of
        (Some generation, Some at_ns) \<Rightarrow>
          bind_res (case jd_ScheduleFailureHistory j of
              None \<Rightarrow> Inr (y_none y)
            | Some v \<Rightarrow> (case y_unmarshal y v of None \<Rightarrow> Inl (RtErr ''decode schedule failure history: '')
                | Some x \<Rightarrow> Inr x)) (\<lambda>fh.
          Inr (Some \<lparr>om_ScheduleId = jd_ScheduleID j, om_Kind = y_kind y, om_Generation = generation,
            om_SpecHash = jd_ScheduleSpecHash j, om_ScheduledAt = at_ns, om_RunId = jd_ScheduleRunID j,
            om_Manual = jd_ScheduleManual j, om_BackfillId = jd_ScheduleBackfillID j,
            om_PreviousJobId = jd_SchedulePreviousJobID j, om_FailureHistory = fh\<rparr>))
      | _ \<Rightarrow> Inl (RtErr ''schedule occurrence for ''))"

definition completion_of_detail :: "JobDetail \<Rightarrow> CompletionSnapshot option" where
  "completion_of_detail j = map_option (\<lambda>s. \<lparr>cs_Status = s, cs_Detail = text_or_empty (jd_CompletionDetail j),
     cs_ErrorKind = text_or_empty (jd_CompletionErrorKind j), cs_Retryable = jd_CompletionRetryable j\<rparr>)
     (jd_CompletionStatus j)"

definition storedJobFromDetail :: "'h history \<Rightarrow> JobDetail \<Rightarrow> 'h StoredJob rt" where
  "storedJobFromDetail y j =
     bind_res (runPolicyFromPgjobdb (jd_RunPolicy j)) (\<lambda>policy.
     bind_res (task_of_row (jd_WorkKind j) (jd_TaskType j) (jd_ResumeJobType j) (jd_TaskInputOrdinal j)
       (jd_TaskOutputOrdinal j) (jd_TaskInputHash j)) (\<lambda>task.
     bind_res (alternate_of_detail j) (\<lambda>alternate.
     bind_res (occurrence_of_detail y j) (\<lambda>occ.
     Inr \<lparr>sto_GoalID = jd_GoalID j, sto_OtherGoalIDs = jd_OtherGoalIDs j, sto_TenantId = jd_TenantID j,
       sto_JobId = jd_JobID j, sto_Store = jd_Store j, sto_Status = jd_Status j, sto_JobType = jd_JobType j,
       sto_RouteJobType = jd_RouteJobType j, sto_WorkKind = jd_WorkKind j,
       sto_ClientPayload = jd_ClientPayload j, sto_ClientPayloadRevision = jd_ClientPayloadRevision j,
       sto_InitialPayloadDigest = jd_InitialPayloadDigest j, sto_AppMetadata = jd_AppMetadata j,
       sto_SchemaHash = jd_SchemaHash j, sto_ParentJobID = jd_ParentJobID j,
       sto_AvailableAt = jd_AvailableAt j, sto_ExpiresAt = jd_ExpiresAt j,
       sto_LeaseExpiresAt = jd_LeaseExpiresAt j, sto_LeaseWorkerID = jd_LeaseWorkerID j,
       sto_CreatedAt = jd_CreatedAt j, sto_ArchivedAt = jd_ArchivedAt j,
       sto_CancelRequested = jd_CancelRequested j, sto_WaitForJobIDs = jd_WaitFor j, sto_RunPolicy = policy,
       sto_TaskWork = task, sto_AlternateRoute = alternate, sto_Schedule = occ,
       sto_Completion = completion_of_detail j, sto_Lease = None, sto_BlockingWait = None,
       sto_BlockingWaitSummary = None\<rparr>))))"

text \<open>The row of a compact listing leaves the other fields at their zero values.\<close>

definition stored_of_summary :: "JobListSummary \<Rightarrow> 'h StoredJob rt" where
  "stored_of_summary j =
     bind_res (runPolicyFromPgjobdb (jm_RunPolicy j)) (\<lambda>policy.
     bind_res (task_of_row (jm_WorkKind j) (jm_TaskType j) (jm_ResumeJobType j) (jm_TaskInputOrdinal j)
       (jm_TaskOutputOrdinal j) (jm_TaskInputHash j)) (\<lambda>task.
     Inr \<lparr>sto_GoalID = jm_GoalID j, sto_OtherGoalIDs = [], sto_TenantId = jm_TenantID j,
       sto_JobId = jm_JobID j, sto_Store = jm_Store j, sto_Status = jm_Status j, sto_JobType = jm_JobType j,
       sto_RouteJobType = jm_RouteJobType j, sto_WorkKind = jm_WorkKind j,
       sto_ClientPayload = jm_ClientPayload j, sto_ClientPayloadRevision = jm_ClientPayloadRevision j,
       sto_InitialPayloadDigest = '''', sto_AppMetadata = jm_AppMetadata j,
       sto_SchemaHash = jm_SchemaHash j, sto_ParentJobID = jm_ParentJobID j,
       sto_AvailableAt = jm_AvailableAt j, sto_ExpiresAt = jm_ExpiresAt j,
       sto_LeaseExpiresAt = jm_LeaseExpiresAt j, sto_LeaseWorkerID = '''',
       sto_CreatedAt = jm_CreatedAt j, sto_ArchivedAt = jm_ArchivedAt j,
       sto_CancelRequested = jm_CancelRequested j, sto_WaitForJobIDs = jm_WaitFor j, sto_RunPolicy = policy,
       sto_TaskWork = task, sto_AlternateRoute = None, sto_Schedule = None,
       sto_Completion = map_option (\<lambda>s. \<lparr>cs_Status = s, cs_Detail = text_or_empty (jm_CompletionDetail j),
         cs_ErrorKind = '''', cs_Retryable = None\<rparr>) (jm_CompletionStatus j),
       sto_Lease = None, sto_BlockingWait = None, sto_BlockingWaitSummary = jm_BlockingWaitSummary j\<rparr>))"

fun convert_rows :: "('a \<Rightarrow> 'b rt) \<Rightarrow> 'a list \<Rightarrow> 'b list rt" where
  "convert_rows f [] = Inr []"
| "convert_rows f (x # xs) = bind_res (f x) (\<lambda>y. bind_res (convert_rows f xs) (\<lambda>ys. Inr (y # ys)))"

subsection \<open>Reading a job\<close>

text \<open>\<^verbatim>\<open>Scan\<close> refuses an expiry that is infinite.\<close>

definition lease_identity_row :: "string \<Rightarrow> string \<Rightarrow> db \<Rightarrow> (string \<times> string \<times> tstz) option" where
  "lease_identity_row t j d = (case find_job d t j of None \<Rightarrow> None
     | Some r \<Rightarrow> (case (j_lease_id r, j_lease_worker_id r) of
         (Some lease, Some worker) \<Rightarrow> Some (lease, worker, j_lease_expires_at r) | _ \<Rightarrow> None))"

definition read_lease :: "env \<Rightarrow> string \<Rightarrow> string \<Rightarrow> db \<Rightarrow> RtIdentity option rt" where
  "read_lease e t j d = passed (fst (and_then (call_sql e (reading (\<lambda>d. Inr (lease_identity_row t j d))) d)
     (\<lambda>row. case row of None \<Rightarrow> Inr None
        | Some (lease, worker, expires) \<Rightarrow> (case go_tstz expires of
            None \<Rightarrow> Inl (Err ''sql: Scan error'')
          | Some at_ns \<Rightarrow> Inr (Some \<lparr>ri_TenantId = t, ri_JobId = j, ri_LeaseID = lease, ri_WorkerID = worker,
              ri_ExpiresAt = at_ns\<rparr>)))))"

type_synonym view = "env \<times> db"

definition Scheduler_GetJob :: "'h history \<Rightarrow> handle \<Rightarrow> view \<times> view \<times> view \<Rightarrow> string \<Rightarrow> string \<Rightarrow> 'h StoredJob rt" where
  "Scheduler_GetJob y h views t j = (case views of ((e1, d1), (e2, d2), (e3, d3)) \<Rightarrow>
     bind_res (translated (\<lambda>x. if x = ErrJobNotFound then RtJobNotFound else Native x) (fst (GetJob h e1 t j d1)))
       (\<lambda>detail.
     bind_res (storedJobFromDetail y detail) (\<lambda>row.
     bind_res (if sto_Store row = StoreActive \<and> sto_LeaseWorkerID row \<noteq> '''' then read_lease e2 t j d2 else Inr None)
       (\<lambda>lease.
     bind_res (passed (fst (BlockingDependencyWait e3 t j d3))) (\<lambda>wait.
     Inr (row\<lparr>sto_Lease := lease, sto_BlockingWait := wait\<rparr>))))))"

definition Scheduler_GetWaitingTask :: "'h history \<Rightarrow> handle \<Rightarrow> view \<times> view \<times> view \<Rightarrow> string \<Rightarrow> string \<Rightarrow>
   (string \<times> RtTask) rt" where
  "Scheduler_GetWaitingTask y h views t j =
     bind_res (Scheduler_GetJob y h views t j) (\<lambda>row.
     case sto_TaskWork row of
       None \<Rightarrow> Inl (RtConflict '''')
     | Some task \<Rightarrow> if sto_WorkKind row \<noteq> WorkKindTask \<or> sto_Store row \<noteq> StoreActive then Inl (RtConflict '''')
         else Inr (sto_RouteJobType row, task))"

subsection \<open>Listing\<close>

definition list_jobs_options :: "RtListJobsRequest \<Rightarrow> MetadataPredicate list \<Rightarrow> ListJobsOptions" where
  "list_jobs_options r ps = \<lparr>lo_GoalIDs = lj_GoalIDs r, lo_IncludeHidden = lj_IncludeHidden r,
     lo_AvailableRoutes = map (\<lambda>(j, t). \<lparr>rt_JobType = j, rt_TaskType = t\<rparr>) (lj_AvailableRoutes r),
     lo_Now = lj_Now r, lo_TenantIDs = lj_TenantIds r, lo_Statuses = lj_Statuses r, lo_Stores = lj_Stores r,
     lo_JobTypes = lj_JobTypes r,
     lo_TaskSelectors = map (\<lambda>(j, t). \<lparr>ts_JobType = j, ts_TaskType = t\<rparr>) (lj_JobTasks r),
     lo_JobKeys = map (\<lambda>(t, j). \<lparr>jk_TenantID = t, jk_JobID = j\<rparr>) (lj_JobKeys r),
     lo_ParentJobIDs = lj_ParentJobIDs r, lo_RootOnly = lj_RootOnly r, lo_MetadataPredicates = ps,
     lo_CreatedAfter = lj_CreatedAfter r, lo_CreatedBefore = lj_CreatedBefore r,
     lo_PageSize = lj_PageSize r, lo_PageToken = lj_PageToken r\<rparr>"

definition Scheduler_ListJobs :: "lib \<Rightarrow> handle \<Rightarrow> env \<Rightarrow> RtListJobsRequest \<Rightarrow> db \<Rightarrow> ('h StoredJob list \<times> string) rt" where
  "Scheduler_ListJobs l h e r d =
     bind_res (metadataPredicatesToPgjobdb (lj_MetadataEquals r)) (\<lambda>ps.
     bind_res (passed (fst (ListJobSummaries l h e (list_jobs_options r ps) d))) (\<lambda>listed.
     bind_res (convert_rows stored_of_summary (lm_Jobs listed)) (\<lambda>rows.
     Inr (rows, lm_NextPageToken listed))))"

subsection \<open>Changing jobs\<close>

text \<open>
  A mutation that succeeds reads the job back; the answer of the whole method is that reading, so a
  change that was made can still be reported as an error.
\<close>

definition occurrence_to_pgjobdb :: "'h history \<Rightarrow> 'h OccurrenceMetadata \<Rightarrow> ScheduleOccurrence rt" where
  "occurrence_to_pgjobdb y o_md = (case y_marshal y (om_FailureHistory o_md) of
     None \<Rightarrow> Inl (RtErr ''encode schedule failure history: '')
   | Some v \<Rightarrow> Inr \<lparr>so_ScheduleID = om_ScheduleId o_md, so_Generation = om_Generation o_md,
       so_SpecHash = om_SpecHash o_md, so_ScheduledAt = om_ScheduledAt o_md, so_RunID = om_RunId o_md,
       so_Reason = (if om_Manual o_md then ''manual'' else ''automatic''), so_Manual = om_Manual o_md,
       so_BackfillID = om_BackfillId o_md, so_PreviousJobID = om_PreviousJobId o_md,
       so_FailureHistory = RawJson v\<rparr>)"

definition create_input :: "'h history \<Rightarrow> 'h CreateJobRequest \<Rightarrow> SubmitJobRequest rt" where
  "create_input y r =
     bind_res (runPolicyToPgjobdb (cj_RunPolicy r)) (\<lambda>policy.
     bind_res (optional_res (occurrence_to_pgjobdb y) (cj_Schedule r)) (\<lambda>occ.
     Inr \<lparr>sr_GoalID = cj_GoalID r, sr_ShareGoal = cj_ShareGoal r, sr_Dependencies = cj_Dependencies r,
       sr_TenantID = cj_TenantId r, sr_JobID = cj_JobId r, sr_WorkerID = cj_WorkerID r, sr_JobType = cj_JobType r,
       sr_RunPolicy = policy, sr_AppMetadata = cj_AppMetadata r,
       sr_Runtime = \<lparr>rm_SchemaHash = cj_SchemaHash r, rm_ParentJobID = cj_ParentJobID r, rm_Schedule = occ\<rparr>,
       sr_WaitFor = cj_WaitForJobIDs r,
       sr_ClientPayloadUpdate = map_option (\<lambda>v. \<lparr>cu_Mode = ''reset'', cu_Value = Some v,
         cu_ExpectedRevision = None\<rparr>) (cj_ClientPayload r),
       sr_AvailableAt = cj_AvailableAt r, sr_ExpiresAt = cj_ExpiresAt r\<rparr>))"

definition create_error :: "go_error \<Rightarrow> rt_error" where
  "create_error x = (if x = ErrJobDeleted then RtLeaseLost '''' else Native x)"

definition Scheduler_CreateJob :: "'h history \<Rightarrow> lib \<Rightarrow> handle \<Rightarrow> env \<Rightarrow> view \<times> view \<times> view \<Rightarrow>
   'h CreateJobRequest \<Rightarrow> db \<Rightarrow> 'h StoredJob rt \<times> db" where
  "Scheduler_CreateJob y l h e views r d = (case create_input y r of
     Inl x \<Rightarrow> (Inl x, d)
   | Inr input \<Rightarrow> (case SubmitJob l h e input d of (res, d1) \<Rightarrow>
       (bind_res (translated create_error res) (\<lambda>_. Scheduler_GetJob y h views (cj_TenantId r) (cj_JobId r)), d1)))"

definition Scheduler_CancelJob :: "'h history \<Rightarrow> handle \<Rightarrow> env \<Rightarrow> view \<times> view \<times> view \<Rightarrow> CancelJobRequest \<Rightarrow> db \<Rightarrow>
   'h StoredJob rt \<times> db" where
  "Scheduler_CancelJob y h e views r d = (case CancelJob h e r d of (res, d1) \<Rightarrow>
     (bind_res (passed res) (\<lambda>_. Scheduler_GetJob y h views (ca_TenantID r) (ca_JobID r)), d1))"

definition CompleteLease :: "'h history \<Rightarrow> lib \<Rightarrow> handle \<Rightarrow> env \<Rightarrow> view \<times> view \<times> view \<Rightarrow> CompletionMutation \<Rightarrow>
   db \<Rightarrow> 'h StoredJob rt \<times> db" where
  "CompleteLease y l h e views m d =
     (case CompleteJob l h e (identityToPgjobdb (cm_Identity m)) \<lparr>cp_ClientPayloadUpdate = cm_ClientPayloadUpdate m,
         cp_Status = cm_Status m, cp_Detail = cm_Detail m, cp_ErrorKind = cm_ErrorKind m,
         cp_Retryable = cm_Retryable m\<rparr> d of (res, d1) \<Rightarrow>
       (bind_res (translated translateLeaseError res) (\<lambda>_.
          Scheduler_GetJob y h views (ri_TenantId (cm_Identity m)) (ri_JobId (cm_Identity m))), d1))"

definition reschedule_input :: "RescheduleMutation \<Rightarrow> RescheduleRequest" where
  "reschedule_input m = \<lparr>rr_DependencyWait = rm_DependencyWait m,
     rr_WaitUntilIsDeadline = (rm_WaitForJobIDs m \<noteq> [] \<and> rm_WaitUntil m \<noteq> None),
     rr_RouteJobType = rm_RouteJobType m, rr_WorkKind = rm_WorkKind m,
     rr_Task = map_option taskToPgjobdb (rm_TaskWork m), rr_WaitFor = rm_WaitForJobIDs m,
     rr_AvailableAt = rm_WaitUntil m, rr_ClientPayloadUpdate = rm_ClientPayloadUpdate m,
     rr_Alternate = Some (case rm_AlternateRoute m of Some a \<Rightarrow> a
       | None \<Rightarrow> \<lparr>ar_JobType = '''', ar_TaskType = '''', ar_After = 0\<rparr>)\<rparr>"

definition RescheduleLease :: "'h history \<Rightarrow> lib \<Rightarrow> handle \<Rightarrow> env \<Rightarrow> view \<times> view \<times> view \<Rightarrow> RescheduleMutation \<Rightarrow>
   db \<Rightarrow> 'h StoredJob rt \<times> db" where
  "RescheduleLease y l h e views m d =
     (case RescheduleJob l h e (identityToPgjobdb (rm_Identity m)) (reschedule_input m) d of (res, d1) \<Rightarrow>
       (bind_res (translated translateLeaseError res) (\<lambda>_.
          Scheduler_GetJob y h views (ri_TenantId (rm_Identity m)) (ri_JobId (rm_Identity m))), d1))"

definition claim_error :: "go_error \<Rightarrow> rt_error" where
  "claim_error x = (case x of ErrTaskConflict m \<Rightarrow> RtConflict m | _ \<Rightarrow> Native x)"

definition Scheduler_ClaimTask :: "lib \<Rightarrow> handle \<Rightarrow> env \<Rightarrow> RtClaimRequest \<Rightarrow> db \<Rightarrow> RtIdentity rt \<times> db" where
  "Scheduler_ClaimTask l h e r d =
     (case ClaimTask l h e \<lparr>cr_TenantID = cq_TenantId r, cr_JobID = cq_JobId r, cr_WorkerID = cq_WorkerID r,
         cr_JobType = cq_JobType r, cr_Task = taskToPgjobdb (cq_Task r), cr_LeaseDuration = cq_LeaseDuration r\<rparr> d of
       (res, d1) \<Rightarrow> (bind_res (translated claim_error res) (\<lambda>claim.
          Inr \<lparr>ri_TenantId = cq_TenantId r, ri_JobId = cq_JobId r, ri_LeaseID = li_LeaseID (tc_Identity claim),
            ri_WorkerID = li_WorkerID (tc_Identity claim), ri_ExpiresAt = tc_ExpiresAt claim\<rparr>), d1))"

subsection \<open>Schedules\<close>

definition nextJobID :: "string \<Rightarrow> (string \<times> string) option \<Rightarrow> string option rt" where
  "nextJobID tenant key = (case key of None \<Rightarrow> Inr None
     | Some (t, j) \<Rightarrow> if t \<noteq> tenant \<or> j = ''''
         then Inl (RtErr ''schedule next job must belong to the schedule tenant'') else Inr (Some j))"

definition scheduleFromPgjobdb :: "Schedule \<Rightarrow> StoredSchedule" where
  "scheduleFromPgjobdb s = \<lparr>ss_TenantId = sc_TenantID s, ss_ScheduleId = sc_ScheduleID s, ss_State = sc_State s,
     ss_Generation = sc_Generation s, ss_SpecHash = sc_SpecHash s, ss_TriggerSnapshot = sc_Trigger s,
     ss_TargetJobType = sc_TargetJobType s, ss_TargetSnapshot = sc_TargetSnapshot s,
     ss_OverlapPolicy = sc_OverlapPolicy s, ss_FailurePolicySnapshot = sc_FailurePolicy s,
     ss_NextFireAt = sc_NextFireAt s, ss_CreatedAt = sc_CreatedAt s, ss_UpdatedAt = sc_UpdatedAt s,
     ss_NextJobKey = map_option (\<lambda>j. (sc_TenantID s, j)) (sc_NextJobID s)\<rparr>"

definition stored_schedule :: "Schedule go \<times> db \<Rightarrow> StoredSchedule rt \<times> db" where
  "stored_schedule r = (bind_res (translated translateScheduleMutationError (fst r))
     (\<lambda>s. Inr (scheduleFromPgjobdb s)), snd r)"

definition Scheduler_UpsertSchedule :: "lib \<Rightarrow> handle \<Rightarrow> env \<Rightarrow> StoredScheduleMutation \<Rightarrow> db \<Rightarrow>
   StoredSchedule rt \<times> db" where
  "Scheduler_UpsertSchedule l h e r d = (case nextJobID (um_TenantId r) (um_NextJobKey r) of
     Inl x \<Rightarrow> (Inl x, d)
   | Inr next_job \<Rightarrow> stored_schedule (UpsertSchedule l h e \<lparr>us_TenantID = um_TenantId r,
       us_ScheduleID = um_ScheduleId r, us_State = um_State r, us_SpecHash = um_SpecHash r,
       us_Trigger = um_TriggerSnapshot r, us_TargetJobType = um_TargetJobType r,
       us_TargetSnapshot = um_TargetSnapshot r, us_OverlapPolicy = um_OverlapPolicy r,
       us_FailurePolicy = um_FailurePolicySnapshot r, us_NextFireAt = um_NextFireAt r, us_NextJobID = next_job,
       us_ExpectedGeneration = um_ExpectedGeneration r\<rparr> d))"

definition Scheduler_GetSchedule :: "handle \<Rightarrow> env \<Rightarrow> string \<Rightarrow> string \<Rightarrow> db \<Rightarrow> StoredSchedule rt" where
  "Scheduler_GetSchedule h e t i d =
     bind_res (translated (\<lambda>x. if x = ErrScheduleNotFound then RtJobNotFound else Native x) (fst (GetSchedule h e t i d)))
       (\<lambda>s. Inr (scheduleFromPgjobdb s))"

definition Scheduler_ListSchedules :: "lib \<Rightarrow> handle \<Rightarrow> env \<Rightarrow> RtListSchedulesRequest \<Rightarrow> db \<Rightarrow>
   (StoredSchedule list \<times> string) rt" where
  "Scheduler_ListSchedules l h e r d =
     bind_res (passed (fst (ListSchedules l h e \<lparr>ls_TenantID = sl_TenantId r, ls_ScheduleIDs = sl_ScheduleIDs r,
        ls_States = sl_States r, ls_TargetJobTypes = sl_TargetJobTypes r, ls_PageSize = sl_PageSize r,
        ls_PageToken = sl_PageToken r\<rparr> d)))
       (\<lambda>listed. Inr (map scheduleFromPgjobdb (lsr_Schedules listed), lsr_NextPageToken listed))"

definition MutateSchedule :: "lib \<Rightarrow> handle \<Rightarrow> env \<Rightarrow> ScheduleStateMutation \<Rightarrow> db \<Rightarrow> StoredSchedule rt \<times> db" where
  "MutateSchedule l h e r d = (case nextJobID (tm_TenantId r) (tm_NextJobKey r) of
     Inl x \<Rightarrow> (Inl x, d)
   | Inr next_job \<Rightarrow>
       let m = \<lparr>sm_TenantID = tm_TenantId r, sm_ScheduleID = tm_ScheduleId r, sm_NextFireAt = tm_NextFireAt r,
             sm_NextJobID = next_job, sm_ExpectedGeneration = tm_ExpectedGeneration r\<rparr> in
       (case state_of_text (tm_State r) of
          Some ScheduleActive \<Rightarrow> stored_schedule (ResumeSchedule l h e m d)
        | Some SchedulePaused \<Rightarrow> stored_schedule (PauseSchedule l h e m d)
        | Some ScheduleArchived \<Rightarrow> stored_schedule (ArchiveSchedule l h e m d)
        | None \<Rightarrow> (Inl (RtErr ''unsupported schedule control state ''), d)))"

definition Scheduler_ListScheduleRuns :: "'h history \<Rightarrow> lib \<Rightarrow> handle \<Rightarrow> env \<Rightarrow> RtListRunsRequest \<Rightarrow> db \<Rightarrow>
   ('h StoredJob list \<times> string) rt" where
  "Scheduler_ListScheduleRuns y l h e r d =
     bind_res (passed (fst (ListScheduleRuns l h e \<lparr>ro_TenantID = sn_TenantId r, ro_ScheduleID = sn_ScheduleId r,
        ro_ScheduledAfter = sn_ScheduledAfter r, ro_ScheduledBefore = sn_ScheduledBefore r,
        ro_Statuses = sn_Statuses r, ro_PageSize = sn_PageSize r, ro_PageToken = sn_PageToken r\<rparr> d))) (\<lambda>listed.
     bind_res (convert_rows (storedJobFromDetail y) (rl_Runs listed)) (\<lambda>rows.
     Inr (rows, rl_NextPageToken listed)))"

subsection \<open>Deletion\<close>

definition Scheduler_DeleteJobs :: "lib \<Rightarrow> handle \<Rightarrow> env \<Rightarrow> RtDeleteRequest \<Rightarrow> db \<Rightarrow> DeleteJobsResult rt \<times> db" where
  "Scheduler_DeleteJobs l h e r d = (case metadataPredicatesToPgjobdb (xd_MetadataEquals r) of
     Inl x \<Rightarrow> (Inl x, d)
   | Inr ps \<Rightarrow> (case DeleteJobs l h e \<lparr>dr_TenantID = xd_TenantID r, dr_JobIDs = xd_JobIDs r,
         dr_CreatedBefore = xd_CreatedBefore r, dr_MetadataPredicates = ps, dr_All = xd_All r,
         dr_DryRun = xd_DryRun r, dr_Now = xd_Now r\<rparr> d of (res, d1) \<Rightarrow> (passed res, d1)))"

subsection \<open>Goals\<close>

text \<open>
  These methods hand the request and the answer through; \<^verbatim>\<open>PrepareJob\<close> copies the fields of both.
\<close>

definition Scheduler_PrepareJob :: "lib \<Rightarrow> handle \<Rightarrow> env \<Rightarrow> JobPreparation \<Rightarrow> db \<Rightarrow> PreparedJob rt \<times> db" where
  "Scheduler_PrepareJob l h e r d = (case PrepareJob l h e \<lparr>jp_TenantId = jp_TenantId r, jp_JobId = jp_JobId r,
       jp_RequestID = jp_RequestID r, jp_PriorJobID = jp_PriorJobID r, jp_ShareGoal = jp_ShareGoal r,
       jp_Descriptor = jp_Descriptor r, jp_Dependencies = jp_Dependencies r\<rparr> d of (res, d1) \<Rightarrow>
     (bind_res (passed res) (\<lambda>p. Inr \<lparr>pj_TenantId = pj_TenantId p, pj_JobId = pj_JobId p,
        pj_GoalID = pj_GoalID p, pj_Published = pj_Published p\<rparr>), d1))"

definition Scheduler_GetGoal :: "lib \<Rightarrow> handle \<Rightarrow> env \<Rightarrow> string \<Rightarrow> string \<Rightarrow> db \<Rightarrow> goal_row rt" where
  "Scheduler_GetGoal l h e tenant goal d = passed (fst (GetGoal l h e tenant goal d))"

definition Scheduler_AddGoalCandidate :: "lib \<Rightarrow> handle \<Rightarrow> env \<Rightarrow> string \<Rightarrow> string \<Rightarrow> string \<Rightarrow> db \<Rightarrow>
   candidate_info rt \<times> db" where
  "Scheduler_AddGoalCandidate l h e tenant goal job d =
     (case AddGoalCandidate l h e tenant goal job d of (res, d1) \<Rightarrow> (passed res, d1))"

definition Scheduler_FailGoal :: "lib \<Rightarrow> handle \<Rightarrow> env \<Rightarrow> string \<Rightarrow> string \<Rightarrow> string \<Rightarrow> db \<Rightarrow> goal_row rt \<times> db" where
  "Scheduler_FailGoal l h e tenant goal message d =
     (case FailGoal l h e tenant goal message d of (res, d1) \<Rightarrow> (passed res, d1))"

definition Scheduler_GetDependencyWait :: "lib \<Rightarrow> handle \<Rightarrow> env \<Rightarrow> string \<Rightarrow> string \<Rightarrow> string \<Rightarrow> db \<Rightarrow>
   wait_outcome rt \<times> db" where
  "Scheduler_GetDependencyWait l h e tenant job wait d =
     (case GetDependencyWait l h e tenant job wait d of (res, d1) \<Rightarrow> (passed res, d1))"

definition Scheduler_ListGoals :: "discovery \<Rightarrow> lib \<Rightarrow> handle \<Rightarrow> env \<Rightarrow> ListGoalsRequest \<Rightarrow> db \<Rightarrow>
   (GoalSummary list \<times> string) rt" where
  "Scheduler_ListGoals y l h e r d = passed (fst (ListGoals y l h e r d))"

definition Scheduler_ListDependencyWaits :: "discovery \<Rightarrow> handle \<Rightarrow> env \<Rightarrow> ListDependencyWaitsRequest \<Rightarrow> db \<Rightarrow>
   (wait_outcome list \<times> string) rt" where
  "Scheduler_ListDependencyWaits y h e r d = passed (fst (ListDependencyWaits y h e r d))"

end
