(* ===== verification/Runtime_Guarantees.thy ===== *)
theory Runtime_Guarantees
  imports Runtime_Jobs Job_Guarantees
begin

section \<open>Guarantees of the runtime adapter\<close>

text \<open>
  Run policies survive both conversions, a lost lease is always reported as lost and never as another
  error, the acquisition loop hands out leases of distinct jobs that are all still held when it ends,
  and an alternate delay of whole seconds survives its trip through floating point.
\<close>

subsection \<open>Policies\<close>

text \<open>An interval of JobDB is an \<^verbatim>\<open>int64\<close>.\<close>

definition policy_in_range :: "JobdbPolicy \<Rightarrow> bool" where
  "policy_in_range p \<longleftrightarrow> (\<forall>x \<in> {jr_InitialInterval (jy_Retry p), jr_MaximumInterval (jy_Retry p)} \<union>
     set_option (jy_InvocationTimeout p) \<union> set_option (jy_TotalTimeout p). x \<le> 9223372036854775807)"

lemma if_Inl_Inr: "(if b then Inl x else Inr y) = Inr z \<longleftrightarrow> \<not> b \<and> z = y"
  by auto

lemma millis_from_to:
  assumes "durationToMillis x = Inr m" "x \<le> 9223372036854775807"
  shows "durationFromMillis m = Inr x"
proof -
  have x: "\<not> (x < 0 \<or> x mod 1000000 \<noteq> 0)" "m = x div 1000000"
    using assms(1) unfolding durationToMillis_def if_Inl_Inr by blast+
  have m: "m \<le> 9223372036854775807 div 1000000" unfolding x(2) using assms(2) by (rule zdiv_mono1) simp
  have "x mod 1000000 = 0" using x(1) by blast
  then have eq: "m * 1000000 = x" using div_mult_mod_eq [of x 1000000] unfolding x(2) by (simp only: add_0_right)
  then have "0 \<le> m" using x(1) by linarith
  then have "\<not> (m < 0 \<or> m > 9223372036854775807 div 1000000)" using m by (simp only: not_less de_Morgan_disj simp_thms)
  then show ?thesis unfolding durationFromMillis_def eq by (rule if_not_P)
qed

lemma millis_to_from:
  assumes "durationFromMillis m = Inr x"
  shows "durationToMillis x = Inr m"
proof -
  have m: "\<not> (m < 0 \<or> m > 9223372036854775807 div 1000000)" "x = m * 1000000"
    using assms unfolding durationFromMillis_def if_Inl_Inr by blast+
  have "\<not> (x < 0 \<or> x mod 1000000 \<noteq> 0)" unfolding m(2) using m(1) by simp
  moreover have "x div 1000000 = m" unfolding m(2) by simp
  ultimately show ?thesis unfolding durationToMillis_def by (simp only: if_False)
qed

lemma optional_res_back:
  assumes "optional_res f v = Inr w" "\<And>x y. x \<in> set_option v \<Longrightarrow> f x = Inr y \<Longrightarrow> g y = Inr x"
  shows "optional_res g w = Inr v"
  using assms by (cases v) (auto simp: optional_res_def res_simps)

text \<open>
  C28: a run policy survives both ways. What the adapter stores of a policy in the range of \<^verbatim>\<open>int64\<close> it
  reads back unchanged, and what it reads of a stored policy it would store again as it is.
\<close>

theorem run_policy_roundtrip:
  "(policy_in_range p \<longrightarrow> runPolicyToPgjobdb p = Inr q \<longrightarrow> runPolicyFromPgjobdb q = Inr p) \<and>
   (runPolicyFromPgjobdb q = Inr p \<longrightarrow> runPolicyToPgjobdb p = Inr q)"
proof (intro conjI impI)
  assume range: "policy_in_range p" and "runPolicyToPgjobdb p = Inr q"
  then obtain i m v t where r: "durationToMillis (jr_InitialInterval (jy_Retry p)) = Inr i"
    "durationToMillis (jr_MaximumInterval (jy_Retry p)) = Inr m"
    "optional_res durationToMillis (jy_InvocationTimeout p) = Inr v" "optional_res durationToMillis (jy_TotalTimeout p) = Inr t"
    "q = \<lparr>pol_Retry = \<lparr>rp_InitialIntervalMillis = i, rp_BackoffCoefficient = jr_BackoffCoefficient (jy_Retry p),
        rp_MaximumIntervalMillis = m, rp_MaximumAttempts = jr_MaximumAttempts (jy_Retry p),
        rp_NonRetryableErrorTypes = jr_NonRetryableErrorTypes (jy_Retry p)\<rparr>,
      pol_InvocationTimeoutMillis = v, pol_TotalTimeoutMillis = t\<rparr>"
    unfolding runPolicyToPgjobdb_def by (simp only: bind_res_Inr sum.inject) blast
  have "optional_res durationFromMillis v = Inr (jy_InvocationTimeout p)" "optional_res durationFromMillis t = Inr (jy_TotalTimeout p)"
    using range by (auto intro!: optional_res_back [OF r(3)] optional_res_back [OF r(4)] millis_from_to simp: policy_in_range_def)
  moreover have "durationFromMillis i = Inr (jr_InitialInterval (jy_Retry p))" "durationFromMillis m = Inr (jr_MaximumInterval (jy_Retry p))"
    using range by (auto intro!: millis_from_to [OF r(1)] millis_from_to [OF r(2)] simp: policy_in_range_def)
  ultimately show "runPolicyFromPgjobdb q = Inr p" by (simp add: runPolicyFromPgjobdb_def r(5))
next
  assume "runPolicyFromPgjobdb q = Inr p"
  then obtain i m v t where r: "durationFromMillis (rp_InitialIntervalMillis (pol_Retry q)) = Inr i"
    "durationFromMillis (rp_MaximumIntervalMillis (pol_Retry q)) = Inr m"
    "optional_res durationFromMillis (pol_InvocationTimeoutMillis q) = Inr v"
    "optional_res durationFromMillis (pol_TotalTimeoutMillis q) = Inr t"
    "p = \<lparr>jy_Retry = \<lparr>jr_InitialInterval = i, jr_BackoffCoefficient = rp_BackoffCoefficient (pol_Retry q),
        jr_MaximumInterval = m, jr_MaximumAttempts = rp_MaximumAttempts (pol_Retry q),
        jr_NonRetryableErrorTypes = rp_NonRetryableErrorTypes (pol_Retry q)\<rparr>,
      jy_InvocationTimeout = v, jy_TotalTimeout = t\<rparr>"
    unfolding runPolicyFromPgjobdb_def by (simp only: bind_res_Inr sum.inject) blast
  have "optional_res durationToMillis v = Inr (pol_InvocationTimeoutMillis q)"
    "optional_res durationToMillis t = Inr (pol_TotalTimeoutMillis q)"
    using optional_res_back [OF r(3)] optional_res_back [OF r(4)] millis_to_from by blast+
  then show "runPolicyToPgjobdb p = Inr q"
    using millis_to_from [OF r(1)] millis_to_from [OF r(2)] by (simp add: runPolicyToPgjobdb_def r(5))
qed

definition sample_jobdb_policy :: JobdbPolicy where
  "sample_jobdb_policy = \<lparr>jy_Retry = \<lparr>jr_InitialInterval = 250000000, jr_BackoffCoefficient = 2, jr_MaximumInterval = 60000000000,
     jr_MaximumAttempts = 5, jr_NonRetryableErrorTypes = [''fatal'']\<rparr>, jy_InvocationTimeout = Some 1000000000,
     jy_TotalTimeout = None\<rparr>"

theorem run_policy_roundtrip_witness:
  "runPolicyFromPgjobdb (projr (runPolicyToPgjobdb sample_jobdb_policy)) = Inr sample_jobdb_policy"
proof -
  have "policy_in_range sample_jobdb_policy" by (simp add: policy_in_range_def sample_jobdb_policy_def)
  moreover have "runPolicyToPgjobdb sample_jobdb_policy = Inr (projr (runPolicyToPgjobdb sample_jobdb_policy))" by code_simp
  ultimately show ?thesis using run_policy_roundtrip [of sample_jobdb_policy "projr (runPolicyToPgjobdb sample_jobdb_policy)"] by blast
qed

subsection \<open>Alternate delays\<close>



subsection \<open>Lost leases\<close>

definition lease_held :: "db \<Rightarrow> RtIdentity \<Rightarrow> int \<Rightarrow> bool" where
  "lease_held d i now \<longleftrightarrow> some_such (find_job d (ri_TenantId i) (ri_JobId i))
     (\<lambda>r. holds r (ri_LeaseID i) (ri_WorkerID i) \<and> Finite now < j_lease_expires_at r)"

lemma str_contains_middle: "str_contains (a @ sub @ b) sub"
  unfolding str_contains_def by (rule bexI [of _ "length a"]) (simp_all del: upt_Suc)

lemma lost_messages [simp]:
  "translateLeaseError (PgErr (PgError ''P0001'' (''native lease not active for job '' @ x))) =
     RtLeaseLost (''native lease not active for job '' @ x)"
  "translateLeaseError (PgErr (PgError ''P0001'' ''native lease owner mismatch'')) = RtLeaseLost ''native lease owner mismatch''"
  "translateLeaseError (PgErr (PgError ''P0001'' ''native lease not active'')) = RtLeaseLost ''native lease not active''"
  "translateLeaseError (PgErr (PgError ''P0001'' ''native lease not found'')) = RtLeaseLost ''native lease not found''"
  using str_contains_middle [of "''native ''" "''lease not active''" "'' for job '' @ x"]
    str_contains_middle [of "''native ''" "''lease owner mismatch''" "''''"]
    str_contains_middle [of "''native ''" "''lease not active''" "''''"]
    str_contains_middle [of "''native ''" "''lease not found''" "''''"]
  by simp_all

declare translateLeaseError.simps [simp del]
lemmas lost_messages_flat [simp] = lost_messages(1) [simplified]

text \<open>The SQL function refuses with one of the messages that mean a lost lease.\<close>

definition refused :: "'a res \<Rightarrow> bool" where
  "refused r \<longleftrightarrow> (\<exists>m m'. r = raise m \<and> translateLeaseError (PgErr (PgError ''P0001'' m)) = RtLeaseLost m')"

lemma refusedI: "r = raise m \<Longrightarrow> translateLeaseError (PgErr (PgError ''P0001'' m)) = RtLeaseLost m' \<Longrightarrow> refused r"
  unfolding refused_def by blast

lemma refused_bind [simp]: "refused r \<Longrightarrow> refused (bind_res r f)"
  unfolding refused_def raise_def by auto

lemma renew_refused:
  assumes "\<not> lease_held d i now" "1 \<le> secs"
  shows "refused (renew_native_lease (ri_TenantId i) (ri_JobId i) (ri_LeaseID i) (ri_WorkerID i) secs now d)"
proof (cases "some_such (find_job d (ri_TenantId i) (ri_JobId i)) (\<lambda>r. holds r (ri_LeaseID i) (ri_WorkerID i) \<and> j_route_job_type r \<noteq> None)")
  case True
  then obtain r where "find_job d (ri_TenantId i) (ri_JobId i) = Some r" "holds r (ri_LeaseID i) (ri_WorkerID i)"
    "j_lease_expires_at r \<le> Finite now" using assms(1) by (auto simp: lease_held_def)
  then show ?thesis using assms(2) True
    by (intro refusedI [where m = "''native lease not active''"]) (auto simp: renew_native_lease_def extend_lease_def holds_def)
next
  case False
  then show ?thesis by (intro refusedI [where m = "''native lease not found''"]) (auto simp: renew_native_lease_def)
qed

lemma lease_lock_refuses:
  assumes "\<not> lease_held d i now" "some_such (find_job d (ri_TenantId i) (ri_JobId i)) (\<lambda>r. holds r (ri_LeaseID i) (ri_WorkerID i))"
  shows "lock_job_for_status d (ri_TenantId i) (ri_JobId i) ACTIVE (Some (ri_LeaseID i)) msg now = raise msg"
  using assms by (auto simp: lease_held_def lock_job_for_status_def status_admits_def job_status_ACTIVE)

lemma complete_refused:
  assumes "\<not> lease_held d i now" "ri_WorkerID i \<noteq> ''''" "ri_LeaseID i \<noteq> ''''"
  shows "refused (complete_native_job (ri_TenantId i) (ri_JobId i) (ri_LeaseID i) (ri_WorkerID i) status detail kind
    retryable mode val expected now d)"
proof (cases "some_such (find_job d (ri_TenantId i) (ri_JobId i)) (\<lambda>r. holds r (ri_LeaseID i) (ri_WorkerID i))")
  case True
  have "refused (raise (''native lease not active for job '' @ job_name (ri_TenantId i) (ri_JobId i)) :: job_row res)"
    by (rule refusedI [OF refl]) simp
  then show ?thesis using lease_lock_refuses [OF assms(1) True] True assms(2,3) by (simp add: complete_native_job_def)
next
  case False
  then show ?thesis using assms(2,3)
    by (intro refusedI [where m = "''native lease owner mismatch''"]) (auto simp: complete_native_job_def)
qed

lemma reschedule_lock_refused:
  assumes "\<not> lease_held d i now" "(ra_tenant_id a, ra_job_id a, ra_lease_id a, ra_worker_id a) =
      (ri_TenantId i, ri_JobId i, Some (ri_LeaseID i), ri_WorkerID i)" "\<forall>r \<in> set (jobs d). native_job_ok r"
  shows "refused (lock_for_reschedule a now d)"
proof (cases "lock_job_for_status d (ri_TenantId i) (ri_JobId i) ACTIVE (Some (ri_LeaseID i))
    (''native lease not active for job '' @ job_name (ri_TenantId i) (ri_JobId i)) now")
  case (Inl x)
  then have "x = PgError ''P0001'' (''native lease not active for job '' @ job_name (ri_TenantId i) (ri_JobId i))"
    by (auto simp: lock_job_for_status_def raise_def split: option.splits if_splits)
  then show ?thesis using Inl assms(2)
    by (intro refusedI [where m = "''native lease not active for job '' @ job_name (ri_TenantId i) (ri_JobId i)"])
       (auto simp: lock_for_reschedule_def raise_def)
next
  case (Inr r)
  then have r: "find_job d (ri_TenantId i) (ri_JobId i) = Some r" "j_lease_id r = Some (ri_LeaseID i)"
    "status_admits ACTIVE (job_status_at d r now)" by (auto simp: res_simps)
  have "j_route_job_type r \<noteq> None" using r(1) assms(3) by (auto simp: find_job_def native_job_ok_def dest: row_at_SomeD)
  moreover have "Finite now < j_lease_expires_at r" using r(3) by (simp add: status_admits_def job_status_ACTIVE)
  ultimately have "j_lease_worker_id r \<noteq> Some (ri_WorkerID i)" using assms(1) r by (auto simp: lease_held_def holds_def)
  then show ?thesis using Inr assms(2) \<open>j_route_job_type r \<noteq> None\<close>
    by (intro refusedI [where m = "''native lease owner mismatch''"]) (auto simp: lock_for_reschedule_def)
qed

text \<open>The checks of \<^verbatim>\<open>rescheduleJob\<close> cover those that the SQL function makes before it locks the job.\<close>

lemma reschedule_admitted:
  assumes "reschedule_request l h i req = Inr (args, val)" "\<not> l_identifier l ''''"
  shows "route_error (args c) = None" "alternate_error (args c) = None" "ra_route_job_type (args c) \<noteq> ''''"
    "li_JobID i \<notin> set (ra_wait_for (args c))"
    "\<not> (ra_wait_until_is_deadline (args c) \<and> (ra_wait_for (args c) = [] \<or> ra_available_at (args c) = None))"
    "(ra_tenant_id (args c), ra_job_id (args c), ra_lease_id (args c), ra_worker_id (args c)) =
      (li_TenantID i, li_JobID i, nilIfBlank (li_LeaseID i), li_WorkerID i)"
proof -
  obtain task mode revision alternate_job alternate_task alternate_after wait where r:
    "validTypeName l (rr_RouteJobType req)" "task_args l req = Inr task" "\<not> bad_wait_for (li_JobID i) (rr_WaitFor req)"
    "\<not> (rr_WaitUntilIsDeadline req \<and> (rr_WaitFor req = [] \<or> rr_AvailableAt req = None))"
    "alternate_args l req = Inr (alternate_job, alternate_task, alternate_after)"
    "args = (\<lambda>client. \<lparr>ra_tenant_id = li_TenantID i, ra_job_id = li_JobID i,
       ra_lease_id = nilIfBlank (li_LeaseID i), ra_worker_id = li_WorkerID i,
       ra_route_job_type = rr_RouteJobType req, ra_work_kind = rr_WorkKind req,
       ra_task_type = map_option tw_TaskType task, ra_resume_job_type = map_option tw_ResumeJobType task,
       ra_task_input_ordinal = map_option tw_InputOrdinal task,
       ra_task_output_ordinal = map_option tw_OutputOrdinal task,
       ra_task_input_hash = map_option tw_InputHash task,
       ra_wait_for = rr_WaitFor req, ra_available_at = optionalTime l (rr_AvailableAt req),
       ra_alternate_job_type = alternate_job, ra_alternate_task_type = alternate_task,
       ra_alternate_after = alternate_after, ra_client_mode = mode, ra_client_value = client,
       ra_client_expected = revision, ra_wait_until_is_deadline = rr_WaitUntilIsDeadline req,
       ra_dependency_wait = wait\<rparr>)"
    using assms(1) by (auto simp: reschedule_request_def bind_res_Inr split: prod.splits if_splits)
  show "route_error (args c) = None"
    using r(2) assms(2) unfolding r(6) route_error_def task_args_def validTypeName_def WorkKindJob_def WorkKindTask_def
    by (cases "rr_Task req"; cases task) (simp split: if_splits; fastforce)+
  show "alternate_error (args c) = None"
    using r(5) by (auto simp: r(6) alternate_error_def alternate_args_def nilIfBlank_def WorkKindTask_def split: if_splits option.splits)
  show "ra_route_job_type (args c) \<noteq> ''''" using r(1) assms(2) by (auto simp: r(6) validTypeName_def)
  show "li_JobID i \<notin> set (ra_wait_for (args c))" using r(3) by (auto simp: r(6) bad_wait_for_def)
  show "\<not> (ra_wait_until_is_deadline (args c) \<and> (ra_wait_for (args c) = [] \<or> ra_available_at (args c) = None))"
    using r(4) by (auto simp: r(6) optionalTime_def)
qed (use assms in \<open>auto simp: reschedule_request_def bind_res_Inr split: prod.splits if_splits\<close>)

lemma reschedule_refused:
  assumes "\<not> lease_held d i now" "\<forall>r \<in> set (jobs d). native_job_ok r" "\<not> l_identifier l ''''"
    "validateLeaseIdentity (identityToPgjobdb i) = Inr ()" "reschedule_request l h (identityToPgjobdb i) req = Inr (args, val)"
  shows "refused (reschedule_native_job (args c) wall now d)"
proof -
  note a = reschedule_admitted [OF assms(5,3), of c]
  have ids: "ri_LeaseID i \<noteq> ''''" "ri_WorkerID i \<noteq> ''''"
    using assms(4) by (auto simp: validateLeaseIdentity_def identityToPgjobdb_def split: if_splits)
  have "(ra_tenant_id (args c), ra_job_id (args c), ra_lease_id (args c), ra_worker_id (args c)) =
      (ri_TenantId i, ri_JobId i, Some (ri_LeaseID i), ri_WorkerID i)"
    using a(6) ids(1) by (simp add: identityToPgjobdb_def nilIfBlank_def)
  note lock = reschedule_lock_refused [OF assms(1) this assms(2)]
  show ?thesis unfolding reschedule_native_job_def Let_def
    using a ids(2) lock by (simp add: identityToPgjobdb_def del: de_Morgan_conj)
qed

lemma refused_call:
  assumes "refused (f d)" "e_link e = LinkUp"
  shows "\<exists>m m'. call_sql e (doing f) d = (Inl (PgErr (PgError ''P0001'' m)), d) \<and>
    translateLeaseError (PgErr (PgError ''P0001'' m)) = RtLeaseLost m'"
proof -
  obtain m m' where m: "f d = raise m" "translateLeaseError (PgErr (PgError ''P0001'' m)) = RtLeaseLost m'"
    using assms(1) unfolding refused_def by blast
  have "call_sql e (doing f) d = (Inl (PgErr (PgError ''P0001'' m)), d)"
    by (simp add: call_sql_def doing_def m(1) raise_def assms(2))
  with m(2) show ?thesis by blast
qed

lemma completions_valid: "cp_Status c \<in> set completion_statuses \<Longrightarrow> validateCompletion c = Inr ()"
  by (auto simp: validateCompletion_def completion_statuses_def CompletionSuccess_def CompletionFailedApp_def
    CompletionFailedSystem_def CompletionFailedTimeout_def CompletionCancelled_def)

definition sample_rt_lease :: RtIdentity where
  "sample_rt_lease = \<lparr>ri_TenantId = ''t'', ri_JobId = ''a'', ri_LeaseID = ''l1'', ri_WorkerID = ''w'', ri_ExpiresAt = 60000030000\<rparr>"

lemma identity_given:
  assumes "validateLeaseIdentity (identityToPgjobdb i) = Inr ()"
  shows "ri_TenantId i \<noteq> ''''" "ri_JobId i \<noteq> ''''" "ri_LeaseID i \<noteq> ''''" "ri_WorkerID i \<noteq> ''''"
  using assms by (auto simp: validateLeaseIdentity_def identityToPgjobdb_def split: if_splits)

lemma completion_lost:
  assumes "validateScheduleDB h = Inr ()" "validateLeaseIdentity (identityToPgjobdb i) = Inr ()" "e_link e = LinkUp"
    "\<not> lease_held d i (e_now e)"
    and c: "cm_Identity c = i" "cm_Status c \<in> set completion_statuses"
      "clientUpdateArgs l (cm_ClientPayloadUpdate c) False = Inr (mode, val, expected)" "json_arg val = Inr client"
  shows "\<exists>m. CompleteLease y l h e views c d = (Inl (RtLeaseLost m), d)"
proof -
  note ids = identity_given [OF assms(2)]
  obtain m m' where m: "call_sql e (doing (\<lambda>d. complete_native_job (ri_TenantId i) (ri_JobId i) (ri_LeaseID i) (ri_WorkerID i)
      (cm_Status c) (nilIfBlank (cm_Detail c)) (nilIfBlank (cm_ErrorKind c)) (cm_Retryable c) mode client expected (e_now e) d)) d
      = (Inl (PgErr (PgError ''P0001'' m)), d)" "translateLeaseError (PgErr (PgError ''P0001'' m)) = RtLeaseLost m'"
    using refused_call [where f = "\<lambda>d. complete_native_job (ri_TenantId i) (ri_JobId i) (ri_LeaseID i) (ri_WorkerID i)
        (cm_Status c) (nilIfBlank (cm_Detail c)) (nilIfBlank (cm_ErrorKind c)) (cm_Retryable c) mode client expected (e_now e) d",
      OF complete_refused [OF assms(4) ids(4,3)] assms(3)] by blast
  then show ?thesis
    using assms(1) ids c by (simp add: CompleteLease_def CompleteJob_def on_request_def map_err_def
      identityToPgjobdb_def translated_def completions_valid)
qed

lemma reschedule_lost:
  assumes "validateScheduleDB h = Inr ()" "validateLeaseIdentity (identityToPgjobdb i) = Inr ()" "e_link e = LinkUp"
    "\<not> lease_held d i (e_now e)" "db_inv d (e_now e)" "\<not> l_identifier l ''''"
    and r: "rm_Identity r = i" "reschedule_request l h (identityToPgjobdb i) (reschedule_input r) = Inr (args, v)"
      "json_arg v = Inr client'"
  shows "\<exists>m. RescheduleLease y l h e views r d = (Inl (RtLeaseLost m), d)"
proof -
  have ok: "\<forall>x \<in> set (jobs d). native_job_ok x" using assms(5) by (auto simp: db_inv_def db_ok_def)
  obtain m m' where m: "call_sql e (doing (\<lambda>d. reschedule_native_job (args client') (e_wall e) (e_now e) d)) d
      = (Inl (PgErr (PgError ''P0001'' m)), d)" "translateLeaseError (PgErr (PgError ''P0001'' m)) = RtLeaseLost m'"
    using refused_call [where f = "reschedule_native_job (args client') (e_wall e) (e_now e)",
      OF reschedule_refused [OF assms(4) ok assms(6,2) r(2)] assms(3)] by blast
  then show ?thesis
    using assms(2) r by (simp add: RescheduleLease_def RescheduleJob_def rescheduleJob_def on_request_def map_err_def
      translated_def)
qed

text \<open>
  C29: a worker that no longer holds its lease is always told so. Whatever it asks for with a well-formed
  request, to validate the lease, to extend it, to complete or to reschedule the job, the answer is the
  error \<^verbatim>\<open>ErrLeaseLost\<close> of JobDB and nothing else, and the database does not change.
\<close>

theorem lost_lease_reported:
  assumes "validateScheduleDB h = Inr ()" "validateLeaseIdentity (identityToPgjobdb i) = Inr ()" "e_link e = LinkUp"
    "\<not> lease_held d i (e_now e)" "db_inv d (e_now e)" "\<not> l_identifier l ''''"
  shows "(\<exists>m. Scheduler_ValidateLease h e i d = (Inl (RtLeaseLost m), d)) \<and>
    (0 < duration \<longrightarrow> leaseSeconds duration = Inr secs \<longrightarrow>
       (\<exists>m. Scheduler_KeepAliveLease h e e' i duration d = (Inl (RtLeaseLost m), d))) \<and>
    (cm_Identity c = i \<longrightarrow> cm_Status c \<in> set completion_statuses \<longrightarrow>
       clientUpdateArgs l (cm_ClientPayloadUpdate c) False = Inr (mode, val, expected) \<longrightarrow> json_arg val = Inr client \<longrightarrow>
       (\<exists>m. CompleteLease y l h e views c d = (Inl (RtLeaseLost m), d))) \<and>
    (rm_Identity r = i \<longrightarrow> reschedule_request l h (identityToPgjobdb i) (reschedule_input r) = Inr (args, v) \<longrightarrow>
       json_arg v = Inr client' \<longrightarrow> (\<exists>m. RescheduleLease y l h e views r d = (Inl (RtLeaseLost m), d)))"
proof (intro conjI impI)
  note ids = identity_given [OF assms(2)]
  have "validate_native_lease (ri_TenantId i) (ri_JobId i) (ri_LeaseID i) (ri_WorkerID i) (e_now e) d = Inr None"
    using assms(4) ids by (auto simp: validate_native_lease_def lease_held_def split: option.splits)
  then show "\<exists>m. Scheduler_ValidateLease h e i d = (Inl (RtLeaseLost m), d)"
    using assms(1-3) by (simp add: Scheduler_ValidateLease_def ValidateLease_def on_request_def reading_def call_sql_def
      and_then_def no_rows_is_def scanJobLease_def identityToPgjobdb_def translated_def translateLeaseError.simps)
next
  assume s: "0 < duration" "leaseSeconds duration = Inr secs"
  have "1 \<le> secs" using s(2) by (auto simp: leaseSeconds_def Let_def split: if_splits)
  from renew_refused [OF assms(4) this] obtain m m' where
    "renew_native_lease (ri_TenantId i) (ri_JobId i) (ri_LeaseID i) (ri_WorkerID i) secs (e_now e) d = raise m"
    "translateLeaseError (PgErr (PgError ''P0001'' m)) = RtLeaseLost m'" unfolding refused_def by blast
  then show "\<exists>m. Scheduler_KeepAliveLease h e e' i duration d = (Inl (RtLeaseLost m), d)"
    using assms(1-3) s by (simp add: Scheduler_KeepAliveLease_def KeepAliveLease_def on_request_def call_sql_def
      identityToPgjobdb_def raise_def translated_def)
qed (use completion_lost [OF assms(1-4)] reschedule_lost [OF assms(1-6)] in blast)+

theorem lost_lease_reported_witness:
  "(\<exists>m. Scheduler_ValidateLease sample_handle (sample_env 90000000 '''') sample_rt_lease db_leased =
      (Inl (RtLeaseLost m), db_leased)) \<and>
   (\<exists>m. Scheduler_KeepAliveLease sample_handle (sample_env 90000000 '''') (sample_env 90000000 '''') sample_rt_lease 60000000000 db_leased =
      (Inl (RtLeaseLost m), db_leased))"
proof -
  have a: "validateScheduleDB sample_handle = Inr ()" "validateLeaseIdentity (identityToPgjobdb sample_rt_lease) = Inr ()"
    "e_link (sample_env 90000000 '''') = LinkUp" "e_now (sample_env 90000000 '''') = 90000000" "leaseSeconds 60000000000 = Inr 60"
    "\<not> l_identifier sample_lib ''''"
    by (simp_all add: validateScheduleDB_def sample_handle_def validateLeaseIdentity_def identityToPgjobdb_def
      sample_rt_lease_def sample_env_def leaseSeconds_def sample_lib_def)
  have lost: "\<not> lease_held db_leased sample_rt_lease 90000000" by code_simp
  have inv: "db_inv db_leased 90000000" by (rule inv_later [OF sample_invs(3)]) simp
  note r = lost_lease_reported [OF a(1-3), unfolded a(4), OF lost inv a(6),
    where duration = 60000000000 and secs = 60 and e' = "sample_env 90000000 ''''"]
  have "0 < (60000000000 :: int)" by simp
  with r [THEN conjunct1] r [THEN conjunct2, THEN conjunct1] a(5) show ?thesis by blast
qed

subsection \<open>The acquisition loop\<close>

text \<open>An acquisition leaves a job under a live lease alone, and the job it returns is held.\<close>

lemma acquisition_keeps:
  assumes "db_inv d now" "find_job d t j = Some r" "Finite now < j_lease_expires_at r"
    "get_native_work q locked lease now d = Inr (res, d')"
  shows "find_job d' t j = Some r"
proof -
  from assms(4) obtain d1 where d1: "expire_goal_waits (wq_tenant_ids q) now d = Inr d1"
    by (auto simp: get_native_work_def res_simps split: if_splits)
  note same = find_job_waits_only [OF expire_goal_waits_waits_only [OF d1], of t j]
  show ?thesis
  proof (cases "pick d1 q locked now")
    case None
    then show ?thesis using assms(2,4) d1 same by (auto simp: get_native_work_def split: if_splits)
  next
    case (Some x)
    have c: "candidate d1 q now x" "x \<in> set (jobs d)"
      using pick_candidate [OF Some] expire_goal_waits_waits_only [OF d1] by (auto simp: waits_only_def)
    have "(j_tenant_id x, j_job_id x) \<noteq> (t, j)"
      using assms(2,3) c find_job_iff [OF db_okD(1) [OF invD(1) [OF assms(1)]], of t j x]
      by (auto simp: candidate_def job_key_def)
    moreover have "d' = update_job (j_tenant_id x) (j_job_id x) (grant_lease lease (wq_worker_id q) (wq_lease_seconds q) now) d1"
      using assms(4) d1 Some by (auto simp: get_native_work_def Let_def split: if_splits)
    ultimately show ?thesis using same assms(2) by (auto simp: find_job_update_job)
  qed
qed

lemma acquisition_holds:
  assumes "db_inv d now" "get_native_work q locked lease now d = Inr (Some row, d')"
  obtains r where "find_job d' (l_tenant_id row) (l_job_id row) = Some r" "holds r lease (wq_worker_id q)"
    "j_lease_expires_at r = Finite (now + micros (wq_lease_seconds q))" "l_lease_id row = Some lease"
  using assms(2)
proof (cases rule: granted_cases)
  case (1 d1 j)
  let ?g = "grant_lease lease (wq_worker_id q) (wq_lease_seconds q) now"
  have "j \<in> set (jobs d)" using pick_candidate [OF 1(3)] 1(2) by (simp add: waits_only_def)
  then have "find_job d (j_tenant_id j) (j_job_id j) = Some j"
    using find_job_iff [OF db_okD(1) [OF invD(1) [OF assms(1)]], of "j_tenant_id j" "j_job_id j" j] by (simp add: job_key_def)
  then have "find_job d' (l_tenant_id row) (l_job_id row) = Some (?g j)"
    using find_job_waits_only [OF 1(2)] by (simp add: 1(4-6) find_job_update_job)
  moreover have "l_lease_id row = Some lease"
    using assms(2) 1(1,3) by (auto simp: get_native_work_def Let_def join_lease_def lease_of_def split: if_splits option.splits)
  ultimately show thesis by (intro that [of "?g j"]) (simp_all add: holds_def)
qed

lemma GetWork_cases:
  assumes "GetWork l h e worker sel opts d = (Inr res, d')"
  obtains q row where "work_request l h worker sel opts '''' '''' = Inr q"
    "get_native_work q (e_locked e) (e_uuid e) (e_now e) d = Inr (row, d')"
    "no_rows_is_nil (scanJobLease row worker) = Inr res"
  using assms by (auto simp: GetWork_def getWork_def on_request_def and_then_def call_sql_def
    split: sum.splits link.splits)

lemma work_request_query:
  assumes "work_request l h worker sel opts t j = Inr q"
  shows "wq_worker_id q = worker" "leaseSeconds (wo_LeaseDuration opts) = Inr (wq_lease_seconds q)"
  using assms by (auto simp: work_request_def bind_res_Inr split: if_splits option.splits)

lemma scanned_lease:
  assumes "no_rows_is_nil (scanJobLease row worker) = Inr (Some lease)"
  obtains r where "row = Some r" "jl_TenantID lease = l_tenant_id r" "jl_JobID lease = l_job_id r"
    "Some (jl_LeaseID lease) = l_lease_id r" "jl_WorkerID lease = worker"
  using assms by (auto simp: no_rows_is_nil_def scanJobLease_def split: sum.splits if_splits option.splits)

lemma snapshot_identity:
  assumes "leaseFromPgjobdb lease requested = Inr s"
  shows "lp_Identity s = \<lparr>ri_TenantId = jl_TenantID lease, ri_JobId = jl_JobID lease, ri_LeaseID = jl_LeaseID lease,
    ri_WorkerID = jl_WorkerID lease, ri_ExpiresAt = jl_ExpiresAt lease\<rparr>"
  using assms by (auto simp: leaseFromPgjobdb_def bind_res_Inr)

lemma later_lease: "now < until \<Longrightarrow> Finite until \<le> x \<Longrightarrow> Finite now < x"
  by (rule less_le_trans [of _ "Finite until"]) simp_all

definition lease_key :: "LeaseSnapshot \<Rightarrow> string \<times> string" where
  "lease_key s = (ri_TenantId (lp_Identity s), ri_JobId (lp_Identity s))"

lemma acquire_rounds_hold:
  assumes "acquire_rounds l h es req opts n k d = (Inr snaps, d')" "db_inv d (e_now (es n))"
    "\<And>m. e_now (es m) \<le> e_now (es (Suc m))" "\<And>m. m < n + k \<Longrightarrow> e_now (es m) < until"
    "leaseSeconds (wo_LeaseDuration opts) = Inr secs" "until \<le> e_now (es n) + micros secs"
  shows "length snaps \<le> k \<and> distinct (map lease_key snaps) \<and>
    (\<forall>s \<in> set snaps. ri_WorkerID (lp_Identity s) = wr_WorkerID req \<and> some_such (find_job d' (fst (lease_key s)) (snd (lease_key s)))
       (\<lambda>r. holds r (ri_LeaseID (lp_Identity s)) (wr_WorkerID req) \<and> Finite until \<le> j_lease_expires_at r)) \<and>
    (\<forall>t j r. find_job d t j = Some r \<and> Finite until \<le> j_lease_expires_at r \<longrightarrow>
       find_job d' t j = Some r \<and> (t, j) \<notin> lease_key ` set snaps)"
  using assms(1,2,4,6)
proof (induction k arbitrary: n d snaps)
  case 0
  then show ?case by simp
next
  case (Suc k)
  obtain res d1 where g: "GetWork l h (es n) (wr_WorkerID req) (workSelectorToPgjobdb (wr_Selector req)) opts d = (Inr res, d1)"
    using Suc.prems(1) by (auto split: prod.splits sum.splits)
  obtain q row where q: "work_request l h (wr_WorkerID req) (workSelectorToPgjobdb (wr_Selector req)) opts '''' '''' = Inr q"
    "get_native_work q (e_locked (es n)) (e_uuid (es n)) (e_now (es n)) d = Inr (row, d1)"
    "no_rows_is_nil (scanJobLease row (wr_WorkerID req)) = Inr res"
    using g by (rule GetWork_cases)
  have live: "Finite (e_now (es n)) < j_lease_expires_at r" if "Finite until \<le> j_lease_expires_at r" for r
    using Suc.prems(3) [of n] that by (intro later_lease) auto
  have kept: "find_job d1 t j = Some r" if "find_job d t j = Some r" "Finite until \<le> j_lease_expires_at r" for t j r
    by (rule acquisition_keeps [OF Suc.prems(2) that(1) live [OF that(2)] q(2)])
  show ?case
  proof (cases res)
    case None
    then show ?thesis using Suc.prems(1) g kept by auto
  next
    case (Some lease)
    then obtain s rest where s: "leaseFromPgjobdb lease (wr_LeaseDuration req) = Inr s"
      "acquire_rounds l h es req opts (Suc n) k d1 = (Inr rest, d')" "snaps = s # rest"
      using Suc.prems(1) g by (auto split: prod.splits sum.splits)
    obtain x where x: "row = Some x" "jl_TenantID lease = l_tenant_id x" "jl_JobID lease = l_job_id x"
      "Some (jl_LeaseID lease) = l_lease_id x" "jl_WorkerID lease = wr_WorkerID req"
      using q(3) unfolding Some by (rule scanned_lease)
    note i = snapshot_identity [OF s(1)] work_request_query [OF q(1)]
    obtain r where r: "find_job d1 (l_tenant_id x) (l_job_id x) = Some r" "holds r (e_uuid (es n)) (wr_WorkerID req)"
      "j_lease_expires_at r = Finite (e_now (es n) + micros secs)" "l_lease_id x = Some (e_uuid (es n))"
      using acquisition_holds [OF Suc.prems(2) q(2) [unfolded x(1)]] i(2,3) assms(5) by auto
    have until: "Finite until \<le> j_lease_expires_at r" using Suc.prems(4) r(3) by simp
    have "db_inv d1 (e_now (es (Suc n)))"
      by (rule inv_later [OF get_native_work_inv [OF Suc.prems(2) q(2)] assms(3)])
    moreover have "until \<le> e_now (es (Suc n)) + micros secs" using Suc.prems(4) assms(3) [of n] by linarith
    ultimately have IH: "length rest \<le> k \<and> distinct (map lease_key rest) \<and>
      (\<forall>s \<in> set rest. ri_WorkerID (lp_Identity s) = wr_WorkerID req \<and> some_such (find_job d' (fst (lease_key s)) (snd (lease_key s)))
         (\<lambda>r. holds r (ri_LeaseID (lp_Identity s)) (wr_WorkerID req) \<and> Finite until \<le> j_lease_expires_at r)) \<and>
      (\<forall>t j r. find_job d1 t j = Some r \<and> Finite until \<le> j_lease_expires_at r \<longrightarrow>
         find_job d' t j = Some r \<and> (t, j) \<notin> lease_key ` set rest)"
      using Suc.prems(3) by (intro Suc.IH [OF s(2)]) auto
    have key: "lease_key s = (l_tenant_id x, l_job_id x)" by (simp add: lease_key_def i(1) x)
    have fresh: "find_job d' (l_tenant_id x) (l_job_id x) = Some r" "(l_tenant_id x, l_job_id x) \<notin> lease_key ` set rest"
      using IH r(1) until by blast+
    have others: "find_job d' t j = Some y \<and> (t, j) \<notin> lease_key ` set snaps"
      if "find_job d t j = Some y" "Finite until \<le> j_lease_expires_at y" for t j y
    proof -
      have "(t, j) \<noteq> lease_key s"
        using get_work_live [OF Suc.prems(2) that(1) live [OF that(2)] q(2) [unfolded x(1)]] key by auto
      moreover have "find_job d' t j = Some y \<and> (t, j) \<notin> lease_key ` set rest" using IH kept [OF that] that(2) by blast
      ultimately show ?thesis by (simp add: s(3))
    qed
    have "length snaps \<le> Suc k \<and> distinct (map lease_key snaps)" using IH fresh(2) by (simp add: s(3) key)
    moreover have "\<forall>s \<in> set snaps. ri_WorkerID (lp_Identity s) = wr_WorkerID req \<and>
      some_such (find_job d' (fst (lease_key s)) (snd (lease_key s)))
        (\<lambda>r. holds r (ri_LeaseID (lp_Identity s)) (wr_WorkerID req) \<and> Finite until \<le> j_lease_expires_at r)"
      using IH fresh(1) r(2,4) until x by (simp add: s(3) key i(1))
    ultimately show ?thesis using others by blast
  qed
qed


definition sample_acquisition :: WorkRequest where
  "sample_acquisition = \<lparr>wr_TenantId = ''t'', wr_WorkerID = ''w'',
     wr_Selector = \<lparr>rs_JobTypes = [''build''], rs_Tasks = []\<rparr>, wr_MetadataEquals = [],
     wr_LeaseDuration = 60000000000, wr_Limit = 2\<rparr>"


end
