(* ===== verification/Chapter_Codec.thy ===== *)
theory Chapter_Codec
  imports Json Go_Types
begin

section \<open>The chapter codec\<close>

text \<open>
  \<^verbatim>\<open>runtimecodec/chapter.go\<close> and \<^verbatim>\<open>helpers.go\<close>: a chapter body and the two discriminators and the payload it
  is stored as, and chapter metadata as a JSON object. A \<^verbatim>\<open>json.RawMessage\<close> is what \<^verbatim>\<open>encoding/json\<close> reads
  from its bytes: nothing, bytes that are not JSON, or a document whose numbers keep their text and whose
  members keep their order and duplicates. The error payloads are structs of a third-party package, so
  their encoding is the parameter \<open>payloads\<close>; \<^verbatim>\<open>float64\<close> values are a parameter with the two conversions of
  \<^verbatim>\<open>strconv\<close>. A Go map is the list of its entries in the order in which a run visits them. Values that Go
  returns beside an error are dropped, as is the text behind \<^verbatim>\<open>%w\<close>, \<^verbatim>\<open>%q\<close> and \<^verbatim>\<open>%T\<close>.
\<close>

subsection \<open>Documents\<close>

datatype doc =
    DNull
  | DBool bool
  | DNum string
  | DStr string
  | DArr "doc list"
  | DObj "(string \<times> doc) list"

datatype raw = RawNone | RawBad string | RawDoc doc

fun json_Valid :: "raw \<Rightarrow> bool" where
  "json_Valid (RawDoc d) = True"
| "json_Valid _ = False"

definition cloneJSON :: "raw \<Rightarrow> raw" where
  "cloneJSON r = r"

subsection \<open>Bodies and outcomes\<close>

definition PayloadKindApp :: string where "PayloadKindApp = ''App''"
definition PayloadKindAppError :: string where "PayloadKindAppError = ''AppError''"
definition PayloadKindSystemError :: string where "PayloadKindSystemError = ''SystemError''"
definition PayloadKindTimeout :: string where "PayloadKindTimeout = ''Timeout''"
definition ChapterTypeExecution :: string where "ChapterTypeExecution = ''Execution''"
definition ChapterTypeJobStart :: string where "ChapterTypeJobStart = ''JobStart''"
definition ChapterTypeJobAttemptOutcome :: string where "ChapterTypeJobAttemptOutcome = ''JobAttemptOutcome''"
definition ChapterTypeTaskAttemptOutcome :: string where "ChapterTypeTaskAttemptOutcome = ''TaskAttemptOutcome''"
definition ChapterTypeRestartExtra :: string where "ChapterTypeRestartExtra = ''RestartExtra''"

lemmas wire_names = PayloadKindApp_def PayloadKindAppError_def PayloadKindSystemError_def PayloadKindTimeout_def
  ChapterTypeExecution_def ChapterTypeJobStart_def ChapterTypeJobAttemptOutcome_def
  ChapterTypeTaskAttemptOutcome_def ChapterTypeRestartExtra_def

datatype ('a, 's, 't) outcome =
    ApplicationOutputOutcome raw
  | AppErrorOutcome 'a
  | SystemErrorOutcome 's
  | TimeoutOutcome 't

text \<open>An interface value holds a struct, a pointer to one, a nil pointer, or something else (or nothing).\<close>

datatype 'x boxed = Held 'x | Pointer 'x | NilPointer | OtherType

datatype ('a, 's, 't) body =
    ExecutionChapter raw
  | JobStartChapter raw
  | JobAttemptOutcomeChapter "('a, 's, 't) outcome boxed"
  | TaskAttemptOutcomeChapter "('a, 's, 't) outcome boxed"
  | RestartExtraChapter raw

record ('a, 's, 't) payloads =
  y_app_enc :: "'a \<Rightarrow> raw option"
  y_app_dec :: "raw \<Rightarrow> 'a option"
  y_system_enc :: "'s \<Rightarrow> raw option"
  y_system_dec :: "raw \<Rightarrow> 's option"
  y_timeout_enc :: "'t \<Rightarrow> raw option"
  y_timeout_dec :: "raw \<Rightarrow> 't option"

definition or_error :: "string \<Rightarrow> 'x option \<Rightarrow> 'x go" where
  "or_error m v = (case v of None \<Rightarrow> Inl (Err m) | Some x \<Rightarrow> Inr x)"

fun outcome_wire :: "('a, 's, 't) payloads \<Rightarrow> ('a, 's, 't) outcome \<Rightarrow> (string \<times> raw) go" where
  "outcome_wire y (ApplicationOutputOutcome data) = Inr (PayloadKindApp, cloneJSON data)"
| "outcome_wire y (AppErrorOutcome x) =
     bind_res (or_error ''json: error calling Marshal'' (y_app_enc y x)) (\<lambda>r. Inr (PayloadKindAppError, r))"
| "outcome_wire y (SystemErrorOutcome x) =
     bind_res (or_error ''json: error calling Marshal'' (y_system_enc y x)) (\<lambda>r. Inr (PayloadKindSystemError, r))"
| "outcome_wire y (TimeoutOutcome x) =
     bind_res (or_error ''json: error calling Marshal'' (y_timeout_enc y x)) (\<lambda>r. Inr (PayloadKindTimeout, r))"

fun ChapterOutcomeToWire :: "('a, 's, 't) payloads \<Rightarrow> ('a, 's, 't) outcome boxed \<Rightarrow> (string \<times> raw) go" where
  "ChapterOutcomeToWire y (Held x) = outcome_wire y x"
| "ChapterOutcomeToWire y (Pointer x) = outcome_wire y x"
| "ChapterOutcomeToWire y NilPointer = Inl (Err ''task outcome is required'')"
| "ChapterOutcomeToWire y OtherType = Inl (Err ''unsupported task outcome type '')"

fun body_wire :: "('a, 's, 't) payloads \<Rightarrow> ('a, 's, 't) body \<Rightarrow> (string \<times> string \<times> raw) go" where
  "body_wire y (ExecutionChapter r) = Inr (ChapterTypeExecution, PayloadKindApp, cloneJSON r)"
| "body_wire y (JobStartChapter data) = Inr (ChapterTypeJobStart, PayloadKindApp, cloneJSON data)"
| "body_wire y (JobAttemptOutcomeChapter x) =
     bind_res (ChapterOutcomeToWire y x) (\<lambda>(kind, data). Inr (ChapterTypeJobAttemptOutcome, kind, data))"
| "body_wire y (TaskAttemptOutcomeChapter x) =
     bind_res (ChapterOutcomeToWire y x) (\<lambda>(kind, data). Inr (ChapterTypeTaskAttemptOutcome, kind, data))"
| "body_wire y (RestartExtraChapter data) = Inr (ChapterTypeRestartExtra, PayloadKindApp, cloneJSON data)"

fun ChapterBodyToWire :: "('a, 's, 't) payloads \<Rightarrow> ('a, 's, 't) body boxed \<Rightarrow> (string \<times> string \<times> raw) go" where
  "ChapterBodyToWire y (Held b) = body_wire y b"
| "ChapterBodyToWire y (Pointer b) = body_wire y b"
| "ChapterBodyToWire y NilPointer = Inl (Err ''chapter body is required'')"
| "ChapterBodyToWire y OtherType = Inl (Err ''unsupported chapter body type '')"

definition ChapterOutcomeFromWire :: "('a, 's, 't) payloads \<Rightarrow> string \<Rightarrow> raw \<Rightarrow> ('a, 's, 't) outcome boxed go" where
  "ChapterOutcomeFromWire y kind data =
     (if kind = PayloadKindApp then Inr (Held (ApplicationOutputOutcome (cloneJSON data)))
      else if kind = PayloadKindAppError
      then bind_res (or_error ''json: cannot unmarshal'' (y_app_dec y data)) (\<lambda>x. Inr (Held (AppErrorOutcome x)))
      else if kind = PayloadKindSystemError
      then bind_res (or_error ''json: cannot unmarshal'' (y_system_dec y data)) (\<lambda>x. Inr (Held (SystemErrorOutcome x)))
      else if kind = PayloadKindTimeout
      then bind_res (or_error ''json: cannot unmarshal'' (y_timeout_dec y data)) (\<lambda>x. Inr (Held (TimeoutOutcome x)))
      else Inl (Err ''unsupported task outcome payload kind ''))"

definition ChapterBodyFromWire :: "('a, 's, 't) payloads \<Rightarrow> string \<Rightarrow> string \<Rightarrow> raw \<Rightarrow> ('a, 's, 't) body boxed go" where
  "ChapterBodyFromWire y chapter kind data =
     (if chapter = ChapterTypeExecution then
        (if kind \<noteq> PayloadKindApp \<or> \<not> json_Valid data then Inl (Err ''invalid execution record'')
         else Inr (Held (ExecutionChapter (cloneJSON data))))
      else if chapter = ChapterTypeJobStart then
        (if kind \<noteq> PayloadKindApp then Inl (Err ''chapters require payloads'')
         else Inr (Held (JobStartChapter (cloneJSON data))))
      else if chapter = ChapterTypeJobAttemptOutcome then
        bind_res (ChapterOutcomeFromWire y kind data) (\<lambda>x. Inr (Held (JobAttemptOutcomeChapter x)))
      else if chapter = ChapterTypeTaskAttemptOutcome then
        bind_res (ChapterOutcomeFromWire y kind data) (\<lambda>x. Inr (Held (TaskAttemptOutcomeChapter x)))
      else if chapter = ChapterTypeRestartExtra then
        (if kind \<noteq> PayloadKindApp then Inl (Err ''chapters require payloads'')
         else Inr (Held (RestartExtraChapter (cloneJSON data))))
      else Inl (Err ''unsupported chapter type ''))"

definition ChapterType :: "('a, 's, 't) payloads \<Rightarrow> ('a, 's, 't) body boxed \<Rightarrow> string go" where
  "ChapterType y b = bind_res (ChapterBodyToWire y b) (\<lambda>(chapter, kind, data). Inr chapter)"

definition ChapterPayload :: "('a, 's, 't) payloads \<Rightarrow> ('a, 's, 't) body boxed \<Rightarrow> (string \<times> raw) go" where
  "ChapterPayload y b = bind_res (ChapterBodyToWire y b) (\<lambda>(chapter, kind, data). Inr (kind, data))"

definition ChapterIs :: "('a, 's, 't) payloads \<Rightarrow> ('a, 's, 't) body boxed \<Rightarrow> string \<Rightarrow> bool" where
  "ChapterIs y b want = (ChapterType y b = Inr want)"

end
