(* ===== verification/Decimal_Text.thy ===== *)
theory Decimal_Text
  imports Json
begin

section \<open>Decimal text\<close>

text \<open>Natural numbers as the text that \<^verbatim>\<open>strconv\<close> and the verb \<^verbatim>\<open>%d\<close> of \<^verbatim>\<open>fmt\<close> write.\<close>

fun decimal :: "nat \<Rightarrow> string" where
  "decimal n = (if n < 10 then [char_of (48 + n)] else decimal (n div 10) @ [char_of (48 + n mod 10)])"

declare decimal.simps [simp del]

lemma digit_val_decimal: "k < 10 \<Longrightarrow> digit_val (char_of (48 + k)) = Some k"
  by (simp add: digit_val_def)

lemma parse_digits_snoc: "parse_digits acc (s @ [c]) =
    (case parse_digits acc s of None \<Rightarrow> None | Some n \<Rightarrow> map_option (\<lambda>d. 10 * n + d) (digit_val c))"
  by (induction s arbitrary: acc) (auto split: option.splits)

lemma parse_decimal: "parse_digits 0 (decimal n) = Some n"
proof (induction n rule: decimal.induct)
  case (1 n)
  show ?case
  proof (cases "n < 10")
    case True
    then show ?thesis using digit_val_decimal [of n] by (simp add: decimal.simps)
  next
    case False
    have "digit_val (char_of (48 + n mod 10)) = Some (n mod 10)" by (rule digit_val_decimal) simp
    then show ?thesis using 1 False by (subst decimal.simps) (simp add: parse_digits_snoc)
  qed
qed

lemma decimal_chars: "set (decimal n) \<subseteq> (\<lambda>k :: nat. char_of (48 + k)) ` {0..<10}"
proof (induction n rule: decimal.induct)
  case (1 n)
  then show ?case by (subst decimal.simps) auto
qed

lemma decimal_not: "of_char c < (48 :: nat) \<or> 58 \<le> (of_char c :: nat) \<Longrightarrow> c \<notin> set (decimal n)"
  using decimal_chars [of n] by auto

lemma decimal_nonempty: "decimal n \<noteq> []"
  by (subst decimal.simps) simp

lemma decimal_inj: "decimal m = decimal n \<Longrightarrow> m = n"
  by (metis option.inject parse_decimal)

text \<open>A number that ends where no digit follows is determined by the text it begins.\<close>

lemma decimal_prefix:
  assumes "decimal m @ c # s = decimal n @ d # t"
    "of_char c < (48 :: nat) \<or> 58 \<le> (of_char c :: nat)" "of_char d < (48 :: nat) \<or> 58 \<le> (of_char d :: nat)"
  shows "m = n \<and> c # s = d # t"
proof -
  let ?digit = "\<lambda>x. \<not> (of_char x < (48 :: nat) \<or> 58 \<le> (of_char x :: nat))"
  have "takeWhile ?digit (decimal k @ e # u) = decimal k"
    if "of_char e < (48 :: nat) \<or> 58 \<le> (of_char e :: nat)" for k e u
  proof -
    have "\<forall>x \<in> set (decimal k). ?digit x" using decimal_not [of _ k] by blast
    then show ?thesis using that by (auto simp: takeWhile_append)
  qed
  then have "decimal m = decimal n" using assms by metis
  then show ?thesis using assms(1) decimal_inj by auto
qed

end
