(* ===== verification/Chapter_Metadata.thy ===== *)
theory Chapter_Metadata
  imports Chapter_Codec Decimal_Text
begin

section \<open>Chapter metadata\<close>

text \<open>
  The metadata half of \<^verbatim>\<open>runtimecodec/chapter.go\<close>: typed metadata values, the untyped values of Go's
  \<^verbatim>\<open>any\<close> they are converted from and to, and the documents they are stored as. Strings are bytes; the
  encoder replaces what is not UTF-8. A \<^verbatim>\<open>json.Number\<close> without a point or an exponent is an integer if it
  fits into 64 bits and a \<^verbatim>\<open>float64\<close> otherwise. Typed values are a datatype with one constructor per kind.
\<close>

subsection \<open>Text\<close>

definition cont_byte :: "nat \<Rightarrow> nat \<Rightarrow> char \<Rightarrow> bool" where
  "cont_byte lo hi c \<longleftrightarrow> lo \<le> of_char c \<and> of_char c \<le> hi"

text \<open>The length of the rune that starts a text, or 0 when its first byte starts none.\<close>

definition rune_length :: "string \<Rightarrow> nat" where
  "rune_length s = (case s of [] \<Rightarrow> 0 | c # cs \<Rightarrow>
     let b = of_char c :: nat;
       next = (\<lambda>i lo hi. i < length cs \<and> cont_byte lo hi (cs ! i)) in
     if b < 128 then 1
     else if 194 \<le> b \<and> b \<le> 223 then (if next 0 128 191 then 2 else 0)
     else if 224 \<le> b \<and> b \<le> 239 then
       (if next 0 (if b = 224 then 160 else 128) (if b = 237 then 159 else 191) \<and> next 1 128 191 then 3 else 0)
     else if 240 \<le> b \<and> b \<le> 244 then
       (if next 0 (if b = 240 then 144 else 128) (if b = 244 then 143 else 191) \<and> next 1 128 191 \<and> next 2 128 191
        then 4 else 0)
     else 0)"

text \<open>Every byte that is not part of a rune becomes U+FFFD; \<open>n\<close> bounds the number of steps.\<close>

fun coerce :: "nat \<Rightarrow> string \<Rightarrow> string" where
  "coerce 0 s = []"
| "coerce (Suc n) s = (if s = [] then []
     else if rune_length s = 0 then [char_of (239 :: nat), char_of (191 :: nat), char_of (189 :: nat)] @ coerce n (tl s)
     else take (rune_length s) s @ coerce n (drop (rune_length s) s))"

definition coerceUTF8 :: "string \<Rightarrow> string" where
  "coerceUTF8 s = coerce (length s) s"

definition valid_utf8 :: "string \<Rightarrow> bool" where
  "valid_utf8 s \<longleftrightarrow> coerceUTF8 s = s"

definition format_int :: "int \<Rightarrow> string" where
  "format_int i = (if i < 0 then CHR ''-'' # decimal (nat (- i)) else decimal (nat i))"

definition in_int64 :: "int \<Rightarrow> bool" where
  "in_int64 i \<longleftrightarrow> - 9223372036854775808 \<le> i \<and> i \<le> 9223372036854775807"

text \<open>\<^verbatim>\<open>strconv.ParseInt(text, 10, 64)\<close>\<close>

definition ParseInt :: "string \<Rightarrow> int option" where
  "ParseInt s = (case parse_index s of None \<Rightarrow> None | Some i \<Rightarrow> if s \<noteq> [] \<and> in_int64 i then Some i else None)"

text \<open>A \<^verbatim>\<open>float64\<close> with \<^verbatim>\<open>strconv.ParseFloat\<close>, the formatting of \<^verbatim>\<open>encoding/json\<close> and the test for finiteness.\<close>

record 'f floats =
  n_parse :: "string \<Rightarrow> 'f option"
  n_format :: "'f \<Rightarrow> string"
  n_finite :: "'f \<Rightarrow> bool"

subsection \<open>Values\<close>

datatype 'f mvalue =
    MNull
  | MBool bool
  | MInt int
  | MDouble 'f
  | MString string
  | MList "'f mvalue list"
  | MMap "(string \<times> 'f mvalue) list"
  | MOther

datatype 'f any =
    ANil
  | ABool bool
  | AString string
  | ANumber string
  | AInt int
  | AUint int
  | AFloat 'f
  | AList "'f any list"
  | AMap "(string \<times> 'f any) list"
  | ARaw raw
  | AOther raw

text \<open>A decoded object keeps the last of the members with the same name.\<close>

fun last_wins :: "(string \<times> 'x) list \<Rightarrow> (string \<times> 'x) list" where
  "last_wins [] = []"
| "last_wins ((k, v) # ms) = (if k \<in> fst ` set ms then last_wins ms else (k, v) # last_wins ms)"

fun decoded :: "doc \<Rightarrow> 'f any" where
  "decoded DNull = ANil"
| "decoded (DBool b) = ABool b"
| "decoded (DNum t) = ANumber t"
| "decoded (DStr s) = AString s"
| "decoded (DArr ds) = AList (map decoded ds)"
| "decoded (DObj ms) = AMap (last_wins (map (\<lambda>m. (fst m, decoded (snd m))) ms))"

definition decodeJSONValue :: "raw \<Rightarrow> 'f any go" where
  "decodeJSONValue r = (case r of RawDoc d \<Rightarrow> Inr (decoded d) | RawNone \<Rightarrow> Inl (Err ''EOF'')
     | RawBad _ \<Rightarrow> Inl (Err ''invalid character''))"

definition chapterMetadataFloat :: "'f floats \<Rightarrow> 'f \<Rightarrow> 'f mvalue go" where
  "chapterMetadataFloat F f = (if \<not> n_finite F f then Inl (Err ''floating-point metadata values must be finite'')
     else Inr (MDouble f))"

definition chapterMetadataUint :: "int \<Rightarrow> 'f mvalue go" where
  "chapterMetadataUint v = (if v > 2 ^ 63 - 1 then Inl (Err ''uint64 value exceeds int64 metadata range'')
     else Inr (MInt v))"

definition chapterMetadataNumber :: "'f floats \<Rightarrow> string \<Rightarrow> 'f mvalue go" where
  "chapterMetadataNumber F t =
     (let float = (case n_parse F t of None \<Rightarrow> Inl (Err ''strconv.ParseFloat'') | Some f \<Rightarrow> chapterMetadataFloat F f) in
      if set t \<inter> set ''.eE'' = {}
      then (case ParseInt t of Some i \<Rightarrow> Inr (MInt i) | None \<Rightarrow> float) else float)"

subsection \<open>Reading\<close>

fun collect :: "('x \<Rightarrow> 'y go) \<Rightarrow> 'x list \<Rightarrow> 'y list go" where
  "collect f [] = Inr []"
| "collect f (x # xs) = bind_res (f x) (\<lambda>y. bind_res (collect f xs) (\<lambda>ys. Inr (y # ys)))"

lemma collect_cong [fundef_cong]: "xs = ys \<Longrightarrow> (\<And>x. x \<in> set ys \<Longrightarrow> f x = g x) \<Longrightarrow> collect f xs = collect g ys"
  by (induction ys arbitrary: xs) auto

text \<open>
  The size of a value, counting a document inside it, on which the conversion recurses: decoding does
  not make a document larger.
\<close>

fun doc_weight :: "doc \<Rightarrow> nat" where
  "doc_weight (DArr ds) = Suc (sum_list (map doc_weight ds))"
| "doc_weight (DObj ms) = Suc (sum_list (map (\<lambda>m. doc_weight (snd m)) ms))"
| "doc_weight _ = 1"

fun raw_weight :: "raw \<Rightarrow> nat" where
  "raw_weight (RawDoc d) = doc_weight d"
| "raw_weight _ = 0"

fun any_weight :: "'f any \<Rightarrow> nat" where
  "any_weight (AList xs) = Suc (sum_list (map any_weight xs))"
| "any_weight (AMap ms) = Suc (sum_list (map (\<lambda>m. any_weight (snd m)) ms))"
| "any_weight (ARaw r) = Suc (raw_weight r)"
| "any_weight (AOther r) = Suc (raw_weight r)"
| "any_weight _ = 1"

lemma last_wins_weight: "sum_list (map (\<lambda>m. w (snd m)) (last_wins ms)) \<le> sum_list (map (\<lambda>m. w (snd m)) ms)"
  for w :: "'x \<Rightarrow> nat"
  by (induction ms rule: last_wins.induct) (auto intro: le_SucI trans_le_add2)

lemma decoded_weight: "any_weight (decoded d :: 'f any) \<le> doc_weight d"
proof (induction d)
  case (DArr ds)
  then show ?case by (auto intro: sum_list_mono)
next
  case (DObj ms)
  let ?ms = "map (\<lambda>m. (fst m, decoded (snd m) :: 'f any)) ms"
  have "sum_list (map (\<lambda>m. any_weight (snd m)) (last_wins ?ms)) \<le> sum_list (map (\<lambda>m. any_weight (snd m)) ?ms)"
    by (rule last_wins_weight)
  also have "\<dots> \<le> sum_list (map (\<lambda>m. doc_weight (snd m)) ms)"
    using DObj by (auto simp: comp_def intro!: sum_list_mono)
  finally show ?case by simp
qed auto

lemma member_weight: "x \<in> set xs \<Longrightarrow> w x \<le> sum_list (map w xs)" for w :: "'x \<Rightarrow> nat"
  by (induction xs) auto

text \<open>The position that a list or a map prefixes to the error of an element is dropped.\<close>

function chapterMetadataValueFromAny :: "'f floats \<Rightarrow> 'f any \<Rightarrow> 'f mvalue go" where
  "chapterMetadataValueFromAny F ANil = Inr MNull"
| "chapterMetadataValueFromAny F (ABool b) = Inr (MBool b)"
| "chapterMetadataValueFromAny F (AString s) = Inr (MString s)"
| "chapterMetadataValueFromAny F (ANumber t) = chapterMetadataNumber F t"
| "chapterMetadataValueFromAny F (AInt i) = Inr (MInt i)"
| "chapterMetadataValueFromAny F (AUint v) = chapterMetadataUint v"
| "chapterMetadataValueFromAny F (AFloat f) = chapterMetadataFloat F f"
| "chapterMetadataValueFromAny F (AList xs) =
     bind_res (collect (chapterMetadataValueFromAny F) xs) (\<lambda>vs. Inr (MList vs))"
| "chapterMetadataValueFromAny F (AMap ms) =
     bind_res (collect (\<lambda>m. bind_res (chapterMetadataValueFromAny F (snd m)) (\<lambda>v. Inr (fst m, v))) ms) (\<lambda>vs. Inr (MMap vs))"
| "chapterMetadataValueFromAny F (ARaw r) = (case r of
       RawDoc d \<Rightarrow> chapterMetadataValueFromAny F (decoded d)
     | _ \<Rightarrow> Inl (Err ''raw metadata value must be valid JSON''))"
| "chapterMetadataValueFromAny F (AOther r) = (case r of
       RawDoc d \<Rightarrow> chapterMetadataValueFromAny F (decoded d)
     | RawBad _ \<Rightarrow> Inl (Err ''metadata value cannot be represented as JSON'')
     | RawNone \<Rightarrow> Inl (Err ''json: unsupported type''))"
  by pat_completeness auto

termination
proof (relation "measure (\<lambda>(F, v). any_weight v)", goal_cases)
  case 1
  show ?case by simp
next
  case (2 F xs x)
  then show ?case using member_weight [of x xs any_weight] by simp
next
  case (3 F ms m)
  then show ?case using member_weight [of m ms "\<lambda>m. any_weight (snd m)"] by simp
next
  case (4 F r d)
  then show ?case by (simp add: le_imp_less_Suc [OF decoded_weight])
next
  case (5 F r d)
  then show ?case by (simp add: le_imp_less_Suc [OF decoded_weight])
qed

definition ChapterMetadataFromJSON :: "'f floats \<Rightarrow> raw \<Rightarrow> (string \<times> 'f mvalue) list option go" where
  "ChapterMetadataFromJSON F r =
     (if r = RawNone then Inr None
      else if \<not> json_Valid r then Inl (Err ''metadata must be valid JSON'')
      else bind_res (decodeJSONValue r) (\<lambda>v. case v of
          ANil \<Rightarrow> Inr None
        | AMap ms \<Rightarrow> bind_res (collect (\<lambda>m. bind_res (chapterMetadataValueFromAny F (snd m)) (\<lambda>v. Inr (fst m, v))) ms)
            (\<lambda>entries. Inr (Some entries))
        | _ \<Rightarrow> Inl (Err ''metadata must be a JSON object'')))"

subsection \<open>Writing\<close>

fun chapterMetadataValueToAny :: "'f mvalue \<Rightarrow> 'f any" where
  "chapterMetadataValueToAny MNull = ANil"
| "chapterMetadataValueToAny (MBool b) = ABool b"
| "chapterMetadataValueToAny (MInt i) = AInt i"
| "chapterMetadataValueToAny (MDouble f) = AFloat f"
| "chapterMetadataValueToAny (MString s) = AString s"
| "chapterMetadataValueToAny (MList vs) = AList (map chapterMetadataValueToAny vs)"
| "chapterMetadataValueToAny (MMap ms) = AMap (map (\<lambda>m. (fst m, chapterMetadataValueToAny (snd m))) ms)"
| "chapterMetadataValueToAny MOther = ANil"

definition chapterMetadataFieldsToAny :: "(string \<times> 'f mvalue) list \<Rightarrow> 'f any" where
  "chapterMetadataFieldsToAny entries = AMap (map (\<lambda>m. (fst m, chapterMetadataValueToAny (snd m))) entries)"

text \<open>\<^verbatim>\<open>json.Marshal\<close> of an untyped value: the members of a map are sorted by name.\<close>

fun json_Marshal :: "'f floats \<Rightarrow> 'f any \<Rightarrow> doc go" where
  "json_Marshal F ANil = Inr DNull"
| "json_Marshal F (ABool b) = Inr (DBool b)"
| "json_Marshal F (AString s) = Inr (DStr (coerceUTF8 s))"
| "json_Marshal F (ANumber t) = Inr (DNum t)"
| "json_Marshal F (AInt i) = Inr (DNum (format_int i))"
| "json_Marshal F (AUint v) = Inr (DNum (format_int v))"
| "json_Marshal F (AFloat f) = (if n_finite F f then Inr (DNum (n_format F f)) else Inl (Err ''json: unsupported value''))"
| "json_Marshal F (AList xs) = bind_res (collect (json_Marshal F) xs) (\<lambda>ds. Inr (DArr ds))"
| "json_Marshal F (AMap ms) =
     bind_res (collect (\<lambda>m. bind_res (json_Marshal F (snd m)) (\<lambda>d. Inr (fst m, d))) ms)
       (\<lambda>ds. Inr (DObj (map (\<lambda>m. (coerceUTF8 (fst m), snd m)) (sort_key fst ds))))"
| "json_Marshal F (ARaw r) = (case r of RawDoc d \<Rightarrow> Inr d | RawNone \<Rightarrow> Inr DNull | RawBad _ \<Rightarrow> Inl (Err ''json: error calling MarshalJSON''))"
| "json_Marshal F (AOther r) = (case r of RawDoc d \<Rightarrow> Inr d | _ \<Rightarrow> Inl (Err ''json: unsupported type''))"

definition ChapterMetadataToJSON :: "'f floats \<Rightarrow> (string \<times> 'f mvalue) list option \<Rightarrow> raw go" where
  "ChapterMetadataToJSON F entries = (case entries of None \<Rightarrow> Inr RawNone
     | Some ms \<Rightarrow> bind_res (json_Marshal F (chapterMetadataFieldsToAny ms)) (\<lambda>d. Inr (RawDoc d)))"

end
