(* ===== verification/Chapter_Guarantees.thy ===== *)
theory Chapter_Guarantees
  imports Chapter_Metadata
begin

section \<open>Guarantees of the chapter codec\<close>

text \<open>
  Chapter bodies and chapter metadata survive being stored. The exceptions are stated as they are: an
  execution record that is not JSON, a payload its own encoding does not preserve, and a \<^verbatim>\<open>float64\<close> with an
  integral value, which comes back as an integer.
\<close>

subsection \<open>Bodies\<close>

fun unboxed :: "'x boxed \<Rightarrow> 'x boxed" where
  "unboxed (Pointer x) = Held x"
| "unboxed b = b"

fun plain_body :: "('a, 's, 't) body \<Rightarrow> ('a, 's, 't) body" where
  "plain_body (JobAttemptOutcomeChapter x) = JobAttemptOutcomeChapter (unboxed x)"
| "plain_body (TaskAttemptOutcomeChapter x) = TaskAttemptOutcomeChapter (unboxed x)"
| "plain_body b = b"

fun outcome_stable :: "('a, 's, 't) payloads \<Rightarrow> ('a, 's, 't) outcome \<Rightarrow> bool" where
  "outcome_stable y (ApplicationOutputOutcome r) \<longleftrightarrow> True"
| "outcome_stable y (AppErrorOutcome x) \<longleftrightarrow> (case y_app_enc y x of None \<Rightarrow> True | Some r \<Rightarrow> y_app_dec y r = Some x)"
| "outcome_stable y (SystemErrorOutcome x) \<longleftrightarrow> (case y_system_enc y x of None \<Rightarrow> True | Some r \<Rightarrow> y_system_dec y r = Some x)"
| "outcome_stable y (TimeoutOutcome x) \<longleftrightarrow> (case y_timeout_enc y x of None \<Rightarrow> True | Some r \<Rightarrow> y_timeout_dec y r = Some x)"

fun body_stable :: "('a, 's, 't) payloads \<Rightarrow> ('a, 's, 't) body \<Rightarrow> bool" where
  "body_stable y (ExecutionChapter r) \<longleftrightarrow> json_Valid r"
| "body_stable y (JobAttemptOutcomeChapter x) \<longleftrightarrow> (\<forall>z \<in> set_boxed x. outcome_stable y z)"
| "body_stable y (TaskAttemptOutcomeChapter x) \<longleftrightarrow> (\<forall>z \<in> set_boxed x. outcome_stable y z)"
| "body_stable y _ \<longleftrightarrow> True"

lemma outcome_back:
  assumes "ChapterOutcomeToWire y x = Inr (kind, data)" "\<forall>z \<in> set_boxed x. outcome_stable y z"
  shows "ChapterOutcomeFromWire y kind data = Inr (unboxed x)"
proof -
  obtain z where z: "x = Held z \<or> x = Pointer z" "outcome_wire y z = Inr (kind, data)" "outcome_stable y z"
    using assms by (cases x) auto
  have "ChapterOutcomeFromWire y kind data = Inr (Held z)"
    using z(2,3) by (cases z)
      (auto simp: ChapterOutcomeFromWire_def cloneJSON_def or_error_def bind_res_Inr wire_names split: option.splits)
  with z(1) show ?thesis by auto
qed


definition sample_payloads :: "(string, string, string) payloads" where
  "sample_payloads = \<lparr>y_app_enc = (\<lambda>s. Some (RawDoc (DStr s))), y_app_dec = (\<lambda>r. case r of RawDoc (DStr s) \<Rightarrow> Some s | _ \<Rightarrow> None),
     y_system_enc = (\<lambda>s. Some (RawDoc (DStr s))), y_system_dec = (\<lambda>r. case r of RawDoc (DStr s) \<Rightarrow> Some s | _ \<Rightarrow> None),
     y_timeout_enc = (\<lambda>s. Some (RawDoc (DStr s))), y_timeout_dec = (\<lambda>r. case r of RawDoc (DStr s) \<Rightarrow> Some s | _ \<Rightarrow> None)\<rparr>"


subsection \<open>Decimal text\<close>

lemma parse_format_int: "in_int64 i \<Longrightarrow> ParseInt (format_int i) = Some i"
proof -
  assume i: "in_int64 i"
  obtain c cs where d: "decimal (nat i) = c # cs" using decimal_nonempty by (meson neq_Nil_conv)
  have "CHR ''-'' \<notin> set (decimal (nat i))" "CHR ''+'' \<notin> set (decimal (nat i))" by (intro decimal_not; simp)+
  then have sign: "c \<noteq> CHR ''-''" "c \<noteq> CHR ''+''" by (auto simp: d)
  have "parse_index (format_int i) = Some i"
  proof (cases "i < 0")
    case True
    then show ?thesis using decimal_nonempty [of "nat (- i)"] by (simp add: format_int_def parse_index_def parse_decimal)
  next
    case False
    then show ?thesis using sign parse_decimal [of "nat i"] by (simp add: format_int_def parse_index_def d)
  qed
  then show ?thesis using i decimal_nonempty by (auto simp: ParseInt_def format_int_def)
qed

lemma format_int_plain: "set (format_int i) \<inter> set ''.eE'' = {}"
proof -
  have "c \<notin> set (decimal n)" if "c \<in> set ''.eE''" for c n using that by (intro decimal_not) auto
  then show ?thesis by (auto simp: format_int_def)
qed

subsection \<open>Metadata\<close>

text \<open>What \<^verbatim>\<open>strconv\<close> documents: the text of a finite number is read back as that number.\<close>

definition floats_ok :: "'f floats \<Rightarrow> bool" where
  "floats_ok F \<longleftrightarrow> (\<forall>f. n_finite F f \<longrightarrow> n_parse F (n_format F f) = Some f)"

text \<open>The text of the number is not that of a 64-bit integer.\<close>

definition fractional :: "'f floats \<Rightarrow> 'f \<Rightarrow> bool" where
  "fractional F f \<longleftrightarrow> set (n_format F f) \<inter> set ''.eE'' \<noteq> {} \<or> ParseInt (n_format F f) = None"

definition names_ok :: "(string \<times> 'x) list \<Rightarrow> bool" where
  "names_ok ms \<longleftrightarrow> sorted (map fst ms) \<and> distinct (map fst ms) \<and> (\<forall>k \<in> fst ` set ms. valid_utf8 k)"

fun storable :: "'f floats \<Rightarrow> 'f mvalue \<Rightarrow> bool" where
  "storable F (MInt i) \<longleftrightarrow> in_int64 i"
| "storable F (MDouble f) \<longleftrightarrow> n_finite F f \<and> fractional F f"
| "storable F (MString s) \<longleftrightarrow> valid_utf8 s"
| "storable F (MList vs) \<longleftrightarrow> (\<forall>v \<in> set vs. storable F v)"
| "storable F (MMap ms) \<longleftrightarrow> names_ok ms \<and> (\<forall>m \<in> set ms. storable F (snd m))"
| "storable F MOther \<longleftrightarrow> False"
| "storable F _ \<longleftrightarrow> True"

lemma collect_map: "collect f (map g xs) = collect (\<lambda>x. f (g x)) xs"
  by (induction xs) auto

lemma collect_back:
  assumes "\<And>x. x \<in> set xs \<Longrightarrow> \<exists>d. f x = Inr d \<and> g d = Inr (h x)"
  shows "\<exists>ds. collect f xs = Inr ds \<and> collect g ds = Inr (map h xs)"
  using assms
proof (induction xs)
  case (Cons x xs)
  then obtain d ds where "f x = Inr d" "g d = Inr (h x)" "collect f xs = Inr ds" "collect g ds = Inr (map h xs)"
    by (metis list.set_intros)
  then show ?case by simp
qed simp

lemma last_wins_distinct: "distinct (map fst ms) \<Longrightarrow> last_wins ms = ms"
  by (induction ms rule: last_wins.induct) auto

lemma sort_sorted_names: "sorted (map fst ms) \<Longrightarrow> sort_key fst ms = ms"
  by (simp add: sort_key_id_if_sorted)

text \<open>The entries of a map, written and read back.\<close>

lemma members_back:
  assumes "names_ok ms" "\<And>m. m \<in> set ms \<Longrightarrow> \<exists>d. f (snd m) = Inr d \<and> g (decoded d :: 'f any) = Inr (snd m)"
  shows "\<exists>ds. bind_res (collect (\<lambda>m. bind_res (f (snd m)) (\<lambda>d. Inr (fst m, d))) ms)
      (\<lambda>ds. Inr (DObj (map (\<lambda>m. (coerceUTF8 (fst m), snd m)) (sort_key fst ds)))) = Inr (DObj ds) \<and>
    collect (\<lambda>m. bind_res (g (snd m)) (\<lambda>v. Inr (fst m, v))) (last_wins (map (\<lambda>m. (fst m, decoded (snd m) :: 'f any)) ds)) = Inr ms"
proof -
  let ?f = "\<lambda>m. bind_res (f (snd m)) (\<lambda>d. Inr (fst m, d))"
  have "\<exists>ds. collect ?f ms = Inr ds \<and>
      collect (\<lambda>m. bind_res (g (decoded (snd m) :: 'f any)) (\<lambda>v. Inr (fst m, v))) ds = Inr (map (\<lambda>m. m) ms)"
    by (rule collect_back) (use assms(2) in \<open>fastforce simp: bind_res_Inr\<close>)
  then obtain ds where ds: "collect ?f ms = Inr ds"
    "collect (\<lambda>m. bind_res (g (decoded (snd m) :: 'f any)) (\<lambda>v. Inr (fst m, v))) ds = Inr ms" by auto
  have keys: "map fst ds = map fst ms"
    using ds(1) by (induction ms arbitrary: ds) (auto simp: bind_res_Inr)
  have names: "\<And>k. k \<in> fst ` set ds \<Longrightarrow> valid_utf8 k"
    using assms(1) keys by (metis list.set_map names_ok_def)
  have "sort_key fst ds = ds" "last_wins (map (\<lambda>m. (fst m, decoded (snd m) :: 'f any)) ds) = map (\<lambda>m. (fst m, decoded (snd m))) ds"
    using assms(1) keys by (auto simp: names_ok_def comp_def intro!: sort_sorted_names last_wins_distinct)
  moreover have "map (\<lambda>m. (coerceUTF8 (fst m), snd m)) ds = ds"
    using names by (intro map_idI) (auto simp: valid_utf8_def)
  ultimately show ?thesis using ds by (intro exI [of _ ds]) (simp add: collect_map)
qed

lemma number_back:
  assumes "in_int64 i"
  shows "chapterMetadataNumber F (format_int i) = Inr (MInt i)"
  using format_int_plain [of i] parse_format_int [OF assms] by (simp add: chapterMetadataNumber_def Let_def)

lemma double_back:
  assumes "floats_ok F" "n_finite F f" "fractional F f"
  shows "chapterMetadataNumber F (n_format F f) = Inr (MDouble f)"
  using assms by (auto simp: chapterMetadataNumber_def fractional_def floats_ok_def chapterMetadataFloat_def Let_def
    split: option.splits)

lemma value_back:
  assumes "floats_ok F" "storable F v"
  shows "\<exists>d. json_Marshal F (chapterMetadataValueToAny v) = Inr d \<and> chapterMetadataValueFromAny F (decoded d) = Inr v"
  using assms(2)
proof (induction v)
  case (MInt i)
  then show ?case by (simp add: number_back)
next
  case (MDouble f)
  then show ?case using double_back [OF assms(1)] by simp
next
  case (MList vs)
  then have "\<exists>ds. collect (\<lambda>v. json_Marshal F (chapterMetadataValueToAny v)) vs = Inr ds \<and>
      collect (\<lambda>d. chapterMetadataValueFromAny F (decoded d)) ds = Inr (map (\<lambda>v. v) vs)"
    by (intro collect_back) auto
  then show ?case by (auto simp: collect_map)
next
  case (MMap ms)
  have "\<exists>ds. bind_res (collect (\<lambda>m. bind_res (json_Marshal F (chapterMetadataValueToAny (snd m))) (\<lambda>d. Inr (fst m, d))) ms)
      (\<lambda>ds. Inr (DObj (map (\<lambda>m. (coerceUTF8 (fst m), snd m)) (sort_key fst ds)))) = Inr (DObj ds) \<and>
    collect (\<lambda>m. bind_res (chapterMetadataValueFromAny F (snd m)) (\<lambda>v. Inr (fst m, v)))
      (last_wins (map (\<lambda>m. (fst m, decoded (snd m))) ds)) = Inr ms"
    by (rule members_back) (use MMap in \<open>fastforce simp: snds.simps\<close>)+
  then show ?case by (auto simp: collect_map)
qed (auto simp: valid_utf8_def)


text \<open>Two numbers, 1.5 and 3.\<close>

definition sample_floats :: "bool floats" where
  "sample_floats = \<lparr>n_parse = (\<lambda>s. if s = ''1.5'' then Some True else if s = ''3'' then Some False else None),
     n_format = (\<lambda>f. if f then ''1.5'' else ''3''), n_finite = (\<lambda>_. True)\<rparr>"


subsection \<open>Well-typed metadata\<close>

fun typed :: "'f floats \<Rightarrow> 'f mvalue \<Rightarrow> bool" where
  "typed F (MInt i) \<longleftrightarrow> in_int64 i"
| "typed F (MDouble f) \<longleftrightarrow> n_finite F f"
| "typed F (MList vs) \<longleftrightarrow> (\<forall>v \<in> set vs. typed F v)"
| "typed F (MMap ms) \<longleftrightarrow> distinct (map fst ms) \<and> (\<forall>m \<in> set ms. typed F (snd m))"
| "typed F MOther \<longleftrightarrow> False"
| "typed F _ \<longleftrightarrow> True"

text \<open>The values Go's \<^verbatim>\<open>any\<close> can hold: machine integers, and maps without a repeated name.\<close>

fun go_value :: "'f any \<Rightarrow> bool" where
  "go_value (AInt i) \<longleftrightarrow> in_int64 i"
| "go_value (AUint v) \<longleftrightarrow> 0 \<le> v"
| "go_value (AList xs) \<longleftrightarrow> (\<forall>x \<in> set xs. go_value x)"
| "go_value (AMap ms) \<longleftrightarrow> distinct (map fst ms) \<and> (\<forall>m \<in> set ms. go_value (snd m))"
| "go_value _ \<longleftrightarrow> True"

lemma last_wins_sub: "set (last_wins ms) \<subseteq> set ms"
  by (induction ms rule: last_wins.induct) auto

lemma last_wins_names: "distinct (map fst (last_wins ms))"
proof (induction ms rule: last_wins.induct)
  case (2 k v ms)
  then show ?case using last_wins_sub [of ms] by (auto simp: image_iff)
qed simp

lemma decoded_go_value: "go_value (decoded d :: 'f any)"
proof (induction d)
  case (DObj ms)
  let ?ms = "map (\<lambda>m. (fst m, decoded (snd m) :: 'f any)) ms"
  have "go_value (snd m)" if "m \<in> set (last_wins ?ms)" for m
    using that last_wins_sub [of ?ms] DObj by (fastforce simp: snds.simps)
  then show ?case by (simp add: last_wins_names)
qed auto

lemma collect_pairwise: "collect f xs = Inr ys \<longleftrightarrow> list_all2 (\<lambda>x y. f x = Inr y) xs ys"
  by (induction xs arbitrary: ys) (auto simp: bind_res_Inr list_all2_Cons1)

lemma collected: "collect f xs = Inr ys \<Longrightarrow> y \<in> set ys \<Longrightarrow> \<exists>x \<in> set xs. f x = Inr y"
  by (induction xs arbitrary: ys) (auto simp: bind_res_Inr)

lemma collect_succeeds: "(\<exists>ys. collect f xs = Inr ys) \<longleftrightarrow> (\<forall>x \<in> set xs. \<exists>y. f x = Inr y)"
  by (induction xs) (auto simp: bind_res_Inr)

lemma collected_members:
  assumes "collect (\<lambda>m. bind_res (g (snd m)) (\<lambda>v. Inr (fst m, v))) ms = Inr vs"
  shows "map fst vs = map fst ms \<and> (\<forall>v \<in> set vs. \<exists>m \<in> set ms. g (snd m) = Inr (snd v))"
proof
  show "map fst vs = map fst ms" using assms by (induction ms arbitrary: vs) (auto simp: bind_res_Inr)
  show "\<forall>v \<in> set vs. \<exists>m \<in> set ms. g (snd m) = Inr (snd v)"
    using collected [OF assms] by (fastforce simp: bind_res_Inr)
qed

lemma number_typed: "chapterMetadataNumber F t = Inr v \<Longrightarrow> typed F v"
  by (auto simp: chapterMetadataNumber_def chapterMetadataFloat_def ParseInt_def Let_def split: if_splits option.splits)

lemma value_typed: "go_value x \<Longrightarrow> chapterMetadataValueFromAny F x = Inr v \<Longrightarrow> typed F v"
proof (induction F x arbitrary: v rule: chapterMetadataValueFromAny.induct)
  case (4 F t)
  then show ?case by (simp add: number_typed)
next
  case (8 F xs)
  then obtain vs where "v = MList vs" "list_all2 (\<lambda>x y. chapterMetadataValueFromAny F x = Inr y) xs vs"
    by (auto simp: bind_res_Inr collect_pairwise)
  then show ?case using 8 by (force simp: list_all2_conv_all_nth set_conv_nth)
next
  case (9 F ms)
  then obtain vs where vs: "v = MMap vs"
    "collect (\<lambda>m. bind_res (chapterMetadataValueFromAny F (snd m)) (\<lambda>v. Inr (fst m, v))) ms = Inr vs"
    by (auto simp: bind_res_Inr)
  then show ?case using collected_members [OF vs(2)] 9 by auto
qed (auto simp: chapterMetadataUint_def chapterMetadataFloat_def in_int64_def decoded_go_value split: if_splits raw.splits)

text \<open>Whatever is well typed can be written, and what was written can be read.\<close>

lemma number_read: "in_int64 i \<Longrightarrow> \<exists>v. chapterMetadataNumber F (format_int i) = Inr v"
  by (simp add: number_back)

lemma double_read: "floats_ok F \<Longrightarrow> n_finite F f \<Longrightarrow> \<exists>v. chapterMetadataNumber F (n_format F f) = Inr v"
  by (auto simp: chapterMetadataNumber_def chapterMetadataFloat_def floats_ok_def Let_def split: option.splits)

lemma members_read:
  fixes g :: "'f any \<Rightarrow> 'f mvalue go"
  assumes "\<And>m. m \<in> set ms \<Longrightarrow> \<exists>d. f (snd m) = Inr d \<and> (\<exists>v. g (decoded d) = Inr v)"
  shows "\<exists>ds. bind_res (collect (\<lambda>m. bind_res (f (snd m)) (\<lambda>d. Inr (fst m, d))) ms)
      (\<lambda>ds. Inr (DObj (map (\<lambda>m. (coerceUTF8 (fst m), snd m)) (sort_key fst ds)))) = Inr (DObj ds) \<and>
    (\<exists>vs. collect (\<lambda>m. bind_res (g (snd m)) (\<lambda>v. Inr (fst m, v))) (last_wins (map (\<lambda>m. (fst m, decoded (snd m))) ds)) = Inr vs)"
proof -
  have "\<exists>ds. collect (\<lambda>m. bind_res (f (snd m)) (\<lambda>d. Inr (fst m, d))) ms = Inr ds"
    unfolding collect_succeeds using assms by (fastforce simp: bind_res_Inr)
  then obtain ds where ds: "collect (\<lambda>m. bind_res (f (snd m)) (\<lambda>d. Inr (fst m, d))) ms = Inr ds" by blast
  have "\<exists>v. g (decoded (snd m)) = Inr v" if "m \<in> set ds" for m
    using collected_members [OF ds] assms that by fastforce
  then have "\<exists>y. (case m of (k, x) \<Rightarrow> bind_res (g x) (\<lambda>v. Inr (k, v))) = Inr y"
    if "m \<in> set (last_wins (map (\<lambda>m. (fst m, decoded (snd m))) (map (\<lambda>m. (coerceUTF8 (fst m), snd m)) (sort_key fst ds))))" for m
    using that last_wins_sub by (fastforce simp: bind_res_Inr)
  then have "\<exists>vs. collect (\<lambda>m. bind_res (g (snd m)) (\<lambda>v. Inr (fst m, v)))
      (last_wins (map (\<lambda>m. (fst m, decoded (snd m))) (map (\<lambda>m. (coerceUTF8 (fst m), snd m)) (sort_key fst ds)))) = Inr vs"
    unfolding collect_succeeds by (auto simp: case_prod_unfold)
  then show ?thesis using ds by auto
qed

lemma value_read:
  assumes "floats_ok F" "typed F v"
  shows "\<exists>d. json_Marshal F (chapterMetadataValueToAny v) = Inr d \<and> (\<exists>w. chapterMetadataValueFromAny F (decoded d) = Inr w)"
  using assms(2)
proof (induction v)
  case (MInt i)
  then show ?case by (simp add: number_read)
next
  case (MDouble f)
  then show ?case using double_read [OF assms(1)] by simp
next
  case (MList vs)
  then have "\<exists>ds. collect (\<lambda>v. json_Marshal F (chapterMetadataValueToAny v)) vs = Inr ds"
    unfolding collect_succeeds by auto
  then obtain ds where ds: "collect (\<lambda>v. json_Marshal F (chapterMetadataValueToAny v)) vs = Inr ds" by blast
  have "\<exists>w. chapterMetadataValueFromAny F (decoded d) = Inr w" if d: "d \<in> set ds" for d
  proof -
    obtain v where "v \<in> set vs" "json_Marshal F (chapterMetadataValueToAny v) = Inr d"
      using collected [OF ds d] by blast
    then show ?thesis using MList by fastforce
  qed
  then have "\<exists>ws. collect (\<lambda>d. chapterMetadataValueFromAny F (decoded d)) ds = Inr ws" unfolding collect_succeeds by blast
  then show ?case using ds by (auto simp: collect_map)
next
  case (MMap ms)
  have "\<exists>ds. bind_res (collect (\<lambda>m. bind_res (json_Marshal F (chapterMetadataValueToAny (snd m))) (\<lambda>d. Inr (fst m, d))) ms)
      (\<lambda>ds. Inr (DObj (map (\<lambda>m. (coerceUTF8 (fst m), snd m)) (sort_key fst ds)))) = Inr (DObj ds) \<and>
    (\<exists>vs. collect (\<lambda>m. bind_res (chapterMetadataValueFromAny F (snd m)) (\<lambda>v. Inr (fst m, v)))
      (last_wins (map (\<lambda>m. (fst m, decoded (snd m))) ds)) = Inr vs)"
    by (rule members_read) (use MMap in \<open>fastforce simp: snds.simps\<close>)
  then show ?case by (auto simp: collect_map)
qed auto

text \<open>
  C37: metadata is well typed. Whatever document metadata is read from, every value that is accepted is of one
  of the kinds: integers fit 64 bits, doubles are finite, no name occurs twice in a map. And well-typed
  metadata is never stuck: it can be written, what was written can be read, and is well typed again.
\<close>

theorem metadata_well_typed:
  assumes "floats_ok F"
  shows "(\<forall>r mfields. ChapterMetadataFromJSON F r = Inr mfields \<longrightarrow> (\<forall>ms. mfields = Some ms \<longrightarrow> typed F (MMap ms))) \<and>
    (\<forall>ms. typed F (MMap ms) \<longrightarrow> (\<exists>r ms'. ChapterMetadataToJSON F (Some ms) = Inr r \<and>
       ChapterMetadataFromJSON F r = Inr (Some ms') \<and> typed F (MMap ms')))"
proof -
  have read: "typed F (MMap ms)" if r: "ChapterMetadataFromJSON F r = Inr (Some ms)" for r ms
  proof -
    obtain d where d: "r = RawDoc d"
      using r by (cases r) (auto simp: ChapterMetadataFromJSON_def decodeJSONValue_def)
    obtain xs where "decoded d = (AMap xs :: 'a any)" "chapterMetadataValueFromAny F (AMap xs) = Inr (MMap ms)"
      using r by (cases "decoded d :: 'a any") (auto simp: d ChapterMetadataFromJSON_def decodeJSONValue_def bind_res_Inr split: if_splits)
    then show ?thesis using value_typed decoded_go_value by metis
  qed
  have "\<exists>r ms'. ChapterMetadataToJSON F (Some ms) = Inr r \<and> ChapterMetadataFromJSON F r = Inr (Some ms')"
    if t: "typed F (MMap ms)" for ms
  proof -
    have "\<exists>ds. bind_res (collect (\<lambda>m. bind_res (json_Marshal F (chapterMetadataValueToAny (snd m))) (\<lambda>d. Inr (fst m, d))) ms)
        (\<lambda>ds. Inr (DObj (map (\<lambda>m. (coerceUTF8 (fst m), snd m)) (sort_key fst ds)))) = Inr (DObj ds) \<and>
      (\<exists>vs. collect (\<lambda>m. bind_res (chapterMetadataValueFromAny F (snd m)) (\<lambda>v. Inr (fst m, v)))
        (last_wins (map (\<lambda>m. (fst m, decoded (snd m))) ds)) = Inr vs)"
      by (rule members_read) (use t value_read [OF assms] in auto)
    then show ?thesis
      by (force simp: ChapterMetadataToJSON_def ChapterMetadataFromJSON_def chapterMetadataFieldsToAny_def
          decodeJSONValue_def collect_map bind_res_Inr)
  qed
  then show ?thesis using read by blast
qed

theorem metadata_well_typed_witness:
  "\<exists>r ms'. ChapterMetadataToJSON sample_floats (Some [(''a'', MInt 9223372036854775807), (''b'', MDouble False)]) = Inr r \<and>
     ChapterMetadataFromJSON sample_floats r = Inr (Some ms') \<and> typed sample_floats (MMap ms')"
proof -
  have "floats_ok sample_floats" by (auto simp: floats_ok_def sample_floats_def)
  moreover have "typed sample_floats (MMap [(''a'', MInt 9223372036854775807), (''b'', MDouble False)])" by code_simp
  ultimately show ?thesis using metadata_well_typed [THEN conjunct2] by blast
qed

end
