(* ===== verification/Chapter_Clone.thy ===== *)
theory Chapter_Clone
  imports Main
begin

section \<open>Cloning chapters\<close>

text \<open>
  The clone functions of \<^verbatim>\<open>runtimecodec/chapter.go\<close> on an explicit heap, because their purpose is that a
  clone shares no memory with its original. Slices, maps and pointers are addresses of cells; a nil slice
  is no address and stands for the empty slice too. Structs are values that contain addresses; what the
  code copies without looking inside is one string. The functions read cells, allocate new ones and never
  write to old ones. Values of attributes and of metadata may nest without bound, and Go does not return
  on cyclic ones: the recursion has fuel, and no result stands for not returning (or for a cell of another
  type, which the type checker of Go rules out).
\<close>

subsection \<open>Values and cells\<close>

datatype 'r aval =
    VMap "'r option"
  | VSlice "'r option"
  | VStrings "'r option"
  | VRaw "'r option"
  | VBytes "'r option"
  | VOther string

datatype 'r app_error = AppError (ae_Attrs: "'r option") (ae_Stacktrace: "'r option") (ae_InputRef: "'r option") (ae_rest: string)
datatype 'r system_error = SystemError (se_Stacktrace: "'r option") (se_InputRef: "'r option") (se_rest: string)
datatype 'r timeout = Timeout (to_InputRef: "'r option") (to_rest: string)

datatype ('x, 'r) iface = IHeld 'x | IPointer 'r | INilPointer | IOther string

datatype 'r coutcome =
    OApplication "'r option"
  | OAppError "'r app_error"
  | OSystemError "'r system_error"
  | OTimeout "'r timeout"

datatype 'r cbody =
    BExecution "'r option"
  | BJobStart "'r option"
  | BJobAttempt "('r coutcome, 'r) iface"
  | BTaskAttempt "('r coutcome, 'r) iface"
  | BRestartExtra "'r option"

datatype 'r mval = Mval (mv_rest: string) (mv_List: "'r option") (mv_Map: "'r option")

datatype 'r whole_chapter = Chapter (ch_Body: "('r cbody, 'r) iface") (ch_Metadata: "'r option") (ch_Artifacts: "'r option") (ch_rest: string)

datatype 'r cell =
    is_bytes: CBytes string
  | is_strings: CStrings "string list"
  | is_ref: CRef string
  | is_artifacts: CArtifacts "string list"
  | CAnys "'r aval list"
  | CAttrs "(string \<times> 'r aval) list"
  | COutcome "'r coutcome"
  | CBody "'r cbody"
  | CMvals "'r mval list"
  | CFields "(string \<times> 'r mval) list"

type_synonym addr = nat

record heap =
  cells :: "addr \<Rightarrow> addr cell option"
  free :: addr

type_synonym 'a alloc = "heap \<Rightarrow> ('a \<times> heap) option"

definition give :: "'a \<Rightarrow> 'a alloc" where
  "give x h = Some (x, h)"

definition stuck :: "'a alloc" where
  "stuck h = None"

definition bnd :: "'a alloc \<Rightarrow> ('a \<Rightarrow> 'b alloc) \<Rightarrow> 'b alloc" where
  "bnd f g h = (case f h of None \<Rightarrow> None | Some (x, h1) \<Rightarrow> g x h1)"

definition alloc :: "addr cell \<Rightarrow> addr alloc" where
  "alloc c h = Some (free h, h\<lparr>cells := (cells h)(free h \<mapsto> c), free := Suc (free h)\<rparr>)"

definition load :: "addr \<Rightarrow> addr cell option alloc" where
  "load a h = Some (cells h a, h)"

fun traverse :: "('a \<Rightarrow> 'b alloc) \<Rightarrow> 'a list \<Rightarrow> 'b list alloc" where
  "traverse f [] = give []"
| "traverse f (x # xs) = bnd (f x) (\<lambda>y. bnd (traverse f xs) (\<lambda>ys. give (y # ys)))"

definition on_ref :: "('r \<Rightarrow> 's alloc) \<Rightarrow> 'r option \<Rightarrow> 's option alloc" where
  "on_ref f r = (case r of None \<Rightarrow> give None | Some a \<Rightarrow> bnd (f a) (\<lambda>b. give (Some b)))"

subsection \<open>Leaves\<close>

definition copied :: "(addr cell \<Rightarrow> bool) \<Rightarrow> addr \<Rightarrow> addr alloc" where
  "copied is a = bnd (load a) (\<lambda>c. case c of None \<Rightarrow> stuck | Some x \<Rightarrow> if is x then alloc x else stuck)"

definition clone_json :: "addr option \<Rightarrow> addr option alloc" where
  "clone_json = on_ref (copied is_bytes)"

definition clone_strings :: "addr option \<Rightarrow> addr option alloc" where
  "clone_strings = on_ref (copied is_strings)"

definition clone_ref :: "addr option \<Rightarrow> addr option alloc" where
  "clone_ref = on_ref (copied is_ref)"

subsection \<open>Attributes and payloads\<close>

definition clone_attrs :: "(addr aval \<Rightarrow> addr aval alloc) \<Rightarrow> addr option \<Rightarrow> addr option alloc" where
  "clone_attrs f = on_ref (\<lambda>a. bnd (load a) (\<lambda>c. case c of
     Some (CAttrs ms) \<Rightarrow> bnd (traverse (\<lambda>m. bnd (f (snd m)) (\<lambda>v. give (fst m, v))) ms) (\<lambda>ms'. alloc (CAttrs ms'))
   | _ \<Rightarrow> stuck))"

definition clone_anys :: "(addr aval \<Rightarrow> addr aval alloc) \<Rightarrow> addr option \<Rightarrow> addr option alloc" where
  "clone_anys f = on_ref (\<lambda>a. bnd (load a) (\<lambda>c. case c of
     Some (CAnys vs) \<Rightarrow> bnd (traverse f vs) (\<lambda>vs'. alloc (CAnys vs'))
   | _ \<Rightarrow> stuck))"

fun cloneAttrValue :: "nat \<Rightarrow> addr aval \<Rightarrow> addr aval alloc" where
  "cloneAttrValue 0 v = stuck"
| "cloneAttrValue (Suc n) v = (case v of
     VMap r \<Rightarrow> bnd (clone_attrs (cloneAttrValue n) r) (\<lambda>r'. give (VMap r'))
   | VSlice r \<Rightarrow> bnd (clone_anys (cloneAttrValue n) r) (\<lambda>r'. give (VSlice r'))
   | VStrings r \<Rightarrow> bnd (clone_strings r) (\<lambda>r'. give (VStrings r'))
   | VRaw r \<Rightarrow> bnd (clone_json r) (\<lambda>r'. give (VRaw r'))
   | VBytes r \<Rightarrow> bnd (clone_json r) (\<lambda>r'. give (VBytes r'))
   | VOther s \<Rightarrow> give v)"

definition cloneAttrs :: "nat \<Rightarrow> addr option \<Rightarrow> addr option alloc" where
  "cloneAttrs n = clone_attrs (cloneAttrValue n)"

definition cloneAppErrorPayload :: "nat \<Rightarrow> addr app_error \<Rightarrow> addr app_error alloc" where
  "cloneAppErrorPayload n p = bnd (cloneAttrs n (ae_Attrs p)) (\<lambda>attrs. bnd (clone_strings (ae_Stacktrace p)) (\<lambda>trace.
     bnd (clone_ref (ae_InputRef p)) (\<lambda>ref. give (AppError attrs trace ref (ae_rest p)))))"

definition cloneSystemErrorPayload :: "addr system_error \<Rightarrow> addr system_error alloc" where
  "cloneSystemErrorPayload p = bnd (clone_strings (se_Stacktrace p)) (\<lambda>trace.
     bnd (clone_ref (se_InputRef p)) (\<lambda>ref. give (SystemError trace ref (se_rest p))))"

definition cloneTimeoutPayload :: "addr timeout \<Rightarrow> addr timeout alloc" where
  "cloneTimeoutPayload p = bnd (clone_ref (to_InputRef p)) (\<lambda>ref. give (Timeout ref (to_rest p)))"

subsection \<open>Outcomes and bodies\<close>

definition clone_outcome :: "nat \<Rightarrow> addr coutcome \<Rightarrow> addr coutcome alloc" where
  "clone_outcome n x = (case x of
     OApplication r \<Rightarrow> bnd (clone_json r) (\<lambda>r'. give (OApplication r'))
   | OAppError p \<Rightarrow> bnd (cloneAppErrorPayload n p) (\<lambda>p'. give (OAppError p'))
   | OSystemError p \<Rightarrow> bnd (cloneSystemErrorPayload p) (\<lambda>p'. give (OSystemError p'))
   | OTimeout p \<Rightarrow> bnd (cloneTimeoutPayload p) (\<lambda>p'. give (OTimeout p')))"

text \<open>A nil pointer becomes a nil interface, which is one of the other values.\<close>

definition CloneChapterOutcome :: "nat \<Rightarrow> (addr coutcome, addr) iface \<Rightarrow> (addr coutcome, addr) iface alloc" where
  "CloneChapterOutcome n i = (case i of
     IHeld x \<Rightarrow> bnd (clone_outcome n x) (\<lambda>x'. give (IHeld x'))
   | IPointer a \<Rightarrow> bnd (load a) (\<lambda>c. case c of
       Some (COutcome x) \<Rightarrow> bnd (clone_outcome n x) (\<lambda>x'. bnd (alloc (COutcome x')) (\<lambda>b. give (IPointer b)))
     | _ \<Rightarrow> stuck)
   | INilPointer \<Rightarrow> give (IOther '''')
   | IOther s \<Rightarrow> give i)"

definition clone_body :: "nat \<Rightarrow> addr cbody \<Rightarrow> addr cbody alloc" where
  "clone_body n b = (case b of
     BExecution r \<Rightarrow> bnd (clone_json r) (\<lambda>r'. give (BExecution r'))
   | BJobStart r \<Rightarrow> bnd (clone_json r) (\<lambda>r'. give (BJobStart r'))
   | BJobAttempt x \<Rightarrow> bnd (CloneChapterOutcome n x) (\<lambda>x'. give (BJobAttempt x'))
   | BTaskAttempt x \<Rightarrow> bnd (CloneChapterOutcome n x) (\<lambda>x'. give (BTaskAttempt x'))
   | BRestartExtra r \<Rightarrow> bnd (clone_json r) (\<lambda>r'. give (BRestartExtra r')))"

definition CloneChapterBody :: "nat \<Rightarrow> (addr cbody, addr) iface \<Rightarrow> (addr cbody, addr) iface alloc" where
  "CloneChapterBody n i = (case i of
     IHeld x \<Rightarrow> bnd (clone_body n x) (\<lambda>x'. give (IHeld x'))
   | IPointer a \<Rightarrow> bnd (load a) (\<lambda>c. case c of
       Some (CBody x) \<Rightarrow> bnd (clone_body n x) (\<lambda>x'. bnd (alloc (CBody x')) (\<lambda>b. give (IPointer b)))
     | _ \<Rightarrow> stuck)
   | INilPointer \<Rightarrow> give (IOther '''')
   | IOther s \<Rightarrow> give i)"

subsection \<open>Metadata and chapters\<close>

definition clone_fields :: "(addr mval \<Rightarrow> addr mval alloc) \<Rightarrow> addr option \<Rightarrow> addr option alloc" where
  "clone_fields f = on_ref (\<lambda>a. bnd (load a) (\<lambda>c. case c of
     Some (CFields ms) \<Rightarrow> bnd (traverse (\<lambda>m. bnd (f (snd m)) (\<lambda>v. give (fst m, v))) ms) (\<lambda>ms'. alloc (CFields ms'))
   | _ \<Rightarrow> stuck))"

definition clone_mvals :: "(addr mval \<Rightarrow> addr mval alloc) \<Rightarrow> addr option \<Rightarrow> addr option alloc" where
  "clone_mvals f = on_ref (\<lambda>a. bnd (load a) (\<lambda>c. case c of
     Some (CMvals vs) \<Rightarrow> bnd (traverse f vs) (\<lambda>vs'. alloc (CMvals vs'))
   | _ \<Rightarrow> stuck))"

fun cloneChapterMetadataValue :: "nat \<Rightarrow> addr mval \<Rightarrow> addr mval alloc" where
  "cloneChapterMetadataValue 0 v = stuck"
| "cloneChapterMetadataValue (Suc n) v =
     bnd (clone_mvals (cloneChapterMetadataValue n) (mv_List v)) (\<lambda>vs.
     bnd (clone_fields (cloneChapterMetadataValue n) (mv_Map v)) (\<lambda>ms. give (Mval (mv_rest v) vs ms)))"

definition cloneChapterMetadataFields :: "nat \<Rightarrow> addr option \<Rightarrow> addr option alloc" where
  "cloneChapterMetadataFields n = clone_fields (cloneChapterMetadataValue n)"

definition CloneChapterMetadata :: "nat \<Rightarrow> addr option \<Rightarrow> addr option alloc" where
  "CloneChapterMetadata n r = (if r = None then give None else cloneChapterMetadataFields n r)"

definition CloneChapter :: "nat \<Rightarrow> addr whole_chapter \<Rightarrow> addr whole_chapter alloc" where
  "CloneChapter n c = bnd (CloneChapterBody n (ch_Body c)) (\<lambda>b. bnd (CloneChapterMetadata n (ch_Metadata c)) (\<lambda>m.
     bnd (on_ref (copied is_artifacts) (ch_Artifacts c)) (\<lambda>xs. give (Chapter b m xs (ch_rest c)))))"

end
