(* ===== verification/Clone_Safety.thy ===== *)
theory Clone_Safety
  imports Chapter_Clone
begin

section \<open>A clone is a separate copy\<close>

text \<open>
  What a value looks like from outside is the tree that following its addresses yields, cut at some
  depth. A clone looks like its original at every depth, and the cells it consists of are all new, so
  what is written to other memory later cannot change it. Each type that contains addresses is an
  instance of the locale of containers; the clone functions are composed by a handful of rules.
\<close>

subsection \<open>Looking at memory\<close>

datatype tree = Cut | Tree "tree cell"

fun view :: "nat \<Rightarrow> heap \<Rightarrow> addr \<Rightarrow> tree" where
  "view 0 h a = Cut"
| "view (Suc n) h a = (case cells h a of None \<Rightarrow> Cut | Some c \<Rightarrow> Tree (map_cell (view n h) c))"

fun no_nil_pointer :: "('x, 'r) iface \<Rightarrow> bool" where
  "no_nil_pointer INilPointer = False"
| "no_nil_pointer _ = True"

fun body_plain :: "'r cbody \<Rightarrow> bool" where
  "body_plain (BJobAttempt x) = no_nil_pointer x"
| "body_plain (BTaskAttempt x) = no_nil_pointer x"
| "body_plain _ = True"

fun cell_plain :: "'r cell \<Rightarrow> bool" where
  "cell_plain (CBody b) = body_plain b"
| "cell_plain _ = True"

text \<open>Every address in use is that of a cell that was allocated; no cell holds a typed nil pointer.\<close>

definition closed :: "heap \<Rightarrow> bool" where
  "closed h \<longleftrightarrow> (\<forall>a c. cells h a = Some c \<longrightarrow> a < free h \<and> set_cell c \<subseteq> {..<free h} \<and> cell_plain c)"

definition grows :: "heap \<Rightarrow> heap \<Rightarrow> bool" where
  "grows h h' \<longleftrightarrow> free h \<le> free h' \<and> (\<forall>a < free h. cells h' a = cells h a)"

definition island :: "heap \<Rightarrow> heap \<Rightarrow> bool" where
  "island h h' \<longleftrightarrow> grows h h' \<and> closed h' \<and>
     (\<forall>a c. free h \<le> a \<longrightarrow> cells h' a = Some c \<longrightarrow> set_cell c \<subseteq> {free h..<free h'})"

lemma grows_refl [simp]: "grows h h"
  by (simp add: grows_def)

lemma grows_trans: "grows h h1 \<Longrightarrow> grows h1 h2 \<Longrightarrow> grows h h2"
  by (auto simp: grows_def)

lemma view_grows: "closed h \<Longrightarrow> grows h h' \<Longrightarrow> a < free h \<Longrightarrow> view n h' a = view n h a"
proof (induction n arbitrary: a)
  case (Suc n)
  have "cells h' a = cells h a" using Suc.prems by (simp add: grows_def)
  moreover have "map_cell (view n h') c = map_cell (view n h) c" if "cells h a = Some c" for c
    using Suc that by (intro cell.map_cong0) (auto simp: closed_def)
  ultimately show ?case by (simp split: option.split)
qed simp

lemma island_refl: "closed h \<Longrightarrow> island h h"
  by (fastforce simp: island_def closed_def)

lemma island_trans:
  assumes "island h h1" "island h1 h2"
  shows "island h h2"
  unfolding island_def
proof (intro conjI allI impI)
  show "grows h h2" "closed h2" using assms grows_trans by (auto simp: island_def)
  fix a c assume a: "free h \<le> a" "cells h2 a = Some c"
  show "set_cell c \<subseteq> {free h..<free h2}"
  proof (cases "a < free h1")
    case True
    then have "cells h1 a = Some c" using assms(2) a(2) by (simp add: island_def grows_def)
    then have "set_cell c \<subseteq> {free h..<free h1}" using assms(1) a(1) by (simp add: island_def)
    then show ?thesis using assms(2) by (auto simp: island_def grows_def)
  next
    case False
    then have "set_cell c \<subseteq> {free h1..<free h2}" using assms(2) a(2) by (simp add: island_def not_less)
    then show ?thesis using assms(1) by (auto simp: island_def grows_def)
  qed
qed

text \<open>Nothing that is written outside an island changes how its cells look.\<close>

lemma island_view:
  assumes "island h h'" "\<forall>a. free h \<le> a \<and> a < free h' \<longrightarrow> cells h'' a = cells h' a" "a \<in> {free h..<free h'}"
  shows "view n h'' a = view n h' a"
  using assms(3)
proof (induction n arbitrary: a)
  case (Suc n)
  have "cells h'' a = cells h' a" using assms(2) Suc.prems by simp
  moreover have "map_cell (view n h'') c = map_cell (view n h') c" if "cells h' a = Some c" for c
  proof (rule cell.map_cong0)
    have "set_cell c \<subseteq> {free h..<free h'}" using assms(1) that Suc.prems unfolding island_def atLeastLessThan_iff by blast
    then show "view n h'' z = view n h' z" if "z \<in> set_cell c" for z using Suc.IH that by blast
  qed
  ultimately show ?case by (simp split: option.split)
qed simp

subsection \<open>Copies\<close>

definition copy_of :: "((addr \<Rightarrow> tree) \<Rightarrow> 'v \<Rightarrow> 't) \<Rightarrow> ('v \<Rightarrow> addr set) \<Rightarrow> ('v \<Rightarrow> bool) \<Rightarrow> heap \<Rightarrow> 'v \<Rightarrow> 'v \<Rightarrow> heap \<Rightarrow> bool" where
  "copy_of look refs ok h v v' h' \<longleftrightarrow> island h h' \<and> refs v' \<subseteq> {free h..<free h'} \<and> ok v' \<and>
     (\<forall>n. look (view n h') v' = look (view n h) v)"

definition cloner :: "((addr \<Rightarrow> tree) \<Rightarrow> 'v \<Rightarrow> 't) \<Rightarrow> ('v \<Rightarrow> addr set) \<Rightarrow> ('v \<Rightarrow> bool) \<Rightarrow> ('v \<Rightarrow> 'v alloc) \<Rightarrow> bool" where
  "cloner look refs ok f \<longleftrightarrow> (\<forall>h v v' h'. closed h \<and> refs v \<subseteq> {..<free h} \<and> ok v \<and> f v h = Some (v', h') \<longrightarrow>
     copy_of look refs ok h v v' h')"

abbreviation (input) any_value :: "'v \<Rightarrow> bool" where
  "any_value v \<equiv> True"

lemma clonerD:
  assumes "cloner look refs ok f" "closed h" "refs v \<subseteq> {..<free h}" "ok v" "f v h = Some (v', h')"
  shows "copy_of look refs ok h v v' h'"
  using assms unfolding cloner_def by blast

lemma bnd_Some: "bnd f g h = Some r \<longleftrightarrow> (\<exists>x h1. f h = Some (x, h1) \<and> g x h1 = Some r)"
  by (auto simp: bnd_def split: option.splits)

lemma give_Some [simp]: "give x h = Some r \<longleftrightarrow> r = (x, h)"
  by (auto simp: give_def)

lemma stuck_Some [simp]: "stuck h \<noteq> Some r"
  by (simp add: stuck_def)

lemma load_Some [simp]: "load a h = Some r \<longleftrightarrow> r = (cells h a, h)"
  by (auto simp: load_def)

text \<open>A type whose values contain addresses: how a value looks depends on the addresses in it only.\<close>

locale container =
  fixes look :: "(addr \<Rightarrow> tree) \<Rightarrow> 'v \<Rightarrow> 't" and refs :: "'v \<Rightarrow> addr set"
  assumes look_cong: "(\<And>a. a \<in> refs v \<Longrightarrow> f a = g a) \<Longrightarrow> look f v = look g v"
begin

lemma look_grows: "closed h \<Longrightarrow> grows h h' \<Longrightarrow> refs v \<subseteq> {..<free h} \<Longrightarrow> look (view n h') v = look (view n h) v"
  by (rule look_cong) (auto intro: view_grows)

lemma copy_later:
  assumes "copy_of look refs ok h v v' h1" "island h1 h2"
  shows "copy_of look refs ok h v v' h2"
proof -
  have "closed h1" "grows h1 h2" using assms by (auto simp: copy_of_def island_def)
  moreover have "refs v' \<subseteq> {..<free h1}" using assms(1) by (auto simp: copy_of_def)
  ultimately have "look (view n h2) v' = look (view n h1) v'" for n by (rule look_grows)
  then show ?thesis using assms island_trans [of h h1 h2] by (auto simp: copy_of_def island_def grows_def)
qed

lemma copy_from:
  assumes "closed h" "island h h1" "refs v \<subseteq> {..<free h}" "copy_of look refs ok h1 v v' h2"
  shows "copy_of look refs ok h v v' h2"
proof -
  have "look (view n h1) v = look (view n h) v" for n using assms by (intro look_grows) (auto simp: island_def)
  then show ?thesis using assms island_trans [of h h1 h2] by (auto simp: copy_of_def island_def grows_def)
qed

lemma copy_refl: "closed h \<Longrightarrow> refs v = {} \<Longrightarrow> ok v \<Longrightarrow> copy_of look refs ok h v v h"
  by (simp add: copy_of_def island_refl)

end

subsection \<open>The rules\<close>

abbreviation (input) look_addr :: "(addr \<Rightarrow> tree) \<Rightarrow> addr \<Rightarrow> tree" where
  "look_addr g a \<equiv> g a"

text \<open>One cell: its content is copied and put into a new cell.\<close>

context container
begin

lemma alloc_copy:
  assumes copy: "copy_of look refs ok h v v' h1" and old: "cells h a = Some (K v)"
    and con: "\<And>g w. map_cell g (K w) = K' (look g w)" "\<And>w. set_cell (K w) = refs w" "\<And>w. ok w \<Longrightarrow> cell_plain (K w)"
    and run: "alloc (K v') h1 = Some (b, h2)"
  shows "copy_of look_addr (\<lambda>a. {a}) any_value h a b h2"
proof -
  have b: "b = free h1" "h2 = h1\<lparr>cells := (cells h1)(free h1 \<mapsto> K v'), free := Suc (free h1)\<rparr>"
    using run by (auto simp: alloc_def)
  have c: "island h h1" "refs v' \<subseteq> {free h..<free h1}" "ok v'" "\<And>n. look (view n h1) v' = look (view n h) v"
    using copy by (auto simp: copy_of_def)
  have g: "grows h1 h2" by (simp add: b grows_def)
  have closed1: "closed h1" "free h \<le> free h1" using c(1) by (auto simp: island_def grows_def)
  have sub: "refs v' \<subseteq> {..<free h1}" using c(2) by auto
  have isl: "island h h2"
    unfolding island_def
  proof (intro conjI allI impI)
    show "grows h h2" using grows_trans [OF _ g] c(1) by (simp add: island_def)
    show "closed h2" unfolding closed_def
    proof (intro allI impI)
      fix x y assume y: "cells h2 x = Some y"
      show "x < free h2 \<and> set_cell y \<subseteq> {..<free h2} \<and> cell_plain y"
      proof (cases "x = free h1")
        case True
        then have "y = K v'" using y by (simp add: b)
        then show ?thesis using True sub con(3) [OF c(3)] by (auto simp: con(2) b)
      next
        case False
        then have "cells h1 x = Some y" using y by (simp add: b)
        then have "x < free h1 \<and> set_cell y \<subseteq> {..<free h1} \<and> cell_plain y" using closed1 by (simp add: closed_def)
        then show ?thesis by (auto simp: b)
      qed
    qed
    fix x y assume x: "free h \<le> x" "cells h2 x = Some y"
    show "set_cell y \<subseteq> {free h..<free h2}"
    proof (cases "x = free h1")
      case True
      then show ?thesis using x c(2) by (auto simp: con(2) b)
    next
      case False
      then have "cells h1 x = Some y" using x by (simp add: b)
      then have "set_cell y \<subseteq> {free h..<free h1}" using c(1) x by (simp add: island_def)
      then show ?thesis by (auto simp: b)
    qed
  qed
  have "view n h2 b = view n h a" for n
  proof (cases n)
    case (Suc m)
    have "look (view m h2) v' = look (view m h) v" using look_grows [OF closed1(1) g sub] c(4) by simp
    moreover have "cells h2 b = Some (K v')" by (simp add: b)
    ultimately show ?thesis using old by (simp add: Suc con(1))
  qed simp
  then show ?thesis using isl closed1(2) by (simp add: copy_of_def b(1)) (simp add: b(2))
qed

lemma traverse_cloner:
  assumes "cloner look refs ok f"
  shows "cloner (\<lambda>g. map (look g)) (\<lambda>xs. \<Union> (refs ` set xs)) (\<lambda>xs. \<forall>x \<in> set xs. ok x) (traverse f)"
proof -
  have "copy_of (\<lambda>g. map (look g)) (\<lambda>xs. \<Union> (refs ` set xs)) (\<lambda>xs. \<forall>x \<in> set xs. ok x) h xs ys h'"
    if "closed h" "\<Union> (refs ` set xs) \<subseteq> {..<free h}" "\<forall>x \<in> set xs. ok x" "traverse f xs h = Some (ys, h')" for h xs ys h'
    using that
  proof (induction xs arbitrary: h ys)
    case Nil
    then show ?case by (simp add: copy_of_def island_refl)
  next
    case (Cons x xs)
    then obtain y h1 zs where y: "f x h = Some (y, h1)" "traverse f xs h1 = Some (zs, h')" "ys = y # zs"
      by (auto simp: bnd_Some)
    have one: "copy_of look refs ok h x y h1" by (rule clonerD [OF assms]) (use Cons.prems y in auto)
    then have isl: "island h h1" "closed h1" "grows h h1" by (auto simp: copy_of_def island_def)
    then have sub: "\<Union> (refs ` set xs) \<subseteq> {..<free h1}" using Cons.prems(2) by (auto simp: grows_def)
    have two: "copy_of (\<lambda>g. map (look g)) (\<lambda>xs. \<Union> (refs ` set xs)) (\<lambda>xs. \<forall>x \<in> set xs. ok x) h1 xs zs h'"
      by (rule Cons.IH) (use Cons.prems isl sub y in auto)
    have "island h1 h'" using two by (simp add: copy_of_def)
    then have first: "copy_of look refs ok h x y h'" by (rule copy_later [OF one])
    have "look (view n h1) w = look (view n h) w" if "w \<in> set xs" for n w
      using that Cons.prems(1,2) isl(3) by (intro look_grows) auto
    then have "map (look (view n h1)) xs = map (look (view n h)) xs" for n by simp
    then show ?case using first two isl by (auto simp: copy_of_def y(3) grows_def island_def)
  qed
  then show ?thesis by (simp add: cloner_def)
qed

end

lemma on_ref_cloner:
  assumes "cloner look_addr (\<lambda>a. {a}) any_value f"
  shows "cloner map_option set_option any_value (on_ref f)"
  unfolding cloner_def
proof (intro allI impI, elim conjE)
  fix h r r' h' assume r: "closed h" "set_option r \<subseteq> {..<free h}" "on_ref f r h = Some (r', h')"
  show "copy_of map_option set_option any_value h r r' h'"
  proof (cases r)
    case None
    then show ?thesis using r by (simp add: on_ref_def copy_of_def island_refl)
  next
    case (Some a)
    then obtain b where b: "f a h = Some (b, h')" "r' = Some b" using r(3) by (auto simp: on_ref_def bnd_Some)
    have "copy_of look_addr (\<lambda>a. {a}) any_value h a b h'"
      by (rule clonerD [OF assms]) (use r Some b in auto)
    then show ?thesis by (simp add: copy_of_def Some b(2))
  qed
qed

subsection \<open>The containers of a chapter\<close>

text \<open>A cell itself is a container; one without addresses is copied by putting it into a new cell.\<close>

interpretation raw_cell: container map_cell set_cell
  by unfold_locales (rule cell.map_cong0)

interpretation attr_value: container map_aval set_aval
  by unfold_locales (rule aval.map_cong0)

interpretation attr_entry: container "\<lambda>g m. (fst m, map_aval g (snd m))" "\<lambda>m. set_aval (snd m)"
  by unfold_locales (auto intro: aval.map_cong0)

interpretation attr_values: container "\<lambda>g. map (map_aval g)" "\<lambda>vs. \<Union> (set_aval ` set vs)"
  by unfold_locales (auto intro!: aval.map_cong0)

interpretation attr_entries: container "\<lambda>g. map (\<lambda>m. (fst m, map_aval g (snd m)))" "\<lambda>ms. \<Union> ((\<lambda>m. set_aval (snd m)) ` set ms)"
  by unfold_locales (auto intro!: aval.map_cong0)

interpretation reference: container map_option set_option
  by unfold_locales (rule option.map_cong0)

interpretation outcome_struct: container map_coutcome set_coutcome
  by unfold_locales (rule coutcome.map_cong0)

interpretation body_struct: container map_cbody set_cbody
  by unfold_locales (rule cbody.map_cong0)

interpretation meta_value: container map_mval set_mval
  by unfold_locales (rule mval.map_cong0)

interpretation meta_entry: container "\<lambda>g m. (fst m, map_mval g (snd m))" "\<lambda>m. set_mval (snd m)"
  by unfold_locales (auto intro: mval.map_cong0)

interpretation meta_values: container "\<lambda>g. map (map_mval g)" "\<lambda>vs. \<Union> (set_mval ` set vs)"
  by unfold_locales (auto intro!: mval.map_cong0)

interpretation meta_entries: container "\<lambda>g. map (\<lambda>m. (fst m, map_mval g (snd m)))" "\<lambda>ms. \<Union> ((\<lambda>m. set_mval (snd m)) ` set ms)"
  by unfold_locales (auto intro!: mval.map_cong0)

abbreviation (input) look_iface :: "(('r \<Rightarrow> 's) \<Rightarrow> 'x \<Rightarrow> 'y) \<Rightarrow> ('r \<Rightarrow> 's) \<Rightarrow> ('x, 'r) iface \<Rightarrow> ('y, 's) iface" where
  "look_iface look g \<equiv> map_iface (look g) g"

abbreviation (input) refs_iface :: "('x \<Rightarrow> 'r set) \<Rightarrow> ('x, 'r) iface \<Rightarrow> 'r set" where
  "refs_iface refs i \<equiv> \<Union> (refs ` set1_iface i) \<union> set2_iface i"

interpretation outcome_iface: container "look_iface map_coutcome" "refs_iface set_coutcome"
  by unfold_locales (auto intro!: iface.map_cong0 coutcome.map_cong0)

interpretation body_iface: container "look_iface map_cbody" "refs_iface set_cbody"
  by unfold_locales (auto intro!: iface.map_cong0 cbody.map_cong0)

lemma copied_cloner:
  assumes "\<And>c :: addr cell. is c \<Longrightarrow> set_cell c = {} \<and> cell_plain c"
  shows "cloner look_addr (\<lambda>a. {a}) (\<lambda>_. True) (copied is)"
  unfolding cloner_def
proof (intro allI impI, elim conjE)
  fix h a b h' assume r: "closed h" "{a} \<subseteq> {..<free h}" "copied is a h = Some (b, h')"
  then obtain c where c: "cells h a = Some c" "is c" "alloc c h = Some (b, h')"
    by (auto simp: copied_def bnd_Some split: option.splits if_splits)
  have "copy_of map_cell set_cell is h c c h" by (rule raw_cell.copy_refl [OF r(1)]) (use assms c(2) in auto)
  then show "copy_of look_addr (\<lambda>a. {a}) (\<lambda>_. True) h a b h'"
    by (rule raw_cell.alloc_copy [where K = "\<lambda>c. c" and K' = "\<lambda>c. c"]) (use c assms in auto)
qed

lemma leaf_cloners:
  "cloner map_option set_option (\<lambda>_. True) clone_json" "cloner map_option set_option (\<lambda>_. True) clone_strings"
  "cloner map_option set_option (\<lambda>_. True) clone_ref" "cloner map_option set_option (\<lambda>_. True) (on_ref (copied is_artifacts))"
proof -
  have "set_cell c = {} \<and> cell_plain c" if "is_bytes c \<or> is_strings c \<or> is_ref c \<or> is_artifacts c" for c :: "addr cell"
    using that by (cases c) auto
  then show "cloner map_option set_option (\<lambda>_. True) clone_json" "cloner map_option set_option (\<lambda>_. True) clone_strings"
    "cloner map_option set_option (\<lambda>_. True) clone_ref" "cloner map_option set_option (\<lambda>_. True) (on_ref (copied is_artifacts))"
    unfolding clone_json_def clone_strings_def clone_ref_def by (intro on_ref_cloner copied_cloner; blast)+
qed

subsection \<open>The clone functions\<close>

lemma entry_cloner:
  assumes "cloner look refs (\<lambda>_. True) f"
  shows "cloner (\<lambda>g m. (fst m, look g (snd m))) (\<lambda>m. refs (snd m)) (\<lambda>_. True) (\<lambda>m. bnd (f (snd m)) (\<lambda>v. give (fst m, v)))"
  unfolding cloner_def
proof (intro allI impI, elim conjE)
  fix h m m' h' assume m: "closed h" "refs (snd m) \<subseteq> {..<free h}" "bnd (f (snd m)) (\<lambda>v. give (fst m, v)) h = Some (m', h')"
  then obtain v where v: "f (snd m) h = Some (v, h')" "m' = (fst m, v)" by (auto simp: bnd_Some)
  have "copy_of look refs (\<lambda>_. True) h (snd m) v h'" by (rule clonerD [OF assms]) (use m v in auto)
  then show "copy_of (\<lambda>g m. (fst m, look g (snd m))) (\<lambda>m. refs (snd m)) (\<lambda>_. True) h m m' h'"
    by (simp add: copy_of_def v(2))
qed

context container
begin

lemma cell_cloner:
  assumes "cloner look refs ok F"
    and con: "\<And>g w. map_cell g (K w) = K' (look g w)" "\<And>w. set_cell (K w) = refs w" "\<And>w. ok w \<longleftrightarrow> cell_plain (K w)"
    and run: "\<And>a h r. G a h = Some r \<Longrightarrow> \<exists>v v' h1. cells h a = Some (K v) \<and> F v h = Some (v', h1) \<and> alloc (K v') h1 = Some r"
  shows "cloner look_addr (\<lambda>a. {a}) (\<lambda>_. True) G"
  unfolding cloner_def
proof (intro allI impI, elim conjE)
  fix h a b h' assume r: "closed h" "{a} \<subseteq> {..<free h}" "G a h = Some (b, h')"
  obtain v v' h1 where v: "cells h a = Some (K v)" "F v h = Some (v', h1)" "alloc (K v') h1 = Some (b, h')"
    using run [OF r(3)] by blast
  have "set_cell (K v) \<subseteq> {..<free h}" "cell_plain (K v)" using r(1) v(1) unfolding closed_def by blast+
  then have "copy_of look refs ok h v v' h1" by (intro clonerD [OF assms(1) r(1)]) (use v con in auto)
  then show "copy_of look_addr (\<lambda>a. {a}) (\<lambda>_. True) h a b h'"
    by (rule alloc_copy [where K = K and K' = K']) (use v con in auto)
qed

end

lemma clone_attrs_cloner:
  assumes "cloner map_aval set_aval (\<lambda>_. True) f"
  shows "cloner map_option set_option (\<lambda>_. True) (clone_attrs f)"
proof -
  have "cloner (\<lambda>g. map (\<lambda>m. (fst m, map_aval g (snd m)))) (\<lambda>ms. \<Union> ((\<lambda>m. set_aval (snd m)) ` set ms)) (\<lambda>ms. \<forall>m \<in> set ms. True)
      (traverse (\<lambda>m. bnd (f (snd m)) (\<lambda>v. give (fst m, v))))"
    by (rule attr_entry.traverse_cloner [OF entry_cloner [OF assms]])
  then show ?thesis unfolding clone_attrs_def
    by (intro on_ref_cloner attr_entries.cell_cloner [where K = CAttrs and K' = CAttrs])
       (auto simp: bnd_Some map_prod_def case_prod_beta' split: option.splits cell.splits)
qed

lemma clone_anys_cloner:
  assumes "cloner map_aval set_aval (\<lambda>_. True) f"
  shows "cloner map_option set_option (\<lambda>_. True) (clone_anys f)"
  using attr_value.traverse_cloner [OF assms] unfolding clone_anys_def
  by (intro on_ref_cloner attr_values.cell_cloner [where K = CAnys and K' = CAnys])
     (auto simp: bnd_Some split: option.splits cell.splits)

lemma clone_fields_cloner:
  assumes "cloner map_mval set_mval (\<lambda>_. True) f"
  shows "cloner map_option set_option (\<lambda>_. True) (clone_fields f)"
proof -
  have "cloner (\<lambda>g. map (\<lambda>m. (fst m, map_mval g (snd m)))) (\<lambda>ms. \<Union> ((\<lambda>m. set_mval (snd m)) ` set ms)) (\<lambda>ms. \<forall>m \<in> set ms. True)
      (traverse (\<lambda>m. bnd (f (snd m)) (\<lambda>v. give (fst m, v))))"
    by (rule meta_entry.traverse_cloner [OF entry_cloner [OF assms]])
  then show ?thesis unfolding clone_fields_def
    by (intro on_ref_cloner meta_entries.cell_cloner [where K = CFields and K' = CFields])
       (auto simp: bnd_Some map_prod_def case_prod_beta' split: option.splits cell.splits)
qed

lemma clone_mvals_cloner:
  assumes "cloner map_mval set_mval (\<lambda>_. True) f"
  shows "cloner map_option set_option (\<lambda>_. True) (clone_mvals f)"
  using meta_value.traverse_cloner [OF assms] unfolding clone_mvals_def
  by (intro on_ref_cloner meta_values.cell_cloner [where K = CMvals and K' = CMvals])
     (auto simp: bnd_Some split: option.splits cell.splits)

text \<open>A struct with one address field.\<close>

lemma struct_cloner:
  assumes "cloner map_option set_option (\<lambda>_. True) f" "refs (K r) = set_option r"
    "bnd (f r) (\<lambda>r'. give (K r')) h = Some (v', h')" "\<And>g r. look g (K r) = K' (map_option g r)" "\<And>r. refs (K r) = set_option r" "\<And>r. ok (K r)"
    "closed h" "refs (K r) \<subseteq> {..<free h}"
  shows "copy_of look refs ok h (K r) v' h'"
proof -
  obtain r' where r': "f r h = Some (r', h')" "v' = K r'" using assms(3) by (auto simp: bnd_Some)
  have "copy_of map_option set_option (\<lambda>_. True) h r r' h'" by (rule clonerD [OF assms(1)]) (use assms r' in auto)
  then show ?thesis by (simp add: copy_of_def assms r'(2))
qed

lemma cloneAttrValue_cloner: "cloner map_aval set_aval (\<lambda>_. True) (cloneAttrValue n)"
proof (induction n)
  case 0
  then show ?case by (simp add: cloner_def)
next
  case (Suc n)
  show ?case unfolding cloner_def
  proof (intro allI impI, elim conjE)
    fix h v v' h' assume v: "closed h" "set_aval v \<subseteq> {..<free h}" "cloneAttrValue (Suc n) v h = Some (v', h')"
    note clones = clone_attrs_cloner [OF Suc] clone_anys_cloner [OF Suc] leaf_cloners
    show "copy_of map_aval set_aval (\<lambda>_. True) h v v' h'"
    proof (cases v)
      case (VMap r)
      with v show ?thesis by (auto intro!: struct_cloner [OF clones(1), where K = VMap and K' = VMap])
    next
      case (VSlice r)
      with v show ?thesis by (auto intro!: struct_cloner [OF clones(2), where K = VSlice and K' = VSlice])
    next
      case (VStrings r)
      with v show ?thesis by (auto intro!: struct_cloner [OF clones(4), where K = VStrings and K' = VStrings])
    next
      case (VRaw r)
      with v show ?thesis by (auto intro!: struct_cloner [OF clones(3), where K = VRaw and K' = VRaw])
    next
      case (VBytes r)
      with v show ?thesis by (auto intro!: struct_cloner [OF clones(3), where K = VBytes and K' = VBytes])
    next
      case (VOther s)
      with v show ?thesis by (auto intro: attr_value.copy_refl)
    qed
  qed
qed

text \<open>Structs with several address fields are put together from the copies of their fields.\<close>

lemma second_copy:
  assumes "container look refs" "closed h" "copy_of look1 refs1 ok1 h v1 v1' h1" "refs v \<subseteq> {..<free h}"
    "cloner look refs ok f" "ok v" "f v h1 = Some (v', h2)"
  shows "copy_of look refs ok h v v' h2" "island h1 h2"
proof -
  have i: "island h h1" "closed h1" using assms(3) by (auto simp: copy_of_def island_def)
  have "refs v \<subseteq> {..<free h1}" using assms(4) i(1) by (auto simp: island_def grows_def)
  then have c: "copy_of look refs ok h1 v v' h2" by (intro clonerD [OF assms(5) i(2)]) (use assms in auto)
  show "copy_of look refs ok h v v' h2" by (rule container.copy_from [OF assms(1,2) i(1) assms(4) c])
  show "island h1 h2" using c by (simp add: copy_of_def)
qed

lemma app_error_cloner: "cloner map_app_error set_app_error (\<lambda>_. True) (cloneAppErrorPayload n)"
  unfolding cloner_def
proof (intro allI impI, elim conjE)
  fix h p p' h' assume p: "closed h" "set_app_error p \<subseteq> {..<free h}" "cloneAppErrorPayload n p h = Some (p', h')"
  obtain a s r rest where ps: "p = AppError a s r rest" by (cases p)
  obtain a' h1 s' h2 r' where run: "cloneAttrs n a h = Some (a', h1)" "clone_strings s h1 = Some (s', h2)"
    "clone_ref r h2 = Some (r', h')" "p' = AppError a' s' r' rest"
    using p(3) by (auto simp: cloneAppErrorPayload_def ps bnd_Some)
  have sub: "set_option a \<subseteq> {..<free h}" "set_option s \<subseteq> {..<free h}" "set_option r \<subseteq> {..<free h}" using p(2) by (auto simp: ps)
  note opt = reference.container_axioms
  have c1: "copy_of map_option set_option (\<lambda>_. True) h a a' h1"
    by (rule clonerD [OF clone_attrs_cloner [OF cloneAttrValue_cloner]]) (use p(1) sub run(1) in \<open>auto simp: cloneAttrs_def\<close>)
  note c2 = second_copy [OF opt p(1) c1 sub(2) leaf_cloners(2) TrueI run(2)]
  note c3 = second_copy [OF opt p(1) c2(1) sub(3) leaf_cloners(3) TrueI run(3)]
  note first = reference.copy_later [OF reference.copy_later [OF c1 c2(2)] c3(2)] reference.copy_later [OF c2(1) c3(2)] c3(1)
  then show "copy_of map_app_error set_app_error (\<lambda>_. True) h p p' h'"
    by (auto simp: copy_of_def ps run(4))
qed

lemma system_error_cloner: "cloner map_system_error set_system_error (\<lambda>_. True) cloneSystemErrorPayload"
  unfolding cloner_def
proof (intro allI impI, elim conjE)
  fix h p p' h' assume p: "closed h" "set_system_error p \<subseteq> {..<free h}" "cloneSystemErrorPayload p h = Some (p', h')"
  obtain s r rest where ps: "p = SystemError s r rest" by (cases p)
  obtain s' h1 r' where run: "clone_strings s h = Some (s', h1)" "clone_ref r h1 = Some (r', h')" "p' = SystemError s' r' rest"
    using p(3) by (auto simp: cloneSystemErrorPayload_def ps bnd_Some)
  have sub: "set_option s \<subseteq> {..<free h}" "set_option r \<subseteq> {..<free h}" using p(2) by (auto simp: ps)
  have c1: "copy_of map_option set_option (\<lambda>_. True) h s s' h1"
    by (rule clonerD [OF leaf_cloners(2)]) (use p(1) sub run(1) in auto)
  note c2 = second_copy [OF reference.container_axioms p(1) c1 sub(2) leaf_cloners(3) TrueI run(2)]
  show "copy_of map_system_error set_system_error (\<lambda>_. True) h p p' h'"
    using reference.copy_later [OF c1 c2(2)] c2(1) by (auto simp: copy_of_def ps run(3))
qed

lemma timeout_cloner: "cloner map_timeout set_timeout (\<lambda>_. True) cloneTimeoutPayload"
  unfolding cloner_def
proof (intro allI impI, elim conjE)
  fix h p p' h' assume p: "closed h" "set_timeout p \<subseteq> {..<free h}" "cloneTimeoutPayload p h = Some (p', h')"
  obtain r rest where ps: "p = Timeout r rest" by (cases p)
  with p(3) have "bnd (clone_ref r) (\<lambda>r'. give (Timeout r' rest)) h = Some (p', h')" by (simp add: cloneTimeoutPayload_def)
  then show "copy_of map_timeout set_timeout (\<lambda>_. True) h p p' h'" unfolding ps
    by (rule struct_cloner [OF leaf_cloners(3), rotated 1, where K' = "\<lambda>r. Timeout r rest"]) (use p ps in auto)
qed

lemma outcome_cloner: "cloner map_coutcome set_coutcome (\<lambda>_. True) (clone_outcome n)"
  unfolding cloner_def
proof (intro allI impI, elim conjE)
  fix h x x' h' assume x: "closed h" "set_coutcome x \<subseteq> {..<free h}" "clone_outcome n x h = Some (x', h')"
  show "copy_of map_coutcome set_coutcome (\<lambda>_. True) h x x' h'"
  proof (cases x)
    case (OApplication r)
    with x show ?thesis
      by (auto simp: clone_outcome_def intro!: struct_cloner [OF leaf_cloners(1), where K = OApplication and K' = OApplication])
  next
    case (OAppError p)
    then obtain p' where "cloneAppErrorPayload n p h = Some (p', h')" "x' = OAppError p'"
      using x(3) by (auto simp: clone_outcome_def bnd_Some)
    then show ?thesis using clonerD [OF app_error_cloner x(1), of p] x(2) OAppError by (auto simp: copy_of_def)
  next
    case (OSystemError p)
    then obtain p' where "cloneSystemErrorPayload p h = Some (p', h')" "x' = OSystemError p'"
      using x(3) by (auto simp: clone_outcome_def bnd_Some)
    then show ?thesis using clonerD [OF system_error_cloner x(1), of p] x(2) OSystemError by (auto simp: copy_of_def)
  next
    case (OTimeout p)
    then obtain p' where "cloneTimeoutPayload p h = Some (p', h')" "x' = OTimeout p'"
      using x(3) by (auto simp: clone_outcome_def bnd_Some)
    then show ?thesis using clonerD [OF timeout_cloner x(1), of p] x(2) OTimeout by (auto simp: copy_of_def)
  qed
qed

text \<open>An interface value: a struct in place, or a pointer to a cell with one.\<close>

lemma pointer_copy:
  assumes "container look refs" "cloner look refs ok f" "closed h" "cells h a = Some (K x)" "f x h = Some (x', h1)"
    "alloc (K x') h1 = Some (b, h')" "\<And>g w. map_cell g (K w) = K' (look g w)" "\<And>w. set_cell (K w) = refs w"
    "\<And>w. ok w \<longleftrightarrow> cell_plain (K w)"
  shows "copy_of look_addr (\<lambda>a. {a}) (\<lambda>_. True) h a b h'"
proof -
  have "set_cell (K x) \<subseteq> {..<free h}" "cell_plain (K x)" using assms(3,4) unfolding closed_def by blast+
  then have c: "copy_of look refs ok h x x' h1" by (intro clonerD [OF assms(2,3)]) (use assms in auto)
  show ?thesis by (rule container.alloc_copy [OF assms(1) c assms(4,7,8) _ assms(6)]) (use assms(9) in auto)
qed

lemma outcome_iface_cloner:
  "cloner (look_iface map_coutcome) (refs_iface set_coutcome) no_nil_pointer (CloneChapterOutcome n)"
  unfolding cloner_def
proof (intro allI impI, elim conjE)
  fix h and i i' :: "(addr coutcome, addr) iface" and h'
  assume i: "closed h" "refs_iface set_coutcome i \<subseteq> {..<free h}" "no_nil_pointer i" "CloneChapterOutcome n i h = Some (i', h')"
  show "copy_of (look_iface map_coutcome) (refs_iface set_coutcome) no_nil_pointer h i i' h'"
  proof (cases i)
    case (IHeld x)
    then obtain x' where "clone_outcome n x h = Some (x', h')" "i' = IHeld x'"
      using i(4) by (auto simp: CloneChapterOutcome_def bnd_Some)
    then show ?thesis using clonerD [OF outcome_cloner i(1), of x] i(2) IHeld by (auto simp: copy_of_def)
  next
    case (IPointer a)
    then obtain x x' h1 b where x: "cells h a = Some (COutcome x)" "clone_outcome n x h = Some (x', h1)"
      "alloc (COutcome x') h1 = Some (b, h')" "i' = IPointer b"
      using i(4) by (auto simp: CloneChapterOutcome_def bnd_Some split: option.splits cell.splits)
    have "copy_of look_addr (\<lambda>a. {a}) (\<lambda>_. True) h a b h'"
      by (rule pointer_copy [OF outcome_struct.container_axioms outcome_cloner i(1) x(1-3)]) simp_all
    then show ?thesis by (simp add: copy_of_def IPointer x(4))
  next
    case (IOther s)
    then show ?thesis using i by (auto simp: CloneChapterOutcome_def copy_of_def island_refl)
  qed (use i in simp)
qed

lemma body_cloner: "cloner map_cbody set_cbody body_plain (clone_body n)"
  unfolding cloner_def
proof (intro allI impI, elim conjE)
  fix h b b' h' assume b: "closed h" "set_cbody b \<subseteq> {..<free h}" "body_plain b" "clone_body n b h = Some (b', h')"
  show "copy_of map_cbody set_cbody body_plain h b b' h'"
  proof (cases b)
    case (BJobAttempt x)
    then obtain x' where "CloneChapterOutcome n x h = Some (x', h')" "b' = BJobAttempt x'"
      using b(4) by (auto simp: clone_body_def bnd_Some)
    then show ?thesis using clonerD [OF outcome_iface_cloner b(1), of x] b(2,3) BJobAttempt by (auto simp: copy_of_def)
  next
    case (BTaskAttempt x)
    then obtain x' where "CloneChapterOutcome n x h = Some (x', h')" "b' = BTaskAttempt x'"
      using b(4) by (auto simp: clone_body_def bnd_Some)
    then show ?thesis using clonerD [OF outcome_iface_cloner b(1), of x] b(2,3) BTaskAttempt by (auto simp: copy_of_def)
  next
    case (BExecution r)
    with b show ?thesis
      by (auto simp: clone_body_def intro!: struct_cloner [OF leaf_cloners(1), where K = BExecution and K' = BExecution])
  next
    case (BJobStart r)
    with b show ?thesis
      by (auto simp: clone_body_def intro!: struct_cloner [OF leaf_cloners(1), where K = BJobStart and K' = BJobStart])
  next
    case (BRestartExtra r)
    with b show ?thesis
      by (auto simp: clone_body_def intro!: struct_cloner [OF leaf_cloners(1), where K = BRestartExtra and K' = BRestartExtra])
  qed
qed

fun body_iface_plain :: "('r cbody, 'r) iface \<Rightarrow> bool" where
  "body_iface_plain (IHeld b) = body_plain b"
| "body_iface_plain i = no_nil_pointer i"

lemma body_iface_cloner:
  "cloner (look_iface map_cbody) (refs_iface set_cbody) body_iface_plain (CloneChapterBody n)"
  unfolding cloner_def
proof (intro allI impI, elim conjE)
  fix h and i i' :: "(addr cbody, addr) iface" and h'
  assume i: "closed h" "refs_iface set_cbody i \<subseteq> {..<free h}" "body_iface_plain i" "CloneChapterBody n i h = Some (i', h')"
  show "copy_of (look_iface map_cbody) (refs_iface set_cbody) body_iface_plain h i i' h'"
  proof (cases i)
    case (IHeld x)
    then obtain x' where "clone_body n x h = Some (x', h')" "i' = IHeld x'"
      using i(4) by (auto simp: CloneChapterBody_def bnd_Some)
    then show ?thesis using clonerD [OF body_cloner i(1), of x] i(2,3) IHeld by (auto simp: copy_of_def)
  next
    case (IPointer a)
    then obtain x x' h1 b where x: "cells h a = Some (CBody x)" "clone_body n x h = Some (x', h1)"
      "alloc (CBody x') h1 = Some (b, h')" "i' = IPointer b"
      using i(4) by (auto simp: CloneChapterBody_def bnd_Some split: option.splits cell.splits)
    have "copy_of look_addr (\<lambda>a. {a}) (\<lambda>_. True) h a b h'"
      by (rule pointer_copy [OF body_struct.container_axioms body_cloner i(1) x(1-3)]) simp_all
    then show ?thesis by (simp add: copy_of_def IPointer x(4))
  next
    case (IOther s)
    then show ?thesis using i by (auto simp: CloneChapterBody_def copy_of_def island_refl)
  qed (use i in simp)
qed

lemma meta_value_cloner: "cloner map_mval set_mval (\<lambda>_. True) (cloneChapterMetadataValue n)"
proof (induction n)
  case 0
  then show ?case by (simp add: cloner_def)
next
  case (Suc n)
  show ?case unfolding cloner_def
  proof (intro allI impI, elim conjE)
    fix h v v' h' assume v: "closed h" "set_mval v \<subseteq> {..<free h}" "cloneChapterMetadataValue (Suc n) v h = Some (v', h')"
    obtain rest l m where vs: "v = Mval rest l m" by (cases v)
    obtain l' h1 m' where run: "clone_mvals (cloneChapterMetadataValue n) l h = Some (l', h1)"
      "clone_fields (cloneChapterMetadataValue n) m h1 = Some (m', h')" "v' = Mval rest l' m'"
      using v(3) by (auto simp: vs bnd_Some)
    have sub: "set_option l \<subseteq> {..<free h}" "set_option m \<subseteq> {..<free h}" using v(2) by (auto simp: vs)
    have c1: "copy_of map_option set_option (\<lambda>_. True) h l l' h1"
      by (rule clonerD [OF clone_mvals_cloner [OF Suc]]) (use v(1) sub run(1) in auto)
    note c2 = second_copy [OF reference.container_axioms v(1) c1 sub(2) clone_fields_cloner [OF Suc] TrueI run(2)]
    show "copy_of map_mval set_mval (\<lambda>_. True) h v v' h'"
      using reference.copy_later [OF c1 c2(2)] c2(1) by (auto simp: copy_of_def vs run(3))
  qed
qed

subsection \<open>When cloning returns\<close>

text \<open>
  A value that is well typed in memory and nests at most \<open>n\<close> deep. Values that contain themselves fit no
  depth.
\<close>

definition leaf_fits :: "(addr cell \<Rightarrow> bool) \<Rightarrow> heap \<Rightarrow> addr option \<Rightarrow> bool" where
  "leaf_fits is h r \<longleftrightarrow> (\<forall>a \<in> set_option r. case cells h a of None \<Rightarrow> False | Some c \<Rightarrow> is c)"

definition attrs_fit :: "(addr aval \<Rightarrow> bool) \<Rightarrow> heap \<Rightarrow> addr option \<Rightarrow> bool" where
  "attrs_fit P h r \<longleftrightarrow> (\<forall>a \<in> set_option r. case cells h a of Some (CAttrs ms) \<Rightarrow> (\<forall>m \<in> set ms. P (snd m)) | _ \<Rightarrow> False)"

definition anys_fit :: "(addr aval \<Rightarrow> bool) \<Rightarrow> heap \<Rightarrow> addr option \<Rightarrow> bool" where
  "anys_fit P h r \<longleftrightarrow> (\<forall>a \<in> set_option r. case cells h a of Some (CAnys vs) \<Rightarrow> (\<forall>v \<in> set vs. P v) | _ \<Rightarrow> False)"

definition fields_fit :: "(addr mval \<Rightarrow> bool) \<Rightarrow> heap \<Rightarrow> addr option \<Rightarrow> bool" where
  "fields_fit P h r \<longleftrightarrow> (\<forall>a \<in> set_option r. case cells h a of Some (CFields ms) \<Rightarrow> (\<forall>m \<in> set ms. P (snd m)) | _ \<Rightarrow> False)"

definition mvals_fit :: "(addr mval \<Rightarrow> bool) \<Rightarrow> heap \<Rightarrow> addr option \<Rightarrow> bool" where
  "mvals_fit P h r \<longleftrightarrow> (\<forall>a \<in> set_option r. case cells h a of Some (CMvals vs) \<Rightarrow> (\<forall>v \<in> set vs. P v) | _ \<Rightarrow> False)"

fun value_fits :: "nat \<Rightarrow> heap \<Rightarrow> addr aval \<Rightarrow> bool" where
  "value_fits 0 h v = False"
| "value_fits (Suc n) h v = (case v of
     VMap r \<Rightarrow> attrs_fit (value_fits n h) h r
   | VSlice r \<Rightarrow> anys_fit (value_fits n h) h r
   | VStrings r \<Rightarrow> leaf_fits is_strings h r
   | VRaw r \<Rightarrow> leaf_fits is_bytes h r
   | VBytes r \<Rightarrow> leaf_fits is_bytes h r
   | VOther s \<Rightarrow> True)"

fun outcome_fits :: "nat \<Rightarrow> heap \<Rightarrow> addr coutcome \<Rightarrow> bool" where
  "outcome_fits n h (OApplication r) = leaf_fits is_bytes h r"
| "outcome_fits n h (OAppError p) = (attrs_fit (value_fits n h) h (ae_Attrs p) \<and> leaf_fits is_strings h (ae_Stacktrace p) \<and>
     leaf_fits is_ref h (ae_InputRef p))"
| "outcome_fits n h (OSystemError p) = (leaf_fits is_strings h (se_Stacktrace p) \<and> leaf_fits is_ref h (se_InputRef p))"
| "outcome_fits n h (OTimeout p) = leaf_fits is_ref h (to_InputRef p)"

fun outcome_iface_fits :: "nat \<Rightarrow> heap \<Rightarrow> (addr coutcome, addr) iface \<Rightarrow> bool" where
  "outcome_iface_fits n h (IHeld x) = outcome_fits n h x"
| "outcome_iface_fits n h (IPointer a) = (case cells h a of Some (COutcome x) \<Rightarrow> outcome_fits n h x | _ \<Rightarrow> False)"
| "outcome_iface_fits n h _ = True"

fun body_fits :: "nat \<Rightarrow> heap \<Rightarrow> addr cbody \<Rightarrow> bool" where
  "body_fits n h (BExecution r) = leaf_fits is_bytes h r"
| "body_fits n h (BJobStart r) = leaf_fits is_bytes h r"
| "body_fits n h (BJobAttempt x) = outcome_iface_fits n h x"
| "body_fits n h (BTaskAttempt x) = outcome_iface_fits n h x"
| "body_fits n h (BRestartExtra r) = leaf_fits is_bytes h r"

fun body_iface_fits :: "nat \<Rightarrow> heap \<Rightarrow> (addr cbody, addr) iface \<Rightarrow> bool" where
  "body_iface_fits n h (IHeld x) = body_fits n h x"
| "body_iface_fits n h (IPointer a) = (case cells h a of Some (CBody x) \<Rightarrow> body_fits n h x | _ \<Rightarrow> False)"
| "body_iface_fits n h _ = True"

fun meta_fits :: "nat \<Rightarrow> heap \<Rightarrow> addr mval \<Rightarrow> bool" where
  "meta_fits 0 h v = False"
| "meta_fits (Suc n) h v = (mvals_fit (meta_fits n h) h (mv_List v) \<and> fields_fit (meta_fits n h) h (mv_Map v))"

definition chapter_fits :: "nat \<Rightarrow> heap \<Rightarrow> addr whole_chapter \<Rightarrow> bool" where
  "chapter_fits n h c \<longleftrightarrow> body_iface_fits n h (ch_Body c) \<and> fields_fit (meta_fits n h) h (ch_Metadata c) \<and>
     leaf_fits is_artifacts h (ch_Artifacts c)"

text \<open>A computation returns from every heap that the given one has grown into.\<close>

definition total :: "heap \<Rightarrow> 'a alloc \<Rightarrow> bool" where
  "total h m \<longleftrightarrow> (\<forall>h1. grows h h1 \<longrightarrow> (\<exists>x h'. m h1 = Some (x, h') \<and> grows h1 h'))"

lemma total_give [intro!]: "total h (give x)"
  by (simp add: total_def give_def)

lemma total_alloc [intro!]: "total h (alloc c)"
  by (auto simp: total_def alloc_def grows_def)

lemma total_bnd:
  assumes "total h m" "\<And>x. total h (g x)"
  shows "total h (bnd m g)"
  unfolding total_def
proof (intro allI impI)
  fix h1 assume h1: "grows h h1"
  then obtain x h2 where x: "m h1 = Some (x, h2)" "grows h1 h2" using assms(1) unfolding total_def by blast
  then obtain y h3 where "g x h2 = Some (y, h3)" "grows h2 h3"
    using assms(2) grows_trans [OF h1] unfolding total_def by blast
  then show "\<exists>y h3. bnd m g h1 = Some (y, h3) \<and> grows h1 h3" using x grows_trans by (auto simp: bnd_def)
qed

lemma total_load:
  assumes "closed h" "cells h a = Some c" "total h (g (Some c))"
  shows "total h (bnd (load a) g)"
proof -
  have "cells h1 a = Some c" if "grows h h1" for h1
    using assms(1,2) that unfolding closed_def grows_def by fastforce
  then show ?thesis using assms(3) by (auto simp: total_def bnd_def load_def)
qed

lemma total_traverse: "(\<And>x. x \<in> set xs \<Longrightarrow> total h (f x)) \<Longrightarrow> total h (traverse f xs)"
proof (induction xs)
  case (Cons x xs)
  then have "total h (f x)" "total h (traverse f xs)" by auto
  then show ?case by (auto intro!: total_bnd)
qed auto

lemma total_on_ref: "(\<And>a. a \<in> set_option r \<Longrightarrow> total h (f a)) \<Longrightarrow> total h (on_ref f r)"
  by (cases r) (auto simp: on_ref_def intro!: total_bnd)

text \<open>A reference to a cell whose content is known and handled.\<close>

lemma total_cell:
  assumes "closed h" "\<And>a. a \<in> set_option r \<Longrightarrow> \<exists>c. cells h a = Some c \<and> total h (g (Some c))"
  shows "total h (on_ref (\<lambda>a. bnd (load a) g) r)"
proof (rule total_on_ref)
  fix a assume "a \<in> set_option r"
  then obtain c where "cells h a = Some c" "total h (g (Some c))" using assms(2) by blast
  then show "total h (bnd (load a) g)" by (rule total_load [OF assms(1)])
qed

lemma total_leaf: "closed h \<Longrightarrow> leaf_fits is h r \<Longrightarrow> total h (on_ref (copied is) r)"
  unfolding copied_def by (rule total_cell) (auto simp: leaf_fits_def split: option.splits)

lemma total_attrs:
  assumes "closed h" "attrs_fit P h r" "\<And>v. P v \<Longrightarrow> total h (f v)"
  shows "total h (clone_attrs f r)"
  unfolding clone_attrs_def
proof (rule total_cell [OF assms(1)])
  fix a assume "a \<in> set_option r"
  with assms(2) obtain ms where ms: "cells h a = Some (CAttrs ms)" "\<forall>m \<in> set ms. P (snd m)"
    by (auto simp: attrs_fit_def split: option.splits cell.splits)
  then show "\<exists>c. cells h a = Some c \<and> total h (case Some c of Some (CAttrs ms) \<Rightarrow>
      bnd (traverse (\<lambda>m. bnd (f (snd m)) (\<lambda>v. give (fst m, v))) ms) (\<lambda>ms'. alloc (CAttrs ms')) | _ \<Rightarrow> stuck)"
    by (auto intro!: total_bnd total_traverse assms(3))
qed

lemma total_anys:
  assumes "closed h" "anys_fit P h r" "\<And>v. P v \<Longrightarrow> total h (f v)"
  shows "total h (clone_anys f r)"
  unfolding clone_anys_def
proof (rule total_cell [OF assms(1)])
  fix a assume "a \<in> set_option r"
  with assms(2) obtain vs where vs: "cells h a = Some (CAnys vs)" "\<forall>v \<in> set vs. P v"
    by (auto simp: anys_fit_def split: option.splits cell.splits)
  then show "\<exists>c. cells h a = Some c \<and> total h (case Some c of Some (CAnys vs) \<Rightarrow>
      bnd (traverse f vs) (\<lambda>vs'. alloc (CAnys vs')) | _ \<Rightarrow> stuck)"
    by (auto intro!: total_bnd total_traverse assms(3))
qed

lemma total_fields:
  assumes "closed h" "fields_fit P h r" "\<And>v. P v \<Longrightarrow> total h (f v)"
  shows "total h (clone_fields f r)"
  unfolding clone_fields_def
proof (rule total_cell [OF assms(1)])
  fix a assume "a \<in> set_option r"
  with assms(2) obtain ms where ms: "cells h a = Some (CFields ms)" "\<forall>m \<in> set ms. P (snd m)"
    by (auto simp: fields_fit_def split: option.splits cell.splits)
  then show "\<exists>c. cells h a = Some c \<and> total h (case Some c of Some (CFields ms) \<Rightarrow>
      bnd (traverse (\<lambda>m. bnd (f (snd m)) (\<lambda>v. give (fst m, v))) ms) (\<lambda>ms'. alloc (CFields ms')) | _ \<Rightarrow> stuck)"
    by (auto intro!: total_bnd total_traverse assms(3))
qed

lemma total_mvals:
  assumes "closed h" "mvals_fit P h r" "\<And>v. P v \<Longrightarrow> total h (f v)"
  shows "total h (clone_mvals f r)"
  unfolding clone_mvals_def
proof (rule total_cell [OF assms(1)])
  fix a assume "a \<in> set_option r"
  with assms(2) obtain vs where vs: "cells h a = Some (CMvals vs)" "\<forall>v \<in> set vs. P v"
    by (auto simp: mvals_fit_def split: option.splits cell.splits)
  then show "\<exists>c. cells h a = Some c \<and> total h (case Some c of Some (CMvals vs) \<Rightarrow>
      bnd (traverse f vs) (\<lambda>vs'. alloc (CMvals vs')) | _ \<Rightarrow> stuck)"
    by (auto intro!: total_bnd total_traverse assms(3))
qed

lemmas leaf_defs = clone_json_def clone_strings_def clone_ref_def

lemma total_value: "closed h \<Longrightarrow> value_fits n h v \<Longrightarrow> total h (cloneAttrValue n v)"
proof (induction n arbitrary: v)
  case (Suc n)
  note one = Suc.IH [OF Suc.prems(1)]
  note rules = total_leaf [OF Suc.prems(1)] total_attrs [OF Suc.prems(1) _ one] total_anys [OF Suc.prems(1) _ one]
  show ?case using Suc.prems(2) by (cases v) (auto simp: leaf_defs intro!: total_bnd rules)
qed simp

lemma total_meta: "closed h \<Longrightarrow> meta_fits n h v \<Longrightarrow> total h (cloneChapterMetadataValue n v)"
proof (induction n arbitrary: v)
  case (Suc n)
  note one = Suc.IH [OF Suc.prems(1)]
  note rules = total_mvals [OF Suc.prems(1) _ one] total_fields [OF Suc.prems(1) _ one]
  show ?case using Suc.prems(2) by (auto intro!: total_bnd rules)
qed simp

lemma total_outcome:
  assumes "closed h" "outcome_fits n h x"
  shows "total h (clone_outcome n x)"
proof -
  note rules = total_leaf [OF assms(1)] total_attrs [OF assms(1) _ total_value [OF assms(1)]]
  show ?thesis using assms(2)
    by (cases x) (auto simp: clone_outcome_def cloneAppErrorPayload_def cloneSystemErrorPayload_def cloneTimeoutPayload_def
      cloneAttrs_def leaf_defs intro!: total_bnd rules)
qed

lemma total_outcome_iface:
  assumes "closed h" "outcome_iface_fits n h i"
  shows "total h (CloneChapterOutcome n i)"
proof (cases i)
  case (IPointer a)
  with assms(2) obtain x where x: "cells h a = Some (COutcome x)" "outcome_fits n h x" by (auto split: option.splits cell.splits)
  show ?thesis unfolding CloneChapterOutcome_def IPointer iface.case
    by (rule total_load [OF assms(1) x(1)]) (auto intro!: total_bnd total_outcome [OF assms(1) x(2)])
qed (use assms in \<open>auto simp: CloneChapterOutcome_def intro!: total_bnd total_outcome\<close>)

lemma total_body:
  assumes "closed h" "body_fits n h b"
  shows "total h (clone_body n b)"
  using assms(2)
  by (cases b) (auto simp: clone_body_def leaf_defs intro!: total_bnd total_leaf [OF assms(1)] total_outcome_iface [OF assms(1)])

lemma total_body_iface:
  assumes "closed h" "body_iface_fits n h i"
  shows "total h (CloneChapterBody n i)"
proof (cases i)
  case (IPointer a)
  with assms(2) obtain x where x: "cells h a = Some (CBody x)" "body_fits n h x" by (auto split: option.splits cell.splits)
  show ?thesis unfolding CloneChapterBody_def IPointer iface.case
    by (rule total_load [OF assms(1) x(1)]) (auto intro!: total_bnd total_body [OF assms(1) x(2)])
qed (use assms in \<open>auto simp: CloneChapterBody_def intro!: total_bnd total_body\<close>)

lemma total_chapter:
  assumes "closed h" "chapter_fits n h c"
  shows "total h (CloneChapter n c)"
proof -
  note rules = total_body_iface [OF assms(1)] total_fields [OF assms(1) _ total_meta [OF assms(1)]] total_leaf [OF assms(1)]
  show ?thesis using assms(2)
    by (auto simp: CloneChapter_def CloneChapterMetadata_def cloneChapterMetadataFields_def chapter_fits_def
      intro!: total_bnd rules)
qed

subsection \<open>Chapters\<close>

definition look_chapter :: "(addr \<Rightarrow> tree) \<Rightarrow> addr whole_chapter \<Rightarrow> tree whole_chapter" where
  "look_chapter g c = Chapter (look_iface map_cbody g (ch_Body c)) (map_option g (ch_Metadata c))
     (map_option g (ch_Artifacts c)) (ch_rest c)"

definition refs_chapter :: "addr whole_chapter \<Rightarrow> addr set" where
  "refs_chapter c = refs_iface set_cbody (ch_Body c) \<union> set_option (ch_Metadata c) \<union> set_option (ch_Artifacts c)"

interpretation chapter_struct: container look_chapter refs_chapter
  by unfold_locales (auto simp: look_chapter_def refs_chapter_def intro!: body_iface.look_cong reference.look_cong)

lemma metadata_cloner: "cloner map_option set_option (\<lambda>_. True) (CloneChapterMetadata n)"
proof -
  have "CloneChapterMetadata n = clone_fields (cloneChapterMetadataValue n)"
    by (rule ext) (auto simp: CloneChapterMetadata_def cloneChapterMetadataFields_def clone_fields_def on_ref_def)
  then show ?thesis using clone_fields_cloner [OF meta_value_cloner] by simp
qed

lemma chapter_cloner: "cloner look_chapter refs_chapter (\<lambda>c. body_iface_plain (ch_Body c)) (CloneChapter n)"
  unfolding cloner_def
proof (intro allI impI, elim conjE)
  fix h c c' h' assume c: "closed h" "refs_chapter c \<subseteq> {..<free h}" "body_iface_plain (ch_Body c)" "CloneChapter n c h = Some (c', h')"
  obtain b m xs rest where cs: "c = Chapter b m xs rest" by (cases c)
  obtain b' h1 m' h2 xs' where run: "CloneChapterBody n b h = Some (b', h1)" "CloneChapterMetadata n m h1 = Some (m', h2)"
    "on_ref (copied is_artifacts) xs h2 = Some (xs', h')" "c' = Chapter b' m' xs' rest"
    using c(4) by (auto simp: CloneChapter_def cs bnd_Some)
  have sub: "refs_iface set_cbody b \<subseteq> {..<free h}" "set_option m \<subseteq> {..<free h}" "set_option xs \<subseteq> {..<free h}"
    using c(2) by (auto simp: refs_chapter_def cs)
  note opt = reference.container_axioms
  have c1: "copy_of (look_iface map_cbody) (refs_iface set_cbody) body_iface_plain h b b' h1"
    by (rule clonerD [OF body_iface_cloner c(1) sub(1) _ run(1)]) (use c(3) cs in simp)
  note c2 = second_copy [OF opt c(1) c1 sub(2) metadata_cloner TrueI run(2)]
  note c3 = second_copy [OF opt c(1) c2(1) sub(3) leaf_cloners(4) TrueI run(3)]
  note all = body_iface.copy_later [OF body_iface.copy_later [OF c1 c2(2)] c3(2)] reference.copy_later [OF c2(1) c3(2)] c3(1)
  then show "copy_of look_chapter refs_chapter (\<lambda>c. body_iface_plain (ch_Body c)) h c c' h'"
    by (auto simp: copy_of_def cs run(4) look_chapter_def refs_chapter_def)
qed

text \<open>What lies above the cells of a closed heap does not matter for how they look.\<close>

lemma view_below:
  assumes "closed h" "\<forall>a < free h. cells h'' a = cells h a" "a < free h"
  shows "view n h'' a = view n h a"
proof (rule island_view [of "\<lparr>cells = Map.empty, free = 0\<rparr>"])
  show "island \<lparr>cells = Map.empty, free = 0\<rparr> h"
    using assms(1) unfolding island_def grows_def by (fastforce simp: closed_def)
qed (use assms in auto)


definition sample_memory :: heap where
  "sample_memory = \<lparr>cells = [0 \<mapsto> CBytes ''in'', 1 \<mapsto> CAnys [VBytes (Some 0)], 2 \<mapsto> CAttrs [(''list'', VSlice (Some 1))],
     3 \<mapsto> COutcome (OAppError (AppError (Some 2) None None ''failed'')), 4 \<mapsto> CFields [(''key'', Mval ''1'' None None)],
     5 \<mapsto> CArtifacts [''log'']], free = 6\<rparr>"

definition sample_chapter :: "addr whole_chapter" where
  "sample_chapter = Chapter (IHeld (BJobAttempt (IPointer 3))) (Some 4) (Some 5) ''attempt''"


end
