(* ===== verification/Installer.thy ===== *)
theory Installer
  imports Go_Types
begin

section \<open>The installer\<close>

text \<open>
  \<^verbatim>\<open>installer/installer.go\<close> over the catalog of a PostgreSQL database: its schemas, its tables and views with
  their columns, its routines and the rows of the marker table \<^verbatim>\<open>pgjobdb.installation\<close>, all as the
  connecting role sees them. Every query is one statement, and each statement has its own fate of the
  connection (\<open>conn\<close>); an error of the server other than the guard in the script counts as a statement
  that did not run. The script is the embedded text of \<^verbatim>\<open>pgjobdb.sql\<close> and \<^verbatim>\<open>goal_discovery.sql\<close>: it creates
  what is missing, adds three columns and replaces views and functions. Indexes, triggers, sequences, the
  extension \<^verbatim>\<open>pgcrypto\<close> and the columns of views are not kept. The text behind \<^verbatim>\<open>%w\<close>, \<^verbatim>\<open>%s\<close> and \<^verbatim>\<open>%q\<close> is dropped.
\<close>

subsection \<open>The catalog\<close>

datatype relkind = RelTable | RelView

record relation =
  rel_schema :: string
  rel_name :: string
  rel_kind :: relkind
  rel_columns :: "string list"

record catalog =
  cat_schemata :: "string list"
  cat_relations :: "relation list"
  cat_routines :: "(string \<times> string) list"
  cat_marker :: "(string \<times> int) list"

definition has_relation :: "catalog \<Rightarrow> string \<Rightarrow> string \<Rightarrow> bool" where
  "has_relation c s n \<longleftrightarrow> (s, n) \<in> (\<lambda>r. (rel_schema r, rel_name r)) ` set (cat_relations c)"

definition has_column :: "catalog \<Rightarrow> string \<Rightarrow> string \<Rightarrow> string \<Rightarrow> bool" where
  "has_column c s n x \<longleftrightarrow> (\<exists>r \<in> set (cat_relations c). rel_schema r = s \<and> rel_name r = n \<and> x \<in> set (rel_columns r))"

text \<open>Tables outside the system schemas; \<^verbatim>\<open>NOT LIKE 'pg_toast%'\<close> treats the underscore as any character.\<close>

definition user_schema :: "string \<Rightarrow> bool" where
  "user_schema s \<longleftrightarrow> s \<noteq> ''pg_catalog'' \<and> s \<noteq> ''information_schema'' \<and>
     \<not> (take 2 s = ''pg'' \<and> 8 \<le> length s \<and> take 5 (drop 3 s) = ''toast'')"

definition user_tables :: "catalog \<Rightarrow> relation list" where
  "user_tables c = filter (\<lambda>r. rel_kind r = RelTable \<and> user_schema (rel_schema r)) (cat_relations c)"

subsection \<open>The script\<close>

definition ddl_tables :: "(string \<times> string list) list" where
  "ddl_tables = [
     (''installation'',
       [''name'', ''format_version'', ''installed_at'']),
     (''goals'',
       [''tenant_id'', ''goal_id'', ''state'', ''revision'', ''successful_job_id'', ''failure'',
        ''created_at'', ''updated_at'', ''closed_at'']),
     (''job_preparations'',
       [''tenant_id'', ''job_id'', ''goal_id'', ''request_id'', ''prior_job_id'', ''share_goal'',
        ''descriptor'', ''dependencies'', ''published'']),
     (''goal_candidates'',
       [''tenant_id'', ''goal_id'', ''job_id'', ''added_at'']),
     (''dependency_waits'',
       [''tenant_id'', ''job_id'', ''wait_id'', ''descriptor'', ''deadline'', ''state'', ''outcome'']),
     (''dependency_targets'',
       [''tenant_id'', ''job_id'', ''wait_id'', ''target_kind'', ''target_id'']),
     (''jobs'',
       [''goal_id'', ''dependency_wait_id'', ''tenant_id'', ''job_id'', ''alternate_after_seconds'',
        ''alternate_at'', ''wait_for'', ''payload'', ''metadata'', ''available_at'', ''expires_at'',
        ''lease_id'', ''lease_expires_at'', ''lease_expiration_count'', ''consecutive_expirations'',
        ''created_at'', ''cancel_requested'', ''cancel_requested_by'', ''cancel_requested_at'',
        ''route_job_type'', ''work_kind'', ''task_type'', ''resume_job_type'',
        ''task_input_ordinal'', ''task_output_ordinal'', ''task_input_hash'',
        ''alternate_job_type'', ''alternate_task_type'', ''lease_worker_id'',
        ''lease_route_job_type'', ''lease_work_kind'', ''lease_task_type'']),
     (''jobs_archive'',
       [''goal_id'', ''archived_at'', ''tenant_id'', ''job_id'', ''alternate_after_seconds'',
        ''alternate_at'', ''wait_for'', ''payload'', ''metadata'', ''created_at'', ''expires_at'',
        ''lease_id'', ''lease_expiration_count'', ''consecutive_expirations'', ''cancel_requested'',
        ''cancel_requested_by'', ''cancel_requested_at'', ''completion_status'',
        ''completion_detail'', ''completion_error_kind'', ''completion_retryable'',
        ''final_route_job_type'', ''final_work_kind'', ''final_task_type'',
        ''final_resume_job_type'', ''final_task_input_ordinal'', ''final_task_output_ordinal'',
        ''final_task_input_hash'', ''final_alternate_job_type'', ''final_alternate_task_type'',
        ''final_alternate_after_seconds'', ''final_alternate_at'', ''final_wait_for'',
        ''final_available_at'', ''final_lease_expires_at'', ''final_lease_worker_id'',
        ''final_cancel_requested'']),
     (''jobs_trace'',
       [''trace_id'', ''tenant_id'', ''job_id'', ''event_type'', ''worker_id'', ''event_at'',
        ''input_data'', ''output_data'']),
     (''schedules'',
       [''tenant_id'', ''schedule_id'', ''state'', ''generation'', ''spec_hash'', ''trigger'',
        ''target_job_type'', ''target_snapshot'', ''overlap_policy'', ''failure_policy'',
        ''next_fire_at'', ''next_job_id'', ''created_at'', ''updated_at'']),
     (''job_facts'',
       [''goal_id'', ''initial_dependencies'', ''tenant_id'', ''job_id'', ''job_type'',
        ''run_policy'', ''app_metadata'', ''schema_hash'', ''parent_job_id'', ''schedule_id'',
        ''schedule_generation'', ''schedule_spec_hash'', ''scheduled_at'', ''schedule_run_id'',
        ''schedule_reason'', ''schedule_manual'', ''schedule_backfill_id'',
        ''schedule_previous_job_id'', ''schedule_failure_history'', ''created_by_worker_id'',
        ''created_at'', ''expires_at'']),
     (''job_client_state'',
       [''tenant_id'', ''job_id'', ''client_payload'', ''revision'', ''initial_payload_digest''])]"

definition ddl_functions :: "string list" where
  "ddl_functions = [
     ''_goal_lock'', ''crash_concern_threshold'', ''set_crash_concern_threshold'',
     ''job_status_at'', ''effective_native_route'', ''is_trace_enabled'', ''set_trace'',
     ''is_notify_enabled'', ''set_notify'', ''_lock_job_for_status'', ''_notify_work'',
     ''_emit_trace_event'', ''_archive_and_delete_job'', ''_update_waiters_for_completion_bulk'',
     ''_update_waiters_for_completion'', ''_complete_locked_job'', ''normalize_wait_for'',
     ''_cancel_job'', ''_extend_lease'', ''clear_crash_concern'', ''archive_cancelled_jobs'',
     ''upsert_schedule'', ''mutate_schedule'', ''pause_schedule'', ''resume_schedule'',
     ''archive_schedule'', ''get_schedule'', ''list_schedules'', ''_immutable_goal_id'',
     ''_check_active_goal'', ''goal_info'', ''_goal_members'', ''_close_wait'', ''_evaluate_wait'',
     ''_save_wait'', ''_settle_target'', ''_cancel_waits'', ''_check_goal_cycle'',
     ''_validate_dependencies'', ''_register_wait'', ''dependency_wait_info'',
     ''_expire_goal_waits'', ''_preparation_mismatch'', ''prepare_job'', ''_resolve_goal'',
     ''add_goal_candidate'', ''fail_goal'', ''_archive_goal_identity'', ''_terminal_goals'',
     ''_client_json_string'', ''_canonical_client_json'', ''_merge_client_json'',
     ''_client_update_value'', ''_update_client_payload'', ''submit_native_job'',
     ''get_native_work'', ''_complete_native_locked_job'', ''complete_native_job'',
     ''complete_native_unheld_job'', ''validate_native_lease'', ''renew_native_lease'',
     ''cancel_native_job'', ''reschedule_native_job'', ''claim_native_task'', ''get_native_job'',
     ''get_native_job_status'', ''list_native_jobs'', ''list_native_schedule_runs'',
     ''delete_native_jobs'']"

definition ddl_added_columns :: "(string \<times> string) list" where
  "ddl_added_columns = [(''dependency_waits'', ''deadline_exact''), (''jobs'', ''wait_until_is_deadline''),
     (''job_facts'', ''hidden_at'')]"

definition ddl_views :: "string list" where
  "ddl_views = [''jobs_with_status'', ''native_jobs'']"

definition own_relation :: "relkind \<Rightarrow> string \<Rightarrow> string list \<Rightarrow> relation" where
  "own_relation kind n columns = \<lparr>rel_schema = ''pgjobdb'', rel_name = n, rel_kind = kind, rel_columns = columns\<rparr>"

text \<open>\<^verbatim>\<open>CREATE TABLE IF NOT EXISTS\<close>, \<^verbatim>\<open>ADD COLUMN IF NOT EXISTS\<close> and the rest of the script.\<close>

definition create_relation :: "relation \<Rightarrow> relation list \<Rightarrow> relation list" where
  "create_relation r rs =
     (if (rel_schema r, rel_name r) \<in> (\<lambda>r. (rel_schema r, rel_name r)) ` set rs then rs else rs @ [r])"

definition add_column :: "string \<times> string \<Rightarrow> relation list \<Rightarrow> relation list" where
  "add_column tc rs = map (\<lambda>r. if (rel_schema r, rel_name r) = (''pgjobdb'', fst tc) \<and> snd tc \<notin> set (rel_columns r)
     then r\<lparr>rel_columns := rel_columns r @ [snd tc]\<rparr> else r) rs"

definition create_missing :: "'a list \<Rightarrow> 'a list \<Rightarrow> 'a list" where
  "create_missing xs ys = ys @ filter (\<lambda>x. x \<notin> set ys) xs"

definition ddl_relations :: "relation list" where
  "ddl_relations = map (\<lambda>(t, columns). own_relation RelTable t columns) ddl_tables @
     map (\<lambda>v. own_relation RelView v []) ddl_views"

definition installed :: "catalog \<Rightarrow> catalog" where
  "installed c = \<lparr>cat_schemata = create_missing [''pgjobdb''] (cat_schemata c),
     cat_relations = fold add_column ddl_added_columns (fold create_relation ddl_relations (cat_relations c)),
     cat_routines = create_missing (map (Pair ''pgjobdb'') ddl_functions) (cat_routines c),
     cat_marker = (if map_of (cat_marker c) ''pgjobdb'' = None then cat_marker c @ [(''pgjobdb'', 7)] else cat_marker c)\<rparr>"

definition run_script :: "catalog \<Rightarrow> (unit \<times> catalog) res" where
  "run_script c =
     (if has_relation c ''pgjobdb'' ''installation'' \<and> map_of (cat_marker c) ''pgjobdb'' \<noteq> Some 7
      then raise ''unsupported pgjobdb format; create a fresh database''
      else Inr ((), installed c))"

subsection \<open>The queries\<close>

datatype statement =
    LegacySchema
  | OwnSchema
  | UserTables
  | MarkerTable
  | MarkerVersion
  | Script
  | TableExists string
  | ColumnExists string string
  | FunctionExists string

type_synonym conn = "statement \<Rightarrow> link"

definition ask :: "conn \<Rightarrow> statement \<Rightarrow> 'a \<Rightarrow> 'a go" where
  "ask conn s v = (case conn s of LinkUp \<Rightarrow> Inr v | LinkDown m \<Rightarrow> Inl (DriverErr m) | LinkLost m \<Rightarrow> Inl (DriverErr m))"

definition wrapped :: "string \<Rightarrow> 'a go \<Rightarrow> 'a go" where
  "wrapped prefix r = (case r of Inl x \<Rightarrow> Inl (Err prefix) | Inr v \<Rightarrow> Inr v)"

definition refuse_when :: "bool \<Rightarrow> string \<Rightarrow> unit go" where
  "refuse_when b m = (if b then Inl (Err m) else Inr ())"

record installer =
  in_db_nil :: bool
  in_Schema :: string

definition schemaName :: "installer \<Rightarrow> string" where
  "schemaName i = (if in_Schema i = '''' then ''pgjobdb'' else in_Schema i)"

definition schema_char :: "nat \<Rightarrow> char \<Rightarrow> bool" where
  "schema_char offset c = (let n = of_char c :: nat in
     (97 \<le> n \<and> n \<le> 122) \<or> c = CHR ''_'' \<or> (offset > 0 \<and> 48 \<le> n \<and> n \<le> 57))"

definition validateSchemaName :: "installer \<Rightarrow> unit go" where
  "validateSchemaName i = (let schema = schemaName i in
     if length schema = 0 \<or> length schema > 63 then Inl (Err ''pgjobdb: invalid schema name '')
     else if \<exists>(offset, c) \<in> set (enumerate 0 schema). \<not> schema_char offset c
     then Inl (Err ''pgjobdb: invalid schema name '')
     else if schema \<noteq> ''pgjobdb'' then Inl (Err ''pgjobdb: unsupported schema '')
     else Inr ())"

definition assertInstallation :: "conn \<Rightarrow> string \<Rightarrow> catalog \<Rightarrow> unit go" where
  "assertInstallation conn schema c =
     bind_res (wrapped ''pgjobdb: inspect installation marker: '' (ask conn MarkerTable (has_relation c schema ''installation'')))
       (\<lambda>marker. if \<not> marker then Inl (Err ''pgjobdb: schema has no installation marker'')
     else bind_res (wrapped ''pgjobdb: read installation marker: '' (bind_res (ask conn MarkerVersion (map_of (cat_marker c) schema))
         (\<lambda>row. case row of None \<Rightarrow> Inl NoRows | Some v \<Rightarrow> Inr v)))
       (\<lambda>version. refuse_when (version \<noteq> 7) ''pgjobdb: unsupported schema format ''))"

definition validateDatabase :: "conn \<Rightarrow> installer \<Rightarrow> catalog \<Rightarrow> unit go" where
  "validateDatabase conn i c =
     bind_res (validateSchemaName i) (\<lambda>_.
     bind_res (wrapped ''pgjobdb: inspect legacy scheduler: '' (ask conn LegacySchema (''pgwf'' \<in> set (cat_schemata c)))) (\<lambda>old.
     if old then Inl (Err ''pgjobdb: legacy pgwf schema found; use a new empty database'')
     else bind_res (wrapped ''pgjobdb: inspect schema: '' (ask conn OwnSchema (schemaName i \<in> set (cat_schemata c)))) (\<lambda>initialized.
     if initialized then assertInstallation conn (schemaName i) c
     else bind_res (wrapped ''pgjobdb: inspect existing tables: '' (ask conn UserTables (user_tables c \<noteq> []))) (\<lambda>existing.
     refuse_when existing ''pgjobdb: existing table found; use a new empty database''))))"

definition Apply :: "conn \<Rightarrow> bool \<Rightarrow> installer \<Rightarrow> catalog \<Rightarrow> unit go \<times> catalog" where
  "Apply conn ctx_nil i c =
     (if in_db_nil i then (Inl (Err ''pgjobdb: installer DB is nil''), c)
      else if ctx_nil then (Inl (Err ''pgjobdb: context is nil''), c)
      else case validateDatabase conn i c of
        Inl x \<Rightarrow> (Inl x, c)
      | Inr _ \<Rightarrow> (case conn Script of
          LinkDown m \<Rightarrow> (Inl (DriverErr m), c)
        | LinkLost m \<Rightarrow> (Inl (DriverErr m), case run_script c of Inl _ \<Rightarrow> c | Inr (_, c') \<Rightarrow> c')
        | LinkUp \<Rightarrow> (case run_script c of Inl x \<Rightarrow> (Inl (PgErr x), c) | Inr (_, c') \<Rightarrow> (Inr (), c'))))"

subsection \<open>Verification of an installation\<close>

definition required_tables :: "string list" where
  "required_tables = [''installation'', ''jobs'', ''jobs_archive'', ''jobs_trace'', ''schedules'', ''job_facts'',
     ''job_client_state'', ''goals'', ''goal_candidates'', ''job_preparations'', ''dependency_waits'', ''dependency_targets'']"

definition required_columns :: "(string \<times> string list) list" where
  "required_columns = [(''dependency_waits'', [''deadline_exact'']),
     (''job_facts'', [''hidden_at'', ''goal_id'']),
     (''job_client_state'', [''client_payload'', ''revision'', ''initial_payload_digest'']),
     (''jobs'', [''goal_id'', ''dependency_wait_id'', ''route_job_type'', ''work_kind'', ''lease_worker_id'',
        ''lease_route_job_type'', ''lease_work_kind'', ''lease_task_type'', ''alternate_at'', ''wait_until_is_deadline'']),
     (''jobs_archive'', [''final_route_job_type'', ''final_work_kind'', ''final_alternate_at''])]"

definition required_functions :: "string list" where
  "required_functions = [''prepare_job'', ''goal_info'', ''add_goal_candidate'', ''fail_goal'', ''dependency_wait_info'',
     ''submit_native_job'', ''get_native_work'', ''delete_native_jobs'', ''job_status_at'', ''effective_native_route'',
     ''complete_native_job'', ''complete_native_unheld_job'', ''validate_native_lease'', ''renew_native_lease'',
     ''cancel_native_job'', ''reschedule_native_job'', ''claim_native_task'', ''get_native_job'', ''get_native_job_status'',
     ''list_native_jobs'', ''list_native_schedule_runs'', ''upsert_schedule'', ''pause_schedule'', ''resume_schedule'',
     ''archive_schedule'', ''get_schedule'', ''list_schedules'']"

definition present_or :: "string \<Rightarrow> bool go \<Rightarrow> unit go" where
  "present_or m r = bind_res r (\<lambda>ok. refuse_when (\<not> ok) m)"

definition assertTable :: "conn \<Rightarrow> string \<Rightarrow> catalog \<Rightarrow> string \<Rightarrow> unit go" where
  "assertTable conn schema c t = present_or ''pgjobdb: missing table '' (ask conn (TableExists t) (has_relation c schema t))"

definition assertColumn :: "conn \<Rightarrow> string \<Rightarrow> catalog \<Rightarrow> string \<Rightarrow> string \<Rightarrow> unit go" where
  "assertColumn conn schema c t x =
     present_or ''pgjobdb: missing column '' (ask conn (ColumnExists t x) (has_column c schema t x))"

definition assertFunction :: "conn \<Rightarrow> string \<Rightarrow> catalog \<Rightarrow> string \<Rightarrow> unit go" where
  "assertFunction conn schema c f =
     present_or ''pgjobdb: missing function '' (ask conn (FunctionExists f) ((schema, f) \<in> set (cat_routines c)))"

fun for_each :: "('a \<Rightarrow> unit go) \<Rightarrow> 'a list \<Rightarrow> unit go" where
  "for_each f [] = Inr ()"
| "for_each f (x # xs) = bind_res (f x) (\<lambda>_. for_each f xs)"

text \<open>\<open>groups\<close> is the map of required columns in the order in which this run iterates over it.\<close>

definition Verify :: "conn \<Rightarrow> (string \<times> string list) list \<Rightarrow> bool \<Rightarrow> installer \<Rightarrow> catalog \<Rightarrow> unit go" where
  "Verify conn groups ctx_nil i c =
     (if in_db_nil i then Inl (Err ''pgjobdb: installer DB is nil'')
      else if ctx_nil then Inl (Err ''pgjobdb: context is nil'')
      else bind_res (validateSchemaName i) (\<lambda>_. let schema = schemaName i in
       bind_res (for_each (assertTable conn schema c) required_tables) (\<lambda>_.
       bind_res (for_each (\<lambda>(t, xs). for_each (assertColumn conn schema c t) xs) groups) (\<lambda>_.
       bind_res (for_each (assertFunction conn schema c) required_functions) (\<lambda>_.
       assertInstallation conn schema c)))))"

end
