(* ===== verification/Installer_Guarantees.thy ===== *)
theory Installer_Guarantees
  imports Installer "HOL-Library.Sublist"
begin

section \<open>Guarantees of the installer\<close>

text \<open>
  The installer writes only to a database that is empty or carries its own marker, it never takes
  anything away, one application makes an empty database pass the verification, and the verification
  says exactly that everything required is there.
\<close>

subsection \<open>What the script adds\<close>

abbreviation rel_key :: "relation \<Rightarrow> string \<times> string" where
  "rel_key r \<equiv> (rel_schema r, rel_name r)"

abbreviation rel_keys :: "relation list \<Rightarrow> (string \<times> string) set" where
  "rel_keys rs \<equiv> rel_key ` set rs"

definition rel_within :: "relation \<Rightarrow> relation \<Rightarrow> bool" where
  "rel_within r r' \<longleftrightarrow> rel_key r' = rel_key r \<and> rel_kind r' = rel_kind r \<and> prefix (rel_columns r) (rel_columns r') \<and>
     (rel_schema r \<noteq> ''pgjobdb'' \<longrightarrow> r' = r)"

definition rels_kept :: "relation list \<Rightarrow> relation list \<Rightarrow> bool" where
  "rels_kept rs rs' \<longleftrightarrow> (\<forall>r \<in> set rs. \<exists>r' \<in> set rs'. rel_within r r')"

lemma rel_within_refl: "rel_within r r"
  by (simp add: rel_within_def)

lemma rel_within_trans: "rel_within r s \<Longrightarrow> rel_within s t \<Longrightarrow> rel_within r t"
  unfolding rel_within_def by (auto dest: prefix_order.trans)

lemma rels_kept_refl: "rels_kept rs rs"
  unfolding rels_kept_def using rel_within_refl by blast

lemma rels_kept_trans: "rels_kept rs ss \<Longrightarrow> rels_kept ss ts \<Longrightarrow> rels_kept rs ts"
  unfolding rels_kept_def using rel_within_trans by blast

lemma rels_kept_fold: "(\<And>x rs. rels_kept rs (f x rs)) \<Longrightarrow> rels_kept rs (fold f xs rs)"
  by (induction xs arbitrary: rs) (auto intro: rels_kept_refl rels_kept_trans)

lemma create_relation_kept: "rels_kept rs (create_relation r rs)"
  unfolding rels_kept_def create_relation_def using rel_within_refl by auto

lemma rels_kept_map: "(\<And>r. rel_within r (g r)) \<Longrightarrow> rels_kept rs (map g rs)"
  unfolding rels_kept_def by auto

lemma add_column_kept: "rels_kept rs (add_column tc rs)"
  unfolding add_column_def by (rule rels_kept_map) (simp add: rel_within_def)

definition catalog_kept :: "catalog \<Rightarrow> catalog \<Rightarrow> bool" where
  "catalog_kept c c' \<longleftrightarrow> set (cat_schemata c) \<subseteq> set (cat_schemata c') \<and> rels_kept (cat_relations c) (cat_relations c') \<and>
     set (cat_routines c) \<subseteq> set (cat_routines c') \<and> map_of (cat_marker c) \<subseteq>\<^sub>m map_of (cat_marker c')"

lemma catalog_kept_refl: "catalog_kept c c"
  by (simp add: catalog_kept_def rels_kept_refl)

lemma installed_kept: "catalog_kept c (installed c)"
  unfolding catalog_kept_def
proof (intro conjI)
  show "rels_kept (cat_relations c) (cat_relations (installed c))"
    by (simp add: installed_def) (intro rels_kept_trans [OF rels_kept_fold rels_kept_fold] create_relation_kept add_column_kept)
qed (auto simp: installed_def create_missing_def map_le_def map_add_def)

text \<open>
  C32: the installer never spoils a database. It reports success or changes the catalog only where there
  is no legacy schema and the database has no tables at all or carries the marker of this format; and
  every schema, relation, column, routine and marker that was there is still there, relations of other
  schemas untouched.
\<close>

theorem apply_guarded:
  assumes "Apply conn ctx_nil i c = (r, c')" "r = Inr () \<or> c' \<noteq> c"
  shows "''pgwf'' \<notin> set (cat_schemata c) \<and>
    (if ''pgjobdb'' \<in> set (cat_schemata c) then map_of (cat_marker c) ''pgjobdb'' = Some 7 else user_tables c = []) \<and>
    catalog_kept c c'"
proof -
  have valid: "validateDatabase conn i c = Inr ()"
    using assms by (auto simp: Apply_def split: if_splits sum.splits)
  then have name: "validateSchemaName i = Inr ()" by (simp add: validateDatabase_def bind_res_Inr)
  then have "schemaName i = ''pgjobdb''" by (simp add: validateSchemaName_def Let_def split: if_splits)
  then have guard: "''pgwf'' \<notin> set (cat_schemata c) \<and>
    (if ''pgjobdb'' \<in> set (cat_schemata c) then map_of (cat_marker c) ''pgjobdb'' = Some 7 else user_tables c = [])"
    using valid by (auto simp: validateDatabase_def assertInstallation_def wrapped_def ask_def refuse_when_def bind_res_Inr
      split: sum.splits link.splits if_splits option.splits)
  have "c' = c \<or> c' = installed c"
    using assms(1) by (auto simp: Apply_def run_script_def raise_def split: if_splits sum.splits link.splits)
  then show ?thesis using guard installed_kept catalog_kept_refl by auto
qed

definition empty_catalog :: catalog where
  "empty_catalog = \<lparr>cat_schemata = [''public''], cat_relations = [], cat_routines = [], cat_marker = []\<rparr>"

definition steady :: conn where
  "steady s = LinkUp"

definition default_installer :: installer where
  "default_installer = \<lparr>in_db_nil = False, in_Schema = ''''\<rparr>"

theorem apply_guarded_witness:
  "catalog_kept empty_catalog (snd (Apply steady False default_installer empty_catalog)) \<and>
   has_relation (snd (Apply steady False default_installer empty_catalog)) ''pgjobdb'' ''jobs''"
proof -
  let ?r = "Apply steady False default_installer empty_catalog"
  have ok: "fst ?r = Inr ()" by code_simp
  have jobs: "has_relation (snd ?r) ''pgjobdb'' ''jobs''" by code_simp
  have "?r = (Inr (), snd ?r)" using ok by (metis prod.collapse)
  from apply_guarded [OF this] jobs show ?thesis by blast
qed

subsection \<open>An empty database\<close>

lemma create_relation_present: "rel_key r \<in> rel_keys rs \<Longrightarrow> create_relation r rs = rs"
  by (simp add: create_relation_def)

lemma create_present: "rel_keys xs \<subseteq> rel_keys rs \<Longrightarrow> fold create_relation xs rs = rs"
  by (induction xs) (auto simp: create_relation_present)

lemma create_fresh:
  "rel_keys xs \<inter> rel_keys rs = {} \<Longrightarrow> distinct (map rel_key xs) \<Longrightarrow> fold create_relation xs rs = rs @ xs"
proof (induction xs arbitrary: rs)
  case (Cons x xs)
  then have "create_relation x rs = rs @ [x]" by (auto simp: create_relation_def)
  moreover have "rel_keys xs \<inter> rel_keys (rs @ [x]) = {}" using Cons.prems by auto
  ultimately show ?case using Cons.IH [of "rs @ [x]"] Cons.prems(2) by simp
qed simp

lemma add_column_append: "add_column tc (xs @ ys) = add_column tc xs @ add_column tc ys"
  by (simp add: add_column_def)

lemma add_column_elsewhere: "\<forall>r \<in> set rs. rel_schema r \<noteq> ''pgjobdb'' \<Longrightarrow> add_column tc rs = rs"
  by (simp add: add_column_def map_idI)

lemma add_columns_split:
  assumes "\<forall>r \<in> set rs. rel_schema r \<noteq> ''pgjobdb''"
  shows "fold add_column tcs (rs @ ys) = rs @ fold add_column tcs ys"
  by (induction tcs arbitrary: ys) (simp_all add: add_column_append add_column_elsewhere [OF assms])

definition own_relations :: "relation list" where
  "own_relations = fold add_column ddl_added_columns ddl_relations"

lemma own_relations_facts:
  "distinct (map rel_key ddl_relations)" "\<forall>r \<in> set ddl_relations. rel_schema r = ''pgjobdb''"
  "rel_keys ddl_relations \<subseteq> rel_keys own_relations" "fold add_column ddl_added_columns own_relations = own_relations"
  by code_simp+

lemma required_present:
  "\<forall>t \<in> set required_tables. (''pgjobdb'', t) \<in> rel_keys own_relations"
  "\<forall>g \<in> set required_columns. \<forall>x \<in> set (snd g). \<exists>r \<in> set own_relations. rel_schema r = ''pgjobdb'' \<and>
     rel_name r = fst g \<and> x \<in> set (rel_columns r)"
  "set required_functions \<subseteq> set ddl_functions"
  by code_simp+

text \<open>A relation or a routine belongs to a schema; without the marker table there is no marker row.\<close>

definition catalog_wf :: "catalog \<Rightarrow> bool" where
  "catalog_wf c \<longleftrightarrow> rel_schema ` set (cat_relations c) \<subseteq> set (cat_schemata c) \<and>
     fst ` set (cat_routines c) \<subseteq> set (cat_schemata c) \<and> (\<not> has_relation c ''pgjobdb'' ''installation'' \<longrightarrow> cat_marker c = [])"

lemma installed_fresh:
  assumes "catalog_wf c" "''pgjobdb'' \<notin> set (cat_schemata c)"
  shows "installed c = \<lparr>cat_schemata = cat_schemata c @ [''pgjobdb''], cat_relations = cat_relations c @ own_relations,
    cat_routines = cat_routines c @ map (Pair ''pgjobdb'') ddl_functions, cat_marker = [(''pgjobdb'', 7)]\<rparr>"
proof -
  have other: "\<forall>r \<in> set (cat_relations c). rel_schema r \<noteq> ''pgjobdb''" using assms by (auto simp: catalog_wf_def)
  then have "rel_keys ddl_relations \<inter> rel_keys (cat_relations c) = {}" using own_relations_facts(2) by fastforce
  then have "fold create_relation ddl_relations (cat_relations c) = cat_relations c @ ddl_relations"
    by (rule create_fresh [OF _ own_relations_facts(1)])
  moreover have "cat_marker c = []" using assms(1) other by (auto simp: catalog_wf_def has_relation_def)
  moreover have "(''pgjobdb'', f) \<notin> set (cat_routines c)" for f using assms by (force simp: catalog_wf_def)
  ultimately show ?thesis
    using assms(2) by (simp add: installed_def add_columns_split [OF other] own_relations_def create_missing_def filter_id_conv)
qed

lemma ask_up: "conn s = LinkUp \<Longrightarrow> ask conn s v = Inr v"
  by (simp add: ask_def)

lemma for_each_Inr: "for_each f xs = Inr u \<longleftrightarrow> (\<forall>x \<in> set xs. f x = Inr ())"
  by (induction xs) (auto simp: bind_res_Inr)

lemma asserts_up:
  assumes "\<forall>s. conn s = LinkUp"
  shows "assertTable conn schema c t = Inr u \<longleftrightarrow> has_relation c schema t"
    "assertColumn conn schema c t x = Inr u \<longleftrightarrow> has_column c schema t x"
    "assertFunction conn schema c f = Inr u \<longleftrightarrow> (schema, f) \<in> set (cat_routines c)"
    "assertInstallation conn schema c = Inr u \<longleftrightarrow> has_relation c schema ''installation'' \<and> map_of (cat_marker c) schema = Some 7"
  using assms by (auto simp: assertTable_def assertColumn_def assertFunction_def assertInstallation_def present_or_def ask_up
    refuse_when_def wrapped_def bind_res_Inr split: option.splits sum.splits)

definition complete_installation :: "catalog \<Rightarrow> bool" where
  "complete_installation c \<longleftrightarrow> (\<forall>t \<in> set required_tables. has_relation c ''pgjobdb'' t) \<and>
     (\<forall>g \<in> set required_columns. \<forall>x \<in> set (snd g). has_column c ''pgjobdb'' (fst g) x) \<and>
     (\<forall>f \<in> set required_functions. (''pgjobdb'', f) \<in> set (cat_routines c)) \<and> map_of (cat_marker c) ''pgjobdb'' = Some 7"

text \<open>
  Whatever order the map of required columns is visited in, and as long as no query fails, the verification
  accepts exactly the complete installations.
\<close>

lemma verify_exact:
  assumes "\<forall>s. conn s = LinkUp" "set groups = set required_columns" "\<not> in_db_nil i" "schemaName i = ''pgjobdb''"
  shows "Verify conn groups False i c = Inr () \<longleftrightarrow> complete_installation c"
proof -
  have name: "validateSchemaName i = Inr ()"
    by (simp add: validateSchemaName_def assms(4)) code_simp
  have marker: "''installation'' \<in> set required_tables" by (simp add: required_tables_def)
  show ?thesis unfolding complete_installation_def
    using marker by (auto simp: Verify_def Let_def assms(2-4) name bind_res_Inr for_each_Inr asserts_up [OF assms(1)] split: prod.splits)
qed

lemma empty_database_installed:
  assumes "\<forall>s. conn s = LinkUp" "set groups = set required_columns" "\<not> in_db_nil i" "schemaName i = ''pgjobdb''"
    "catalog_wf c" "''pgwf'' \<notin> set (cat_schemata c)" "''pgjobdb'' \<notin> set (cat_schemata c)" "user_tables c = []"
  shows "Apply conn False i c = (Inr (), installed c) \<and> Verify conn groups False i (installed c) = Inr () \<and>
    Apply conn False i (installed c) = (Inr (), installed c) \<and>
    (\<forall>c'. Verify conn groups False i c' = Inr () \<longleftrightarrow> complete_installation c')"
proof -
  let ?c = "installed c"
  note fresh = installed_fresh [OF assms(5,7)]
  have name: "validateSchemaName i = Inr ()"
    by (simp add: validateSchemaName_def assms(4)) code_simp
  have no_marker: "\<not> has_relation c ''pgjobdb'' ''installation''" using assms(5,7) by (auto simp: catalog_wf_def has_relation_def)
  have "validateDatabase conn i c = Inr ()"
    using assms by (simp add: validateDatabase_def name wrapped_def ask_up refuse_when_def)
  then have first: "Apply conn False i c = (Inr (), ?c)"
    using assms(1,3) no_marker by (simp add: Apply_def run_script_def)
  have complete: "complete_installation ?c"
    unfolding complete_installation_def
  proof (intro conjI ballI)
    show "has_relation ?c ''pgjobdb'' t" if "t \<in> set required_tables" for t
      using required_present(1) that by (auto simp: has_relation_def fresh)
    show "has_column ?c ''pgjobdb'' (fst g) x" if "g \<in> set required_columns" "x \<in> set (snd g)" for g x
      using required_present(2) that by (auto simp: has_column_def fresh)
    show "(''pgjobdb'', f) \<in> set (cat_routines ?c)" if "f \<in> set required_functions" for f
      using required_present(3) that by (auto simp: fresh)
  qed (simp add: fresh)
  have wf: "\<forall>r \<in> set (cat_relations c). rel_schema r \<noteq> ''pgjobdb''" using assms(5,7) by (auto simp: catalog_wf_def)
  have "installed ?c = ?c"
  proof -
    have "fold create_relation ddl_relations (cat_relations c @ own_relations) = cat_relations c @ own_relations"
      using own_relations_facts(3) by (intro create_present) auto
    then show ?thesis unfolding fresh
      by (simp add: installed_def create_missing_def add_columns_split [OF wf] own_relations_facts(4))
  qed
  moreover have "validateDatabase conn i ?c = Inr ()"
  proof -
    have "has_relation ?c ''pgjobdb'' ''installation''" using complete by (simp add: complete_installation_def required_tables_def)
    moreover have "map_of (cat_marker ?c) ''pgjobdb'' = Some 7" by (simp add: fresh)
    ultimately have "assertInstallation conn ''pgjobdb'' ?c = Inr ()" by (simp only: asserts_up(4) [OF assms(1)] simp_thms)
    moreover have "''pgwf'' \<notin> set (cat_schemata ?c)" "''pgjobdb'' \<in> set (cat_schemata ?c)" using assms(6) by (simp_all add: fresh)
    ultimately show ?thesis unfolding validateDatabase_def name assms(4)
      by (simp add: wrapped_def ask_up [OF assms(1) [rule_format]])
  qed
  ultimately have "Apply conn False i ?c = (Inr (), ?c)"
    using assms(1,3) complete by (simp add: Apply_def run_script_def complete_installation_def)
  then show ?thesis using first verify_exact [OF assms(1-4)] complete by simp
qed

text \<open>
  C33: a database without tables is ready after one application: the installer succeeds, the verification
  accepts the result, which it does exactly for a complete installation, and applying the installer again
  succeeds and changes nothing.
\<close>

theorem install_then_verify:
  assumes "\<forall>s. conn s = LinkUp" "set groups = set required_columns" "\<not> in_db_nil i" "schemaName i = ''pgjobdb''"
    "catalog_wf c" "''pgwf'' \<notin> set (cat_schemata c)" "''pgjobdb'' \<notin> set (cat_schemata c)" "user_tables c = []"
  shows "Apply conn False i c = (Inr (), installed c) \<and> Verify conn groups False i (installed c) = Inr () \<and>
    Apply conn False i (installed c) = (Inr (), installed c) \<and>
    (\<forall>c'. Verify conn groups False i c' = Inr () \<longleftrightarrow> complete_installation c')"
  by (rule empty_database_installed [OF assms])

theorem install_then_verify_witness:
  "Verify steady required_columns False default_installer (installed empty_catalog) = Inr ()"
proof -
  have "catalog_wf empty_catalog" "user_tables empty_catalog = []" by code_simp+
  then show ?thesis
    using install_then_verify [of steady required_columns default_installer empty_catalog]
    by (simp add: steady_def default_installer_def schemaName_def empty_catalog_def)
qed

end
