(* ===== verification/Serve_Config.thy ===== *)
theory Serve_Config
  imports Base64 Chapter_Metadata Runtime_Assembly
begin

section \<open>The server command\<close>

text \<open>
  \<^verbatim>\<open>cmd/jobdb/serve.go\<close> and \<^verbatim>\<open>root.go\<close>: how \<^verbatim>\<open>jobdb serve\<close> reads its configuration from the environment, how
  \<^verbatim>\<open>jobdb direct\<close> reads it from flags, and what both do with the runtime. The operating system is the record
  \<open>world\<close>: the environment, the files, and the parser and printer of \<^verbatim>\<open>net/url\<close>; an unset variable reads as the
  empty text. The HTTP server is third-party code: \<open>web\<close> says whether it can be built, how often it calls the
  function it is given to close the runtime, and with which error it ends.
\<close>

record url =
  u_Scheme :: string
  u_Host :: string
  u_Fragment :: string
  u_rest :: string

record world =
  os_Getenv :: "string \<Rightarrow> string"
  os_ReadFile :: "string \<Rightarrow> string option"
  os_url_Parse :: "string \<Rightarrow> url option"
  os_url_String :: "url \<Rightarrow> string"

subsection \<open>Library functions\<close>

text \<open>\<^verbatim>\<open>strings.TrimSpace\<close>: the runes for which \<^verbatim>\<open>unicode.IsSpace\<close> holds, in UTF-8.\<close>

definition spaces :: "string list" where
  "spaces = [[CHR 0x09], [CHR 0x0A], [CHR 0x0B], [CHR 0x0C], [CHR 0x0D], [CHR 0x20], [CHR 0xC2, CHR 0x85], [CHR 0xC2, CHR 0xA0],
     [CHR 0xE1, CHR 0x9A, CHR 0x80], [CHR 0xE2, CHR 0x80, CHR 0xA8], [CHR 0xE2, CHR 0x80, CHR 0xA9],
     [CHR 0xE2, CHR 0x80, CHR 0xAF], [CHR 0xE2, CHR 0x81, CHR 0x9F], [CHR 0xE3, CHR 0x80, CHR 0x80]] @
     map (\<lambda>n. [CHR 0xE2, CHR 0x80, char_of n]) [128 ..< (139 :: nat)]"

definition starts_with :: "string list \<Rightarrow> string \<Rightarrow> string option" where
  "starts_with ws s = find (\<lambda>w. w \<noteq> [] \<and> take (length w) s = w) ws"

lemma starts_with_Some: "starts_with ws s = Some w \<Longrightarrow> w \<noteq> [] \<and> s \<noteq> [] \<and> take (length w) s = w"
  by (auto simp: starts_with_def find_Some_iff)

function drop_prefixes :: "string list \<Rightarrow> string \<Rightarrow> string" where
  "drop_prefixes ws s = (case starts_with ws s of None \<Rightarrow> s | Some w \<Rightarrow> drop_prefixes ws (drop (length w) s))"
  by pat_completeness auto

termination
  by (relation "measure (\<lambda>(ws, s). length s)") (auto dest: starts_with_Some)

declare drop_prefixes.simps [simp del]

definition TrimSpace :: "string \<Rightarrow> string" where
  "TrimSpace s = rev (drop_prefixes (map rev spaces) (rev (drop_prefixes spaces s)))"

text \<open>\<^verbatim>\<open>strings.ToLower\<close> on the scheme of a URL, which is ASCII.\<close>

definition ToLower :: "string \<Rightarrow> string" where
  "ToLower s = map (\<lambda>c. if CHR ''A'' \<le> c \<and> c \<le> CHR ''Z'' then char_of (of_char c + 32 :: nat) else c) s"

definition last_index_of :: "char \<Rightarrow> string \<Rightarrow> nat option" where
  "last_index_of c s = map_option (\<lambda>i. length s - 1 - i) (index_of c (rev s))"

text \<open>\<^verbatim>\<open>net.SplitHostPort\<close>: the address ends in a colon and a port; a host with colons is in brackets.\<close>

definition SplitHostPort :: "string \<Rightarrow> (string \<times> string) option" where
  "SplitHostPort s = (case last_index_of (CHR '':'') s of None \<Rightarrow> None
     | Some i \<Rightarrow>
         if hd s = CHR ''['' then
           (case index_of (CHR '']'') s of None \<Rightarrow> None
            | Some k \<Rightarrow> if k + 1 \<noteq> i \<or> CHR ''['' \<in> set (drop 1 s) \<or> CHR '']'' \<in> set (drop (k + 1) s) then None
                else Some (take (k - 1) (drop 1 s), drop (i + 1) s))
         else if CHR '':'' \<in> set (take i s) \<or> CHR ''['' \<in> set s \<or> CHR '']'' \<in> set s then None
         else Some (take i s, drop (i + 1) s))"

subsection \<open>The environment\<close>

definition blobStoreURIEnvVar :: string where "blobStoreURIEnvVar = ''JOBDB_BLOB_STORE_URI''"
definition leaseTokenSigningKeyEnvVar :: string where "leaseTokenSigningKeyEnvVar = ''JOBDB_LEASE_TOKEN_SIGNING_KEY''"
definition leaseTokenSigningKeyFileEnvVar :: string where "leaseTokenSigningKeyFileEnvVar = ''JOBDB_LEASE_TOKEN_SIGNING_KEY_FILE''"
definition maxInlineArtifactBytesEnvVar :: string where "maxInlineArtifactBytesEnvVar = ''JOBDB_MAX_INLINE_ARTIFACT_BYTES''"
definition postgresDSNEnvVar :: string where "postgresDSNEnvVar = ''JOBDB_POSTGRES_DSN''"
definition sqliteDSNEnvVar :: string where "sqliteDSNEnvVar = ''JOBDB_SQLITE_DSN''"
definition listenAddrEnvVar :: string where "listenAddrEnvVar = ''JOBDB_LISTEN''"
definition defaultServeListenAddr :: string where "defaultServeListenAddr = ''0.0.0.0:8080''"
definition defaultServeMaxInlineBytes :: int where "defaultServeMaxInlineBytes = 4096"
definition minimumServeSigningKeyBytes :: nat where "minimumServeSigningKeyBytes = 32"

definition prohibitedServeEnvVars :: "string list" where
  "prohibitedServeEnvVars = [''JOBDB_BACKEND'', ''JOBDB_DB_PATH'', sqliteDSNEnvVar, ''JOBDB_BLOB_DIR'']"

record serveConfig =
  sv_ListenAddr :: string
  sv_PostgresDSN :: string
  sv_BlobStoreURI :: string
  sv_MaxInlineArtifactBytes :: int
  sv_LeaseTokenSigningKey :: string

definition remoteBlobStoreURI :: "world \<Rightarrow> string \<Rightarrow> string go" where
  "remoteBlobStoreURI W v =
     (if TrimSpace v = '''' then Inl (Err (blobStoreURIEnvVar @ '' is required''))
      else case os_url_Parse W (TrimSpace v) of
        None \<Rightarrow> Inl (Err (''parse '' @ blobStoreURIEnvVar @ '': ''))
      | Some u0 \<Rightarrow> let u = u0\<lparr>u_Scheme := ToLower (u_Scheme u0)\<rparr> in
          if u_Scheme u \<notin> {''s3'', ''gs'', ''azblob''} then Inl (Err (blobStoreURIEnvVar @ '' must use s3, gs, or azblob''))
          else if u_Host u = '''' then Inl (Err (blobStoreURIEnvVar @ '' must identify a bucket or container''))
          else if u_Fragment u \<noteq> '''' then Inl (Err (blobStoreURIEnvVar @ '' must not contain a fragment''))
          else Inr (os_url_String W u))"

definition serveSigningKeyFromEnv :: "world \<Rightarrow> string go" where
  "serveSigningKeyFromEnv W =
     (let directValue = TrimSpace (os_Getenv W leaseTokenSigningKeyEnvVar);
          fileName = TrimSpace (os_Getenv W leaseTokenSigningKeyFileEnvVar) in
      if directValue \<noteq> '''' \<and> fileName \<noteq> ''''
      then Inl (Err (''set exactly one of '' @ leaseTokenSigningKeyEnvVar @ '' and '' @ leaseTokenSigningKeyFileEnvVar))
      else if directValue = '''' \<and> fileName = ''''
      then Inl (Err (''one of '' @ leaseTokenSigningKeyEnvVar @ '' or '' @ leaseTokenSigningKeyFileEnvVar @ '' is required''))
      else bind_res
        (if fileName \<noteq> '''' then (case os_ReadFile W fileName of
             None \<Rightarrow> Inl (Err (''read '' @ leaseTokenSigningKeyFileEnvVar @ '': ''))
           | Some contents \<Rightarrow> Inr (TrimSpace contents))
         else Inr directValue)
        (\<lambda>encoded. case DecodeString StdEncodingStrict encoded of
            None \<Rightarrow> Inl (Err ''configured lease token signing key must be valid base64'')
          | Some key \<Rightarrow>
              if length key < minimumServeSigningKeyBytes
              then Inl (Err ''configured lease token signing key must decode to at least 32 bytes'')
              else Inr key))"

definition validateServeListenAddr :: "string \<Rightarrow> unit go" where
  "validateServeListenAddr v = (case SplitHostPort v of
     None \<Rightarrow> Inl (Err (''parse '' @ listenAddrEnvVar @ '': ''))
   | Some (host, port) \<Rightarrow>
       let invalid = Inl (Err (listenAddrEnvVar @ '' must contain a TCP port from 1 through 65535'')) in
       (case ParseInt port of None \<Rightarrow> invalid
        | Some n \<Rightarrow> if n < 1 \<or> n > 65535 then invalid else Inr ()))"

fun prohibited_set :: "world \<Rightarrow> string list \<Rightarrow> unit go" where
  "prohibited_set W [] = Inr ()"
| "prohibited_set W (name # names) =
     (if os_Getenv W name \<noteq> '''' then Inl (Err (name @ '' is not supported by jobdb serve'')) else prohibited_set W names)"

definition inline_limit :: "world \<Rightarrow> int go" where
  "inline_limit W =
     (let v = TrimSpace (os_Getenv W maxInlineArtifactBytesEnvVar);
          invalid = Inl (Err (maxInlineArtifactBytesEnvVar @ '' must be a positive base-10 integer'')) in
      if v = '''' then Inr defaultServeMaxInlineBytes
      else case ParseInt v of None \<Rightarrow> invalid | Some n \<Rightarrow> if n \<le> 0 then invalid else Inr n)"

definition listen_addr :: "world \<Rightarrow> string" where
  "listen_addr W = (let v = TrimSpace (os_Getenv W listenAddrEnvVar) in if v = '''' then defaultServeListenAddr else v)"

definition serveConfigFromEnv :: "world \<Rightarrow> serveConfig go" where
  "serveConfigFromEnv W =
     bind_res (prohibited_set W prohibitedServeEnvVars) (\<lambda>_.
     let postgresDSN = TrimSpace (os_Getenv W postgresDSNEnvVar) in
     if postgresDSN = '''' then Inl (Err (postgresDSNEnvVar @ '' is required''))
     else bind_res (remoteBlobStoreURI W (os_Getenv W blobStoreURIEnvVar)) (\<lambda>blobStoreURI.
     bind_res (serveSigningKeyFromEnv W) (\<lambda>key.
     bind_res (validateServeListenAddr (listen_addr W)) (\<lambda>_.
     bind_res (inline_limit W) (\<lambda>limit.
     Inr \<lparr>sv_ListenAddr = listen_addr W, sv_PostgresDSN = postgresDSN, sv_BlobStoreURI = blobStoreURI,
       sv_MaxInlineArtifactBytes = limit, sv_LeaseTokenSigningKey = key\<rparr>)))))"

subsection \<open>The commands\<close>

record directServerConfig =
  ds_ListenAddr :: string
  ds_PostgresDSN :: string
  ds_BlobStoreURI :: string
  ds_MaxInlineArtifactBytes :: int
  ds_LeaseTokenSigningKey :: string

datatype handler = PlainServer | SigningServer string

record web =
  web_build :: "go_error option"
  web_closes :: nat
  web_serve :: "go_error list"

text \<open>What a command ends with: its errors, the address and the handler it served, if any, and the events.\<close>

type_synonym outcome_of_run = "go_error list \<times> (string \<times> handler) option \<times> catalog \<times> event list"

definition runDirectServer :: "parts \<Rightarrow> session \<Rightarrow> web \<Rightarrow> directServerConfig \<Rightarrow> catalog \<Rightarrow> outcome_of_run" where
  "runDirectServer p s w cfg c =
     (case OpenDSN p s False (ds_PostgresDSN cfg) \<lparr>cfg_PostgresDSN = '''', cfg_BlobStoreURI = ds_BlobStoreURI cfg\<rparr> c of
        (Inl x, c1, es) \<Rightarrow> ([Err ''build direct runtime: ''], None, c1, es)
      | (Inr rt, c1, es) \<Rightarrow>
          (let key = ds_LeaseTokenSigningKey cfg;
               serve = (\<lambda>h. (web_serve w, Some (ds_ListenAddr cfg, h), c1, es @ closed_times p (web_closes w) (Some rt))) in
           if key = '''' then serve PlainServer
           else case web_build w of
             None \<Rightarrow> serve (SigningServer key)
           | Some x \<Rightarrow> (case Close p (Some rt) of (errs, _, cs) \<Rightarrow>
               (Err ''build remote server: '' # errs, None, c1, es @ cs))))"

definition joined_flags :: "string list \<Rightarrow> string" where
  "joined_flags names = (case names of [] \<Rightarrow> [] | n # ns \<Rightarrow> n @ concat (map (\<lambda>m. '', '' @ m) ns))"

definition rejectServeFlags :: "string list \<Rightarrow> string list \<Rightarrow> unit go" where
  "rejectServeFlags own inherited =
     (let changed = remdups (own @ inherited) in
      if changed = [] then Inr ()
      else Inl (Err (''jobdb serve does not accept flags ('' @ joined_flags (sort (map (\<lambda>n. ''--'' @ n) changed)) @
        ''); use its documented environment variables'')))"

definition newServeCmd :: "parts \<Rightarrow> session \<Rightarrow> web \<Rightarrow> world \<Rightarrow> string list \<Rightarrow> string list \<Rightarrow> catalog \<Rightarrow> outcome_of_run" where
  "newServeCmd p s w W own inherited c =
     (case bind_res (rejectServeFlags own inherited) (\<lambda>_. serveConfigFromEnv W) of
        Inl x \<Rightarrow> ([x], None, c, [])
      | Inr cfg \<Rightarrow> runDirectServer p s w \<lparr>ds_ListenAddr = sv_ListenAddr cfg, ds_PostgresDSN = sv_PostgresDSN cfg,
          ds_BlobStoreURI = sv_BlobStoreURI cfg, ds_MaxInlineArtifactBytes = sv_MaxInlineArtifactBytes cfg,
          ds_LeaseTokenSigningKey = sv_LeaseTokenSigningKey cfg\<rparr> c)"

definition resolveRequiredString :: "world \<Rightarrow> string \<Rightarrow> string \<Rightarrow> string \<Rightarrow> string go" where
  "resolveRequiredString W flagValue envVar fieldName =
     (if flagValue \<noteq> '''' then Inr flagValue
      else if os_Getenv W envVar \<noteq> '''' then Inr (os_Getenv W envVar)
      else Inl (Err (fieldName @ '' is required via --postgres-dsn or '' @ envVar)))"

text \<open>The flags \<^verbatim>\<open>listen\<close> and \<^verbatim>\<open>blob-store-uri\<close> belong to the root command; a flag it lacks is an error.\<close>

definition newDirectCmd :: "parts \<Rightarrow> session \<Rightarrow> web \<Rightarrow> world \<Rightarrow> string \<Rightarrow> string go \<Rightarrow> string go \<Rightarrow> catalog \<Rightarrow> outcome_of_run" where
  "newDirectCmd p s w W postgresDSN listen blob_store c =
     (case bind_res (resolveRequiredString W postgresDSN postgresDSNEnvVar ''postgres DSN'') (\<lambda>dsn.
           bind_res listen (\<lambda>listenAddr. bind_res blob_store (\<lambda>blobStoreURI. Inr (dsn, listenAddr, blobStoreURI)))) of
        Inl x \<Rightarrow> ([x], None, c, [])
      | Inr (dsn, listenAddr, blobStoreURI) \<Rightarrow> runDirectServer p s w \<lparr>ds_ListenAddr = listenAddr, ds_PostgresDSN = dsn,
          ds_BlobStoreURI = blobStoreURI, ds_MaxInlineArtifactBytes = 0, ds_LeaseTokenSigningKey = ''''\<rparr> c)"

end
