(* ===== verification/Serve_Guarantees.thy ===== *)
theory Serve_Guarantees
  imports Serve_Config
begin

section \<open>What the server command guarantees\<close>

text \<open>
  The configurations that \<^verbatim>\<open>jobdb serve\<close> accepts, stated without the order of the checks, and that the
  command serves with such a configuration only, over a verified installation, and leaves nothing open.
\<close>

definition signing_text :: "world \<Rightarrow> string \<Rightarrow> bool" where
  "signing_text W t \<longleftrightarrow>
     (let direct = TrimSpace (os_Getenv W leaseTokenSigningKeyEnvVar); file = TrimSpace (os_Getenv W leaseTokenSigningKeyFileEnvVar) in
      (direct \<noteq> '''' \<and> file = '''' \<and> t = direct) \<or>
      (direct = '''' \<and> file \<noteq> '''' \<and> map_option TrimSpace (os_ReadFile W file) = Some t))"

text \<open>The key is what the text encodes: its encoding is the text, line breaks aside.\<close>

definition signing_key :: "world \<Rightarrow> string \<Rightarrow> bool" where
  "signing_key W key \<longleftrightarrow> 32 \<le> length key \<and>
     (\<exists>t. signing_text W t \<and> filter (\<lambda>c. \<not> line_break c) t = EncodeToString StdEncodingStrict key)"

definition remote_store :: "world \<Rightarrow> string \<Rightarrow> bool" where
  "remote_store W uri \<longleftrightarrow> (let v = TrimSpace (os_Getenv W blobStoreURIEnvVar) in v \<noteq> '''' \<and>
     (\<exists>u. os_url_Parse W v = Some u \<and> ToLower (u_Scheme u) \<in> {''s3'', ''gs'', ''azblob''} \<and> u_Host u \<noteq> '''' \<and>
        u_Fragment u = '''' \<and> uri = os_url_String W (u\<lparr>u_Scheme := ToLower (u_Scheme u)\<rparr>)))"

definition tcp_address :: "string \<Rightarrow> bool" where
  "tcp_address a \<longleftrightarrow> (\<exists>host port n. SplitHostPort a = Some (host, port) \<and> ParseInt port = Some n \<and> 1 \<le> n \<and> n \<le> 65535)"

definition accepted :: "world \<Rightarrow> serveConfig \<Rightarrow> bool" where
  "accepted W cfg \<longleftrightarrow>
     (\<forall>name \<in> set prohibitedServeEnvVars. os_Getenv W name = '''') \<and>
     sv_PostgresDSN cfg = TrimSpace (os_Getenv W postgresDSNEnvVar) \<and> sv_PostgresDSN cfg \<noteq> '''' \<and>
     remote_store W (sv_BlobStoreURI cfg) \<and> signing_key W (sv_LeaseTokenSigningKey cfg) \<and>
     sv_ListenAddr cfg = listen_addr W \<and> tcp_address (sv_ListenAddr cfg) \<and>
     inline_limit W = Inr (sv_MaxInlineArtifactBytes cfg) \<and> 0 < sv_MaxInlineArtifactBytes cfg"

lemma prohibited_iff: "prohibited_set W names = Inr () \<longleftrightarrow> (\<forall>name \<in> set names. os_Getenv W name = '''')"
  by (induction names) auto

lemma store_iff: "remoteBlobStoreURI W (os_Getenv W blobStoreURIEnvVar) = Inr uri \<longleftrightarrow> remote_store W uri"
  by (auto simp: remoteBlobStoreURI_def remote_store_def Let_def split: option.splits if_splits)

lemma decode_iff: "DecodeString StdEncodingStrict t = Some key \<longleftrightarrow>
    filter (\<lambda>c. \<not> line_break c) t = EncodeToString StdEncodingStrict key"
proof
  assume "DecodeString StdEncodingStrict t = Some key"
  then show "filter (\<lambda>c. \<not> line_break c) t = EncodeToString StdEncodingStrict key"
    by (intro std.decode_canonical) (simp_all add: StdEncodingStrict_def)
next
  assume "filter (\<lambda>c. \<not> line_break c) t = EncodeToString StdEncodingStrict key"
  then show "DecodeString StdEncodingStrict t = Some key"
    using std.decode_encode [of key] by (simp add: DecodeString_def std.encoded_clean)
qed

lemma key_iff: "serveSigningKeyFromEnv W = Inr key \<longleftrightarrow> signing_key W key"
proof -
  let ?direct = "TrimSpace (os_Getenv W leaseTokenSigningKeyEnvVar)"
  let ?file = "TrimSpace (os_Getenv W leaseTokenSigningKeyFileEnvVar)"
  define read where "read = (\<lambda>t. case DecodeString StdEncodingStrict t of
      None \<Rightarrow> Inl (Err ''configured lease token signing key must be valid base64'')
    | Some k \<Rightarrow> if length k < minimumServeSigningKeyBytes
        then Inl (Err ''configured lease token signing key must decode to at least 32 bytes'') else Inr k)"
  have "serveSigningKeyFromEnv W = Inr key \<longleftrightarrow> (\<exists>t. signing_text W t \<and> read t = Inr key)"
    unfolding serveSigningKeyFromEnv_def signing_text_def Let_def read_def [symmetric]
    by (cases "?direct = []"; cases "?file = []"; cases "os_ReadFile W ?file") simp_all
  moreover have "read t = Inr key \<longleftrightarrow> 32 \<le> length key \<and> filter (\<lambda>c. \<not> line_break c) t = EncodeToString StdEncodingStrict key" for t
    unfolding decode_iff [symmetric] by (auto simp: read_def minimumServeSigningKeyBytes_def split: option.splits)
  ultimately show ?thesis by (auto simp: signing_key_def)
qed

lemma address_iff: "validateServeListenAddr a = Inr () \<longleftrightarrow> tcp_address a"
  by (auto simp: validateServeListenAddr_def tcp_address_def Let_def split: option.splits)

lemma inline_positive: "inline_limit W = Inr n \<Longrightarrow> 0 < n"
  by (auto simp: inline_limit_def defaultServeMaxInlineBytes_def Let_def split: option.splits if_splits)

lemma accepted_iff: "serveConfigFromEnv W = Inr cfg \<longleftrightarrow> accepted W cfg"
proof -
  have "serveConfigFromEnv W = Inr cfg \<longleftrightarrow> prohibited_set W prohibitedServeEnvVars = Inr () \<and>
      sv_PostgresDSN cfg = TrimSpace (os_Getenv W postgresDSNEnvVar) \<and> sv_PostgresDSN cfg \<noteq> '''' \<and>
      remoteBlobStoreURI W (os_Getenv W blobStoreURIEnvVar) = Inr (sv_BlobStoreURI cfg) \<and>
      serveSigningKeyFromEnv W = Inr (sv_LeaseTokenSigningKey cfg) \<and>
      sv_ListenAddr cfg = listen_addr W \<and> validateServeListenAddr (listen_addr W) = Inr () \<and>
      inline_limit W = Inr (sv_MaxInlineArtifactBytes cfg)"
    by (cases cfg) (auto simp: serveConfigFromEnv_def Let_def res_simps)
  then show ?thesis unfolding prohibited_iff store_iff key_iff address_iff accepted_def using inline_positive [of W] by auto
qed

lemma flags_iff: "rejectServeFlags own inherited = Inr () \<longleftrightarrow> own = [] \<and> inherited = []"
  by (simp add: rejectServeFlags_def Let_def)

lemma direct_run:
  assumes "runDirectServer p s w cfg c = (errs, served, c', es)"
  shows "(served = None \<longrightarrow> released es) \<and> (0 < web_closes w \<longrightarrow> released es) \<and>
    (\<forall>addr h. served = Some (addr, h) \<longrightarrow> addr = ds_ListenAddr cfg \<and>
       h = (if ds_LeaseTokenSigningKey cfg = '''' then PlainServer else SigningServer (ds_LeaseTokenSigningKey cfg)) \<and>
       Verify (ss_verify s) (ss_groups s) False \<lparr>in_db_nil = False, in_Schema = ''''\<rparr> c' = Inr ())"
proof -
  let ?o = "OpenDSN p s False (ds_PostgresDSN cfg) \<lparr>cfg_PostgresDSN = '''', cfg_BlobStoreURI = ds_BlobStoreURI cfg\<rparr> c"
  obtain r c1 es1 where o: "?o = (r, c1, es1)" by (metis prod_cases3)
  note start = opened [where p = p and s = s and ctx_nil = False and dsn = "ds_PostgresDSN cfg" and c = c
    and cfg = "\<lparr>cfg_PostgresDSN = '''', cfg_BlobStoreURI = ds_BlobStoreURI cfg\<rparr>", unfolded o]
  note events = released_def paired_def
  show ?thesis
  proof (cases r)
    case (Inl x)
    then show ?thesis using assms start by (auto simp: runDirectServer_def o events)
  next
    case (Inr rt)
    then have rt: "es1 = [OpenDB, OpenChapters]" "rt = \<lparr>rt_chapters = True, rt_db = True, rt_ownsDB = True, rt_close = False, rt_closeErr = []\<rparr>"
      "Verify (ss_verify s) (ss_groups s) False \<lparr>in_db_nil = False, in_Schema = ''''\<rparr> c1 = Inr ()" using start by simp_all
    then have closed: "n \<noteq> 0 \<Longrightarrow> closed_times p n (Some rt) = [CloseChapters, CloseDB]"
      "snd (snd (Close p (Some rt))) = [CloseChapters, CloseDB]" for n
      using close_events [of rt p "n - 1"] by (simp_all add: Close_def Let_def)
    obtain x y z where close: "Close p (Some rt) = (x, y, z)" by (metis prod_cases3)
    with closed(2) have "z = [CloseChapters, CloseDB]" by simp
    then show ?thesis using assms closed(1) rt(1,3) close Inr
      by (auto simp: runDirectServer_def o events Let_def split: if_splits option.splits)
  qed
qed

lemma served_exactly:
  assumes "runDirectServer p s w cfg c = (errs, served, c', es)" "ds_LeaseTokenSigningKey cfg \<noteq> ''''"
  shows "served = (if web_build w = None \<and> \<not> isl (fst (OpenDSN p s False (ds_PostgresDSN cfg)
        \<lparr>cfg_PostgresDSN = '''', cfg_BlobStoreURI = ds_BlobStoreURI cfg\<rparr> c))
      then Some (ds_ListenAddr cfg, SigningServer (ds_LeaseTokenSigningKey cfg)) else None)"
proof -
  obtain r c1 es1 where o: "OpenDSN p s False (ds_PostgresDSN cfg) \<lparr>cfg_PostgresDSN = '''', cfg_BlobStoreURI = ds_BlobStoreURI cfg\<rparr> c =
      (r, c1, es1)" by (metis prod_cases3)
  show ?thesis using assms
    by (cases r; cases "web_build w") (auto simp: runDirectServer_def Let_def o split: prod.splits)
qed

text \<open>
  C38: the server command serves only as configured. It listens exactly when no flag is given, the
  environment describes an acceptable configuration, the runtime opens and the server can be built; then on
  the configured address, over a verified installation, signing with a key of at least 32 bytes whose strict
  base64 text is the only source of the key. An unacceptable environment touches nothing, a command that
  does not serve leaves nothing open, and neither does one whose HTTP server closes the runtime.
\<close>

theorem serve_guarded:
  assumes "newServeCmd p s w W own inherited c = (errs, served, c', es)"
  shows "(\<forall>addr h. served = Some (addr, h) \<longleftrightarrow> own = [] \<and> inherited = [] \<and> web_build w = None \<and>
       (\<exists>cfg. accepted W cfg \<and> addr = sv_ListenAddr cfg \<and> h = SigningServer (sv_LeaseTokenSigningKey cfg) \<and>
          \<not> isl (fst (OpenDSN p s False (sv_PostgresDSN cfg) \<lparr>cfg_PostgresDSN = '''', cfg_BlobStoreURI = sv_BlobStoreURI cfg\<rparr> c)))) \<and>
    (served \<noteq> None \<longrightarrow> Verify (ss_verify s) (ss_groups s) False \<lparr>in_db_nil = False, in_Schema = ''''\<rparr> c' = Inr ()) \<and>
    ((\<forall>cfg. \<not> accepted W cfg) \<longrightarrow> c' = c \<and> es = [] \<and> errs \<noteq> []) \<and>
    (served = None \<or> 0 < web_closes w \<longrightarrow> released es)"
proof (cases "bind_res (rejectServeFlags own inherited) (\<lambda>_. serveConfigFromEnv W)")
  case (Inl x)
  then have "\<not> (own = [] \<and> inherited = [] \<and> accepted W cfg)" for cfg
    using flags_iff [of own inherited] accepted_iff [of W cfg] by auto
  then show ?thesis using assms Inl by (auto simp: newServeCmd_def released_def paired_def)
next
  case (Inr cfg)
  then have ok: "own = []" "inherited = []" "accepted W cfg"
    unfolding accepted_iff [symmetric] by (auto simp: res_simps flags_iff)
  have only: "accepted W cfg' \<longleftrightarrow> cfg' = cfg" for cfg' using ok(3) unfolding accepted_iff [symmetric] by auto
  let ?d = "\<lparr>ds_ListenAddr = sv_ListenAddr cfg, ds_PostgresDSN = sv_PostgresDSN cfg, ds_BlobStoreURI = sv_BlobStoreURI cfg,
    ds_MaxInlineArtifactBytes = sv_MaxInlineArtifactBytes cfg, ds_LeaseTokenSigningKey = sv_LeaseTokenSigningKey cfg\<rparr>"
  have run: "runDirectServer p s w ?d c = (errs, served, c', es)" using assms Inr by (simp add: newServeCmd_def)
  have key: "ds_LeaseTokenSigningKey ?d \<noteq> ''''" using ok(3) by (auto simp: accepted_def signing_key_def)
  have acc: "(\<exists>cfg'. accepted W cfg' \<and> P cfg') \<longleftrightarrow> P cfg" "(\<forall>cfg'. \<not> accepted W cfg') \<longleftrightarrow> False" for P
    using only by auto
  have direct: "served \<noteq> None \<Longrightarrow> Verify (ss_verify s) (ss_groups s) False \<lparr>in_db_nil = False, in_Schema = []\<rparr> c' = Inr ()"
    "served = None \<or> 0 < web_closes w \<Longrightarrow> released es" using direct_run [OF run] by auto
  note exact = served_exactly [OF run key, simplified]
  show ?thesis unfolding acc
  proof (intro conjI impI allI)
    show "served \<noteq> None \<Longrightarrow> Verify (ss_verify s) (ss_groups s) False \<lparr>in_db_nil = False, in_Schema = []\<rparr> c' = Inr ()"
      "served = None \<or> 0 < web_closes w \<Longrightarrow> released es" by (rule direct; assumption)+
  qed (use ok(1,2) exact in \<open>auto split: if_splits\<close>)
qed

definition sample_world :: world where
  "sample_world = \<lparr>os_Getenv = (\<lambda>name.
       if name = postgresDSNEnvVar then ''host=db''
       else if name = blobStoreURIEnvVar then '' S3://chapters''
       else if name = leaseTokenSigningKeyEnvVar then EncodeToString StdEncodingStrict (replicate 32 (CHR ''k'')) @ [CHR 0x0A]
       else []),
     os_ReadFile = (\<lambda>_. None),
     os_url_Parse = (\<lambda>s. Some \<lparr>u_Scheme = take 2 s, u_Host = drop 5 s, u_Fragment = [], u_rest = []\<rparr>),
     os_url_String = (\<lambda>u. u_Scheme u @ ''://'' @ u_Host u)\<rparr>"

definition sample_config :: serveConfig where
  "sample_config = \<lparr>sv_ListenAddr = ''0.0.0.0:8080'', sv_PostgresDSN = ''host=db'', sv_BlobStoreURI = ''s3://chapters'',
     sv_MaxInlineArtifactBytes = 4096, sv_LeaseTokenSigningKey = replicate 32 (CHR ''k'')\<rparr>"

definition sound_parts :: parts where
  "sound_parts = \<lparr>pa_gorm_db = None, pa_open = None, pa_ping = None, pa_chapters = None, pa_schemas = None,
     pa_configurations = None, pa_core = None, pa_registry = None, pa_close_chapters = None, pa_close_db = None,
     pa_listen = None, pa_port = Some 5432, pa_temp = None, pa_postgres = None, pa_mkdir = None\<rparr>"

definition steady_session :: session where
  "steady_session = \<lparr>ss_apply = steady, ss_verify = steady, ss_groups = required_columns\<rparr>"

definition sample_web :: web where
  "sample_web = \<lparr>web_build = None, web_closes = 1, web_serve = []\<rparr>"

theorem serve_guarded_witness:
  "fst (snd (newServeCmd sound_parts steady_session sample_web sample_world [] [] empty_catalog)) =
     Some (''0.0.0.0:8080'', SigningServer (replicate 32 (CHR ''k'')))"
proof -
  let ?key = "replicate 32 (CHR ''k'')"
  have env: "TrimSpace (os_Getenv sample_world leaseTokenSigningKeyEnvVar) = EncodeToString StdEncodingStrict ?key"
    "TrimSpace (os_Getenv sample_world leaseTokenSigningKeyFileEnvVar) = []"
    "TrimSpace (os_Getenv sample_world postgresDSNEnvVar) = ''host=db''" by code_simp+
  have "signing_key sample_world ?key" unfolding signing_key_def signing_text_def Let_def env
    by (simp add: std.encoded_clean) code_simp
  moreover have "prohibited_set sample_world prohibitedServeEnvVars = Inr ()"
    "remoteBlobStoreURI sample_world (os_Getenv sample_world blobStoreURIEnvVar) = Inr ''s3://chapters''"
    "listen_addr sample_world = ''0.0.0.0:8080''" "validateServeListenAddr ''0.0.0.0:8080'' = Inr ()"
    "inline_limit sample_world = Inr 4096" by code_simp+
  ultimately have config: "accepted sample_world sample_config"
    by (simp add: accepted_def sample_config_def env prohibited_iff store_iff address_iff)
  have "catalog_wf empty_catalog" "user_tables empty_catalog = []" by code_simp+
  then have up: "Apply steady False \<lparr>in_db_nil = False, in_Schema = []\<rparr> empty_catalog = (Inr (), installed empty_catalog)"
    "Verify steady required_columns False \<lparr>in_db_nil = False, in_Schema = []\<rparr> (installed empty_catalog) = Inr ()"
    using empty_database_installed [of steady required_columns "\<lparr>in_db_nil = False, in_Schema = []\<rparr>" empty_catalog]
    by (simp_all add: steady_def schemaName_def empty_catalog_def)
  have "sv_BlobStoreURI sample_config \<noteq> []" by (simp add: sample_config_def)
  then have "\<not> isl (fst (OpenDSN sound_parts steady_session False (sv_PostgresDSN sample_config)
      \<lparr>cfg_PostgresDSN = [], cfg_BlobStoreURI = sv_BlobStoreURI sample_config\<rparr> empty_catalog))"
    by (simp add: OpenDSN_def NewSQLDB_def Let_def up sound_parts_def steady_session_def sample_config_def)
  moreover obtain errs served c' es where run:
    "newServeCmd sound_parts steady_session sample_web sample_world [] [] empty_catalog = (errs, served, c', es)"
    by (metis prod_cases4)
  moreover have "sv_ListenAddr sample_config = ''0.0.0.0:8080''" "sv_LeaseTokenSigningKey sample_config = replicate 32 (CHR ''k'')"
    "web_build sample_web = None" by (simp_all add: sample_config_def sample_web_def)
  ultimately have "served = Some (''0.0.0.0:8080'', SigningServer (replicate 32 (CHR ''k'')))"
    using serve_guarded [OF run] config by metis
  then show ?thesis by (simp add: run)
qed

end
