(* ===== verification/Harness.thy ===== *)
theory Harness
  imports Serve_Config "HOL-Library.Word"
begin

section \<open>The harness of the integration tests\<close>

text \<open>
  \<^verbatim>\<open>runtime/integration/internal/jobdbtest/harness.go\<close>: the list of runtimes the conformance tests run
  against, how one is started and shut down, and the wrapper that lets many tests share one external
  runtime by giving each its own tenants. The runtimes of JobDB and the workflow engine are third-party
  code: a runtime is a record of its methods over a state \<open>'w\<close>, and \<open>'x\<close> stands for the fields of a
  request or an answer that the wrapper passes on unread.
\<close>

subsection \<open>Which runtimes are tested\<close>

datatype new_fun = newToyHarness | newSQLiteHarness | newDirectHarness | newRemoteToyHarness | newRemoteSQLiteHarness
  | newRemoteDirectHarness | newExternalRemoteHarness

record RuntimeHarness =
  rh_Name :: string
  rh_SupportsLeases :: bool
  rh_SupportsRuntimeStorage :: bool
  rh_StartsWorkerLoop :: bool
  rh_New :: new_fun

definition externalRemoteRuntimeConfig :: "world \<Rightarrow> string \<times> string" where
  "externalRemoteRuntimeConfig W =
     (let baseURL = TrimSpace (os_Getenv W ''JOBDB_EXTERNAL_REMOTE_BASE_URL'');
          name = TrimSpace (os_Getenv W ''JOBDB_EXTERNAL_REMOTE_NAME'') in
      (baseURL, if name = '''' then ''remote-worker'' else name))"

text \<open>Lower case beyond ASCII cannot make one of the four words: no other rune of \<^verbatim>\<open>strings.ToLower\<close> maps to their letters.\<close>

definition externalOnlyHarnessesEnabled :: "world \<Rightarrow> bool" where
  "externalOnlyHarnessesEnabled W \<longleftrightarrow>
     TrimSpace (ToLower (os_Getenv W ''JOBDB_EXTERNAL_REMOTE_ONLY'')) \<in> {''1'', ''true'', ''yes'', ''on''}"

definition externalRemoteRuntimeHarness :: "world \<Rightarrow> RuntimeHarness option" where
  "externalRemoteRuntimeHarness W = (case externalRemoteRuntimeConfig W of (baseURL, name) \<Rightarrow>
     if baseURL = '''' then None
     else Some \<lparr>rh_Name = name, rh_SupportsLeases = True, rh_SupportsRuntimeStorage = True, rh_StartsWorkerLoop = True,
       rh_New = newExternalRemoteHarness\<rparr>)"

definition with_external :: "world \<Rightarrow> RuntimeHarness list \<Rightarrow> RuntimeHarness list" where
  "with_external W harnesses = (case externalRemoteRuntimeHarness W of
     None \<Rightarrow> harnesses
   | Some external \<Rightarrow> if externalOnlyHarnessesEnabled W then [external] else harnesses @ [external])"

definition BuiltInRuntimeHarnesses :: "world \<Rightarrow> RuntimeHarness list" where
  "BuiltInRuntimeHarnesses W = with_external W
     [\<lparr>rh_Name = ''toy'', rh_SupportsLeases = False, rh_SupportsRuntimeStorage = True, rh_StartsWorkerLoop = True,
        rh_New = newToyHarness\<rparr>,
      \<lparr>rh_Name = ''sqlite'', rh_SupportsLeases = True, rh_SupportsRuntimeStorage = True, rh_StartsWorkerLoop = True,
        rh_New = newSQLiteHarness\<rparr>,
      \<lparr>rh_Name = ''direct'', rh_SupportsLeases = True, rh_SupportsRuntimeStorage = True, rh_StartsWorkerLoop = True,
        rh_New = newDirectHarness\<rparr>]"

definition RemoteRuntimeHarnesses :: "world \<Rightarrow> RuntimeHarness list" where
  "RemoteRuntimeHarnesses W = with_external W
     [\<lparr>rh_Name = ''remote-toy'', rh_SupportsLeases = False, rh_SupportsRuntimeStorage = True, rh_StartsWorkerLoop = True,
        rh_New = newRemoteToyHarness\<rparr>,
      \<lparr>rh_Name = ''remote-sqlite'', rh_SupportsLeases = True, rh_SupportsRuntimeStorage = True, rh_StartsWorkerLoop = True,
        rh_New = newRemoteSQLiteHarness\<rparr>,
      \<lparr>rh_Name = ''remote-direct'', rh_SupportsLeases = True, rh_SupportsRuntimeStorage = True, rh_StartsWorkerLoop = True,
        rh_New = newRemoteDirectHarness\<rparr>]"

subsection \<open>The interface of a runtime\<close>

record HarnessKey =
  hk_TenantId :: string
  hk_Id :: string

text \<open>A struct of which the wrapper reads or writes one field: a tenant, a job key or a schedule key.\<close>

record ('k, 'x) keyed =
  ky_key :: 'k
  ky_rest :: 'x

record 'x ScheduleListing =
  sn_TenantId :: string
  sn_ScheduleKey :: HarnessKey
  sn_NextJobKey :: "HarnessKey option"
  sn_rest :: 'x

record 'x ListRequest =
  lq_TenantIds :: "string list"
  lq_JobKeys :: "HarnessKey list"
  lq_rest :: 'x

record ('i, 'x) response_page =
  pg_items :: "'i list"
  pg_rest :: 'x

type_synonym ('w, 'q, 'a) invocation = "'q \<Rightarrow> 'w \<Rightarrow> 'a go \<times> 'w"
type_synonym 'x handle = "(HarnessKey, 'x) keyed"

text \<open>An execution lease; only some leases have the method \<^verbatim>\<open>LeaseToken\<close>.\<close>

record ('w, 'x) ExecutionLease =
  ls_LeaseID :: string
  ls_Route :: 'x
  ls_ClientPayload :: 'x
  ls_ClientPayloadRevision :: int
  ls_ExecutionState :: 'x
  ls_LeaseToken :: "string option"
  ls_KeepAlive :: "'w \<Rightarrow> unit go \<times> 'w"
  ls_StopKeepAlive :: "'w \<Rightarrow> 'w"
  ls_Complete :: "('w, 'x, unit) invocation"
  ls_Reschedule :: "('w, 'x, unit) invocation"
  ls_SubmitJob :: "('w, (string, 'x) keyed, 'x handle) invocation"
  ls_SubmitRestartJob :: "('w, (HarnessKey, 'x) keyed, 'x handle) invocation"
  ls_Job :: "'x handle"
  ls_GetConfiguration :: "'w \<Rightarrow> 'x go \<times> 'w"
  ls_ResolveSecrets :: "('w, string list, 'x) invocation"

record ('w, 'x) WorkflowRuntime =
  wf_SubmitJob :: "('w, (string, 'x) keyed, 'x handle) invocation"
  wf_SubmitRestartJob :: "('w, (HarnessKey, 'x) keyed, 'x handle) invocation"
  wf_CancelJob :: "('w, (HarnessKey, 'x) keyed, unit) invocation"
  wf_PollWork :: "('w, (string, 'x) keyed, ('w, 'x) ExecutionLease list) invocation"
  wf_GetJobLease :: "('w, (HarnessKey, 'x) keyed, ('w, 'x) ExecutionLease option) invocation"
  wf_CompleteTaskIfWaiting :: "('w, (HarnessKey, 'x) keyed, unit) invocation"
  wf_GetJob :: "('w, HarnessKey, 'x) invocation"
  wf_ListJobs :: "('w, 'x ListRequest, ('x handle, 'x) response_page) invocation"
  wf_UpsertSchedule :: "('w, (string, 'x) keyed, 'x ScheduleListing) invocation"
  wf_GetSchedule :: "('w, HarnessKey, 'x ScheduleListing) invocation"
  wf_ListSchedules :: "('w, (string, 'x) keyed, ('x ScheduleListing, 'x) response_page) invocation"
  wf_PauseSchedule :: "('w, (HarnessKey, 'x) keyed, 'x ScheduleListing) invocation"
  wf_ResumeSchedule :: "('w, (HarnessKey, 'x) keyed, 'x ScheduleListing) invocation"
  wf_ArchiveSchedule :: "('w, (HarnessKey, 'x) keyed, 'x ScheduleListing) invocation"
  wf_TriggerSchedule :: "('w, (HarnessKey, 'x) keyed, 'x handle) invocation"
  wf_ListScheduleRuns :: "('w, (HarnessKey, 'x) keyed, ('x handle, 'x) response_page) invocation"
  wf_GetChapter :: "('w, (HarnessKey, 'x) keyed, 'x) invocation"
  wf_ListChapters :: "('w, (HarnessKey, 'x) keyed, 'x list) invocation"
  wf_PutChapter :: "('w, (HarnessKey, 'x) keyed, unit) invocation"
  wf_OpenArtifact :: "('w, (HarnessKey, 'x) keyed, 'x) invocation"
  wf_GetConfiguration :: "('w, (HarnessKey, 'x) keyed, 'x) invocation"
  wf_ResolveSecrets :: "('w, (HarnessKey, 'x) keyed, 'x) invocation"
  wf_GetGoal :: "('w, (string, 'x) keyed, (string, 'x) keyed) invocation"
  wf_ListGoals :: "('w, (string, 'x) keyed, ((string, 'x) keyed, 'x) response_page) invocation"
  wf_ListDependencyWaits :: "('w, (string, 'x) keyed, ('x handle, 'x) response_page) invocation"
  wf_AddGoalCandidate :: "('w, (string, 'x) keyed, (string, 'x) keyed) invocation"
  wf_FailGoal :: "('w, (string, 'x) keyed, (string, 'x) keyed) invocation"
  wf_GetDependencyWait :: "('w, (HarnessKey, 'x) keyed, 'x handle) invocation"

subsection \<open>Names\<close>

definition prefixTenant :: "string \<Rightarrow> string \<Rightarrow> string" where
  "prefixTenant p t = (if t = '''' then '''' else p @ t)"

definition stripTenant :: "string \<Rightarrow> string \<Rightarrow> string" where
  "stripTenant p t = (if take (length p) t = p then drop (length p) t else t)"

definition prefixJobKey :: "string \<Rightarrow> HarnessKey \<Rightarrow> HarnessKey" where
  "prefixJobKey p k = k\<lparr>hk_TenantId := prefixTenant p (hk_TenantId k)\<rparr>"

definition prefixScheduleKey :: "string \<Rightarrow> HarnessKey \<Rightarrow> HarnessKey" where
  "prefixScheduleKey p k = k\<lparr>hk_TenantId := prefixTenant p (hk_TenantId k)\<rparr>"

definition stripJobKey :: "string \<Rightarrow> HarnessKey \<Rightarrow> HarnessKey" where
  "stripJobKey p k = k\<lparr>hk_TenantId := stripTenant p (hk_TenantId k)\<rparr>"

definition stripScheduleInfo :: "string \<Rightarrow> 'x ScheduleListing \<Rightarrow> 'x ScheduleListing" where
  "stripScheduleInfo p s = s\<lparr>sn_TenantId := stripTenant p (sn_TenantId s),
     sn_ScheduleKey := (sn_ScheduleKey s)\<lparr>hk_TenantId := stripTenant p (hk_TenantId (sn_ScheduleKey s))\<rparr>,
     sn_NextJobKey := map_option (stripJobKey p) (sn_NextJobKey s)\<rparr>"

definition prefixTenantIDs :: "string \<Rightarrow> string list \<Rightarrow> string list" where
  "prefixTenantIDs p ts = (if ts = [] then ts else map (prefixTenant p) ts)"

definition on_key :: "('k \<Rightarrow> 'k) \<Rightarrow> ('k, 'x) keyed \<Rightarrow> ('k, 'x) keyed" where
  "on_key f r = r\<lparr>ky_key := f (ky_key r)\<rparr>"

definition on_items :: "('i \<Rightarrow> 'i) \<Rightarrow> ('i, 'x) response_page \<Rightarrow> ('i, 'x) response_page" where
  "on_items f r = r\<lparr>pg_items := map f (pg_items r)\<rparr>"

text \<open>A call with a rewritten request whose answer, if it has one, is rewritten.\<close>

definition through :: "('q \<Rightarrow> 'q) \<Rightarrow> ('a \<Rightarrow> 'a) \<Rightarrow> ('w, 'q, 'a) invocation \<Rightarrow> ('w, 'q, 'a) invocation" where
  "through pre post m q w = (case m (pre q) w of (Inl e, w') \<Rightarrow> (Inl e, w') | (Inr v, w') \<Rightarrow> (Inr (post v), w'))"

subsection \<open>The wrapper\<close>

definition tenantNamespacedLease :: "string \<Rightarrow> ('w, 'x) ExecutionLease \<Rightarrow> ('w, 'x) ExecutionLease" where
  "tenantNamespacedLease p l =
     \<lparr>ls_LeaseID = ls_LeaseID l, ls_Route = ls_Route l, ls_ClientPayload = ls_ClientPayload l,
      ls_ClientPayloadRevision = ls_ClientPayloadRevision l, ls_ExecutionState = ls_ExecutionState l,
      ls_LeaseToken = Some (case ls_LeaseToken l of Some token \<Rightarrow> token | None \<Rightarrow> ''''),
      ls_KeepAlive = ls_KeepAlive l, ls_StopKeepAlive = ls_StopKeepAlive l, ls_Complete = ls_Complete l,
      ls_Reschedule = ls_Reschedule l,
      ls_SubmitJob = through (on_key (prefixTenant p)) (on_key (stripJobKey p)) (ls_SubmitJob l),
      ls_SubmitRestartJob = through (on_key (prefixJobKey p)) (on_key (stripJobKey p)) (ls_SubmitRestartJob l),
      ls_Job = on_key (stripJobKey p) (ls_Job l),
      ls_GetConfiguration = ls_GetConfiguration l, ls_ResolveSecrets = ls_ResolveSecrets l\<rparr>"

definition wrapLeases :: "string \<Rightarrow> ('w, 'x) ExecutionLease list \<Rightarrow> ('w, 'x) ExecutionLease list" where
  "wrapLeases p ls = (if ls = [] then ls else map (tenantNamespacedLease p) ls)"

definition Namespaced_SubmitJob :: "string \<Rightarrow> ('w, 'x) WorkflowRuntime \<Rightarrow> ('w, (string, 'x) keyed, 'x handle) invocation" where
  "Namespaced_SubmitJob p r = through (on_key (prefixTenant p)) (on_key (stripJobKey p)) (wf_SubmitJob r)"

definition Namespaced_SubmitRestartJob :: "string \<Rightarrow> ('w, 'x) WorkflowRuntime \<Rightarrow> ('w, (HarnessKey, 'x) keyed, 'x handle) invocation" where
  "Namespaced_SubmitRestartJob p r = through (on_key (prefixJobKey p)) (on_key (stripJobKey p)) (wf_SubmitRestartJob r)"

definition Namespaced_CancelJob :: "string \<Rightarrow> ('w, 'x) WorkflowRuntime \<Rightarrow> ('w, (HarnessKey, 'x) keyed, unit) invocation" where
  "Namespaced_CancelJob p r = through (on_key (prefixJobKey p)) (\<lambda>u. u) (wf_CancelJob r)"

definition Namespaced_PollWork :: "string \<Rightarrow> ('w, 'x) WorkflowRuntime \<Rightarrow> ('w, (string, 'x) keyed, ('w, 'x) ExecutionLease list) invocation" where
  "Namespaced_PollWork p r = through (on_key (\<lambda>t. if t \<noteq> '''' then prefixTenant p t else t)) (wrapLeases p) (wf_PollWork r)"

definition Namespaced_GetJobLease :: "string \<Rightarrow> ('w, 'x) WorkflowRuntime \<Rightarrow> ('w, (HarnessKey, 'x) keyed, ('w, 'x) ExecutionLease option) invocation" where
  "Namespaced_GetJobLease p r = through (on_key (prefixJobKey p)) (map_option (tenantNamespacedLease p)) (wf_GetJobLease r)"

definition Namespaced_CompleteTaskIfWaiting :: "string \<Rightarrow> ('w, 'x) WorkflowRuntime \<Rightarrow> ('w, (HarnessKey, 'x) keyed, unit) invocation" where
  "Namespaced_CompleteTaskIfWaiting p r = through (on_key (prefixJobKey p)) (\<lambda>u. u) (wf_CompleteTaskIfWaiting r)"

definition Namespaced_GetJob :: "string \<Rightarrow> ('w, 'x) WorkflowRuntime \<Rightarrow> ('w, HarnessKey, 'x) invocation" where
  "Namespaced_GetJob p r = through (prefixJobKey p) (\<lambda>x. x) (wf_GetJob r)"

definition Namespaced_ListJobs :: "string \<Rightarrow> ('w, 'x) WorkflowRuntime \<Rightarrow> ('w, 'x ListRequest, ('x handle, 'x) response_page) invocation" where
  "Namespaced_ListJobs p r = through
     (\<lambda>q. q\<lparr>lq_TenantIds := prefixTenantIDs p (lq_TenantIds q),
        lq_JobKeys := (if lq_JobKeys q \<noteq> [] then map (prefixJobKey p) (lq_JobKeys q) else lq_JobKeys q)\<rparr>)
     (on_items (on_key (stripJobKey p))) (wf_ListJobs r)"

definition Namespaced_UpsertSchedule :: "string \<Rightarrow> ('w, 'x) WorkflowRuntime \<Rightarrow> ('w, (string, 'x) keyed, 'x ScheduleListing) invocation" where
  "Namespaced_UpsertSchedule p r = through (on_key (prefixTenant p)) (stripScheduleInfo p) (wf_UpsertSchedule r)"

definition Namespaced_GetSchedule :: "string \<Rightarrow> ('w, 'x) WorkflowRuntime \<Rightarrow> ('w, HarnessKey, 'x ScheduleListing) invocation" where
  "Namespaced_GetSchedule p r = through (prefixScheduleKey p) (stripScheduleInfo p) (wf_GetSchedule r)"

definition Namespaced_ListSchedules :: "string \<Rightarrow> ('w, 'x) WorkflowRuntime \<Rightarrow> ('w, (string, 'x) keyed, ('x ScheduleListing, 'x) response_page) invocation" where
  "Namespaced_ListSchedules p r = through (on_key (prefixTenant p)) (on_items (stripScheduleInfo p)) (wf_ListSchedules r)"

definition Namespaced_PauseSchedule :: "string \<Rightarrow> ('w, 'x) WorkflowRuntime \<Rightarrow> ('w, (HarnessKey, 'x) keyed, 'x ScheduleListing) invocation" where
  "Namespaced_PauseSchedule p r = through (on_key (prefixScheduleKey p)) (stripScheduleInfo p) (wf_PauseSchedule r)"

definition Namespaced_ResumeSchedule :: "string \<Rightarrow> ('w, 'x) WorkflowRuntime \<Rightarrow> ('w, (HarnessKey, 'x) keyed, 'x ScheduleListing) invocation" where
  "Namespaced_ResumeSchedule p r = through (on_key (prefixScheduleKey p)) (stripScheduleInfo p) (wf_ResumeSchedule r)"

definition Namespaced_ArchiveSchedule :: "string \<Rightarrow> ('w, 'x) WorkflowRuntime \<Rightarrow> ('w, (HarnessKey, 'x) keyed, 'x ScheduleListing) invocation" where
  "Namespaced_ArchiveSchedule p r = through (on_key (prefixScheduleKey p)) (stripScheduleInfo p) (wf_ArchiveSchedule r)"

definition Namespaced_TriggerSchedule :: "string \<Rightarrow> ('w, 'x) WorkflowRuntime \<Rightarrow> ('w, (HarnessKey, 'x) keyed, 'x handle) invocation" where
  "Namespaced_TriggerSchedule p r = through (on_key (prefixScheduleKey p)) (on_key (stripJobKey p)) (wf_TriggerSchedule r)"

definition Namespaced_ListScheduleRuns :: "string \<Rightarrow> ('w, 'x) WorkflowRuntime \<Rightarrow> ('w, (HarnessKey, 'x) keyed, ('x handle, 'x) response_page) invocation" where
  "Namespaced_ListScheduleRuns p r =
     through (on_key (prefixScheduleKey p)) (on_items (on_key (stripJobKey p))) (wf_ListScheduleRuns r)"

definition Namespaced_GetChapter :: "string \<Rightarrow> ('w, 'x) WorkflowRuntime \<Rightarrow> ('w, (HarnessKey, 'x) keyed, 'x) invocation" where
  "Namespaced_GetChapter p r = through (on_key (prefixJobKey p)) (\<lambda>x. x) (wf_GetChapter r)"

definition Namespaced_ListChapters :: "string \<Rightarrow> ('w, 'x) WorkflowRuntime \<Rightarrow> ('w, (HarnessKey, 'x) keyed, 'x list) invocation" where
  "Namespaced_ListChapters p r = through (on_key (prefixJobKey p)) (\<lambda>x. x) (wf_ListChapters r)"

definition Namespaced_PutChapter :: "string \<Rightarrow> ('w, 'x) WorkflowRuntime \<Rightarrow> ('w, (HarnessKey, 'x) keyed, unit) invocation" where
  "Namespaced_PutChapter p r = through (on_key (prefixJobKey p)) (\<lambda>u. u) (wf_PutChapter r)"

definition Namespaced_OpenArtifact :: "string \<Rightarrow> ('w, 'x) WorkflowRuntime \<Rightarrow> ('w, (HarnessKey, 'x) keyed, 'x) invocation" where
  "Namespaced_OpenArtifact p r = through (on_key (prefixJobKey p)) (\<lambda>x. x) (wf_OpenArtifact r)"

definition Namespaced_GetConfiguration :: "string \<Rightarrow> ('w, 'x) WorkflowRuntime \<Rightarrow> ('w, (HarnessKey, 'x) keyed, 'x) invocation" where
  "Namespaced_GetConfiguration p r = through (on_key (prefixJobKey p)) (\<lambda>x. x) (wf_GetConfiguration r)"

definition Namespaced_ResolveSecrets :: "string \<Rightarrow> ('w, 'x) WorkflowRuntime \<Rightarrow> ('w, (HarnessKey, 'x) keyed, 'x) invocation" where
  "Namespaced_ResolveSecrets p r = through (on_key (prefixJobKey p)) (\<lambda>x. x) (wf_ResolveSecrets r)"

definition Namespaced_GetGoal :: "string \<Rightarrow> ('w, 'x) WorkflowRuntime \<Rightarrow> ('w, (string, 'x) keyed, (string, 'x) keyed) invocation" where
  "Namespaced_GetGoal p r = through (on_key (prefixTenant p)) (on_key (stripTenant p)) (wf_GetGoal r)"

definition Namespaced_ListGoals :: "string \<Rightarrow> ('w, 'x) WorkflowRuntime \<Rightarrow> ('w, (string, 'x) keyed, ((string, 'x) keyed, 'x) response_page) invocation" where
  "Namespaced_ListGoals p r = through (on_key (prefixTenant p)) (on_items (on_key (stripTenant p))) (wf_ListGoals r)"

definition Namespaced_ListDependencyWaits :: "string \<Rightarrow> ('w, 'x) WorkflowRuntime \<Rightarrow> ('w, (string, 'x) keyed, ('x handle, 'x) response_page) invocation" where
  "Namespaced_ListDependencyWaits p r =
     through (on_key (prefixTenant p)) (on_items (on_key (stripJobKey p))) (wf_ListDependencyWaits r)"

definition Namespaced_AddGoalCandidate :: "string \<Rightarrow> ('w, 'x) WorkflowRuntime \<Rightarrow> ('w, (string, 'x) keyed, (string, 'x) keyed) invocation" where
  "Namespaced_AddGoalCandidate p r = through (on_key (prefixTenant p)) (on_key (stripTenant p)) (wf_AddGoalCandidate r)"

definition Namespaced_FailGoal :: "string \<Rightarrow> ('w, 'x) WorkflowRuntime \<Rightarrow> ('w, (string, 'x) keyed, (string, 'x) keyed) invocation" where
  "Namespaced_FailGoal p r = through (on_key (prefixTenant p)) (on_key (stripTenant p)) (wf_FailGoal r)"

definition Namespaced_GetDependencyWait :: "string \<Rightarrow> ('w, 'x) WorkflowRuntime \<Rightarrow> ('w, (HarnessKey, 'x) keyed, 'x handle) invocation" where
  "Namespaced_GetDependencyWait p r = through (on_key (prefixJobKey p)) (on_key (stripJobKey p)) (wf_GetDependencyWait r)"

definition newTenantNamespacedRuntime :: "('w, 'x) WorkflowRuntime \<Rightarrow> string \<Rightarrow> ('w, 'x) WorkflowRuntime" where
  "newTenantNamespacedRuntime r p =
     \<lparr>wf_SubmitJob = Namespaced_SubmitJob p r, wf_SubmitRestartJob = Namespaced_SubmitRestartJob p r,
      wf_CancelJob = Namespaced_CancelJob p r, wf_PollWork = Namespaced_PollWork p r,
      wf_GetJobLease = Namespaced_GetJobLease p r, wf_CompleteTaskIfWaiting = Namespaced_CompleteTaskIfWaiting p r,
      wf_GetJob = Namespaced_GetJob p r, wf_ListJobs = Namespaced_ListJobs p r,
      wf_UpsertSchedule = Namespaced_UpsertSchedule p r, wf_GetSchedule = Namespaced_GetSchedule p r,
      wf_ListSchedules = Namespaced_ListSchedules p r, wf_PauseSchedule = Namespaced_PauseSchedule p r,
      wf_ResumeSchedule = Namespaced_ResumeSchedule p r, wf_ArchiveSchedule = Namespaced_ArchiveSchedule p r,
      wf_TriggerSchedule = Namespaced_TriggerSchedule p r, wf_ListScheduleRuns = Namespaced_ListScheduleRuns p r,
      wf_GetChapter = Namespaced_GetChapter p r, wf_ListChapters = Namespaced_ListChapters p r,
      wf_PutChapter = Namespaced_PutChapter p r, wf_OpenArtifact = Namespaced_OpenArtifact p r,
      wf_GetConfiguration = Namespaced_GetConfiguration p r, wf_ResolveSecrets = Namespaced_ResolveSecrets p r,
      wf_GetGoal = Namespaced_GetGoal p r, wf_ListGoals = Namespaced_ListGoals p r,
      wf_ListDependencyWaits = Namespaced_ListDependencyWaits p r, wf_AddGoalCandidate = Namespaced_AddGoalCandidate p r,
      wf_FailGoal = Namespaced_FailGoal p r, wf_GetDependencyWait = Namespaced_GetDependencyWait p r\<rparr>"

text \<open>The prefix of the external runtime, whose sequence number is 64 bits wide.\<close>

definition external_prefix :: "64 word \<Rightarrow> string" where
  "external_prefix seq = ''__jobdbtest_external_'' @ decimal (unat seq) @ ''__''"

subsection \<open>Starting and stopping\<close>

text \<open>
  A test that calls \<^verbatim>\<open>t.Fatalf\<close> ends there. What the third-party parts do is the record \<open>surroundings\<close>:
  whether the SQLite runtime, the client of a server and the workflow engine can be built, and whether the
  engine returns within five seconds of its cancellation. A run leaves the resources it opened and closed.
\<close>

datatype harness_event = Part event | StartSQLite | StopSQLite | StartHTTP | StopHTTP | StartLoop | StopLoop

record surroundings =
  su_parts :: parts
  su_session :: session
  su_catalog :: catalog
  su_dir :: string
  su_sqlite :: "go_error option"
  su_remote :: "go_error option"
  su_engine :: "go_error option"
  su_loop_stops :: bool
  su_external :: string

datatype 'a test_run = Fatal string | Ran 'a

record BuiltRuntimeHarness =
  bh_Name :: string
  bh_WorkerTenantID :: string
  bh_runs :: bool
  bh_shutdown :: "harness_event list"

type_synonym built = "BuiltRuntimeHarness test_run \<times> harness_event list"

definition buildHarness :: "surroundings \<Rightarrow> string \<Rightarrow> bool \<Rightarrow> harness_event list \<Rightarrow> nat \<Rightarrow> built" where
  "buildHarness u name startLoop shutdown workers = (case su_engine u of
     Some x \<Rightarrow> (Fatal (''build '' @ name @ '' engine: ''), shutdown)
   | None \<Rightarrow> let runs = startLoop \<and> 0 < workers in
       (Ran \<lparr>bh_Name = name, bh_WorkerTenantID = ''tenant-worker-'' @ name, bh_runs = runs, bh_shutdown = shutdown\<rparr>,
        if runs then [StartLoop] else []))"

definition after :: "harness_event list \<Rightarrow> built \<Rightarrow> built" where
  "after es b = (fst b, es @ snd b)"

definition start_embedded :: "surroundings \<Rightarrow> embedded go \<times> harness_event list" where
  "start_embedded u = (case StartEmbeddedRuntime (su_parts u) (su_session u) None (su_dir u) (su_catalog u) of
     (r, _, es) \<Rightarrow> (r, map Part es))"

definition stop_embedded :: "surroundings \<Rightarrow> embedded \<Rightarrow> harness_event list" where
  "stop_embedded u e = map Part (Shutdown (su_parts u) (Some e))"

definition toy_harness :: "surroundings \<Rightarrow> nat \<Rightarrow> built" where
  "toy_harness u n = buildHarness u ''toy'' True [] n"

definition direct_harness :: "surroundings \<Rightarrow> nat \<Rightarrow> built" where
  "direct_harness u n = (case start_embedded u of
     (Inl x, es) \<Rightarrow> (Fatal ''start embedded direct runtime: '', es)
   | (Inr e, es) \<Rightarrow> after es (buildHarness u ''direct'' True (stop_embedded u e) n))"

definition sqlite_harness :: "surroundings \<Rightarrow> nat \<Rightarrow> built" where
  "sqlite_harness u n = (case su_sqlite u of
     Some x \<Rightarrow> (Fatal ''start embedded sqlite runtime: '', [])
   | None \<Rightarrow> after [StartSQLite] (buildHarness u ''sqlite'' True [StopSQLite] n))"

definition remote_toy_harness :: "surroundings \<Rightarrow> nat \<Rightarrow> built" where
  "remote_toy_harness u n = after [StartHTTP] (case su_remote u of
     Some x \<Rightarrow> (Fatal ''build remote toy runtime: '', [StopHTTP])
   | None \<Rightarrow> buildHarness u ''remote-toy'' True [StopHTTP] n)"

definition remote_direct_harness :: "surroundings \<Rightarrow> nat \<Rightarrow> built" where
  "remote_direct_harness u n = (case start_embedded u of
     (Inl x, es) \<Rightarrow> (Fatal ''start embedded direct runtime: '', es)
   | (Inr e, es) \<Rightarrow> let shutdown = StopHTTP # stop_embedded u e in
       after (es @ [StartHTTP]) (case su_remote u of
         Some x \<Rightarrow> (Fatal ''build remote direct runtime: '', shutdown)
       | None \<Rightarrow> buildHarness u ''remote-direct'' True shutdown n))"

definition remote_sqlite_harness :: "surroundings \<Rightarrow> nat \<Rightarrow> built" where
  "remote_sqlite_harness u n = (case su_sqlite u of
     Some x \<Rightarrow> (Fatal ''start embedded sqlite runtime: '', [])
   | None \<Rightarrow> let shutdown = [StopHTTP, StopSQLite] in
       after [StartSQLite, StartHTTP] (case su_remote u of
         Some x \<Rightarrow> (Fatal ''build remote sqlite runtime: '', shutdown)
       | None \<Rightarrow> buildHarness u ''remote-sqlite'' True shutdown n))"

definition external_harness :: "surroundings \<Rightarrow> nat \<Rightarrow> built" where
  "external_harness u n = (case su_remote u of
     Some x \<Rightarrow> (Fatal (''build '' @ su_external u @ '' runtime: ''), [])
   | None \<Rightarrow> buildHarness u (su_external u) True [] n)"

fun run_new :: "new_fun \<Rightarrow> surroundings \<Rightarrow> nat \<Rightarrow> built" where
  "run_new newToyHarness = toy_harness"
| "run_new newSQLiteHarness = sqlite_harness"
| "run_new newDirectHarness = direct_harness"
| "run_new newRemoteToyHarness = remote_toy_harness"
| "run_new newRemoteSQLiteHarness = remote_sqlite_harness"
| "run_new newRemoteDirectHarness = remote_direct_harness"
| "run_new newExternalRemoteHarness = external_harness"

definition Harness_Shutdown :: "surroundings \<Rightarrow> BuiltRuntimeHarness option \<Rightarrow> unit test_run \<times> harness_event list" where
  "Harness_Shutdown u h = (case h of None \<Rightarrow> (Ran (), [])
     | Some b \<Rightarrow> if bh_runs b \<and> \<not> su_loop_stops u then (Fatal (bh_Name b @ '' engine did not stop after cancellation''), [])
         else (Ran (), (if bh_runs b then [StopLoop] else []) @ bh_shutdown b))"

end
