(* ===== verification/Harness_Guarantees.thy ===== *)
theory Harness_Guarantees
  imports Harness
begin

section \<open>What the harness guarantees\<close>

text \<open>
  Tests that share an external runtime do not meet: the wrapper names tenants of its own namespace only, and
  a client of a runtime in the namespace cannot tell that its tenants have been renamed.
\<close>

subsection \<open>Requests through a renaming\<close>

definition guard :: "('q \<Rightarrow> bool) \<Rightarrow> ('w, 'q, 'a) invocation \<Rightarrow> ('w, 'q, 'a) invocation" where
  "guard ok m q w = (if ok q then m q w else (Inl (Err ''foreign tenant''), w))"

lemma through_guard: "(\<And>q. ok (pre q)) \<Longrightarrow> through pre post (guard ok m) = through pre post m"
  by (intro ext) (simp add: through_def guard_def)

lemma through_through: "through pre post (through pre' post' m) = through (\<lambda>q. pre' (pre q)) (\<lambda>a. post (post' a)) m"
  by (intro ext) (auto simp: through_def split: prod.splits sum.splits)

lemma through_back:
  "(\<And>q. pre' (pre q) = q) \<Longrightarrow> (\<And>a. post (post' a) = a) \<Longrightarrow> through pre post (through pre' post' m) = m"
  by (intro ext) (auto simp: through_def split: prod.splits sum.splits)

text \<open>A renaming \<open>there\<close> into the names that are \<open>own\<close>, with its way back.\<close>

locale renaming =
  fixes there :: "'k \<Rightarrow> 'k" and home :: "'k \<Rightarrow> 'k" and own :: "'k \<Rightarrow> bool"
  assumes home_there [simp]: "home (there k) = k" and there_own [simp]: "own (there k)"
begin

lemma confined_call:
  "through (on_key there) post (guard (\<lambda>q. own (ky_key q)) m) = through (on_key there) post m"
  by (rule through_guard) (simp add: on_key_def)

lemma confined_plain_call: "through there post (guard own m) = through there post m"
  by (rule through_guard) simp

lemma there_and_back:
  "on_key home (on_key there r) = r" "on_items (on_key home) (on_items (on_key there) s) = s"
  "map (\<lambda>k. home (there k)) ks = ks"
  by (simp_all add: on_key_def on_items_def comp_def)

end

text \<open>The names of a namespace. The empty tenant stands for no tenant.\<close>

definition confined :: "string \<Rightarrow> string \<Rightarrow> bool" where
  "confined p t \<longleftrightarrow> t = '''' \<or> length p < length t \<and> take (length p) t = p"

definition confined_key :: "string \<Rightarrow> HarnessKey \<Rightarrow> bool" where
  "confined_key p k \<longleftrightarrow> confined p (hk_TenantId k)"

interpretation tenants: renaming "prefixTenant p" "stripTenant p" "confined p" for p
  by unfold_locales (auto simp: prefixTenant_def stripTenant_def confined_def)

interpretation job_keys: renaming "prefixJobKey p" "stripJobKey p" "confined_key p" for p
  by unfold_locales (auto simp: prefixJobKey_def stripJobKey_def confined_key_def)

interpretation schedule_keys: renaming "prefixScheduleKey p" "stripJobKey p" "confined_key p" for p
  by unfold_locales (auto simp: prefixScheduleKey_def stripJobKey_def confined_key_def)

subsection \<open>A backend that refuses other tenants\<close>

definition guarded_lease :: "string \<Rightarrow> ('w, 'x) ExecutionLease \<Rightarrow> ('w, 'x) ExecutionLease" where
  "guarded_lease p l = l\<lparr>ls_SubmitJob := guard (\<lambda>q. confined p (ky_key q)) (ls_SubmitJob l),
     ls_SubmitRestartJob := guard (\<lambda>q. confined_key p (ky_key q)) (ls_SubmitRestartJob l)\<rparr>"

definition guarded :: "string \<Rightarrow> ('w, 'x) WorkflowRuntime \<Rightarrow> ('w, 'x) WorkflowRuntime" where
  "guarded p r =
     (let tenant = (\<lambda>q. confined p (ky_key q)); key = (\<lambda>q. confined_key p (ky_key q)) in
     \<lparr>wf_SubmitJob = guard tenant (wf_SubmitJob r), wf_SubmitRestartJob = guard key (wf_SubmitRestartJob r),
      wf_CancelJob = guard key (wf_CancelJob r),
      wf_PollWork = through (\<lambda>q. q) (map (guarded_lease p)) (guard tenant (wf_PollWork r)),
      wf_GetJobLease = through (\<lambda>q. q) (map_option (guarded_lease p)) (guard key (wf_GetJobLease r)),
      wf_CompleteTaskIfWaiting = guard key (wf_CompleteTaskIfWaiting r), wf_GetJob = guard (confined_key p) (wf_GetJob r),
      wf_ListJobs = guard (\<lambda>q. list_all (confined p) (lq_TenantIds q) \<and> list_all (confined_key p) (lq_JobKeys q)) (wf_ListJobs r),
      wf_UpsertSchedule = guard tenant (wf_UpsertSchedule r), wf_GetSchedule = guard (confined_key p) (wf_GetSchedule r),
      wf_ListSchedules = guard tenant (wf_ListSchedules r), wf_PauseSchedule = guard key (wf_PauseSchedule r),
      wf_ResumeSchedule = guard key (wf_ResumeSchedule r), wf_ArchiveSchedule = guard key (wf_ArchiveSchedule r),
      wf_TriggerSchedule = guard key (wf_TriggerSchedule r), wf_ListScheduleRuns = guard key (wf_ListScheduleRuns r),
      wf_GetChapter = guard key (wf_GetChapter r), wf_ListChapters = guard key (wf_ListChapters r),
      wf_PutChapter = guard key (wf_PutChapter r), wf_OpenArtifact = guard key (wf_OpenArtifact r),
      wf_GetConfiguration = guard key (wf_GetConfiguration r), wf_ResolveSecrets = guard key (wf_ResolveSecrets r),
      wf_GetGoal = guard tenant (wf_GetGoal r), wf_ListGoals = guard tenant (wf_ListGoals r),
      wf_ListDependencyWaits = guard tenant (wf_ListDependencyWaits r),
      wf_AddGoalCandidate = guard tenant (wf_AddGoalCandidate r), wf_FailGoal = guard tenant (wf_FailGoal r),
      wf_GetDependencyWait = guard key (wf_GetDependencyWait r)\<rparr>)"

text \<open>The methods of the wrapper\<close>

lemmas namespaced_defs = newTenantNamespacedRuntime_def Namespaced_SubmitJob_def Namespaced_SubmitRestartJob_def
  Namespaced_CancelJob_def Namespaced_PollWork_def Namespaced_GetJobLease_def Namespaced_CompleteTaskIfWaiting_def
  Namespaced_GetJob_def Namespaced_ListJobs_def Namespaced_UpsertSchedule_def Namespaced_GetSchedule_def
  Namespaced_ListSchedules_def Namespaced_PauseSchedule_def Namespaced_ResumeSchedule_def Namespaced_ArchiveSchedule_def
  Namespaced_TriggerSchedule_def Namespaced_ListScheduleRuns_def Namespaced_GetChapter_def Namespaced_ListChapters_def
  Namespaced_PutChapter_def Namespaced_OpenArtifact_def Namespaced_GetConfiguration_def Namespaced_ResolveSecrets_def
  Namespaced_GetGoal_def Namespaced_ListGoals_def Namespaced_ListDependencyWaits_def Namespaced_AddGoalCandidate_def
  Namespaced_FailGoal_def Namespaced_GetDependencyWait_def

text \<open>The two ways in which a request may leave the tenant open\<close>

lemma poll_tenant: "(\<lambda>t. if t \<noteq> [] then prefixTenant p t else t) = prefixTenant p"
  by (auto simp: prefixTenant_def)

lemma wrapped_leases: "wrapLeases p = map (tenantNamespacedLease p)"
  by (auto simp: wrapLeases_def)

lemma listed_keys: "(if ks \<noteq> [] then map f ks else ks) = map f ks" "prefixTenantIDs p = map (prefixTenant p)"
  by (auto simp: prefixTenantIDs_def)

lemma guarded_lease: "tenantNamespacedLease p (guarded_lease p l) = tenantNamespacedLease p l"
  by (simp add: tenantNamespacedLease_def guarded_lease_def tenants.confined_call job_keys.confined_call)

lemma namespace_confined: "newTenantNamespacedRuntime (guarded p r) p = newTenantNamespacedRuntime r p"
  unfolding namespaced_defs guarded_def Let_def poll_tenant wrapped_leases listed_keys
  by (simp add: through_through tenants.confined_call job_keys.confined_call schedule_keys.confined_call
      job_keys.confined_plain_call schedule_keys.confined_plain_call guarded_lease comp_def option.map_comp
      through_guard list_all_iff)

subsection \<open>A backend whose namespace holds a given runtime\<close>

text \<open>The runtime \<open>r\<close> under the names of the namespace: requests come with them, answers go out with them.\<close>

definition prefixScheduleInfo :: "string \<Rightarrow> 'x ScheduleListing \<Rightarrow> 'x ScheduleListing" where
  "prefixScheduleInfo p s = s\<lparr>sn_TenantId := prefixTenant p (sn_TenantId s),
     sn_ScheduleKey := prefixScheduleKey p (sn_ScheduleKey s), sn_NextJobKey := map_option (prefixJobKey p) (sn_NextJobKey s)\<rparr>"

definition renamed_lease :: "string \<Rightarrow> ('w, 'x) ExecutionLease \<Rightarrow> ('w, 'x) ExecutionLease" where
  "renamed_lease p l = l\<lparr>ls_SubmitJob := through (on_key (stripTenant p)) (on_key (prefixJobKey p)) (ls_SubmitJob l),
     ls_SubmitRestartJob := through (on_key (stripJobKey p)) (on_key (prefixJobKey p)) (ls_SubmitRestartJob l),
     ls_Job := on_key (prefixJobKey p) (ls_Job l)\<rparr>"

definition renamed :: "string \<Rightarrow> ('w, 'x) WorkflowRuntime \<Rightarrow> ('w, 'x) WorkflowRuntime" where
  "renamed p r =
     (let tenant = on_key (stripTenant p); key = on_key (stripJobKey p); handle = on_key (prefixJobKey p);
          goal = on_key (prefixTenant p); same = (\<lambda>a. a) in
     \<lparr>wf_SubmitJob = through tenant handle (wf_SubmitJob r), wf_SubmitRestartJob = through key handle (wf_SubmitRestartJob r),
      wf_CancelJob = through key (\<lambda>u. u) (wf_CancelJob r),
      wf_PollWork = through tenant (map (renamed_lease p)) (wf_PollWork r),
      wf_GetJobLease = through key (map_option (renamed_lease p)) (wf_GetJobLease r),
      wf_CompleteTaskIfWaiting = through key (\<lambda>u. u) (wf_CompleteTaskIfWaiting r),
      wf_GetJob = through (stripJobKey p) same (wf_GetJob r),
      wf_ListJobs = through (\<lambda>q. q\<lparr>lq_TenantIds := map (stripTenant p) (lq_TenantIds q),
        lq_JobKeys := map (stripJobKey p) (lq_JobKeys q)\<rparr>) (on_items handle) (wf_ListJobs r),
      wf_UpsertSchedule = through tenant (prefixScheduleInfo p) (wf_UpsertSchedule r),
      wf_GetSchedule = through (stripJobKey p) (prefixScheduleInfo p) (wf_GetSchedule r),
      wf_ListSchedules = through tenant (on_items (prefixScheduleInfo p)) (wf_ListSchedules r),
      wf_PauseSchedule = through key (prefixScheduleInfo p) (wf_PauseSchedule r),
      wf_ResumeSchedule = through key (prefixScheduleInfo p) (wf_ResumeSchedule r),
      wf_ArchiveSchedule = through key (prefixScheduleInfo p) (wf_ArchiveSchedule r),
      wf_TriggerSchedule = through key handle (wf_TriggerSchedule r),
      wf_ListScheduleRuns = through key (on_items handle) (wf_ListScheduleRuns r),
      wf_GetChapter = through key same (wf_GetChapter r), wf_ListChapters = through key (\<lambda>cs. cs) (wf_ListChapters r),
      wf_PutChapter = through key (\<lambda>u. u) (wf_PutChapter r), wf_OpenArtifact = through key same (wf_OpenArtifact r),
      wf_GetConfiguration = through key same (wf_GetConfiguration r), wf_ResolveSecrets = through key same (wf_ResolveSecrets r),
      wf_GetGoal = through tenant goal (wf_GetGoal r), wf_ListGoals = through tenant (on_items goal) (wf_ListGoals r),
      wf_ListDependencyWaits = through tenant (on_items handle) (wf_ListDependencyWaits r),
      wf_AddGoalCandidate = through tenant goal (wf_AddGoalCandidate r), wf_FailGoal = through tenant goal (wf_FailGoal r),
      wf_GetDependencyWait = through key handle (wf_GetDependencyWait r)\<rparr>)"

text \<open>The one difference a client sees: every lease has a token, empty if the backend's lease has none.\<close>

definition token_lease :: "('w, 'x) ExecutionLease \<Rightarrow> ('w, 'x) ExecutionLease" where
  "token_lease l = l\<lparr>ls_LeaseToken := Some (case ls_LeaseToken l of Some token \<Rightarrow> token | None \<Rightarrow> '''')\<rparr>"

definition with_tokens :: "('w, 'x) WorkflowRuntime \<Rightarrow> ('w, 'x) WorkflowRuntime" where
  "with_tokens r = r\<lparr>wf_PollWork := through (\<lambda>q. q) (map token_lease) (wf_PollWork r),
     wf_GetJobLease := through (\<lambda>q. q) (map_option token_lease) (wf_GetJobLease r)\<rparr>"

lemma schedule_there_and_back: "stripScheduleInfo p (prefixScheduleInfo p s) = s"
  by (cases "sn_NextJobKey s")
    (simp_all add: stripScheduleInfo_def prefixScheduleInfo_def prefixScheduleKey_def)

lemma request_there_and_back:
  "on_key (stripJobKey p) (on_key (prefixScheduleKey p) q) = q" "stripJobKey p (prefixScheduleKey p k) = k"
  by (simp_all add: on_key_def)

lemma lease_there_and_back: "tenantNamespacedLease p (renamed_lease p l) = token_lease l"
  by (simp add: tenantNamespacedLease_def renamed_lease_def token_lease_def through_back
      tenants.there_and_back job_keys.there_and_back)

lemma leases_there_and_back:
  "through (on_key (prefixTenant p)) (map (tenantNamespacedLease p)) (through (on_key (stripTenant p)) (map (renamed_lease p)) m) =
     through (\<lambda>q. q) (map token_lease) m"
  "through (on_key (prefixJobKey p)) (map_option (tenantNamespacedLease p))
     (through (on_key (stripJobKey p)) (map_option (renamed_lease p)) m') = through (\<lambda>q. q) (map_option token_lease) m'"
  by (simp_all add: through_through tenants.there_and_back job_keys.there_and_back lease_there_and_back comp_def option.map_comp)

lemma listing_there_and_back:
  "on_items (stripScheduleInfo p) (on_items (prefixScheduleInfo p) s) = s"
  "on_items (on_key (stripJobKey p)) (on_items (on_key (prefixJobKey p)) u) = u"
  by (simp_all add: on_items_def on_key_def schedule_there_and_back comp_def)

lemma namespace_transparent: "newTenantNamespacedRuntime (renamed p r) p = with_tokens r"
  unfolding namespaced_defs renamed_def with_tokens_def Let_def poll_tenant wrapped_leases listed_keys
  by (rule WorkflowRuntime.equality)
    (simp_all add: leases_there_and_back through_back tenants.there_and_back job_keys.there_and_back request_there_and_back
      schedule_there_and_back listing_there_and_back comp_def)

subsection \<open>Different sequence numbers\<close>

lemma prefix_free:
  assumes "external_prefix m @ s = external_prefix n @ t"
  shows "m = n"
proof -
  have "decimal (unat m) @ CHR ''_'' # CHR ''_'' # s = decimal (unat n) @ CHR ''_'' # CHR ''_'' # t"
    using assms by (simp add: external_prefix_def)
  from decimal_prefix [OF this] have "unat m = unat n" by simp
  then show ?thesis by (rule unsigned_word_eqI)
qed

lemma namespaces_disjoint:
  assumes "m \<noteq> n" "confined (external_prefix m) t" "confined (external_prefix n) t"
  shows "t = ''''"
proof (rule ccontr)
  assume "t \<noteq> ''''"
  then have "external_prefix m @ drop (length (external_prefix m)) t = t"
    "external_prefix n @ drop (length (external_prefix n)) t = t"
    using assms(2,3) by (metis append_take_drop_id confined_def)+
  then show False using prefix_free [of m _ n] assms(1) by metis
qed

subsection \<open>Nothing is left running\<close>

fun parts_of :: "harness_event list \<Rightarrow> event list" where
  "parts_of [] = []"
| "parts_of (e # es) = (case e of Part a \<Rightarrow> a # parts_of es | _ \<Rightarrow> parts_of es)"

lemma parts_of_simps [simp]: "parts_of (es @ fs) = parts_of es @ parts_of fs" "parts_of (map Part ps) = ps"
  by (induction es) (auto split: harness_event.splits, induction ps, auto)

definition balanced :: "harness_event list \<Rightarrow> bool" where
  "balanced es \<longleftrightarrow> released (parts_of es) \<and> count_list es StartSQLite = count_list es StopSQLite \<and>
     count_list es StartHTTP = count_list es StopHTTP \<and> count_list es StartLoop = count_list es StopLoop"

lemma count_Part [simp]:
  "count_list (map Part ps) StartSQLite = 0" "count_list (map Part ps) StopSQLite = 0" "count_list (map Part ps) StartHTTP = 0"
  "count_list (map Part ps) StopHTTP = 0" "count_list (map Part ps) StartLoop = 0" "count_list (map Part ps) StopLoop = 0"
  by (induction ps) auto

lemma released_none [simp]: "released []"
  by (simp add: released_def paired_def)

lemma embedded_started:
  "case start_embedded u of
     (Inl x, es) \<Rightarrow> \<exists>ps. es = map Part ps \<and> (server_fails (su_parts u) \<or> released ps)
   | (Inr e, es) \<Rightarrow> \<exists>ps qs. es = map Part ps \<and> stop_embedded u e = map Part qs \<and> released (ps @ qs)"
  using embedded_released [where p = "su_parts u" and s = "su_session u" and ctx_err = None and dir = "su_dir u" and c = "su_catalog u"]
  by (auto simp: start_embedded_def stop_embedded_def split: prod.splits sum.splits)

text \<open>A runtime that was opened and a harness built on it.\<close>

definition settled :: "surroundings \<Rightarrow> built \<Rightarrow> bool" where
  "settled u b \<longleftrightarrow> (case b of (Fatal x, es) \<Rightarrow> balanced es
     | (Ran h, es) \<Rightarrow> balanced (es @ snd (Harness_Shutdown u (Some h))) \<longleftrightarrow> \<not> bh_runs h \<or> su_loop_stops u)"

lemma built_settled:
  assumes "balanced (es @ shutdown)" "set es \<inter> {StartLoop, StopLoop} = {}" "set shutdown \<inter> {StartLoop, StopLoop} = {}"
  shows "settled u (after es (buildHarness u name startLoop shutdown n))"
  using assms by (auto simp: settled_def after_def buildHarness_def Harness_Shutdown_def balanced_def Let_def count_list_0_iff
      split: option.splits)

lemma refused_settled: "balanced (es @ shutdown) \<Longrightarrow> settled u (after es (Fatal x, shutdown))"
  by (simp add: settled_def after_def)

text \<open>
  A harness of any kind that cannot be built has closed what it opened, unless the embedded server was
  given its directory and did not start; one that was built and shut down has closed everything too, unless its
  engine did not stop in time: then \<^verbatim>\<open>t.Fatalf\<close> ends the shutdown before it closes anything.
\<close>

theorem harness_releases:
  assumes "\<not> server_fails (su_parts u)"
  shows "settled u (run_new k u n)"
proof -
  have none: "after [] b = b" for b by (simp add: after_def)
  have plain: "settled u (toy_harness u n)" "settled u (sqlite_harness u n)" "settled u (remote_toy_harness u n)"
    "settled u (remote_sqlite_harness u n)" "settled u (external_harness u n)"
    using refused_settled [of "[]" "[]" u] built_settled [of "[]" "[]" u]
    by (auto simp: toy_harness_def sqlite_harness_def remote_toy_harness_def remote_sqlite_harness_def external_harness_def
        Let_def none balanced_def intro!: built_settled refused_settled split: option.splits)
  have "settled u (direct_harness u n) \<and> settled u (remote_direct_harness u n)"
  proof (cases "start_embedded u")
    case (Pair r es)
    show ?thesis
    proof (cases r)
      case (Inl x)
      then obtain ps where "es = map Part ps" "released ps" using embedded_started [of u] Pair assms by auto
      then show ?thesis by (auto simp: direct_harness_def remote_direct_harness_def Pair Inl settled_def balanced_def)
    next
      case (Inr e)
      then obtain ps qs where ev: "es = map Part ps" "stop_embedded u e = map Part qs" "released (ps @ qs)"
        using embedded_started [of u] Pair by auto
      then have "balanced (es @ stop_embedded u e)" "balanced ((es @ [StartHTTP]) @ StopHTTP # stop_embedded u e)"
        by (auto simp: balanced_def)
      then show ?thesis using ev
        by (auto simp: direct_harness_def remote_direct_harness_def Pair Inr Let_def intro!: built_settled refused_settled
            split: option.splits)
    qed
  qed
  then show ?thesis using plain by (cases k) auto
qed

subsection \<open>Isolation\<close>


end
