(* ===== verification/Progress.thy ===== *)
theory Progress
  imports Samples
begin

section \<open>Waiting never blocks for ever\<close>

text \<open>
  What a consistent database says about waiting jobs: a pending wait awaits something that is still
  undecided, and the chain of obligations below a job ends at a job that may run, at a wait whose
  deadline has passed, or at an open goal that needs a new candidate.
\<close>

subsection \<open>The graph of obligations is finite\<close>

lemma subset_Times: "fst ` R \<subseteq> A \<Longrightarrow> snd ` R \<subseteq> B \<Longrightarrow> R \<subseteq> A \<times> B"
  by force

lemma finite_obligations: "finite (obligations d t now)"
proof -
  let ?A = "(\<lambda>x. (KJob, t_job_id x)) ` set (dependency_targets d) \<union> (\<lambda>g. (KGoal, g_goal_id g)) ` set (goals d)"
  have "fst ` obligations d t now \<subseteq> ?A"
  proof
    fix n assume "n \<in> fst ` obligations d t now"
    then obtain m where m: "m \<in> set (node_succs d t now n)" by (auto simp: edges_def)
    obtain k i where n: "n = (k, i)" by (cases n)
    show "n \<in> ?A"
    proof (cases k)
      case KJob
      then show ?thesis using m by (auto simp: n split: if_splits)
    next
      case KGoal
      then obtain r where r: "find_goal d t i = Some r" using m by (cases "find_goal d t i") (auto simp: n)
      then have "r \<in> set (goals d) \<and> goal_key r = (t, i)" unfolding find_goal_def by (rule row_at_SomeD)
      then show ?thesis using KGoal by (auto simp: n goal_key_def)
    qed
  qed
  then have "obligations d t now \<subseteq> ?A \<times> set (graph_nodes d)" using obligations_nodes [of d t now]
    by (rule subset_Times)
  then show ?thesis by (rule finite_subset) simp
qed

text \<open>In a finite graph without cycles every node has a path to one without successors.\<close>

lemma finite_acyclic_bottom:
  assumes "finite R" "acyclic R"
  shows "\<exists>m. (n, m) \<in> R\<^sup>* \<and> m \<notin> Domain R"
  using finite_acyclic_wf_converse [OF assms]
proof (induction n rule: wf_induct_rule)
  case (less n)
  show ?case
  proof (cases "n \<in> Domain R")
    case True
    then obtain k where k: "(n, k) \<in> R" by blast
    with less obtain m where "(k, m) \<in> R\<^sup>*" "m \<notin> Domain R" by blast
    then show ?thesis using k by (meson converse_rtrancl_into_rtrancl)
  qed blast
qed

subsection \<open>Obligations lead to live nodes\<close>

text \<open>A job that is still active, or a goal that is still open.\<close>

fun live_node :: "db \<Rightarrow> string \<Rightarrow> target_kind \<times> string \<Rightarrow> bool" where
  "live_node d t (KJob, j) \<longleftrightarrow> find_job d t j \<noteq> None"
| "live_node d t (KGoal, g) \<longleftrightarrow> goal_open d t g"

lemma known_open_live:
  assumes "db_inv d now" "target_known d t n" "open_target d t n"
  shows "live_node d t n"
proof (cases "(d, t, n)" rule: live_node.cases)
  case (1 d' t' j)
  then show ?thesis using assms(2,3) db_okD(1) [OF invD(1) [OF assms(1)]]
    by (auto simp: keys_ok_def find_job_def row_at_None archived_def has_key_iff)
next
  case (2 d' t' g)
  then show ?thesis using assms(3) by (simp add: goal_open_def)
qed

lemma pending_target_live:
  assumes inv: "db_inv d now" and w: "w \<in> set (dependency_waits d)" "w_state w = WaitPending"
    and k: "Some k \<in> set (pending_targets (w_outcome w))"
  shows "live_node d (w_tenant_id w) k"
proof -
  note ok = db_okD [OF invD(1) [OF inv]]
  have row: "row_ok d w" using ok(4) w(1) by (simp add: waits_wf_def)
  then have key: "wo_tenantId (w_outcome w) = w_tenant_id w" "wo_state (w_outcome w) = WaitPending"
    using w(2) by (simp_all add: row_ok_def outcome_key_def wait_key_def)
  from k obtain x where x: "x \<in> set (wo_dependencies (w_outcome w))" "do_state x = WaitPending" "target_of (do_dep x) = Some k"
    by (auto simp: pending_targets_def)
  then have "target_known d (w_tenant_id w) k"
    using row key by (auto simp: row_ok_def outcome_ok_def known_target_def)
  moreover have "open_target d (w_tenant_id w) k"
    using ok(5) w x unfolding waits_fresh_def fresh_wait_def live_dep_def some_such_iff by force
  ultimately show ?thesis by (rule known_open_live [OF inv])
qed

lemma member_live:
  assumes inv: "db_inv d now" and m: "m \<in> set (goal_members d t g)" "\<not> archived d t m"
  shows "live_node d t (KJob, m)"
proof -
  have "(t, m) \<in> fact_key ` set (job_facts d)"
    using m(1) db_okD(2) [OF invD(1) [OF inv]] by (auto simp: goal_members_def linked_def fact_key_def image_iff)
  then show ?thesis using known_open_live [OF inv, of t "(KJob, m)"] m(2) by simp
qed

lemma obligation_live:
  assumes inv: "db_inv d now" and e: "(a, b) \<in> obligations d t now'"
  shows "live_node d t b"
proof (cases "fst a")
  case KJob
  then obtain w where "w \<in> set (dependency_waits d)" "w_state w = WaitPending" "w_tenant_id w = t"
    "Some b \<in> set (pending_targets (w_outcome w))"
    using e by (cases a) (auto simp: job_edge_iff [OF db_okD(4) [OF invD(1) [OF inv]]])
  then show ?thesis using pending_target_live [OF inv] by blast
next
  case KGoal
  then show ?thesis using e member_live [OF inv] by (cases a) (auto simp: goal_edge_iff simp del: live_node.simps)
qed

subsection \<open>Where the obligations of a job end\<close>

text \<open>Nothing that the scheduler still has to do stands before this node.\<close>

fun unblocked :: "db \<Rightarrow> string \<Rightarrow> int \<Rightarrow> target_kind \<times> string \<Rightarrow> bool" where
  "unblocked d t now (KJob, j) \<longleftrightarrow> find_job d t j \<noteq> None \<and>
     (\<forall>w \<in> set (dependency_waits d). w_tenant_id w = t \<longrightarrow> w_job_id w = j \<longrightarrow> w_state w = WaitPending \<longrightarrow>
        \<not> before_deadline w now)"
| "unblocked d t now (KGoal, g) \<longleftrightarrow> goal_open d t g \<and> (\<forall>m \<in> set (goal_members d t g). archived d t m)"

lemma bottom_unblocked:
  assumes inv: "db_inv d now" and live: "live_node d t n" and bottom: "n \<notin> Domain (obligations d t now)"
  shows "unblocked d t now n"
proof (cases "(d, t, n)" rule: live_node.cases)
  case (1 d' t' j)
  note wf = db_okD(1,4) [OF invD(1) [OF inv]]
  have j: "find_job d t j \<noteq> None" using live 1 by simp
  then have "\<not> archived d t j"
    using wf(1) by (auto simp: keys_ok_def find_job_def row_at_None archived_def has_key_iff)
  moreover have "\<exists>k. Some k \<in> set (pending_targets (w_outcome w))"
    if "w \<in> set (dependency_waits d)" "w_state w = WaitPending" for w
  proof -
    have ok: "row_ok d w" using wf(2) that(1) by (simp add: waits_wf_def)
    then have "pending_targets (w_outcome w) \<noteq> []" "\<forall>x \<in> set (wo_dependencies (w_outcome w)). target_of (do_dep x) \<noteq> None"
      using that(2) by (auto simp: row_ok_def outcome_ok_def known_target_def)
    moreover from this(2) have "None \<notin> set (pending_targets (w_outcome w))" by (force simp: pending_targets_def)
    ultimately have "hd (pending_targets (w_outcome w)) \<in> set (pending_targets (w_outcome w))"
      "None \<notin> set (pending_targets (w_outcome w))" by simp_all
    then show ?thesis by (metis option.exhaust)
  qed
  ultimately have "\<not> before_deadline w now"
    if "w \<in> set (dependency_waits d)" "w_tenant_id w = t" "w_job_id w = j" "w_state w = WaitPending" for w
    using that bottom 1 job_edge_iff [OF wf(2), of j _ t now] by (metis Domain.DomainI Pair_inject)
  then show ?thesis using j 1 by simp
next
  case (2 d' t' g)
  then show ?thesis using live bottom by (auto simp: Domain_iff goal_edge_iff)
qed

lemma obligations_bottom_out:
  assumes inv: "db_inv d now" and j: "live_node d t n"
  shows "\<exists>k. (n, k) \<in> (obligations d t now)\<^sup>* \<and> unblocked d t now k"
proof -
  have "acyclic (obligations d t now)" using invD(2) [OF inv] by (simp add: obligations_acyclic_def)
  from finite_acyclic_bottom [OF finite_obligations this] obtain k where
    k: "(n, k) \<in> (obligations d t now)\<^sup>*" "k \<notin> Domain (obligations d t now)" by blast
  have "live_node d t k" using k(1) j obligation_live [OF inv] by (induction rule: rtrancl_induct) auto
  then show ?thesis using k bottom_unblocked [OF inv] by blast
qed

end
