(* ===== verification/Spec2Isabelle.thy ===== *)
theory Spec2Isabelle
  imports Job_Guarantees Goal_Guarantees Api_Guarantees Submission_Guarantees Discovery_Guarantees Runtime_Guarantees
    Chapter_Guarantees Clone_Safety Serve_Guarantees Harness_Guarantees
    Progress
begin

text \<open>
  A verification of \<^verbatim>\<open>pgjobdb\<close>, a job scheduler whose state lives in PostgreSQL. The program has two layers.
  The SQL layer (\<^verbatim>\<open>src/pkg/pgjobdb/pgjobdb.sql\<close>, \<^verbatim>\<open>compact_job_lists.sql\<close>) owns the tables and runs every
  change of state as one function in one transaction. The Go layer (\<^verbatim>\<open>src/pkg/pgjobdb/*.go\<close>) checks a
  request, builds the arguments of one SQL function, calls it and translates the answer; the runtime
  adapter (\<^verbatim>\<open>runtime/internal/runtimeadapter\<close>) offers that API under the interface of JobDB.

  \<^bold>\<open>Modelling decisions.\<close> A database is a record of tables, a table a list of row records (\<^verbatim>\<open>Schema\<close>). A SQL
  function is an HOL function from the database to an error or a result with the new database; an
  exception rolls back, so an error carries no database. \<open>now\<close> is the one clock reading of a transaction;
  random identifiers, the rows other transactions hold locked (\<^verbatim>\<open>SKIP LOCKED\<close>) and the iteration order of
  Go maps are arguments. Times are microseconds in the database and nanoseconds in Go. Text is ordered
  by its bytes (the SQL uses the collation C where order matters). JSON documents are trees; numbers keep
  their text. A Go function returns its result or error and the database after the call; the connection
  may be up, may fail before the statement runs, or may lose the answer after it ran (\<open>LinkDown\<close>,
  \<open>LinkLost\<close>). Code outside the repository (identifier syntax, dependency validation, hashing, the JSON of
  page cursors, the driver's time conversion) is the record \<open>lib\<close> of parameters; what is relied on are the
  named hypotheses \<open>micros_exact\<close>, \<open>schedule_cursors_ok\<close> and \<open>job_cursors_ok\<close>, which
  \<^verbatim>\<open>Samples\<close> shows to hold for a concrete instance. Nil and empty slices are identified. The text that
  \<^verbatim>\<open>%w\<close> or \<^verbatim>\<open>%q\<close> append to an error message is dropped, as is the JSON inside trace events.

  \<^bold>\<open>SQL layer.\<close>
  \<^item> \<^verbatim>\<open>Prelude\<close>, \<^verbatim>\<open>Json\<close>: results, keyed rows, text, JSON values, containment and metadata predicates.
  \<^item> \<^verbatim>\<open>Schema\<close>: the tables, their keys, lookups and row updates.
  \<^item> \<^verbatim>\<open>Job_Status\<close>: the computed status of a job, its effective route, the row checks.
  \<^item> \<^verbatim>\<open>Goal_Waits\<close>, \<^verbatim>\<open>Wait_Safety\<close>: evaluation, storage, settlement, expiry and cancellation of dependency
    waits; the invariant that the index of targets mirrors the pending waits and no stored wait is stale.
  \<^item> \<^verbatim>\<open>Goal_Cycles\<close>: the recursive cycle query with its termination and exactness, registration of a wait,
    and how the graph of obligations stays acyclic.
  \<^item> \<^verbatim>\<open>Goal_Admin\<close>: preparation, candidates, failing a goal. \<^verbatim>\<open>Client_Payload\<close>: canonical text, merge patch
    and guarded update of the client payload. \<^verbatim>\<open>Versioned\<close>: the locale of optimistic concurrency that
    payloads and schedules interpret.
  \<^item> \<^verbatim>\<open>Job_Lifecycle\<close>, \<^verbatim>\<open>Job_Work\<close>, \<^verbatim>\<open>Job_Deletion\<close>: completion, cancellation, leases, submission,
    acquisition, rescheduling, task claims, deletion.
  \<^item> \<^verbatim>\<open>Scheduler_Invariant\<close>: the invariant of the whole database and that every operation keeps it.
    \<^verbatim>\<open>Job_History\<close>: what no operation ever rewrites. \<^verbatim>\<open>Operator_Functions\<close>: the switches, crash concern and
    \<^verbatim>\<open>archive_cancelled_jobs\<close>, and that no call leaves an active job marked as cancelled.

  \<^bold>\<open>Go layer.\<close>
  \<^item> \<^verbatim>\<open>Base64\<close>: the two base64 alphabets the code uses, with a locale of their laws; page tokens and the
    signing key pass through it.
  \<^item> \<^verbatim>\<open>Go_Types\<close>: the structs, the error values, the environment of a call, the record \<open>lib\<close>.
  \<^item> \<^verbatim>\<open>Scheduler_Api\<close>, \<^verbatim>\<open>Schedules\<close>, \<^verbatim>\<open>Job_Listing\<close>: the exported functions.
  \<^item> \<^verbatim>\<open>Paging\<close>: the locale of keyset pagination; \<^verbatim>\<open>Schedule_Pages\<close> and \<^verbatim>\<open>Job_Pages\<close> interpret it for the
    listings of schedules, jobs, summaries and schedule runs. \<^verbatim>\<open>Discovery\<close> and \<^verbatim>\<open>Discovery_Pages\<close> do the same
    for the discovery queries of \<^verbatim>\<open>goal_discovery.go\<close>, whose request checks, scopes and cursors are the
    parameter record \<open>discovery\<close> (hypothesis \<open>discovery_tokens_ok\<close>).
  \<^item> \<^verbatim>\<open>Service\<close>: any sequence of calls as a step relation, and the locale that lifts a property every call
    keeps to every reachable state.

  \<^bold>\<open>Runtime adapter.\<close>
  \<^item> \<^verbatim>\<open>Go_Float\<close>: the two conversions between \<^verbatim>\<open>time.Duration\<close> and \<^verbatim>\<open>float64\<close> seconds that an alternate
    delay passes through, in exact binary arithmetic.
  \<^item> \<^verbatim>\<open>Runtime_Types\<close>, \<^verbatim>\<open>Runtime_Adapter\<close>, \<^verbatim>\<open>Runtime_Jobs\<close>: the types of the scheduler port of JobDB and each
    method of \<^verbatim>\<open>runtimeadapter.Scheduler\<close> over the modelled Go functions.

  \<^bold>\<open>Installation and wiring.\<close>
  \<^item> \<^verbatim>\<open>Installer\<close>: \<^verbatim>\<open>installer/installer.go\<close> over the catalog of a database: schemata, relations with their
    columns, routines and the installation marker. Each statement has its own fate of the connection;
    of the script the effect on the catalog is modelled. \<^verbatim>\<open>Installer_Guarantees\<close> has its theorems.
  \<^item> \<^verbatim>\<open>Runtime_Assembly\<close>: \<^verbatim>\<open>runtime/runtime.go\<close>, the embedded runtime of \<^verbatim>\<open>runtime/testing.go\<close> and its server: which
    resources are opened and closed on every path. The constructors of the third-party parts are the
    record \<open>parts\<close>, each of which may fail.

  \<^bold>\<open>Command line\<close> (\<^verbatim>\<open>cmd/jobdb\<close>). \<^verbatim>\<open>Serve_Config\<close>: how \<^verbatim>\<open>jobdb serve\<close> reads and checks its environment, how
  \<^verbatim>\<open>jobdb direct\<close> reads its flags, and the run of the runtime they start. The environment, the files and
  \<^verbatim>\<open>net/url\<close> are the record \<open>world\<close>, the HTTP server the record \<open>web\<close>; which flags were given is an argument.
  \<^verbatim>\<open>Serve_Guarantees\<close> states the accepted configurations and what the command leaves behind.

  \<^bold>\<open>Chapter codec\<close> (\<^verbatim>\<open>runtime/integration/internal/runtimecodec\<close>).
  \<^item> \<^verbatim>\<open>Chapter_Codec\<close>, \<^verbatim>\<open>Chapter_Metadata\<close>: chapters and their wire form, metadata and JSON. The encodings of
    the third-party error payloads (record \<open>payloads\<close>; bodies whose payload survives its own encoding are
    \<open>body_stable\<close>) and \<^verbatim>\<open>float64\<close> (record \<open>floats\<close>, hypothesis \<open>floats_ok\<close>) are parameters.
    \<^verbatim>\<open>Chapter_Guarantees\<close> has the round trips and that metadata is well typed. \<^verbatim>\<open>Decimal_Text\<close> is the text of numbers.
  \<^item> \<^verbatim>\<open>Chapter_Clone\<close>, \<^verbatim>\<open>Clone_Safety\<close>: the deep clone on an explicit heap and that clones share no memory
    with their originals. Fields of third-party structs that the code assigns as a whole are values.

  \<^bold>\<open>Test harness\<close> (\<^verbatim>\<open>runtime/integration/internal/jobdbtest/harness.go\<close>). \<^verbatim>\<open>Harness\<close>: which runtimes the tests run
  against, how one is started and stopped, and the wrapper that gives each test its own tenants on a shared
  runtime. A runtime is a record of its methods over an arbitrary state; the fields a method passes on unread
  are a type parameter. \<^verbatim>\<open>Harness_Guarantees\<close>: the wrapper is confined to its namespace and transparent, and
  what a harness leaves behind.

  \<^bold>\<open>Theorems.\<close> \<^verbatim>\<open>Job_Guarantees\<close> (acquisition, leases, completion, cancellation, tasks),
  \<^verbatim>\<open>Submission_Guarantees\<close> (retries), \<^verbatim>\<open>Goal_Guarantees\<close> (waits, goals, cycles, merge patch),
  \<^verbatim>\<open>Api_Guarantees\<close> (listings, deletion),
  \<^verbatim>\<open>Discovery_Guarantees\<close> (discovery pages and counts),
  \<^verbatim>\<open>Runtime_Guarantees\<close> (the adapter), \<^verbatim>\<open>Progress\<close> (obligations bottom out) and this theory,
  whose theorems span the service: consistency of every reachable state, history, waiting, optimistic
  concurrency. \<^verbatim>\<open>Samples\<close> is the run on which the witnesses evaluate.

  \<^bold>\<open>Bounds and fuel.\<close> The cycle query runs with as many levels as there are nodes in the graph plus two,
  which \<open>cycle_walk_terminates\<close> shows to be enough. A page walk runs for one page per listed row plus
  one. The clone functions have fuel for the nesting of the chapter: \<open>clone_independent\<close> shows that as much
  as the chapter is deep is enough; cyclic values fit no depth. Reading metadata recurses on the weight of
  a value, counting a document inside it. All other recursion is structural.

  \<^bold>\<open>Not modelled.\<close> Interleaving inside a transaction (row locks serialise the writers of a row; the model
  takes each function as atomic), the trace documents, what the installation script does beside creating schema objects, the parsing of flags and the handling of
  signals in \<^verbatim>\<open>main.go\<close>, the stand-alone programs under \<^verbatim>\<open>docs/repros\<close>, and the polling helpers and
  sample jobs of the test harness.
\<close>

section \<open>The scheduler over its whole life\<close>

text \<open>
  C1: every state the service can reach from an installed schema, by any sequence of calls with any
  requests and any fate of the connection, the calls of an operator among them, is consistent: keys are unique, rows are linked, stored
  waits and goals are well formed, no stored wait is stale, no dependency cycle exists, no active
  job is marked as cancelled, and every schedule row satisfies its constraints.
\<close>

theorem reachable_consistent:
  assumes "service_start s" "service_reaches l s s'"
  shows "service_ok (sv_now s') (sv_db s')"
  using scheduler.reached_good [OF assms] .

theorem reachable_consistent_witness: "service_ok 40 db_finished"
  using reachable_consistent [OF sample_start rtranclp_trans [OF rtranclp_trans [OF rtranclp_trans
    [OF sample_run(1,2)] sample_run(3)] sample_run(4)]]
  by (simp add: sample_state_def)

text \<open>
  C2: history is never rewritten. From a reachable state on, a goal that is closed keeps its row, an
  archived job keeps its snapshot, a submitted job keeps its facts (only the time it was hidden may
  be filled in, once), a schedule's generation never decreases and determines its row, an archived
  schedule stays archived, and a client payload's revision never decreases and determines its row.
\<close>

theorem history_never_rewritten:
  assumes "service_start s" "service_reaches l s s1" "service_reaches l s1 s2"
  shows "(\<forall>t g r. find_goal (sv_db s1) t g = Some r \<longrightarrow> g_state r \<noteq> GoalOpen \<longrightarrow> find_goal (sv_db s2) t g = Some r) \<and>
    (\<forall>t j a. find_archive (sv_db s1) t j = Some a \<longrightarrow> find_archive (sv_db s2) t j = Some a) \<and>
    (\<forall>t j f. find_fact (sv_db s1) t j = Some f \<longrightarrow> (\<exists>f'. find_fact (sv_db s2) t j = Some f' \<and>
       f'\<lparr>f_hidden_at := f_hidden_at f\<rparr> = f \<and> (f_hidden_at f \<noteq> None \<longrightarrow> f' = f))) \<and>
    (\<forall>t i x. find_schedule (sv_db s1) t i = Some x \<longrightarrow> (\<exists>x'. find_schedule (sv_db s2) t i = Some x' \<and>
       s_generation x \<le> s_generation x' \<and> (s_generation x' = s_generation x \<longrightarrow> x' = x) \<and>
       (s_state x = ScheduleArchived \<longrightarrow> s_state x' = ScheduleArchived))) \<and>
    (\<forall>t j c. find_client (sv_db s1) t j = Some c \<longrightarrow> (\<exists>c'. find_client (sv_db s2) t j = Some c' \<and>
       c_revision c \<le> c_revision c' \<and> c_initial_payload_digest c' = c_initial_payload_digest c \<and>
       (c_revision c' = c_revision c \<longrightarrow> c' = c)))"
  using scheduler.reached_keeps [OF assms]
  unfolding history_kept_def closed_goals_kept_def archives_kept_def facts_kept_def schedules_kept_def
    payloads_kept_def
  by simp

theorem history_never_rewritten_witness:
  "\<exists>f'. find_fact db_finished ''t'' ''a'' = Some f' \<and>
     f'\<lparr>f_hidden_at := None\<rparr> = the (find_fact db_submitted ''t'' ''a'')"
proof -
  have f: "find_fact db_submitted ''t'' ''a'' = Some (the (find_fact db_submitted ''t'' ''a''))" by code_simp
  have "f_hidden_at (the (find_fact db_submitted ''t'' ''a'')) = None" by code_simp
  then show ?thesis
    using history_never_rewritten [OF sample_start sample_run(1) rtranclp_trans [OF rtranclp_trans
      [OF sample_run(2,3)] sample_run(4)]] f
    unfolding sample_state_def service.select_convs by metis
qed

subsection \<open>Waiting\<close>

text \<open>
  C3: no wakeup is lost. In a reachable state a dependency wait is pending only while it has to be: its
  job is still active, it awaits at least one target, and every target it awaits is a job that is still
  active or a goal that is still open.
\<close>

theorem no_lost_wakeup:
  assumes "service_start s" "service_reaches l s s'"
    "w \<in> set (dependency_waits (sv_db s'))" "w_state w = WaitPending"
  shows "find_job (sv_db s') (w_tenant_id w) (w_job_id w) \<noteq> None \<and> pending_targets (w_outcome w) \<noteq> [] \<and>
    (\<forall>k \<in> set (pending_targets (w_outcome w)). \<exists>n. k = Some n \<and> live_node (sv_db s') (w_tenant_id w) n)"
proof (intro conjI)
  let ?d = "sv_db s'"
  have inv: "db_inv ?d (sv_now s')" using scheduler.reached_good [OF assms(1,2)] by (simp add: service_ok_def)
  note ok = db_okD [OF invD(1) [OF inv]]
  have "(w_tenant_id w, w_job_id w, w_wait_id w) \<in> pending_keys ?d"
    using assms(3,4) by (auto simp: pending_keys_def wait_key_def image_iff)
  from ok(7) [OF this] show "find_job ?d (w_tenant_id w) (w_job_id w) \<noteq> None" by (simp add: find_job_def row_at_None)
  have row: "row_ok ?d w" using ok(4) assms(3) by (simp add: waits_wf_def)
  then show "pending_targets (w_outcome w) \<noteq> []" using assms(4) by (simp add: row_ok_def outcome_ok_def)
  show "\<forall>k \<in> set (pending_targets (w_outcome w)). \<exists>n. k = Some n \<and> live_node ?d (w_tenant_id w) n"
  proof
    fix k assume k: "k \<in> set (pending_targets (w_outcome w))"
    then have "k \<noteq> None" using row assms(4)
      by (force simp: row_ok_def outcome_ok_def known_target_def pending_targets_def)
    then obtain n where "k = Some n" by blast
    then show "\<exists>n. k = Some n \<and> live_node ?d (w_tenant_id w) n"
      using pending_target_live [OF inv assms(3,4)] k by blast
  qed
qed

theorem no_lost_wakeup_witness:
  "pending_targets (w_outcome (hd (dependency_waits db_waiting))) = [Some (KJob, ''a'')] \<and>
     (\<exists>n. Some (KJob, ''a'') = Some n \<and> live_node db_waiting ''t'' n)"
proof -
  let ?w = "hd (dependency_waits db_waiting)"
  have w: "?w \<in> set (dependency_waits db_waiting)" "w_state ?w = WaitPending"
    "pending_targets (w_outcome ?w) = [Some (KJob, ''a'')]" "w_tenant_id ?w = ''t''" by code_simp+
  from no_lost_wakeup [OF sample_start rtranclp_trans [OF sample_run(1,2)], of ?w] w
  show ?thesis by (simp add: sample_state_def)
qed



subsection \<open>Optimistic concurrency\<close>

text \<open>
  C5: no update of a client payload is lost. A guarded update that names the revision read in an earlier
  state succeeds only if the payload has not been written since, whatever calls came in between, and
  it is computed from the payload that was read.
\<close>

theorem no_lost_payload_update:
  assumes "service_start s" "service_reaches l s s1" "service_reaches l s1 s2"
    "find_client (sv_db s1) t j = Some c"
    "update_client_payload t j (Some mode) val (Some (c_revision c)) (sv_db s2) = Inr d'"
  shows "find_client (sv_db s2) t j = Some c \<and>
    (\<exists>v. client_update_value (c_client_payload c) (Some mode) val = Inr v \<and>
       find_client d' t j = Some (c\<lparr>c_client_payload := v, c_revision := c_revision c + 1\<rparr>))"
proof -
  from assms(5) obtain x v where x: "find_client (sv_db s2) t j = Some x" "c_revision x = c_revision c"
    "client_update_value (c_client_payload x) (Some mode) val = Inr v"
    "d' = (sv_db s2)\<lparr>job_client_state := upd_at client_key (t, j)
       (\<lambda>y. y\<lparr>c_client_payload := v, c_revision := c_revision x + 1\<rparr>) (job_client_state (sv_db s2))\<rparr>"
    by (auto simp: update_client_payload_def res_simps split: option.splits if_splits)
  have "payloads_kept (sv_db s1) (sv_db s2)"
    using scheduler.reached_keeps [OF assms(1-3)] by (simp add: history_kept_def)
  with assms(4) x(1,2) have "x = c" by (fastforce simp: payloads_kept_def)
  then show ?thesis using x by (simp add: find_client_def row_at_upd_at client_key_def)
qed

theorem no_lost_payload_update_witness:
  "find_client db_leased ''t'' ''a'' = find_client db_submitted ''t'' ''a''"
proof -
  let ?c = "the (find_client db_submitted ''t'' ''a'')"
  have c: "find_client db_submitted ''t'' ''a'' = Some ?c" by code_simp
  have "\<not> isl (update_client_payload ''t'' ''a'' (Some ''reset'') None (Some (c_revision ?c)) db_leased)" by code_simp
  then obtain d' where "update_client_payload ''t'' ''a'' (Some ''reset'') None (Some (c_revision ?c)) db_leased = Inr d'"
    by (cases "update_client_payload ''t'' ''a'' (Some ''reset'') None (Some (c_revision ?c)) db_leased") auto
  from no_lost_payload_update [OF sample_start sample_run(1) rtranclp_trans [OF sample_run(2,3)], unfolded sample_state_def
      service.select_convs, OF c this]
  show ?thesis using c by metis
qed

text \<open>
  C6: no update of a schedule is lost. An upsert that names the generation read in an earlier state is
  accepted only if the schedule is still the one that was read, and it raises the generation by one.
\<close>

theorem no_lost_schedule_update:
  assumes "service_start s" "service_reaches l s s1" "service_reaches l s1 s2"
    "find_schedule (sv_db s1) (us_TenantID req) (us_ScheduleID req) = Some x"
    "us_ExpectedGeneration req = Some (s_generation x)"
    "UpsertSchedule l h e req (sv_db s2) = (Inr r, d')"
  shows "find_schedule (sv_db s2) (us_TenantID req) (us_ScheduleID req) = Some x \<and>
    (\<exists>x'. find_schedule d' (us_TenantID req) (us_ScheduleID req) = Some x' \<and> s_generation x' = s_generation x + 1)"
proof -
  let ?k = "(us_TenantID req, us_ScheduleID req)"
  from assms(6) obtain a row where a: "upsert_request l h (e_choice e) req = Inr a"
    "upsert_schedule a (e_now e) (sv_db s2) = Inr (row, d')"
    by (auto simp: UpsertSchedule_def on_request_def and_then_def call_sql_def res_simps split: sum.splits link.splits prod.splits)
  then have "(ua_tenant_id a, ua_schedule_id a) = ?k" "ua_expected_generation a = us_ExpectedGeneration req"
    by (auto simp: upsert_request_def res_simps split: option.splits if_splits)
  then have w: "schedule_write ?k (Some (s_generation x)) (sv_db s2) d'"
    using a(2) assms(5) unfolding schedule_write_def by auto
  from generations.guarded [OF w] obtain y where y: "find_schedule (sv_db s2) (us_TenantID req) (us_ScheduleID req) = Some y"
    "s_generation y = s_generation x" by auto
  have "schedules_kept (sv_db s1) (sv_db s2)"
    using scheduler.reached_keeps [OF assms(1-3)] by (simp add: history_kept_def)
  with assms(4) y have "y = x" by (fastforce simp: schedules_kept_def)
  then show ?thesis using y generations.advance [OF w, of y] by auto
qed

theorem no_lost_schedule_update_witness:
  "find_schedule db_scheduled ''t'' ''x'' = find_schedule (snd (UpsertSchedule sample_lib sample_handle (sample_env 10 '''')
     (sample_upsert ''x'' None) installed_db)) ''t'' ''x''"
proof -
  let ?d = "snd (UpsertSchedule sample_lib sample_handle (sample_env 10 '''') (sample_upsert ''x'' None) installed_db)"
  let ?req = "sample_upsert ''x'' (Some 1)"
  let ?up = "UpsertSchedule sample_lib sample_handle (sample_env 30 '''') ?req db_scheduled"
  let ?x = "the (find_schedule ?d ''t'' ''x'')"
  have run: "service_reaches sample_lib (sample_state installed_db 0) (sample_state ?d 10)"
    using sample_step [of 0 10 installed_db "''''" "UpsertScheduleCall (sample_upsert ''x'' None)"] by simp
  have run': "service_reaches sample_lib (sample_state ?d 10) (sample_state db_scheduled 20)"
    using sample_step [of 10 20 ?d "''''" "UpsertScheduleCall (sample_upsert ''y'' None)"] by (simp add: db_scheduled_def)
  have x: "find_schedule ?d ''t'' ''x'' = Some ?x" "s_generation ?x = 1" by code_simp+
  have "\<not> isl (fst ?up)" by code_simp
  then obtain r d' where "?up = (Inr r, d')" by (cases ?up) (metis isl_def fst_conv sum.exhaust)
  then have "find_schedule db_scheduled ''t'' ''x'' = Some ?x"
    using no_lost_schedule_update [OF sample_start run run', of ?req ?x sample_handle "sample_env 30 ''''" r d'] x
    by (simp add: sample_state_def sample_upsert_def)
  then show ?thesis using x(1) by metis
qed

end
